(* ===== verification/Prelude.thy ===== *)
theory Prelude
  imports Main "HOL-Library.Word"
begin

text \<open>
  What every other theory shares: the result of a Go function that may return an error or
  panic, the shape of a call on an external component (explicit state passing, errors as
  values), the updates a document store makes on a list, and the collections of rewrite
  rules the component proofs use.
\<close>

section \<open>Collections\<close>

named_theorems go_text "facts about Go strings the component proofs need"
named_theorems nilsafe "the generated getters of a message, evaluated on nil and on a message"
named_theorems validator_simps "what a validation step reports"
named_theorems error_simps "the error types found in an error tree"
named_theorems port_quiet "operations that leave the stored data alone"

section \<open>Results of Go functions\<close>

text \<open>
  A Go function returns its value, or a non-nil error, or panics. A panic is a value of the
  model: nothing after it in the function runs.
\<close>

datatype ('e, 'a) outcome =
    Returned 'a
  | Failed 'e
  | Panicked string

fun is_panic :: "('e, 'a) outcome \<Rightarrow> bool" where
  "is_panic (Panicked _) = True"
| "is_panic _ = False"

lemma is_panic_iff: "is_panic r \<longleftrightarrow> (\<exists>m. r = Panicked m)"
  by (cases r) auto

section \<open>Updating the first matching element of a list\<close>

fun update_first :: "('a \<Rightarrow> bool) \<Rightarrow> ('a \<Rightarrow> 'a) \<Rightarrow> 'a list \<Rightarrow> 'a list" where
  "update_first P f [] = []"
| "update_first P f (x # xs) = (if P x then f x # xs else x # update_first P f xs)"

lemma length_update_first [simp]: "length (update_first P f xs) = length xs"
  by (induction xs) auto

lemma update_first_none: "(\<forall>x\<in>set xs. \<not> P x) \<Longrightarrow> update_first P f xs = xs"
  by (induction xs) auto

lemma update_first_index:
  "(\<exists>x\<in>set xs. P x) \<Longrightarrow>
     \<exists>i<length xs. P (xs ! i) \<and> update_first P f xs = xs[i := f (xs ! i)]"
proof (induction xs)
  case Nil
  then show ?case by simp
next
  case (Cons x xs)
  show ?case
  proof (cases "P x")
    case True
    then show ?thesis by (intro exI[of _ 0]) simp
  next
    case False
    with Cons.prems have "\<exists>y\<in>set xs. P y" by simp
    then obtain i where "i < length xs" "P (xs ! i)"
      "update_first P f xs = xs[i := f (xs ! i)]"
      using Cons.IH by blast
    with False show ?thesis by (intro exI[of _ "Suc i"]) simp
  qed
qed

section \<open>Counting\<close>

definition count_if :: "('a \<Rightarrow> bool) \<Rightarrow> 'a list \<Rightarrow> nat" where
  "count_if P xs = length (filter P xs)"

lemma count_if_simps [simp]:
  "count_if P [] = 0"
  "count_if P (x # xs) = (if P x then Suc (count_if P xs) else count_if P xs)"
  "count_if P (xs @ ys) = count_if P xs + count_if P ys"
  by (simp_all add: count_if_def)

lemma count_if_pos: "x \<in> set xs \<Longrightarrow> P x \<Longrightarrow> 0 < count_if P xs"
  by (induction xs) auto

lemma count_if_zero_iff: "count_if P xs = 0 \<longleftrightarrow> (\<forall>x\<in>set xs. \<not> P x)"
  by (induction xs) auto

lemma count_if_list_update:
  assumes "i < length xs"
  shows "count_if P (xs[i := y]) + (if P (xs ! i) then 1 else 0) =
    count_if P xs + (if P y then 1 else 0)"
proof -
  have split: "xs = take i xs @ xs ! i # drop (Suc i) xs"
    using assms by (rule id_take_nth_drop)
  have upd: "xs[i := y] = take i xs @ y # drop (Suc i) xs"
    using assms by (rule upd_conv_take_nth_drop)
  have "count_if P xs = count_if P (take i xs @ xs ! i # drop (Suc i) xs)"
    using split by (rule arg_cong)
  then show ?thesis by (simp add: upd)
qed

end
