(* ===== verification/GoStrings.thy ===== *)
theory GoStrings
  imports Prelude
begin

text \<open>
  The operations of Go's \<open>strings\<close> and \<open>fmt\<close> packages the program uses. A Go string is a
  sequence of bytes, and so is \<^typ>\<open>string\<close>: every \<^typ>\<open>char\<close> is one byte, a code
  point beyond ASCII is its UTF-8 bytes.
\<close>

section \<open>TrimSpace\<close>

text \<open>
  \<open>strings.TrimSpace\<close> removes leading and trailing code points that are white space for
  \<open>unicode.IsSpace\<close>: these are their UTF-8 encodings (six of one byte, then NEL, NBSP, and
  the ones from U+1680 to U+3000). No byte sequence that is not one of them decodes to white
  space.
\<close>

definition go_spaces :: "string list" where
  "go_spaces =
    [[CHR 0x09], [CHR 0x0A], [CHR 0x0B], [CHR 0x0C], [CHR 0x0D], [CHR 0x20],
     [CHR 0xC2, CHR 0x85], [CHR 0xC2, CHR 0xA0],
     [CHR 0xE1, CHR 0x9A, CHR 0x80],
     [CHR 0xE2, CHR 0x80, CHR 0x80], [CHR 0xE2, CHR 0x80, CHR 0x81],
     [CHR 0xE2, CHR 0x80, CHR 0x82], [CHR 0xE2, CHR 0x80, CHR 0x83],
     [CHR 0xE2, CHR 0x80, CHR 0x84], [CHR 0xE2, CHR 0x80, CHR 0x85],
     [CHR 0xE2, CHR 0x80, CHR 0x86], [CHR 0xE2, CHR 0x80, CHR 0x87],
     [CHR 0xE2, CHR 0x80, CHR 0x88], [CHR 0xE2, CHR 0x80, CHR 0x89],
     [CHR 0xE2, CHR 0x80, CHR 0x8A],
     [CHR 0xE2, CHR 0x80, CHR 0xA8], [CHR 0xE2, CHR 0x80, CHR 0xA9],
     [CHR 0xE2, CHR 0x80, CHR 0xAF], [CHR 0xE2, CHR 0x81, CHR 0x9F],
     [CHR 0xE3, CHR 0x80, CHR 0x80]]"

text \<open>Drop one of the given encodings from the front, if one is there.\<close>

fun strip_prefix :: "string \<Rightarrow> string \<Rightarrow> string option" where
  "strip_prefix [] s = Some s"
| "strip_prefix (c # p) [] = None"
| "strip_prefix (c # p) (d # s) = (if c = d then strip_prefix p s else None)"

fun strip_one :: "string list \<Rightarrow> string \<Rightarrow> string option" where
  "strip_one [] s = None"
| "strip_one (p # ps) s =
     (case p of [] \<Rightarrow> strip_one ps s
      | _ # _ \<Rightarrow> (case strip_prefix p s of Some r \<Rightarrow> Some r | None \<Rightarrow> strip_one ps s))"

lemma strip_prefix_iff: "strip_prefix p s = Some r \<longleftrightarrow> s = p @ r"
  by (induction p s rule: strip_prefix.induct) auto

lemma strip_one_Some:
  "strip_one ps s = Some r \<Longrightarrow> \<exists>p\<in>set ps. p \<noteq> [] \<and> s = p @ r"
  by (induction ps s rule: strip_one.induct)
    (auto simp: strip_prefix_iff split: list.splits option.splits)

lemma strip_one_None:
  "strip_one ps s = None \<Longrightarrow> p \<in> set ps \<Longrightarrow> p \<noteq> [] \<Longrightarrow> s \<noteq> p @ r"
proof (induction ps s rule: strip_one.induct)
  case (1 s)
  then show ?case by simp
next
  case (2 q qs s)
  show ?case
  proof (cases "p = q")
    case True
    with "2.prems" have "strip_prefix q s = None"
      by (auto split: list.splits option.splits)
    with True show ?thesis using strip_prefix_iff [of q s r] by auto
  next
    case False
    with "2.prems" have "p \<in> set qs" by simp
    with "2.prems" show ?thesis
      using "2.IH" by (auto split: list.splits option.splits)
  qed
qed

lemma strip_one_shorter: "strip_one ps s = Some r \<Longrightarrow> length r < length s"
  by (drule strip_one_Some) auto

function trim_front :: "string list \<Rightarrow> string \<Rightarrow> string" where
  "trim_front ps s = (case strip_one ps s of None \<Rightarrow> s | Some r \<Rightarrow> trim_front ps r)"
  by pat_completeness auto
termination
  by (relation "measure (\<lambda>(ps, s). length s)") (auto dest: strip_one_shorter)

declare trim_front.simps [simp del]

definition trim_left :: "string \<Rightarrow> string" where
  "trim_left s = trim_front go_spaces s"

definition trim_right :: "string \<Rightarrow> string" where
  "trim_right s = rev (trim_front (map rev go_spaces) (rev s))"

definition trim_space :: "string \<Rightarrow> string" where
  "trim_space s = trim_right (trim_left s)"

text \<open>The test the validations make: \<open>strings.TrimSpace(value) == ""\<close>.\<close>

definition is_blank :: "string \<Rightarrow> bool" where
  "is_blank s \<longleftrightarrow> trim_space s = []"

text \<open>Trimming to nothing means: a concatenation of white-space encodings, nothing else.\<close>

lemma trim_front_concat:
  "\<exists>ws. set ws \<subseteq> set ps \<and> s = concat ws @ trim_front ps s"
proof (induction ps s rule: trim_front.induct)
  case (1 ps s)
  show ?case
  proof (cases "strip_one ps s")
    case None
    then have "s = concat [] @ trim_front ps s" by (subst trim_front.simps) simp
    then show ?thesis by (intro exI[of _ "[]"]) simp
  next
    case (Some r)
    then obtain p where p: "p \<in> set ps" "s = p @ r"
      using strip_one_Some by blast
    from "1.IH"[OF Some] obtain ws where "set ws \<subseteq> set ps" "r = concat ws @ trim_front ps r"
      by blast
    moreover have "trim_front ps s = trim_front ps r"
      using Some by (subst trim_front.simps) simp
    ultimately show ?thesis using p by (intro exI[of _ "p # ws"]) simp
  qed
qed

lemma trim_front_stable: "strip_one ps (trim_front ps s) = None"
proof (induction ps s rule: trim_front.induct)
  case (1 ps s)
  then show ?case
    by (cases "strip_one ps s") (simp_all add: trim_front.simps[of ps s])
qed

lemma trim_front_idem: "trim_front ps (trim_front ps s) = trim_front ps s"
  by (subst trim_front.simps) (simp add: trim_front_stable)

lemma go_spaces_no_empty: "[] \<notin> set go_spaces"
  by (simp add: go_spaces_def)

lemma trim_right_concat:
  "\<exists>ws. set ws \<subseteq> set go_spaces \<and> s = trim_right s @ concat ws"
proof -
  obtain vs where vs: "set vs \<subseteq> set (map rev go_spaces)"
    "rev s = concat vs @ trim_front (map rev go_spaces) (rev s)"
    using trim_front_concat by blast
  have "s = rev (concat vs @ trim_front (map rev go_spaces) (rev s))"
    using vs(2) by (metis rev_rev_ident)
  then have "s = trim_right s @ concat (map rev (rev vs))"
    by (simp add: trim_right_def rev_concat rev_map)
  moreover have "set (map rev (rev vs)) \<subseteq> set go_spaces"
    using vs(1) by auto
  ultimately show ?thesis by blast
qed

lemma trim_right_empty_left:
  assumes "trim_right s = []" and "strip_one go_spaces s = None"
  shows "s = []"
proof (rule ccontr)
  assume "s \<noteq> []"
  obtain ws where ws: "set ws \<subseteq> set go_spaces" "s = concat ws"
    using trim_right_concat [of s] assms(1) by auto
  with \<open>s \<noteq> []\<close> obtain w vs where "ws = w # vs" by (cases ws) auto
  with ws have "w \<in> set go_spaces" "s = w @ concat vs" by auto
  moreover from this have "w \<noteq> []" using go_spaces_no_empty by auto
  ultimately show False using strip_one_None[OF assms(2)] by blast
qed

lemma is_blank_iff_left: "is_blank s \<longleftrightarrow> trim_left s = []"
proof
  assume "is_blank s"
  then show "trim_left s = []"
    using trim_right_empty_left [of "trim_left s"] trim_front_stable [of go_spaces s]
    by (simp add: is_blank_def trim_space_def trim_left_def)
next
  assume "trim_left s = []"
  moreover have "trim_right [] = []"
    using trim_right_concat [of "[]"] by auto
  ultimately show "is_blank s" by (simp add: is_blank_def trim_space_def)
qed

lemma blank_is_spaces: "is_blank s \<Longrightarrow> \<exists>ws. set ws \<subseteq> set go_spaces \<and> s = concat ws"
  using trim_front_concat [of go_spaces s] by (auto simp: is_blank_iff_left trim_left_def)

text \<open>No encoding is a prefix of another, so the way white space is read is unique.\<close>

lemma go_spaces_no_prefix:
  "list_all (\<lambda>p. list_all (\<lambda>q. strip_prefix p q = None \<or> p = q) go_spaces) go_spaces"
  by code_simp

lemma go_spaces_prefix_free:
  assumes "p \<in> set go_spaces" and "q \<in> set go_spaces" and "p @ x = q @ y"
  shows "p = q"
proof -
  have free: "strip_prefix a b = None \<or> a = b"
    if "a \<in> set go_spaces" "b \<in> set go_spaces" for a b
    using go_spaces_no_prefix that by (simp add: list_all_iff)
  from assms(3) obtain us where "p = q @ us \<or> q = p @ us"
    by (auto simp: append_eq_append_conv2)
  then show ?thesis
    using free assms(1,2) strip_prefix_iff by (metis option.distinct(1))
qed

lemma strip_one_space:
  assumes "p \<in> set go_spaces"
  shows "strip_one go_spaces (p @ s) = Some s"
proof (cases "strip_one go_spaces (p @ s)")
  case None
  then show ?thesis using strip_one_None assms go_spaces_no_empty by metis
next
  case (Some r)
  then obtain q where q: "q \<in> set go_spaces" "p @ s = q @ r"
    using strip_one_Some by blast
  with assms have "p = q" using go_spaces_prefix_free by blast
  with q Some show ?thesis by simp
qed

lemma spaces_are_blank: "set ws \<subseteq> set go_spaces \<Longrightarrow> is_blank (concat ws)"
proof (induction ws)
  case Nil
  have "strip_one go_spaces [] = None" by (simp add: go_spaces_def)
  then show ?case by (simp add: is_blank_iff_left trim_left_def trim_front.simps)
next
  case (Cons w ws)
  then show ?case
    by (simp add: is_blank_iff_left trim_left_def strip_one_space
        trim_front.simps[of go_spaces "w @ concat ws"])
qed

lemma is_blank_iff: "is_blank s \<longleftrightarrow> s \<in> concat ` lists (set go_spaces)"
  using blank_is_spaces spaces_are_blank by (fastforce simp: lists_eq_set)

lemma blank_Nil [simp, go_text]: "is_blank []"
  using spaces_are_blank [of "[]"] by simp

text \<open>A string that starts with any other byte is not blank.\<close>

definition space_leads :: "char list" where
  "space_leads = map hd go_spaces"

lemma not_blank_Cons [go_text]:
  assumes "c \<notin> set space_leads"
  shows "\<not> is_blank (c # s)"
proof
  assume "is_blank (c # s)"
  then obtain ws where ws: "set ws \<subseteq> set go_spaces" "c # s = concat ws"
    using blank_is_spaces by blast
  then obtain w vs where w: "ws = w # vs" "w \<in> set go_spaces" by (cases ws) auto
  with ws(2) go_spaces_no_empty have "c = hd w" by (cases w) auto
  with w assms show False by (auto simp: space_leads_def)
qed

section \<open>Case folding\<close>

definition lower_char :: "char \<Rightarrow> char" where
  "lower_char c = (let n = (of_char c :: nat) in
     if 65 \<le> n \<and> n \<le> 90 then char_of (n + 32) else c)"

text \<open>
  \<open>strings.ToLower\<close>, as far as a comparison with ASCII text can tell: the ASCII letters, and
  the two code points beyond ASCII whose lower case is ASCII (U+0130 and the Kelvin sign
  U+212A). Every other code point beyond ASCII is mapped beyond ASCII by Go and left alone here.
\<close>

fun to_lower :: "string \<Rightarrow> string" where
  "to_lower [] = []"
| "to_lower (c # s) =
     (if c = CHR 0xC4 \<and> take 1 s = [CHR 0xB0] then CHR ''i'' # to_lower (drop 1 s)
      else if c = CHR 0xE2 \<and> take 2 s = [CHR 0x84, CHR 0xAA]
        then CHR ''k'' # to_lower (drop 2 s)
      else lower_char c # to_lower s)"

text \<open>
  \<open>strings.EqualFold\<close> with an ASCII argument that has no \<open>k\<close> and no \<open>s\<close> (the only ASCII
  letters with a third spelling beyond ASCII): equality up to the case of ASCII letters.
\<close>

definition equal_fold :: "string \<Rightarrow> string \<Rightarrow> bool" where
  "equal_fold s t \<longleftrightarrow> map lower_char s = map lower_char t"

lemma equal_fold_refl [simp, go_text]: "equal_fold s s"
  by (simp add: equal_fold_def)

lemma equal_fold_sym: "equal_fold s t \<Longrightarrow> equal_fold t s"
  by (simp add: equal_fold_def)

lemma equal_fold_trans: "equal_fold s t \<Longrightarrow> equal_fold t u \<Longrightarrow> equal_fold s u"
  by (simp add: equal_fold_def)

section \<open>Removing a separator, slicing, decimal text\<close>

text \<open>\<open>strings.ReplaceAll(s, "-", "")\<close>.\<close>

definition remove_dashes :: "string \<Rightarrow> string" where
  "remove_dashes s = filter (\<lambda>c. c \<noteq> CHR ''-'') s"

text \<open>
  \<open>s[len(s)-n:]\<close>: a string shorter than \<open>n\<close> gives a negative bound, which panics.
\<close>

definition last_bytes :: "nat \<Rightarrow> string \<Rightarrow> string option" where
  "last_bytes n s = (if n \<le> length s then Some (drop (length s - n) s) else None)"

lemma last_bytes_Some: "last_bytes n s = Some r \<Longrightarrow> length r = n \<and> (\<exists>p. s = p @ r)"
  by (auto simp: last_bytes_def split: if_splits)
    (metis append_take_drop_id)

definition digit_char :: "nat \<Rightarrow> char" where
  "digit_char d = char_of (48 + d)"

fun itoa :: "nat \<Rightarrow> string" where
  "itoa n = (if n < 10 then [digit_char n] else itoa (n div 10) @ [digit_char (n mod 10)])"

declare itoa.simps [simp del]

definition itoa_int :: "int \<Rightarrow> string" where
  "itoa_int i = (if i < 0 then CHR ''-'' # itoa (nat (- i)) else itoa (nat i))"

definition digit_value :: "char \<Rightarrow> nat" where
  "digit_value c = of_char c - 48"

definition atoi :: "string \<Rightarrow> nat" where
  "atoi s = foldl (\<lambda>n c. 10 * n + digit_value c) 0 s"

lemma digit_value_char [simp]: "d < 10 \<Longrightarrow> digit_value (digit_char d) = d"
  by (simp add: digit_value_def digit_char_def of_char_mod_256)

lemma atoi_append [simp]: "atoi (s @ [c]) = 10 * atoi s + digit_value c"
  by (simp add: atoi_def)

lemma atoi_itoa [simp]: "atoi (itoa n) = n"
proof (induction n rule: itoa.induct)
  case (1 n)
  show ?case
  proof (cases "n < 10")
    case True
    then show ?thesis by (subst itoa.simps) (simp add: atoi_def)
  next
    case False
    with 1 show ?thesis by (subst itoa.simps) simp
  qed
qed

lemma itoa_inj: "itoa m = itoa n \<longleftrightarrow> m = n"
  by (metis atoi_itoa)

lemma length_itoa_le: "n < 10 ^ w \<Longrightarrow> 0 < w \<Longrightarrow> length (itoa n) \<le> w"
proof (induction w arbitrary: n)
  case 0
  then show ?case by simp
next
  case (Suc w)
  show ?case
  proof (cases "n < 10")
    case True
    then show ?thesis by (subst itoa.simps) simp
  next
    case False
    with Suc.prems have "0 < w" by (cases w) auto
    moreover from Suc.prems have "n div 10 < 10 ^ w"
      by (simp add: less_mult_imp_div_less mult.commute)
    ultimately have "length (itoa (n div 10)) \<le> w" by (rule Suc.IH[rotated])
    with False show ?thesis by (subst itoa.simps) simp
  qed
qed

text \<open>Decimal text padded with zeros to a width, as time formatting writes it.\<close>

definition zero_pad :: "nat \<Rightarrow> nat \<Rightarrow> string" where
  "zero_pad w n = replicate (w - length (itoa n)) CHR ''0'' @ itoa n"

lemma length_zero_pad: "n < 10 ^ w \<Longrightarrow> 0 < w \<Longrightarrow> length (zero_pad w n) = w"
  using length_itoa_le [of n w] by (simp add: zero_pad_def)

lemma atoi_zero_pad [simp]: "atoi (zero_pad w n) = n"
proof -
  have zeros: "foldl (\<lambda>n c. 10 * n + digit_value c) 0 (replicate k CHR ''0'') = 0" for k
    by (induction k) (simp_all add: digit_value_def)
  have "atoi (zero_pad w n) = atoi (itoa n)"
    by (simp add: zero_pad_def atoi_def zeros)
  then show ?thesis by simp
qed

section \<open>Quoted text\<close>

text \<open>
  \<open>%q\<close>: a string in double quotes, with Go's escapes for the ASCII characters that need them.
  Bytes beyond ASCII are kept, as they are where they spell printable characters.
\<close>

definition hex_char :: "nat \<Rightarrow> char" where
  "hex_char d = (if d < 10 then char_of (48 + d) else char_of (87 + d))"

definition quote_char :: "char \<Rightarrow> string" where
  "quote_char c = (let n = (of_char c :: nat) in
     if n = 34 then [CHR 0x5C, CHR 0x22]
     else if n = 92 then [CHR 0x5C, CHR 0x5C]
     else if n = 7 then [CHR 0x5C, CHR ''a'']
     else if n = 8 then [CHR 0x5C, CHR ''b'']
     else if n = 9 then [CHR 0x5C, CHR ''t'']
     else if n = 10 then [CHR 0x5C, CHR ''n'']
     else if n = 11 then [CHR 0x5C, CHR ''v'']
     else if n = 12 then [CHR 0x5C, CHR ''f'']
     else if n = 13 then [CHR 0x5C, CHR ''r'']
     else if n < 32 \<or> n = 127 then [CHR 0x5C, CHR ''x'', hex_char (n div 16), hex_char (n mod 16)]
     else [c])"

definition go_quote :: "string \<Rightarrow> string" where
  "go_quote s = CHR 0x22 # concat (map quote_char s) @ [CHR 0x22]"

text \<open>A string with one character that no space is made of is not blank.\<close>

lemma not_blank_member [go_text]:
  assumes "c \<in> set s" and "c \<notin> set (concat go_spaces)"
  shows "\<not> is_blank s"
proof
  assume "is_blank s"
  then obtain ws where "set ws \<subseteq> set go_spaces" "s = concat ws" using blank_is_spaces by blast
  with assms show False by auto
qed

end
