(* ===== verification/GoErrors.thy ===== *)
theory GoErrors
  imports GoStrings
begin

text \<open>
  The error values of the program: the types of internal/domain/errors (appErrors, dbErrors,
  mqErrors, validationErrors), what \<open>errors.Join\<close> and \<open>fmt.Errorf\<close> build, and the errors of
  libraries, kept as their text and what the library's own predicates say about them. Every
  error type is used through a pointer; its \<open>Err\<close> field is an interface and may be nil.
\<close>

section \<open>Error values\<close>

datatype lib_kind = NoDocuments | DuplicateKey | OtherLib

datatype go_err =
    ErrValidationConstrain string string
  | AppCorruptedDataError string "go_err option"
  | AppAlreadyExistsErr "go_err option"
  | AppInvoiceNotFoundErr "go_err option"
  | AppReceiptNotFoundErr "go_err option"
  | AppPublishErr string "go_err option"
  | AppUnexpectedErr string "go_err option"
  | DbUnexpectedErr string "go_err option"
  | DbCorruptedDataErr "go_err option"
  | DbAlreadyExistsErr "go_err option"
  | DbInvoiceNotFoundErr "go_err option"
  | DbReceiptNotFoundErr "go_err option"
  | MqUnexpectedErr string "go_err option"
  | JoinErr "go_err list"
  | WrapErr string go_err
  | PlainErr string
  | LibErr lib_kind string

section \<open>The text of an error\<close>

fun join_lines :: "string list \<Rightarrow> string" where
  "join_lines [] = []"
| "join_lines [s] = s"
| "join_lines (s # t # ss) = s @ CHR 0x0A # join_lines (t # ss)"

text \<open>\<open>%v\<close> of a nil error prints \<open><nil>\<close>.\<close>

definition nil_text :: "string option \<Rightarrow> string" where
  "nil_text s = (case s of None \<Rightarrow> ''<nil>'' | Some t \<Rightarrow> t)"

primrec error_text :: "go_err \<Rightarrow> string" where
  "error_text (ErrValidationConstrain f m) = f @ '' has violations; '' @ m"
| "error_text (AppCorruptedDataError m e) =
     ''corrupted data error, '' @ m @ '': '' @ nil_text (map_option error_text e)"
| "error_text (AppAlreadyExistsErr e) =
     ''element already exists: '' @ nil_text (map_option error_text e)"
| "error_text (AppInvoiceNotFoundErr e) =
     ''invoice not found: '' @ nil_text (map_option error_text e)"
| "error_text (AppReceiptNotFoundErr e) =
     ''receipt not found: '' @ nil_text (map_option error_text e)"
| "error_text (AppPublishErr m e) =
     ''failed to publish message: '' @ m @ '', '' @ nil_text (map_option error_text e)"
| "error_text (AppUnexpectedErr m e) =
     ''unexpected error, '' @ m @ '': '' @ nil_text (map_option error_text e)"
| "error_text (DbUnexpectedErr m e) =
     ''unexpected error, '' @ m @ '': '' @ nil_text (map_option error_text e)"
| "error_text (DbCorruptedDataErr e) =
     ''database contains inconsistent cottage data: '' @ nil_text (map_option error_text e)"
| "error_text (DbAlreadyExistsErr e) =
     ''element already exists: '' @ nil_text (map_option error_text e)"
| "error_text (DbInvoiceNotFoundErr e) =
     ''invoice not found: '' @ nil_text (map_option error_text e)"
| "error_text (DbReceiptNotFoundErr e) =
     ''receipt not found: '' @ nil_text (map_option error_text e)"
| "error_text (MqUnexpectedErr m e) =
     ''unexpected error, '' @ m @ '': '' @ nil_text (map_option error_text e)"
| "error_text (JoinErr es) = join_lines (map error_text es)"
| "error_text (WrapErr p e) = p @ error_text e"
| "error_text (PlainErr m) = m"
| "error_text (LibErr k m) = m"

section \<open>Unwrapping and errors.As\<close>

datatype err_type =
    TValidation
  | TAppCorrupted | TAppAlreadyExists | TAppInvoiceNotFound | TAppReceiptNotFound
  | TAppPublish | TAppUnexpected
  | TDbUnexpected | TDbCorrupted | TDbAlreadyExists | TDbInvoiceNotFound | TDbReceiptNotFound
  | TMqUnexpected

fun err_type_of :: "go_err \<Rightarrow> err_type option" where
  "err_type_of (ErrValidationConstrain _ _) = Some TValidation"
| "err_type_of (AppCorruptedDataError _ _) = Some TAppCorrupted"
| "err_type_of (AppAlreadyExistsErr _) = Some TAppAlreadyExists"
| "err_type_of (AppInvoiceNotFoundErr _) = Some TAppInvoiceNotFound"
| "err_type_of (AppReceiptNotFoundErr _) = Some TAppReceiptNotFound"
| "err_type_of (AppPublishErr _ _) = Some TAppPublish"
| "err_type_of (AppUnexpectedErr _ _) = Some TAppUnexpected"
| "err_type_of (DbUnexpectedErr _ _) = Some TDbUnexpected"
| "err_type_of (DbCorruptedDataErr _) = Some TDbCorrupted"
| "err_type_of (DbAlreadyExistsErr _) = Some TDbAlreadyExists"
| "err_type_of (DbInvoiceNotFoundErr _) = Some TDbInvoiceNotFound"
| "err_type_of (DbReceiptNotFoundErr _) = Some TDbReceiptNotFound"
| "err_type_of (MqUnexpectedErr _ _) = Some TMqUnexpected"
| "err_type_of (JoinErr _) = None"
| "err_type_of (WrapErr _ _) = None"
| "err_type_of (PlainErr _) = None"
| "err_type_of (LibErr _ _) = None"

fun opt_list :: "'a option \<Rightarrow> 'a list" where
  "opt_list None = []"
| "opt_list (Some x) = [x]"

fun unwrap :: "go_err \<Rightarrow> go_err list" where
  "unwrap (ErrValidationConstrain _ _) = []"
| "unwrap (AppCorruptedDataError _ e) = opt_list e"
| "unwrap (AppAlreadyExistsErr e) = opt_list e"
| "unwrap (AppInvoiceNotFoundErr e) = opt_list e"
| "unwrap (AppReceiptNotFoundErr e) = opt_list e"
| "unwrap (AppPublishErr _ e) = opt_list e"
| "unwrap (AppUnexpectedErr _ e) = opt_list e"
| "unwrap (DbUnexpectedErr _ e) = opt_list e"
| "unwrap (DbCorruptedDataErr e) = opt_list e"
| "unwrap (DbAlreadyExistsErr e) = opt_list e"
| "unwrap (DbInvoiceNotFoundErr e) = opt_list e"
| "unwrap (DbReceiptNotFoundErr e) = opt_list e"
| "unwrap (MqUnexpectedErr _ e) = opt_list e"
| "unwrap (JoinErr es) = es"
| "unwrap (WrapErr _ e) = [e]"
| "unwrap (PlainErr _) = []"
| "unwrap (LibErr _ _) = []"

lemma set_opt_list [simp]: "x \<in> set (opt_list e) \<longleftrightarrow> e = Some x"
  by (cases e) auto

lemma opt_list_Nil_iff [simp]: "opt_list e = [] \<longleftrightarrow> e = None"
  by (cases e) auto

lemma size_opt_list: "x \<in> set (opt_list e) \<Longrightarrow> size x < Suc (size_option size e)"
  by (cases e) auto

lemma size_unwrap: "x \<in> set (unwrap e) \<Longrightarrow> size x < size e"
  by (cases e) (auto dest: size_opt_list size_list_estimation'[OF _ order_refl, of _ _ size])

fun first_some :: "'a option list \<Rightarrow> 'a option" where
  "first_some [] = None"
| "first_some (None # xs) = first_some xs"
| "first_some (Some x # xs) = Some x"

text \<open>
  \<open>errors.As(err, &target)\<close>: the first error of the tree, in depth-first order, whose type is
  the target's.
\<close>

function errors_As :: "err_type \<Rightarrow> go_err \<Rightarrow> go_err option" where
  "errors_As T e =
     (if err_type_of e = Some T then Some e else first_some (map (errors_As T) (unwrap e)))"
  by pat_completeness auto
termination
  by (relation "measure (\<lambda>(T, e). size e)") (auto dest: size_unwrap)

declare errors_As.simps [simp del]

definition is_a :: "err_type \<Rightarrow> go_err \<Rightarrow> bool" where
  "is_a T e \<longleftrightarrow> errors_As T e \<noteq> None"

lemma first_some_None_iff: "first_some xs = None \<longleftrightarrow> (\<forall>x\<in>set xs. x = None)"
  by (induction xs rule: first_some.induct) auto

lemma is_a_rec:
  "is_a T e \<longleftrightarrow> err_type_of e = Some T \<or> (\<exists>x\<in>set (unwrap e). is_a T x)"
proof -
  have "errors_As T e = None \<longleftrightarrow>
      err_type_of e \<noteq> Some T \<and> (\<forall>x\<in>set (unwrap e). errors_As T x = None)"
    by (subst errors_As.simps) (simp add: first_some_None_iff)
  then show ?thesis by (auto simp: is_a_def)
qed

lemma is_a_simps [error_simps]:
  "is_a T (ErrValidationConstrain f m) \<longleftrightarrow> T = TValidation"
  "is_a T (AppCorruptedDataError m e) \<longleftrightarrow> T = TAppCorrupted \<or> (\<exists>x. e = Some x \<and> is_a T x)"
  "is_a T (AppAlreadyExistsErr e) \<longleftrightarrow> T = TAppAlreadyExists \<or> (\<exists>x. e = Some x \<and> is_a T x)"
  "is_a T (AppInvoiceNotFoundErr e) \<longleftrightarrow> T = TAppInvoiceNotFound \<or> (\<exists>x. e = Some x \<and> is_a T x)"
  "is_a T (AppReceiptNotFoundErr e) \<longleftrightarrow> T = TAppReceiptNotFound \<or> (\<exists>x. e = Some x \<and> is_a T x)"
  "is_a T (AppPublishErr m e) \<longleftrightarrow> T = TAppPublish \<or> (\<exists>x. e = Some x \<and> is_a T x)"
  "is_a T (AppUnexpectedErr m e) \<longleftrightarrow> T = TAppUnexpected \<or> (\<exists>x. e = Some x \<and> is_a T x)"
  "is_a T (DbUnexpectedErr m e) \<longleftrightarrow> T = TDbUnexpected \<or> (\<exists>x. e = Some x \<and> is_a T x)"
  "is_a T (DbCorruptedDataErr e) \<longleftrightarrow> T = TDbCorrupted \<or> (\<exists>x. e = Some x \<and> is_a T x)"
  "is_a T (DbAlreadyExistsErr e) \<longleftrightarrow> T = TDbAlreadyExists \<or> (\<exists>x. e = Some x \<and> is_a T x)"
  "is_a T (DbInvoiceNotFoundErr e) \<longleftrightarrow> T = TDbInvoiceNotFound \<or> (\<exists>x. e = Some x \<and> is_a T x)"
  "is_a T (DbReceiptNotFoundErr e) \<longleftrightarrow> T = TDbReceiptNotFound \<or> (\<exists>x. e = Some x \<and> is_a T x)"
  "is_a T (MqUnexpectedErr m e) \<longleftrightarrow> T = TMqUnexpected \<or> (\<exists>x. e = Some x \<and> is_a T x)"
  "is_a T (JoinErr es) \<longleftrightarrow> (\<exists>x\<in>set es. is_a T x)"
  "is_a T (WrapErr p x) \<longleftrightarrow> is_a T x"
  "is_a T (PlainErr m) \<longleftrightarrow> False"
  "is_a T (LibErr k m) \<longleftrightarrow> False"
  by (subst is_a_rec, (auto)[1])+

text \<open>What \<open>errors.As\<close> finds has the type asked for.\<close>

lemma first_some_Some: "first_some xs = Some x \<Longrightarrow> Some x \<in> set xs"
  by (induction xs rule: first_some.induct) auto

lemma errors_As_type: "errors_As T e = Some x \<Longrightarrow> err_type_of x = Some T"
proof (induction T e rule: errors_As.induct)
  case (1 T e)
  show ?case
  proof (cases "err_type_of e = Some T")
    case True
    with "1.prems" show ?thesis by (simp add: errors_As.simps[of T e])
  next
    case False
    with "1.prems" have "first_some (map (errors_As T) (unwrap e)) = Some x"
      by (simp add: errors_As.simps[of T e])
    then obtain y where "y \<in> set (unwrap e)" "errors_As T y = Some x"
      by (auto dest!: first_some_Some)
    with False show ?thesis by (rule "1.IH")
  qed
qed

text \<open>
  \<open>errors.Is(err, mongo.ErrNoDocuments)\<close> and \<open>mongo.IsDuplicateKeyError(err)\<close>, on an error the
  driver returned.
\<close>

fun is_no_documents :: "go_err \<Rightarrow> bool" where
  "is_no_documents (LibErr NoDocuments _) = True"
| "is_no_documents _ = False"

fun is_duplicate_key :: "go_err \<Rightarrow> bool" where
  "is_duplicate_key (LibErr DuplicateKey _) = True"
| "is_duplicate_key _ = False"

text \<open>\<open>errors.Join\<close> drops the nil errors and is nil when nothing is left.\<close>

definition errors_Join :: "go_err option list \<Rightarrow> go_err option" where
  "errors_Join xs = (case concat (map opt_list xs) of [] \<Rightarrow> None | e # es \<Rightarrow> Some (JoinErr (e # es)))"

lemma errors_Join_None_iff: "errors_Join xs = None \<longleftrightarrow> (\<forall>x\<in>set xs. x = None)"
proof -
  have "errors_Join xs = None \<longleftrightarrow> concat (map opt_list xs) = []"
    by (cases "concat (map opt_list xs)") (simp_all add: errors_Join_def del: concat_eq_Nil_conv)
  also have "\<dots> \<longleftrightarrow> (\<forall>x\<in>set xs. x = None)" by simp
  finally show ?thesis .
qed

section \<open>gRPC status codes\<close>

text \<open>The codes the services use, ordered by their number.\<close>

datatype grpc_code = InvalidArgument | NotFound | FailedPrecondition | Internal

fun code_number :: "grpc_code \<Rightarrow> nat" where
  "code_number InvalidArgument = 3"
| "code_number NotFound = 5"
| "code_number FailedPrecondition = 9"
| "code_number Internal = 13"

lemma code_number_inj: "code_number a = code_number b \<longleftrightarrow> a = b"
  by (cases a; cases b) auto

instantiation grpc_code :: linorder
begin

definition less_eq_grpc_code :: "grpc_code \<Rightarrow> grpc_code \<Rightarrow> bool" where
  "less_eq_grpc_code a b \<longleftrightarrow> code_number a \<le> code_number b"

definition less_grpc_code :: "grpc_code \<Rightarrow> grpc_code \<Rightarrow> bool" where
  "less_grpc_code a b \<longleftrightarrow> code_number a < code_number b"

instance
  by standard (auto simp: less_eq_grpc_code_def less_grpc_code_def code_number_inj)

end

text \<open>
  What a service method returns beside its response: a status error, or an application error
  passed on as it is.
\<close>

datatype rpc_error =
    Status grpc_code string
  | RawErr go_err

end
