(* ===== verification/GoTime.thy ===== *)
theory GoTime
  imports GoStrings
begin

text \<open>
  \<open>time.Time\<close> values in UTC, as the program makes them: the instant, in nanoseconds since the
  Unix epoch. The zero value of the type is the first instant of year 1.
\<close>

type_synonym go_time = int

definition nanos_per_day :: int where
  "nanos_per_day = 86400 * 1000000000"

definition zero_time :: go_time where
  "zero_time = - 62135596800 * 1000000000"

section \<open>The calendar\<close>

text \<open>
  The proleptic Gregorian date of a day number (0 is 1 January 1970), by the 400, 100, 4 and
  1 year cycles counted from 1 March of year 0, as the \<open>time\<close> package does it.
\<close>

definition civil_from_days :: "int \<Rightarrow> int \<times> int \<times> int" where
  "civil_from_days days =
    (let z = days + 719468;
         era = z div 146097;
         doe = z mod 146097;
         c = min 3 (doe div 36524);
         doc = doe - c * 36524;
         q = doc div 1461;
         doq = doc - q * 1461;
         a = min 3 (doq div 365);
         doy = doq - a * 365;
         mp = (5 * doy + 2) div 153;
         d = doy - (153 * mp + 2) div 5 + 1;
         m = (if mp < 10 then mp + 3 else mp - 9);
         y = 400 * era + 100 * c + 4 * q + a + (if m \<le> 2 then 1 else 0)
     in (y, m, d))"

definition days_from_civil :: "int \<times> int \<times> int \<Rightarrow> int" where
  "days_from_civil = (\<lambda>(y, m, d).
    let y' = (if m \<le> 2 then y - 1 else y);
        era = y' div 400;
        yoe = y' mod 400;
        doy = (153 * (if m > 2 then m - 3 else m + 9) + 2) div 5 + d - 1
    in era * 146097 + (yoe * 365 + yoe div 4 - yoe div 100 + doy) - 719468)"

text \<open>The cycle counts of a day within its 400 years, and their bounds.\<close>

lemma century_bounds:
  fixes doe :: int
  assumes "0 \<le> doe" and "doe < 146097"
  defines "c \<equiv> min 3 (doe div 36524)"
  shows "0 \<le> c" "c \<le> 3" "0 \<le> doe - c * 36524" "doe - c * 36524 \<le> 36524"
  using assms(1,2) unfolding c_def by (auto simp: min_def)

lemma four_year_bounds:
  fixes doc :: int
  assumes "0 \<le> doc" and "doc \<le> 36524"
  defines "q \<equiv> doc div 1461"
  shows "0 \<le> q" "q \<le> 24" "0 \<le> doc - q * 1461" "doc - q * 1461 \<le> 1460"
proof -
  have "doc - q * 1461 = doc mod 1461" by (simp add: q_def minus_div_mult_eq_mod)
  then show "0 \<le> doc - q * 1461" "doc - q * 1461 \<le> 1460"
    using pos_mod_bound [of 1461 doc] pos_mod_sign [of 1461 doc] by simp_all
  show "0 \<le> q" "q \<le> 24" using assms(1,2) unfolding q_def by auto
qed

lemma year_bounds:
  fixes doq :: int
  assumes "0 \<le> doq" and "doq \<le> 1460"
  defines "a \<equiv> min 3 (doq div 365)"
  shows "0 \<le> a" "a \<le> 3" "0 \<le> doq - a * 365" "doq - a * 365 \<le> 365"
  using assms(1,2) unfolding a_def by (auto simp: min_def)

lemma month_bounds:
  fixes doy :: int
  assumes "0 \<le> doy" and "doy \<le> 365"
  defines "mp \<equiv> (5 * doy + 2) div 153"
  shows "0 \<le> mp" "mp \<le> 11" "0 \<le> doy - (153 * mp + 2) div 5" "doy - (153 * mp + 2) div 5 \<le> 30"
proof -
  define r where "r = (5 * doy + 2) mod 153"
  have mp: "5 * doy + 2 = 153 * mp + r" "0 \<le> r" "r < 153"
    unfolding r_def mp_def by (simp_all add: mult_div_mod_eq)
  define x where "x = (153 * mp + 2) div 5"
  have x: "5 * x \<le> 153 * mp + 2" "153 * mp + 2 < 5 * x + 5"
    unfolding x_def by presburger+
  show "0 \<le> mp" "mp \<le> 11" using mp assms(1,2) by linarith+
  show "0 \<le> doy - (153 * mp + 2) div 5" "doy - (153 * mp + 2) div 5 \<le> 30"
    using mp x unfolding x_def [symmetric] by linarith+
qed

lemma civil_parts:
  obtains era c q a doy mp where
    "days + 719468 = 146097 * era + (36524 * c + 1461 * q + 365 * a + doy)"
    "0 \<le> c" "c \<le> 3" "0 \<le> q" "q \<le> 24" "0 \<le> a" "a \<le> 3" "0 \<le> doy" "doy \<le> 365"
    "mp = (5 * doy + 2) div 153"
    "civil_from_days days =
      (400 * era + 100 * c + 4 * q + a + (if (if mp < 10 then mp + 3 else mp - 9) \<le> 2 then 1 else 0),
       if mp < 10 then mp + 3 else mp - 9,
       doy - (153 * mp + 2) div 5 + 1)"
proof -
  define era where "era = (days + 719468) div 146097"
  define doe where "doe = (days + 719468) mod 146097"
  define c where "c = min 3 (doe div 36524)"
  define doc where "doc = doe - c * 36524"
  define q where "q = doc div 1461"
  define doq where "doq = doc - q * 1461"
  define a where "a = min 3 (doq div 365)"
  define doy where "doy = doq - a * 365"
  define mp where "mp = (5 * doy + 2) div 153"
  have doe: "0 \<le> doe" "doe < 146097" by (simp_all add: doe_def)
  have c: "0 \<le> c" "c \<le> 3" "0 \<le> doc" "doc \<le> 36524"
    using century_bounds[OF doe] by (simp_all add: c_def doc_def)
  have q: "0 \<le> q" "q \<le> 24" "0 \<le> doq" "doq \<le> 1460"
    using four_year_bounds[OF c(3,4)] by (simp_all add: q_def doq_def)
  have a: "0 \<le> a" "a \<le> 3" "0 \<le> doy" "doy \<le> 365"
    using year_bounds[OF q(3,4)] by (simp_all add: a_def doy_def)
  have "days + 719468 = 146097 * era + doe"
    by (simp add: era_def doe_def mult_div_mod_eq)
  then have sum: "days + 719468 = 146097 * era + (36524 * c + 1461 * q + 365 * a + doy)"
    by (simp add: doc_def doq_def doy_def)
  have eq: "civil_from_days days =
      (400 * era + 100 * c + 4 * q + a + (if (if mp < 10 then mp + 3 else mp - 9) \<le> 2 then 1 else 0),
       if mp < 10 then mp + 3 else mp - 9,
       doy - (153 * mp + 2) div 5 + 1)"
    unfolding civil_from_days_def Let_def era_def doe_def c_def doc_def q_def doq_def a_def doy_def mp_def
    by (rule refl)
  show thesis
    by (rule that[OF sum c(1,2) q(1,2) a(1,2,3,4) mp_def eq])
qed

lemma civil_month_day_bounds:
  assumes "civil_from_days days = (y, m, d)"
  shows "1 \<le> m" "m \<le> 12" "1 \<le> d" "d \<le> 31"
proof -
  obtain era c q a doy mp where p: "0 \<le> doy" "doy \<le> 365" "mp = (5 * doy + 2) div 153"
    "civil_from_days days =
      (400 * era + 100 * c + 4 * q + a + (if (if mp < 10 then mp + 3 else mp - 9) \<le> 2 then 1 else 0),
       if mp < 10 then mp + 3 else mp - 9,
       doy - (153 * mp + 2) div 5 + 1)"
    by (rule civil_parts[of days])
  note b = month_bounds[OF p(1,2), folded p(3)]
  from p(4) assms have m: "m = (if mp < 10 then mp + 3 else mp - 9)"
    and d: "d = doy - (153 * mp + 2) div 5 + 1"
    by simp_all
  show "1 \<le> m" "m \<le> 12" using b(1,2) m by (simp_all split: if_splits)
  show "1 \<le> d" "d \<le> 31" using b(3,4) d by simp_all
qed

text \<open>The date determines the day.\<close>

lemma days_from_civil_from_days: "days_from_civil (civil_from_days days) = days"
proof -
  obtain era c q a doy mp where p:
    "days + 719468 = 146097 * era + (36524 * c + 1461 * q + 365 * a + doy)"
    "0 \<le> c" "c \<le> 3" "0 \<le> q" "q \<le> 24" "0 \<le> a" "a \<le> 3" "0 \<le> doy" "doy \<le> 365"
    "mp = (5 * doy + 2) div 153"
    "civil_from_days days =
      (400 * era + 100 * c + 4 * q + a + (if (if mp < 10 then mp + 3 else mp - 9) \<le> 2 then 1 else 0),
       if mp < 10 then mp + 3 else mp - 9,
       doy - (153 * mp + 2) div 5 + 1)"
    by (rule civil_parts[of days])
  note b = month_bounds[OF p(8,9), folded p(10)]
  define yoe where "yoe = 100 * c + 4 * q + a"
  have yoe: "0 \<le> yoe" "yoe < 400" using p(2-7) by (simp_all add: yoe_def)
  have y: "(400 * era + yoe) div 400 = era" "(400 * era + yoe) mod 400 = yoe"
    using yoe by simp_all
  have "yoe div 4 = 25 * c + q" "yoe div 100 = c"
    using p(2-7) by (simp_all add: yoe_def)
  then have body: "era * 146097 + (yoe * 365 + yoe div 4 - yoe div 100 + doy) - 719468 = days"
    using p(1) by (simp add: yoe_def)
  define m where "m = (if mp < 10 then mp + 3 else mp - 9)"
  have mp: "(if m > 2 then m - 3 else m + 9) = mp" "m \<le> 2 \<longleftrightarrow> 10 \<le> mp"
    using b(1,2) by (auto simp: m_def)
  have civil: "civil_from_days days =
      (400 * era + yoe + (if m \<le> 2 then 1 else 0), m, doy - (153 * mp + 2) div 5 + 1)"
    unfolding p(11) m_def yoe_def by simp
  have "(if m \<le> 2 then 400 * era + yoe + (if m \<le> 2 then 1 else 0) - 1
      else 400 * era + yoe + (if m \<le> 2 then 1 else 0)) = 400 * era + yoe"
    by simp
  then show ?thesis
    unfolding civil days_from_civil_def prod.case Let_def mp(1) y using yoe by (simp add: y body mod_pos_pos_trivial)
qed

section \<open>Formatting and comparing\<close>

text \<open>
  \<open>now.UTC().Format("20060102")\<close>: the year in at least four digits (with a sign before year
  0), the month and the day in two.
\<close>

definition format_year :: "int \<Rightarrow> string" where
  "format_year y = (if y < 0 then CHR ''-'' # zero_pad 4 (nat (- y)) else zero_pad 4 (nat y))"

definition format_date :: "go_time \<Rightarrow> string" where
  "format_date t = (case civil_from_days (t div nanos_per_day) of (y, m, d) \<Rightarrow>
     format_year y @ zero_pad 2 (nat m) @ zero_pad 2 (nat d))"

definition time_after :: "go_time \<Rightarrow> go_time \<Rightarrow> bool" where
  "time_after t u \<longleftrightarrow> t > u"

definition time_equal :: "go_time \<Rightarrow> go_time \<Rightarrow> bool" where
  "time_equal t u \<longleftrightarrow> t = u"

lemma length_format_date:
  assumes "civil_from_days (t div nanos_per_day) = (y, m, d)" and "0 \<le> y" and "y \<le> 9999"
  shows "length (format_date t) = 8"
  using civil_month_day_bounds[OF assms(1)] assms
  by (simp add: format_date_def format_year_def length_zero_pad)

text \<open>The text gives the date back.\<close>

definition parse_date :: "string \<Rightarrow> int \<times> int \<times> int" where
  "parse_date s = (int (atoi (take 4 s)), int (atoi (take 2 (drop 4 s))), int (atoi (drop 6 s)))"

lemma parse_format_date:
  assumes "civil_from_days (t div nanos_per_day) = (y, m, d)" and "0 \<le> y" and "y \<le> 9999"
  shows "parse_date (format_date t) = (y, m, d)"
proof -
  have "length (zero_pad 4 (nat y)) = 4" "length (zero_pad 2 (nat m)) = 2"
    using civil_month_day_bounds[OF assms(1)] assms(2,3) by (simp_all add: length_zero_pad)
  then show ?thesis
    using civil_month_day_bounds[OF assms(1)] assms
    by (simp add: format_date_def format_year_def parse_date_def)
qed

lemma civil_year_in_range:
  assumes "zero_time \<le> t" and "t < 253402300800 * 1000000000"
    and "civil_from_days (t div nanos_per_day) = (y, m, d)"
  shows "0 \<le> y" "y \<le> 9999"
proof -
  define days where "days = t div nanos_per_day"
  have days: "-719162 \<le> days" "days < 2932897"
  proof -
    have t: "t = nanos_per_day * days + t mod nanos_per_day"
      by (simp add: days_def)
    have "0 \<le> t mod nanos_per_day" "t mod nanos_per_day < nanos_per_day"
      by (simp_all add: nanos_per_day_def)
    then show "-719162 \<le> days" "days < 2932897"
      using assms(1,2) t unfolding zero_time_def nanos_per_day_def by linarith+
  qed
  obtain era c q a doy mp where p:
    "days + 719468 = 146097 * era + (36524 * c + 1461 * q + 365 * a + doy)"
    "0 \<le> c" "c \<le> 3" "0 \<le> q" "q \<le> 24" "0 \<le> a" "a \<le> 3" "0 \<le> doy" "doy \<le> 365"
    "mp = (5 * doy + 2) div 153"
    "civil_from_days days =
      (400 * era + 100 * c + 4 * q + a + (if (if mp < 10 then mp + 3 else mp - 9) \<le> 2 then 1 else 0),
       if mp < 10 then mp + 3 else mp - 9,
       doy - (153 * mp + 2) div 5 + 1)"
    by (rule civil_parts[of days])
  note b = month_bounds[OF p(8,9), folded p(10)]
  have y: "y = 400 * era + 100 * c + 4 * q + a + (if 10 \<le> mp then 1 else 0)"
    using p(11) assms(3) b(1,2) unfolding days_def by auto
  have era: "0 \<le> era" "era \<le> 24" using p(1-9) days by linarith+
  show "0 \<le> y" using y era p(2-7) by simp
  have "153 * mp \<le> 5 * doy + 2" unfolding p(10) by simp
  then have late: "306 \<le> doy" if "10 \<le> mp" using that by linarith
  show "y \<le> 9999"
  proof (cases "10 \<le> mp")
    case True
    with y have "y = 400 * era + 100 * c + 4 * q + a + 1" by simp
    with late[OF True] show ?thesis using era p(1-9) days by linarith
  next
    case False
    with y have "y = 400 * era + 100 * c + 4 * q + a" by simp
    then show ?thesis using era p(1-9) by linarith
  qed
qed

end
