(* ===== verification/Validation.thy ===== *)
theory Validation
  imports GoErrors GoTime
begin

text \<open>
  internal/app/validation: the \<open>Validator\<close>, a list of checks run in order, whose failures are
  joined into one error. Every check is built by one function of the package.
\<close>

section \<open>Dynamic values\<close>

text \<open>
  The values the checks inspect by reflection (\<open>any\<close>), by the kind \<open>reflect.Value.Kind\<close> tells:
  a float keeps the two facts that are asked of it (greater than 0, equal to the zero value), a
  struct whether it is the zero value, a channel, function, map, pointer or slice whether it is
  nil. A nil interface has no kind and is \<^term>\<open>None\<close>.
\<close>

datatype go_value =
    VInt int
  | VUint nat
  | VFloat bool bool
  | VString string
  | VBool bool
  | VStruct bool
  | VRef bool

type_synonym go_any = "go_value option"

text \<open>\<open>reflect.ValueOf(value).IsZero()\<close>.\<close>

fun is_zero_value :: "go_value \<Rightarrow> bool" where
  "is_zero_value (VInt i) = (i = 0)"
| "is_zero_value (VUint n) = (n = 0)"
| "is_zero_value (VFloat pos zero) = zero"
| "is_zero_value (VString s) = (s = [])"
| "is_zero_value (VBool b) = (\<not> b)"
| "is_zero_value (VStruct zero) = zero"
| "is_zero_value (VRef isnil) = isnil"

section \<open>The validator\<close>

record validator =
  steps :: "(unit \<Rightarrow> go_err option) list"

definition new_validator :: validator where
  "new_validator = \<lparr>steps = []\<rparr>"

definition add_step :: "(unit \<Rightarrow> go_err option) \<Rightarrow> validator \<Rightarrow> validator" where
  "add_step f v = v\<lparr>steps := steps v @ [f]\<rparr>"

fun validate_steps :: "go_err option \<Rightarrow> (unit \<Rightarrow> go_err option) list \<Rightarrow> go_err option" where
  "validate_steps err [] = err"
| "validate_steps err (step # ss) =
     (case step () of
        None \<Rightarrow> validate_steps err ss
      | Some stepErr \<Rightarrow> validate_steps (errors_Join [err, Some stepErr]) ss)"

definition Validate :: "validator \<Rightarrow> go_err option" where
  "Validate v = validate_steps None (steps v)"

section \<open>The checks\<close>

definition NotBlank :: "string \<Rightarrow> string \<Rightarrow> validator \<Rightarrow> validator" where
  "NotBlank field value = add_step (\<lambda>_.
     if trim_space value = [] then Some (ErrValidationConstrain field ''must not be blank'')
     else None)"

definition NotZeroValue :: "string \<Rightarrow> go_value \<Rightarrow> validator \<Rightarrow> validator" where
  "NotZeroValue field value = add_step (\<lambda>_.
     if is_zero_value value then Some (ErrValidationConstrain field ''must not be zero value'')
     else None)"

fun positive_check :: "string \<Rightarrow> go_any \<Rightarrow> go_err option" where
  "positive_check field None =
     Some (ErrValidationConstrain field ''must be a number greater than 0'')"
| "positive_check field (Some (VInt i)) =
     (if i > 0 then None else Some (ErrValidationConstrain field ''must be greater than 0''))"
| "positive_check field (Some (VUint n)) =
     (if n > 0 then None else Some (ErrValidationConstrain field ''must be greater than 0''))"
| "positive_check field (Some (VFloat pos zero)) =
     (if pos then None else Some (ErrValidationConstrain field ''must be greater than 0''))"
| "positive_check field (Some _) =
     Some (ErrValidationConstrain field ''must be a number greater than 0'')"

definition PositiveValue :: "string \<Rightarrow> go_any \<Rightarrow> validator \<Rightarrow> validator" where
  "PositiveValue field value = add_step (\<lambda>_. positive_check field value)"

fun nil_check :: "string \<Rightarrow> go_any \<Rightarrow> go_err option" where
  "nil_check field None = Some (ErrValidationConstrain field ''must not be nil'')"
| "nil_check field (Some (VRef isnil)) =
     (if isnil then Some (ErrValidationConstrain field ''must not be nil'') else None)"
| "nil_check field (Some _) = None"

definition NotNil :: "string \<Rightarrow> go_any \<Rightarrow> validator \<Rightarrow> validator" where
  "NotNil field value = add_step (\<lambda>_. nil_check field value)"

definition ValidPrecedence :: "go_time \<Rightarrow> go_time \<Rightarrow> validator \<Rightarrow> validator" where
  "ValidPrecedence start end_time = add_step (\<lambda>_.
     if time_after start end_time \<or> time_equal start end_time
     then Some (ErrValidationConstrain ''start'' ''start date must be before end date'')
     else None)"

text \<open>\<open>bson.ObjectID\<close> is a 12-byte array; \<open>bson.NilObjectID\<close> is its zero value.\<close>

type_synonym object_id = "96 word"

definition NotNilObjectID :: "string \<Rightarrow> object_id \<Rightarrow> validator \<Rightarrow> validator" where
  "NotNilObjectID field i = add_step (\<lambda>_.
     if i = 0 then Some (ErrValidationConstrain field ''must not be nil'') else None)"

text \<open>
  A chain of checks \<open>validation.New().A(...).B(...)\<close>, in the order it is written, and the
  interface value a pointer makes: a typed pointer, nil or not.
\<close>

definition chain :: "(validator \<Rightarrow> validator) list \<Rightarrow> validator" where
  "chain checks = foldl (\<lambda>v c. c v) new_validator checks"

definition ptr :: "'a option \<Rightarrow> go_any" where
  "ptr p = Some (VRef (case p of None \<Rightarrow> True | Some _ \<Rightarrow> False))"

definition int32 :: "32 word \<Rightarrow> go_any" where
  "int32 w = Some (VInt (sint w))"

definition int64 :: "64 word \<Rightarrow> go_any" where
  "int64 w = Some (VInt (sint w))"

section \<open>What a validation reports\<close>

text \<open>The failures of a list of checks, in order.\<close>

definition failures :: "(unit \<Rightarrow> go_err option) list \<Rightarrow> go_err list" where
  "failures ss = concat (map (\<lambda>s. opt_list (s ())) ss)"

lemma failures_simps [simp]:
  "failures [] = []"
  "failures (s # ss) = opt_list (s ()) @ failures ss"
  "failures (ss @ ts) = failures ss @ failures ts"
  by (simp_all add: failures_def)

text \<open>The errors at the leaves of the nested joins, in order.\<close>

fun join_leaves :: "go_err \<Rightarrow> go_err list" where
  "join_leaves (JoinErr es) = concat (map join_leaves es)"
| "join_leaves e = [e]"

definition leaf_err :: "go_err \<Rightarrow> bool" where
  "leaf_err e \<longleftrightarrow> join_leaves e = [e]"

lemma validate_steps_Some:
  "\<exists>e. validate_steps (Some err) ss = Some e"
proof (induction ss arbitrary: err)
  case Nil
  then show ?case by simp
next
  case (Cons s ss)
  then show ?case by (cases "s ()") (simp_all add: errors_Join_def)
qed

lemma validate_steps_leaves:
  assumes "\<forall>s\<in>set ss. \<forall>e. s () = Some e \<longrightarrow> leaf_err e"
  shows "concat (map join_leaves (opt_list (validate_steps err ss))) =
    concat (map join_leaves (opt_list err)) @ failures ss"
  using assms
proof (induction ss arbitrary: err)
  case Nil
  then show ?case by simp
next
  case (Cons s ss)
  show ?case
  proof (cases "s ()")
    case None
    with Cons show ?thesis by simp
  next
    case (Some e)
    with Cons.prems have "join_leaves e = [e]" by (simp add: leaf_err_def)
    with Some Cons show ?thesis by (cases err) (simp_all add: errors_Join_def)
  qed
qed

text \<open>A validation passes exactly when every check passes.\<close>

lemma Validate_None_iff: "Validate v = None \<longleftrightarrow> failures (steps v) = []"
proof -
  have "validate_steps None ss = None \<longleftrightarrow> failures ss = []" for ss
  proof (induction ss)
    case Nil
    then show ?case by simp
  next
    case (Cons s ss)
    then show ?case
      using validate_steps_Some by (cases "s ()") (auto simp: errors_Join_def)
  qed
  then show ?thesis by (simp add: Validate_def)
qed

lemma steps_new [simp]: "steps new_validator = []"
  by (simp add: new_validator_def)

lemma steps_add [simp]: "steps (add_step f v) = steps v @ [f]"
  by (simp add: add_step_def)

lemma positive_check_None [validator_simps]:
  "positive_check field (Some (VInt i)) = None \<longleftrightarrow> i > 0"
  "positive_check field (Some (VUint n)) = None \<longleftrightarrow> n > 0"
  by auto

lemma nil_check_None [validator_simps]: "nil_check field (Some (VRef b)) = None \<longleftrightarrow> \<not> b"
  by auto

lemma checked_values [validator_simps]:
  "nil_check field (ptr p) = None \<longleftrightarrow> p \<noteq> None"
  "positive_check field (int32 w) = None \<longleftrightarrow> 0 < sint w"
  "positive_check field (int64 x) = None \<longleftrightarrow> 0 < sint x"
  by (auto simp: ptr_def int32_def int64_def split: option.splits)

text \<open>
  The checks as conditions: adding a check to a validator keeps it passing exactly when the
  checked condition holds.
\<close>

definition passes :: "validator \<Rightarrow> bool" where
  "passes v \<longleftrightarrow> Validate v = None"

lemma passes_new [validator_simps]: "passes new_validator"
  by (simp add: passes_def Validate_None_iff)

lemma passes_add: "passes (add_step f v) \<longleftrightarrow> passes v \<and> f () = None"
  by (auto simp: passes_def Validate_None_iff)

lemma passes_checks [validator_simps]:
  "passes (NotBlank field s v) \<longleftrightarrow> passes v \<and> \<not> is_blank s"
  "passes (NotZeroValue field x v) \<longleftrightarrow> passes v \<and> \<not> is_zero_value x"
  "passes (PositiveValue field y v) \<longleftrightarrow> passes v \<and> positive_check field y = None"
  "passes (NotNil field y v) \<longleftrightarrow> passes v \<and> nil_check field y = None"
  "passes (ValidPrecedence t u v) \<longleftrightarrow> passes v \<and> t < u"
  "passes (NotNilObjectID field i v) \<longleftrightarrow> passes v \<and> i \<noteq> 0"
  by (auto simp: passes_add NotBlank_def NotZeroValue_def PositiveValue_def NotNil_def
      ValidPrecedence_def NotNilObjectID_def is_blank_def time_after_def time_equal_def)

lemma Validate_passes [validator_simps]: "Validate v = None \<longleftrightarrow> passes v"
  by (simp add: passes_def)

lemma validated: "passes v \<Longrightarrow> Validate v = None"
  by (simp add: passes_def)

lemma chain_simps [validator_simps]: "chain checks = foldl (\<lambda>v c. c v) new_validator checks"
  by (simp add: chain_def)

section \<open>Every failure is a validation error\<close>

text \<open>
  Validators are only built by the checks, so every failure is an
  \<^const>\<open>ErrValidationConstrain\<close>: the joined error has that type for \<open>errors.As\<close>, and
  no other.
\<close>

definition only_constraints :: "validator \<Rightarrow> bool" where
  "only_constraints v \<longleftrightarrow>
     (\<forall>s\<in>set (steps v). \<forall>e. s () = Some e \<longrightarrow> (\<exists>f m. e = ErrValidationConstrain f m))"

lemma positive_check_constraint:
  "positive_check field y = Some e \<Longrightarrow> \<exists>f m. e = ErrValidationConstrain f m"
  by (induction field y rule: positive_check.induct) (auto split: if_splits)

lemma nil_check_constraint:
  "nil_check field y = Some e \<Longrightarrow> \<exists>f m. e = ErrValidationConstrain f m"
  by (induction field y rule: nil_check.induct) (auto split: if_splits)

lemma only_constraints_checks [validator_simps]:
  "only_constraints new_validator"
  "only_constraints (NotBlank field s v) \<longleftrightarrow> only_constraints v"
  "only_constraints (NotZeroValue field x v) \<longleftrightarrow> only_constraints v"
  "only_constraints (PositiveValue field y v) \<longleftrightarrow> only_constraints v"
  "only_constraints (NotNil field y v) \<longleftrightarrow> only_constraints v"
  "only_constraints (ValidPrecedence t u v) \<longleftrightarrow> only_constraints v"
  "only_constraints (NotNilObjectID field i v) \<longleftrightarrow> only_constraints v"
  by (auto simp: only_constraints_def NotBlank_def NotZeroValue_def PositiveValue_def NotNil_def
      ValidPrecedence_def NotNilObjectID_def
      dest: positive_check_constraint nil_check_constraint split: if_splits)

lemma validate_steps_is_a:
  assumes "\<forall>s\<in>set ss. \<forall>e. s () = Some e \<longrightarrow> (\<exists>f m. e = ErrValidationConstrain f m)"
    and "\<forall>e. err = Some e \<longrightarrow> (\<forall>T. is_a T e \<longleftrightarrow> T = TValidation)"
    and "validate_steps err ss = Some e"
  shows "is_a T e \<longleftrightarrow> T = TValidation"
  using assms
proof (induction ss arbitrary: err)
  case Nil
  then show ?case by simp
next
  case (Cons s ss)
  show ?case
  proof (cases "s ()")
    case None
    with Cons show ?thesis by simp
  next
    case (Some x)
    with Cons.prems(1) obtain f m where x: "x = ErrValidationConstrain f m" by auto
    let ?err = "errors_Join [err, Some x]"
    have "\<forall>e. ?err = Some e \<longrightarrow> (\<forall>T. is_a T e \<longleftrightarrow> T = TValidation)"
      using Cons.prems(2) by (cases err) (auto simp: errors_Join_def x error_simps)
    moreover have "validate_steps ?err ss = Some e" using Some Cons.prems(3) by simp
    ultimately show ?thesis using Cons.IH Cons.prems(1) by simp
  qed
qed

lemma Validate_is_a:
  assumes "Validate v = Some e" and "only_constraints v"
  shows "is_a T e \<longleftrightarrow> T = TValidation"
  by (rule validate_steps_is_a[of "steps v" None])
    (use assms in \<open>auto simp: Validate_def only_constraints_def\<close>)

text \<open>The two ways a validation ends.\<close>

lemma Validate_passed: "passes v \<Longrightarrow> Validate v = None"
  by (simp add: passes_def)

lemma Validate_failed:
  assumes "\<not> passes v" and "only_constraints v"
  shows "\<exists>e. Validate v = Some e \<and> (\<forall>T. is_a T e \<longleftrightarrow> T = TValidation)"
proof -
  from assms(1) obtain e where e: "Validate v = Some e"
    by (cases "Validate v") (simp_all add: passes_def)
  then show ?thesis using Validate_is_a[OF e assms(2)] by blast
qed

end
