(* ===== verification/Dto.thy ===== *)
theory Dto
  imports Prelude
begin

text \<open>
  internal/domain/dto: the protobuf messages, as protoc-gen-go generates them. A message type is
  a record of its fields (without the runtime's bookkeeping fields), a pointer to a message is an
  option, and a getter reads a field of the message or, on a nil pointer, gives the field's zero
  value. Integers keep their width; an enum is an open \<open>int32\<close>.
\<close>

text \<open>
  \<open>google.protobuf.Timestamp\<close>, of the protobuf runtime: only its fields. What relates it to
  \<open>time.Time\<close> is a parameter of the model.
\<close>

record pb_Timestamp =
  Timestamp_Seconds :: "64 word"
  Timestamp_Nanos :: "32 word"

section \<open>money\<close>

record pb_Money =
  Money_Amount :: "64 word"
  Money_Currency :: "string"

primrec Money_GetAmount :: "pb_Money option \<Rightarrow> 64 word" where
  "Money_GetAmount (Some x) = Money_Amount x"
| "Money_GetAmount None = 0"

primrec Money_GetCurrency :: "pb_Money option \<Rightarrow> string" where
  "Money_GetCurrency (Some x) = Money_Currency x"
| "Money_GetCurrency None = []"

section \<open>cardSummary\<close>

record pb_CardSummary =
  CardSummary_Brand :: "string"
  CardSummary_Last4 :: "string"

primrec CardSummary_GetBrand :: "pb_CardSummary option \<Rightarrow> string" where
  "CardSummary_GetBrand (Some x) = CardSummary_Brand x"
| "CardSummary_GetBrand None = []"

primrec CardSummary_GetLast4 :: "pb_CardSummary option \<Rightarrow> string" where
  "CardSummary_GetLast4 (Some x) = CardSummary_Last4 x"
| "CardSummary_GetLast4 None = []"

section \<open>paymentMethod\<close>

definition PaymentMethod_PAYMENT_METHOD_UNSPECIFIED :: "32 word" where
  "PaymentMethod_PAYMENT_METHOD_UNSPECIFIED = 0"

definition PaymentMethod_PAYMENT_METHOD_CREDIT_CARD :: "32 word" where
  "PaymentMethod_PAYMENT_METHOD_CREDIT_CARD = 1"

section \<open>createInvoice\<close>

record pb_Payer =
  Payer_Name :: "string"
  Payer_Email :: "string"
  Payer_DocumentNumber :: "string"
  Payer_BillingAddress :: "string"

primrec Payer_GetName :: "pb_Payer option \<Rightarrow> string" where
  "Payer_GetName (Some x) = Payer_Name x"
| "Payer_GetName None = []"

primrec Payer_GetEmail :: "pb_Payer option \<Rightarrow> string" where
  "Payer_GetEmail (Some x) = Payer_Email x"
| "Payer_GetEmail None = []"

primrec Payer_GetDocumentNumber :: "pb_Payer option \<Rightarrow> string" where
  "Payer_GetDocumentNumber (Some x) = Payer_DocumentNumber x"
| "Payer_GetDocumentNumber None = []"

primrec Payer_GetBillingAddress :: "pb_Payer option \<Rightarrow> string" where
  "Payer_GetBillingAddress (Some x) = Payer_BillingAddress x"
| "Payer_GetBillingAddress None = []"

record pb_BookingSnapshot =
  BookingSnapshot_CottageName :: "string"
  BookingSnapshot_Nights :: "32 word"
  BookingSnapshot_NumberOfGuests :: "32 word"
  BookingSnapshot_ValuePerNight :: "pb_Money option"

primrec BookingSnapshot_GetCottageName :: "pb_BookingSnapshot option \<Rightarrow> string" where
  "BookingSnapshot_GetCottageName (Some x) = BookingSnapshot_CottageName x"
| "BookingSnapshot_GetCottageName None = []"

primrec BookingSnapshot_GetNights :: "pb_BookingSnapshot option \<Rightarrow> 32 word" where
  "BookingSnapshot_GetNights (Some x) = BookingSnapshot_Nights x"
| "BookingSnapshot_GetNights None = 0"

primrec BookingSnapshot_GetNumberOfGuests :: "pb_BookingSnapshot option \<Rightarrow> 32 word" where
  "BookingSnapshot_GetNumberOfGuests (Some x) = BookingSnapshot_NumberOfGuests x"
| "BookingSnapshot_GetNumberOfGuests None = 0"

primrec BookingSnapshot_GetValuePerNight :: "pb_BookingSnapshot option \<Rightarrow> pb_Money option" where
  "BookingSnapshot_GetValuePerNight (Some x) = BookingSnapshot_ValuePerNight x"
| "BookingSnapshot_GetValuePerNight None = None"

record pb_CreateInvoicePaymentRequest =
  CreateInvoicePaymentRequest_IdempotencyKey :: "string"
  CreateInvoicePaymentRequest_BookingId :: "string"
  CreateInvoicePaymentRequest_PayerId :: "string"
  CreateInvoicePaymentRequest_IssuedAt :: "pb_Timestamp option"
  CreateInvoicePaymentRequest_DueAt :: "pb_Timestamp option"
  CreateInvoicePaymentRequest_Payer :: "pb_Payer option"
  CreateInvoicePaymentRequest_Booking :: "pb_BookingSnapshot option"
  CreateInvoicePaymentRequest_Total :: "pb_Money option"
  CreateInvoicePaymentRequest_TaxTotal :: "pb_Money option"
  CreateInvoicePaymentRequest_DiscountTotal :: "pb_Money option"

primrec CreateInvoicePaymentRequest_GetIdempotencyKey :: "pb_CreateInvoicePaymentRequest option \<Rightarrow> string" where
  "CreateInvoicePaymentRequest_GetIdempotencyKey (Some x) = CreateInvoicePaymentRequest_IdempotencyKey x"
| "CreateInvoicePaymentRequest_GetIdempotencyKey None = []"

primrec CreateInvoicePaymentRequest_GetBookingId :: "pb_CreateInvoicePaymentRequest option \<Rightarrow> string" where
  "CreateInvoicePaymentRequest_GetBookingId (Some x) = CreateInvoicePaymentRequest_BookingId x"
| "CreateInvoicePaymentRequest_GetBookingId None = []"

primrec CreateInvoicePaymentRequest_GetPayerId :: "pb_CreateInvoicePaymentRequest option \<Rightarrow> string" where
  "CreateInvoicePaymentRequest_GetPayerId (Some x) = CreateInvoicePaymentRequest_PayerId x"
| "CreateInvoicePaymentRequest_GetPayerId None = []"

primrec CreateInvoicePaymentRequest_GetIssuedAt :: "pb_CreateInvoicePaymentRequest option \<Rightarrow> pb_Timestamp option" where
  "CreateInvoicePaymentRequest_GetIssuedAt (Some x) = CreateInvoicePaymentRequest_IssuedAt x"
| "CreateInvoicePaymentRequest_GetIssuedAt None = None"

primrec CreateInvoicePaymentRequest_GetDueAt :: "pb_CreateInvoicePaymentRequest option \<Rightarrow> pb_Timestamp option" where
  "CreateInvoicePaymentRequest_GetDueAt (Some x) = CreateInvoicePaymentRequest_DueAt x"
| "CreateInvoicePaymentRequest_GetDueAt None = None"

primrec CreateInvoicePaymentRequest_GetPayer :: "pb_CreateInvoicePaymentRequest option \<Rightarrow> pb_Payer option" where
  "CreateInvoicePaymentRequest_GetPayer (Some x) = CreateInvoicePaymentRequest_Payer x"
| "CreateInvoicePaymentRequest_GetPayer None = None"

primrec CreateInvoicePaymentRequest_GetBooking :: "pb_CreateInvoicePaymentRequest option \<Rightarrow> pb_BookingSnapshot option" where
  "CreateInvoicePaymentRequest_GetBooking (Some x) = CreateInvoicePaymentRequest_Booking x"
| "CreateInvoicePaymentRequest_GetBooking None = None"

primrec CreateInvoicePaymentRequest_GetTotal :: "pb_CreateInvoicePaymentRequest option \<Rightarrow> pb_Money option" where
  "CreateInvoicePaymentRequest_GetTotal (Some x) = CreateInvoicePaymentRequest_Total x"
| "CreateInvoicePaymentRequest_GetTotal None = None"

primrec CreateInvoicePaymentRequest_GetTaxTotal :: "pb_CreateInvoicePaymentRequest option \<Rightarrow> pb_Money option" where
  "CreateInvoicePaymentRequest_GetTaxTotal (Some x) = CreateInvoicePaymentRequest_TaxTotal x"
| "CreateInvoicePaymentRequest_GetTaxTotal None = None"

primrec CreateInvoicePaymentRequest_GetDiscountTotal :: "pb_CreateInvoicePaymentRequest option \<Rightarrow> pb_Money option" where
  "CreateInvoicePaymentRequest_GetDiscountTotal (Some x) = CreateInvoicePaymentRequest_DiscountTotal x"
| "CreateInvoicePaymentRequest_GetDiscountTotal None = None"

section \<open>paymentRequest\<close>

record pb_PaymentOption =
  PaymentOption_Method :: "32 word"
  PaymentOption_PaymentUrl :: "string"
  PaymentOption_Instructions :: "string"

primrec PaymentOption_GetMethod :: "pb_PaymentOption option \<Rightarrow> 32 word" where
  "PaymentOption_GetMethod (Some x) = PaymentOption_Method x"
| "PaymentOption_GetMethod None = PaymentMethod_PAYMENT_METHOD_UNSPECIFIED"

primrec PaymentOption_GetPaymentUrl :: "pb_PaymentOption option \<Rightarrow> string" where
  "PaymentOption_GetPaymentUrl (Some x) = PaymentOption_PaymentUrl x"
| "PaymentOption_GetPaymentUrl None = []"

primrec PaymentOption_GetInstructions :: "pb_PaymentOption option \<Rightarrow> string" where
  "PaymentOption_GetInstructions (Some x) = PaymentOption_Instructions x"
| "PaymentOption_GetInstructions None = []"

record pb_BookingSummary =
  BookingSummary_CottageName :: "string"
  BookingSummary_Nights :: "32 word"
  BookingSummary_NumberOfGuests :: "32 word"

primrec BookingSummary_GetCottageName :: "pb_BookingSummary option \<Rightarrow> string" where
  "BookingSummary_GetCottageName (Some x) = BookingSummary_CottageName x"
| "BookingSummary_GetCottageName None = []"

primrec BookingSummary_GetNights :: "pb_BookingSummary option \<Rightarrow> 32 word" where
  "BookingSummary_GetNights (Some x) = BookingSummary_Nights x"
| "BookingSummary_GetNights None = 0"

primrec BookingSummary_GetNumberOfGuests :: "pb_BookingSummary option \<Rightarrow> 32 word" where
  "BookingSummary_GetNumberOfGuests (Some x) = BookingSummary_NumberOfGuests x"
| "BookingSummary_GetNumberOfGuests None = 0"

record pb_PayerSummary =
  PayerSummary_Name :: "string"
  PayerSummary_Email :: "string"

primrec PayerSummary_GetName :: "pb_PayerSummary option \<Rightarrow> string" where
  "PayerSummary_GetName (Some x) = PayerSummary_Name x"
| "PayerSummary_GetName None = []"

primrec PayerSummary_GetEmail :: "pb_PayerSummary option \<Rightarrow> string" where
  "PayerSummary_GetEmail (Some x) = PayerSummary_Email x"
| "PayerSummary_GetEmail None = []"

record pb_PaymentRequest =
  PaymentRequest_InvoiceNumber :: "string"
  PaymentRequest_Description :: "string"
  PaymentRequest_Total :: "pb_Money option"
  PaymentRequest_IssuedAt :: "pb_Timestamp option"
  PaymentRequest_ExpiresAt :: "pb_Timestamp option"
  PaymentRequest_Booking :: "pb_BookingSummary option"
  PaymentRequest_Payer :: "pb_PayerSummary option"
  PaymentRequest_Options :: "pb_PaymentOption option list"

primrec PaymentRequest_GetInvoiceNumber :: "pb_PaymentRequest option \<Rightarrow> string" where
  "PaymentRequest_GetInvoiceNumber (Some x) = PaymentRequest_InvoiceNumber x"
| "PaymentRequest_GetInvoiceNumber None = []"

primrec PaymentRequest_GetDescription :: "pb_PaymentRequest option \<Rightarrow> string" where
  "PaymentRequest_GetDescription (Some x) = PaymentRequest_Description x"
| "PaymentRequest_GetDescription None = []"

primrec PaymentRequest_GetTotal :: "pb_PaymentRequest option \<Rightarrow> pb_Money option" where
  "PaymentRequest_GetTotal (Some x) = PaymentRequest_Total x"
| "PaymentRequest_GetTotal None = None"

primrec PaymentRequest_GetIssuedAt :: "pb_PaymentRequest option \<Rightarrow> pb_Timestamp option" where
  "PaymentRequest_GetIssuedAt (Some x) = PaymentRequest_IssuedAt x"
| "PaymentRequest_GetIssuedAt None = None"

primrec PaymentRequest_GetExpiresAt :: "pb_PaymentRequest option \<Rightarrow> pb_Timestamp option" where
  "PaymentRequest_GetExpiresAt (Some x) = PaymentRequest_ExpiresAt x"
| "PaymentRequest_GetExpiresAt None = None"

primrec PaymentRequest_GetBooking :: "pb_PaymentRequest option \<Rightarrow> pb_BookingSummary option" where
  "PaymentRequest_GetBooking (Some x) = PaymentRequest_Booking x"
| "PaymentRequest_GetBooking None = None"

primrec PaymentRequest_GetPayer :: "pb_PaymentRequest option \<Rightarrow> pb_PayerSummary option" where
  "PaymentRequest_GetPayer (Some x) = PaymentRequest_Payer x"
| "PaymentRequest_GetPayer None = None"

primrec PaymentRequest_GetOptions :: "pb_PaymentRequest option \<Rightarrow> pb_PaymentOption option list" where
  "PaymentRequest_GetOptions (Some x) = PaymentRequest_Options x"
| "PaymentRequest_GetOptions None = []"

section \<open>payWithCard\<close>

definition PaymentStatus_PAYMENT_STATUS_UNSPECIFIED :: "32 word" where
  "PaymentStatus_PAYMENT_STATUS_UNSPECIFIED = 0"

definition PaymentStatus_PAYMENT_STATUS_PENDING :: "32 word" where
  "PaymentStatus_PAYMENT_STATUS_PENDING = 1"

definition PaymentStatus_PAYMENT_STATUS_SUCCEEDED :: "32 word" where
  "PaymentStatus_PAYMENT_STATUS_SUCCEEDED = 2"

definition PaymentStatus_PAYMENT_STATUS_FAILED :: "32 word" where
  "PaymentStatus_PAYMENT_STATUS_FAILED = 3"

definition PaymentStatus_PAYMENT_STATUS_EXPIRED :: "32 word" where
  "PaymentStatus_PAYMENT_STATUS_EXPIRED = 4"

definition PaymentStatus_PAYMENT_STATUS_CANCELLED :: "32 word" where
  "PaymentStatus_PAYMENT_STATUS_CANCELLED = 5"

record pb_Card =
  Card_Brand :: "string"
  Card_Number :: "string"
  Card_ExpMonth :: "32 word"
  Card_ExpYear :: "32 word"
  Card_Cvv :: "string"
  Card_HolderName :: "string"

primrec Card_GetBrand :: "pb_Card option \<Rightarrow> string" where
  "Card_GetBrand (Some x) = Card_Brand x"
| "Card_GetBrand None = []"

primrec Card_GetNumber :: "pb_Card option \<Rightarrow> string" where
  "Card_GetNumber (Some x) = Card_Number x"
| "Card_GetNumber None = []"

primrec Card_GetExpMonth :: "pb_Card option \<Rightarrow> 32 word" where
  "Card_GetExpMonth (Some x) = Card_ExpMonth x"
| "Card_GetExpMonth None = 0"

primrec Card_GetExpYear :: "pb_Card option \<Rightarrow> 32 word" where
  "Card_GetExpYear (Some x) = Card_ExpYear x"
| "Card_GetExpYear None = 0"

primrec Card_GetCvv :: "pb_Card option \<Rightarrow> string" where
  "Card_GetCvv (Some x) = Card_Cvv x"
| "Card_GetCvv None = []"

primrec Card_GetHolderName :: "pb_Card option \<Rightarrow> string" where
  "Card_GetHolderName (Some x) = Card_HolderName x"
| "Card_GetHolderName None = []"

record pb_PayWithCardRequest =
  PayWithCardRequest_Card :: "pb_Card option"
  PayWithCardRequest_InvoiceNumber :: "string"

primrec PayWithCardRequest_GetCard :: "pb_PayWithCardRequest option \<Rightarrow> pb_Card option" where
  "PayWithCardRequest_GetCard (Some x) = PayWithCardRequest_Card x"
| "PayWithCardRequest_GetCard None = None"

primrec PayWithCardRequest_GetInvoiceNumber :: "pb_PayWithCardRequest option \<Rightarrow> string" where
  "PayWithCardRequest_GetInvoiceNumber (Some x) = PayWithCardRequest_InvoiceNumber x"
| "PayWithCardRequest_GetInvoiceNumber None = []"

record pb_PayWithCardResponse =
  PayWithCardResponse_ReceiptNumber :: "string"
  PayWithCardResponse_InvoiceNumber :: "string"
  PayWithCardResponse_Status :: "32 word"
  PayWithCardResponse_Card :: "pb_CardSummary option"
  PayWithCardResponse_ProcessedAt :: "pb_Timestamp option"

primrec PayWithCardResponse_GetReceiptNumber :: "pb_PayWithCardResponse option \<Rightarrow> string" where
  "PayWithCardResponse_GetReceiptNumber (Some x) = PayWithCardResponse_ReceiptNumber x"
| "PayWithCardResponse_GetReceiptNumber None = []"

primrec PayWithCardResponse_GetInvoiceNumber :: "pb_PayWithCardResponse option \<Rightarrow> string" where
  "PayWithCardResponse_GetInvoiceNumber (Some x) = PayWithCardResponse_InvoiceNumber x"
| "PayWithCardResponse_GetInvoiceNumber None = []"

primrec PayWithCardResponse_GetStatus :: "pb_PayWithCardResponse option \<Rightarrow> 32 word" where
  "PayWithCardResponse_GetStatus (Some x) = PayWithCardResponse_Status x"
| "PayWithCardResponse_GetStatus None = PaymentStatus_PAYMENT_STATUS_UNSPECIFIED"

primrec PayWithCardResponse_GetCard :: "pb_PayWithCardResponse option \<Rightarrow> pb_CardSummary option" where
  "PayWithCardResponse_GetCard (Some x) = PayWithCardResponse_Card x"
| "PayWithCardResponse_GetCard None = None"

primrec PayWithCardResponse_GetProcessedAt :: "pb_PayWithCardResponse option \<Rightarrow> pb_Timestamp option" where
  "PayWithCardResponse_GetProcessedAt (Some x) = PayWithCardResponse_ProcessedAt x"
| "PayWithCardResponse_GetProcessedAt None = None"

section \<open>paymentConfirmation\<close>

record pb_PaymentConfirmation =
  PaymentConfirmation_Id :: "string"
  PaymentConfirmation_BookingId :: "string"
  PaymentConfirmation_PayerId :: "string"
  PaymentConfirmation_InvoiceNumber :: "string"
  PaymentConfirmation_ReceiptNumber :: "string"
  PaymentConfirmation_ConfirmedAt :: "pb_Timestamp option"

primrec PaymentConfirmation_GetId :: "pb_PaymentConfirmation option \<Rightarrow> string" where
  "PaymentConfirmation_GetId (Some x) = PaymentConfirmation_Id x"
| "PaymentConfirmation_GetId None = []"

primrec PaymentConfirmation_GetBookingId :: "pb_PaymentConfirmation option \<Rightarrow> string" where
  "PaymentConfirmation_GetBookingId (Some x) = PaymentConfirmation_BookingId x"
| "PaymentConfirmation_GetBookingId None = []"

primrec PaymentConfirmation_GetPayerId :: "pb_PaymentConfirmation option \<Rightarrow> string" where
  "PaymentConfirmation_GetPayerId (Some x) = PaymentConfirmation_PayerId x"
| "PaymentConfirmation_GetPayerId None = []"

primrec PaymentConfirmation_GetInvoiceNumber :: "pb_PaymentConfirmation option \<Rightarrow> string" where
  "PaymentConfirmation_GetInvoiceNumber (Some x) = PaymentConfirmation_InvoiceNumber x"
| "PaymentConfirmation_GetInvoiceNumber None = []"

primrec PaymentConfirmation_GetReceiptNumber :: "pb_PaymentConfirmation option \<Rightarrow> string" where
  "PaymentConfirmation_GetReceiptNumber (Some x) = PaymentConfirmation_ReceiptNumber x"
| "PaymentConfirmation_GetReceiptNumber None = []"

primrec PaymentConfirmation_GetConfirmedAt :: "pb_PaymentConfirmation option \<Rightarrow> pb_Timestamp option" where
  "PaymentConfirmation_GetConfirmedAt (Some x) = PaymentConfirmation_ConfirmedAt x"
| "PaymentConfirmation_GetConfirmedAt None = None"

section \<open>reissuePaymentRequest\<close>

record pb_ReissuePaymentRequest =
  ReissuePaymentRequest_BookingNumber :: "string"
  ReissuePaymentRequest_DocumentNumber :: "string"

primrec ReissuePaymentRequest_GetBookingNumber :: "pb_ReissuePaymentRequest option \<Rightarrow> string" where
  "ReissuePaymentRequest_GetBookingNumber (Some x) = ReissuePaymentRequest_BookingNumber x"
| "ReissuePaymentRequest_GetBookingNumber None = []"

primrec ReissuePaymentRequest_GetDocumentNumber :: "pb_ReissuePaymentRequest option \<Rightarrow> string" where
  "ReissuePaymentRequest_GetDocumentNumber (Some x) = ReissuePaymentRequest_DocumentNumber x"
| "ReissuePaymentRequest_GetDocumentNumber None = []"

section \<open>time_event\<close>

record pb_TimeEvent =
  TimeEvent_Time :: "pb_Timestamp option"

primrec TimeEvent_GetTime :: "pb_TimeEvent option \<Rightarrow> pb_Timestamp option" where
  "TimeEvent_GetTime (Some x) = TimeEvent_Time x"
| "TimeEvent_GetTime None = None"

end
