(* ===== verification/Document.thy ===== *)
theory Document
  imports Validation Dto
begin

text \<open>
  internal/domain/document: the documents stored in MongoDB (invoice.go, receipt.go), and their
  construction from the messages, with the validation that guards it.
\<close>

section \<open>Timestamps\<close>

text \<open>
  The protobuf runtime's conversions between \<open>timestamppb.Timestamp\<close> and \<open>time.Time\<close> are a
  parameter: \<open>(*Timestamp).AsTime\<close> (defined on nil too) and \<open>timestamppb.New\<close>. What is relied
  on is that \<open>AsTime\<close> undoes \<open>New\<close> on a time whose seconds fit in 64 bits.
\<close>

record timestamp_lib =
  AsTime :: "pb_Timestamp option \<Rightarrow> go_time"
  TimestampNew :: "go_time \<Rightarrow> pb_Timestamp"

definition timestamp_range :: "go_time \<Rightarrow> bool" where
  "timestamp_range t \<longleftrightarrow> - (2 ^ 63) \<le> t div 1000000000 \<and> t div 1000000000 < 2 ^ 63"

definition timestamps_ok :: "timestamp_lib \<Rightarrow> bool" where
  "timestamps_ok tsl \<longleftrightarrow>
     (\<forall>t. timestamp_range t \<longrightarrow> AsTime tsl (Some (TimestampNew tsl t)) = t)"

section \<open>Invoices\<close>

definition InvoiceStatusPending :: string where
  "InvoiceStatusPending = ''pending''"

definition InvoiceStatusPaid :: string where
  "InvoiceStatusPaid = ''paid''"

record doc_Money =
  doc_Amount :: "64 word"
  doc_Currency :: string

record doc_Payer =
  doc_Name :: string
  doc_Email :: string
  doc_DocumentNumber :: string
  doc_BillingAddress :: string

record doc_BookingSnapshot =
  doc_CottageName :: string
  doc_Nights :: "32 word"
  doc_NumberOfGuests :: "32 word"
  doc_ValuePerNight :: doc_Money

record doc_Invoice =
  Invoice_Id :: object_id
  Invoice_InvoiceNumber :: string
  Invoice_Status :: string
  Invoice_IssuedAt :: go_time
  Invoice_DueAt :: go_time
  Invoice_IdempotencyId :: string
  Invoice_BookingId :: string
  Invoice_PayerId :: string
  Invoice_Payer :: doc_Payer
  Invoice_Booking :: doc_BookingSnapshot
  Invoice_Total :: doc_Money
  Invoice_TaxTotal :: doc_Money
  Invoice_DiscountTotal :: doc_Money
  Invoice_CreatedAt :: go_time
  Invoice_UpdatedAt :: go_time

definition IsValidInvoiceStatus :: "string \<Rightarrow> bool" where
  "IsValidInvoiceStatus status \<longleftrightarrow>
     (if status = InvoiceStatusPending \<or> status = InvoiceStatusPaid then True else False)"

text \<open>The conversion of an already checked message, and of its money fields.\<close>

definition doc_money_of :: "pb_Money option \<Rightarrow> doc_Money" where
  "doc_money_of m = \<lparr>doc_Amount = Money_GetAmount m, doc_Currency = Money_GetCurrency m\<rparr>"

text \<open>The checks of a request that is not nil.\<close>

definition invoice_request_checks ::
  "timestamp_lib \<Rightarrow> pb_CreateInvoicePaymentRequest option \<Rightarrow> validator" where
  "invoice_request_checks tsl invoiceProto =
    (let payer = CreateInvoicePaymentRequest_GetPayer invoiceProto;
         booking = CreateInvoicePaymentRequest_GetBooking invoiceProto;
         total = CreateInvoicePaymentRequest_GetTotal invoiceProto;
         taxTotal = CreateInvoicePaymentRequest_GetTaxTotal invoiceProto;
         discountTotal = CreateInvoicePaymentRequest_GetDiscountTotal invoiceProto;
         issuedAt = CreateInvoicePaymentRequest_GetIssuedAt invoiceProto;
         dueAt = CreateInvoicePaymentRequest_GetDueAt invoiceProto;
         valuePerNight = BookingSnapshot_GetValuePerNight booking
     in chain
      [NotBlank ''invoiceProto.idempotency_key''
         (CreateInvoicePaymentRequest_GetIdempotencyKey invoiceProto),
       NotBlank ''invoiceProto.booking_id''
         (CreateInvoicePaymentRequest_GetBookingId invoiceProto),
       NotBlank ''invoiceProto.payer_id''
         (CreateInvoicePaymentRequest_GetPayerId invoiceProto),
       NotNil ''invoiceProto.issuedAt'' (ptr issuedAt),
       NotNil ''invoiceProto.dueAt'' (ptr dueAt),
       NotNil ''invoiceProto.payer'' (ptr payer),
       NotNil ''invoiceProto.booking'' (ptr booking),
       NotNil ''invoiceProto.total'' (ptr total),
       NotNil ''invoiceProto.tax_total'' (ptr taxTotal),
       NotNil ''invoiceProto.discount_total'' (ptr discountTotal),
       NotNil ''invoiceProto.booking.value_per_night'' (ptr valuePerNight),
       NotBlank ''invoiceProto.payer.name'' (Payer_GetName payer),
       NotBlank ''invoiceProto.payer.email'' (Payer_GetEmail payer),
       NotBlank ''invoiceProto.payer.document_number'' (Payer_GetDocumentNumber payer),
       NotBlank ''invoiceProto.payer.billing_address'' (Payer_GetBillingAddress payer),
       NotBlank ''invoiceProto.booking.cottage_name'' (BookingSnapshot_GetCottageName booking),
       PositiveValue ''invoiceProto.booking.nights''
         (int32 (BookingSnapshot_GetNights booking)),
       PositiveValue ''invoiceProto.booking.number_of_guests''
         (int32 (BookingSnapshot_GetNumberOfGuests booking)),
       PositiveValue ''invoiceProto.booking.value_per_night.amount''
         (int64 (Money_GetAmount valuePerNight)),
       NotBlank ''invoiceProto.booking.value_per_night.currency''
         (Money_GetCurrency valuePerNight),
       PositiveValue ''invoiceProto.total.amount'' (int64 (Money_GetAmount total)),
       NotBlank ''invoiceProto.total.currency'' (Money_GetCurrency total),
       NotBlank ''invoiceProto.tax_total.currency'' (Money_GetCurrency taxTotal),
       NotBlank ''invoiceProto.discount_total.currency'' (Money_GetCurrency discountTotal),
       ValidPrecedence (AsTime tsl issuedAt) (AsTime tsl dueAt)])"

definition NewInvoiceFromProtoMessage ::
  "timestamp_lib \<Rightarrow> pb_CreateInvoicePaymentRequest option \<Rightarrow> string \<Rightarrow> go_time \<Rightarrow>
     go_err + doc_Invoice" where
  "NewInvoiceFromProtoMessage tsl invoiceProto invoiceNumber now =
    (case Validate (chain [NotNil ''invoiceProto'' (ptr invoiceProto)]) of
       Some err \<Rightarrow> Inl err
     | None \<Rightarrow>
      (let payer = CreateInvoicePaymentRequest_GetPayer invoiceProto;
           booking = CreateInvoicePaymentRequest_GetBooking invoiceProto;
           total = CreateInvoicePaymentRequest_GetTotal invoiceProto;
           taxTotal = CreateInvoicePaymentRequest_GetTaxTotal invoiceProto;
           discountTotal = CreateInvoicePaymentRequest_GetDiscountTotal invoiceProto;
           issuedAt = CreateInvoicePaymentRequest_GetIssuedAt invoiceProto;
           dueAt = CreateInvoicePaymentRequest_GetDueAt invoiceProto;
           valuePerNight = BookingSnapshot_GetValuePerNight booking
       in case Validate (invoice_request_checks tsl invoiceProto) of
            Some err \<Rightarrow> Inl err
          | None \<Rightarrow> Inr \<lparr>
              Invoice_Id = 0,
              Invoice_InvoiceNumber = invoiceNumber,
              Invoice_Status = InvoiceStatusPending,
              Invoice_IssuedAt = AsTime tsl issuedAt,
              Invoice_DueAt = AsTime tsl dueAt,
              Invoice_IdempotencyId = CreateInvoicePaymentRequest_GetIdempotencyKey invoiceProto,
              Invoice_BookingId = CreateInvoicePaymentRequest_GetBookingId invoiceProto,
              Invoice_PayerId = CreateInvoicePaymentRequest_GetPayerId invoiceProto,
              Invoice_Payer = \<lparr>
                doc_Name = Payer_GetName payer,
                doc_Email = Payer_GetEmail payer,
                doc_DocumentNumber = Payer_GetDocumentNumber payer,
                doc_BillingAddress = Payer_GetBillingAddress payer\<rparr>,
              Invoice_Booking = \<lparr>
                doc_CottageName = BookingSnapshot_GetCottageName booking,
                doc_Nights = BookingSnapshot_GetNights booking,
                doc_NumberOfGuests = BookingSnapshot_GetNumberOfGuests booking,
                doc_ValuePerNight = doc_money_of valuePerNight\<rparr>,
              Invoice_Total = doc_money_of total,
              Invoice_TaxTotal = doc_money_of taxTotal,
              Invoice_DiscountTotal = doc_money_of discountTotal,
              Invoice_CreatedAt = now,
              Invoice_UpdatedAt = now\<rparr>))"

section \<open>Receipts\<close>

record doc_CardSummary =
  doc_Brand :: string
  doc_Last4 :: string

record doc_Receipt =
  Receipt_Id :: object_id
  Receipt_ReceiptNumber :: string
  Receipt_InvoiceNumber :: string
  Receipt_Card :: doc_CardSummary
  Receipt_ProcessedAt :: go_time

definition receipt_checks :: "pb_PayWithCardResponse option \<Rightarrow> validator" where
  "receipt_checks dto = chain
       [NotBlank ''receiptNumber'' (PayWithCardResponse_GetReceiptNumber dto),
        NotBlank ''invoiceNumber'' (PayWithCardResponse_GetInvoiceNumber dto),
        NotNil ''cardSummary'' (ptr (PayWithCardResponse_GetCard dto)),
        NotBlank ''cardSummary.brand'' (CardSummary_GetBrand (PayWithCardResponse_GetCard dto)),
        NotBlank ''cardSummary.last4'' (CardSummary_GetLast4 (PayWithCardResponse_GetCard dto)),
        NotNil ''processedAt'' (ptr (PayWithCardResponse_GetProcessedAt dto))]"

text \<open>
  \<open>bson.NewObjectID()\<close> is the argument \<open>newId\<close>. The message is a non-nil pointer or nil: the
  getters accept both, and the direct read of \<open>dto.ProcessedAt\<close> is reached only when the checks
  have passed, which a nil message fails.
\<close>

definition NewReceiptFromProtMessage ::
  "timestamp_lib \<Rightarrow> object_id \<Rightarrow> pb_PayWithCardResponse option \<Rightarrow> go_err + doc_Receipt" where
  "NewReceiptFromProtMessage tsl newId dto =
    (case Validate (receipt_checks dto) of
       Some err \<Rightarrow> Inl err
     | None \<Rightarrow> Inr \<lparr>
         Receipt_Id = newId,
         Receipt_ReceiptNumber = PayWithCardResponse_GetReceiptNumber dto,
         Receipt_InvoiceNumber = PayWithCardResponse_GetInvoiceNumber dto,
         Receipt_Card = \<lparr>
           doc_Brand = CardSummary_GetBrand (PayWithCardResponse_GetCard dto),
           doc_Last4 = CardSummary_GetLast4 (PayWithCardResponse_GetCard dto)\<rparr>,
         Receipt_ProcessedAt = AsTime tsl (PayWithCardResponse_GetProcessedAt dto)\<rparr>)"

section \<open>When a request becomes an invoice\<close>

text \<open>The conditions, said without the validator.\<close>

definition valid_money :: "pb_Money option \<Rightarrow> bool" where
  "valid_money m \<longleftrightarrow> m \<noteq> None \<and> \<not> is_blank (Money_GetCurrency m)"

definition valid_payer :: "pb_Payer option \<Rightarrow> bool" where
  "valid_payer p \<longleftrightarrow> p \<noteq> None \<and> \<not> is_blank (Payer_GetName p) \<and> \<not> is_blank (Payer_GetEmail p) \<and>
     \<not> is_blank (Payer_GetDocumentNumber p) \<and> \<not> is_blank (Payer_GetBillingAddress p)"

definition valid_booking :: "pb_BookingSnapshot option \<Rightarrow> bool" where
  "valid_booking b \<longleftrightarrow> b \<noteq> None \<and> \<not> is_blank (BookingSnapshot_GetCottageName b) \<and>
     0 < sint (BookingSnapshot_GetNights b) \<and> 0 < sint (BookingSnapshot_GetNumberOfGuests b) \<and>
     valid_money (BookingSnapshot_GetValuePerNight b) \<and>
     0 < sint (Money_GetAmount (BookingSnapshot_GetValuePerNight b))"

definition valid_create_request ::
  "timestamp_lib \<Rightarrow> pb_CreateInvoicePaymentRequest option \<Rightarrow> bool" where
  "valid_create_request tsl r \<longleftrightarrow> r \<noteq> None \<and>
     \<not> is_blank (CreateInvoicePaymentRequest_GetIdempotencyKey r) \<and>
     \<not> is_blank (CreateInvoicePaymentRequest_GetBookingId r) \<and>
     \<not> is_blank (CreateInvoicePaymentRequest_GetPayerId r) \<and>
     CreateInvoicePaymentRequest_GetIssuedAt r \<noteq> None \<and>
     CreateInvoicePaymentRequest_GetDueAt r \<noteq> None \<and>
     AsTime tsl (CreateInvoicePaymentRequest_GetIssuedAt r) <
       AsTime tsl (CreateInvoicePaymentRequest_GetDueAt r) \<and>
     valid_payer (CreateInvoicePaymentRequest_GetPayer r) \<and>
     valid_booking (CreateInvoicePaymentRequest_GetBooking r) \<and>
     valid_money (CreateInvoicePaymentRequest_GetTotal r) \<and>
     0 < sint (Money_GetAmount (CreateInvoicePaymentRequest_GetTotal r)) \<and>
     valid_money (CreateInvoicePaymentRequest_GetTaxTotal r) \<and>
     valid_money (CreateInvoicePaymentRequest_GetDiscountTotal r)"

text \<open>What every stored invoice should satisfy.\<close>

definition wf_invoice :: "doc_Invoice \<Rightarrow> bool" where
  "wf_invoice invc \<longleftrightarrow>
     \<not> is_blank (Invoice_InvoiceNumber invc) \<and>
     IsValidInvoiceStatus (Invoice_Status invc) \<and>
     \<not> is_blank (Invoice_IdempotencyId invc) \<and>
     \<not> is_blank (Invoice_BookingId invc) \<and>
     \<not> is_blank (Invoice_PayerId invc) \<and>
     \<not> is_blank (doc_DocumentNumber (Invoice_Payer invc)) \<and>
     0 < sint (doc_Amount (Invoice_Total invc)) \<and>
     \<not> is_blank (doc_Currency (Invoice_Total invc))"

lemma invoice_request_checks_pass [validator_simps]:
  "r \<noteq> None \<Longrightarrow> passes (invoice_request_checks tsl r) \<longleftrightarrow> valid_create_request tsl r"
  unfolding invoice_request_checks_def Let_def
  by (auto simp: validator_simps valid_create_request_def valid_money_def valid_payer_def
      valid_booking_def)

lemma invoice_request_checks_constraints [validator_simps]:
  "only_constraints (invoice_request_checks tsl r)"
  by (simp add: invoice_request_checks_def Let_def validator_simps)

lemma receipt_checks_constraints [validator_simps]: "only_constraints (receipt_checks r)"
  by (simp add: receipt_checks_def validator_simps)

text \<open>The invoice a valid request makes.\<close>

definition invoice_of ::
  "timestamp_lib \<Rightarrow> pb_CreateInvoicePaymentRequest option \<Rightarrow> string \<Rightarrow> go_time \<Rightarrow> doc_Invoice" where
  "invoice_of tsl r n now = \<lparr>
     Invoice_Id = 0,
     Invoice_InvoiceNumber = n,
     Invoice_Status = ''pending'',
     Invoice_IssuedAt = AsTime tsl (CreateInvoicePaymentRequest_GetIssuedAt r),
     Invoice_DueAt = AsTime tsl (CreateInvoicePaymentRequest_GetDueAt r),
     Invoice_IdempotencyId = CreateInvoicePaymentRequest_GetIdempotencyKey r,
     Invoice_BookingId = CreateInvoicePaymentRequest_GetBookingId r,
     Invoice_PayerId = CreateInvoicePaymentRequest_GetPayerId r,
     Invoice_Payer = (let p = CreateInvoicePaymentRequest_GetPayer r in
       \<lparr>doc_Name = Payer_GetName p, doc_Email = Payer_GetEmail p,
        doc_DocumentNumber = Payer_GetDocumentNumber p,
        doc_BillingAddress = Payer_GetBillingAddress p\<rparr>),
     Invoice_Booking = (let b = CreateInvoicePaymentRequest_GetBooking r in
       \<lparr>doc_CottageName = BookingSnapshot_GetCottageName b,
        doc_Nights = BookingSnapshot_GetNights b,
        doc_NumberOfGuests = BookingSnapshot_GetNumberOfGuests b,
        doc_ValuePerNight = doc_money_of (BookingSnapshot_GetValuePerNight b)\<rparr>),
     Invoice_Total = doc_money_of (CreateInvoicePaymentRequest_GetTotal r),
     Invoice_TaxTotal = doc_money_of (CreateInvoicePaymentRequest_GetTaxTotal r),
     Invoice_DiscountTotal = doc_money_of (CreateInvoicePaymentRequest_GetDiscountTotal r),
     Invoice_CreatedAt = now,
     Invoice_UpdatedAt = now\<rparr>"

text \<open>
  Full characterisation: a valid request becomes its invoice; any other is refused with an error
  that \<open>errors.As\<close> recognises as a validation error and as nothing else.
\<close>

lemma NewInvoice_valid:
  assumes "valid_create_request tsl r"
  shows "NewInvoiceFromProtoMessage tsl r n now = Inr (invoice_of tsl r n now)"
proof -
  have r: "r \<noteq> None" using assms by (simp add: valid_create_request_def)
  have "Validate (chain [NotNil ''invoiceProto'' (ptr r)]) = None"
    using r by (intro Validate_passed) (simp add: validator_simps)
  moreover have "Validate (invoice_request_checks tsl r) = None"
    using r assms by (intro Validate_passed) (simp add: invoice_request_checks_pass)
  ultimately show ?thesis
    by (simp add: NewInvoiceFromProtoMessage_def Let_def invoice_of_def InvoiceStatusPending_def)
qed

lemma NewInvoice_invalid:
  assumes "\<not> valid_create_request tsl r"
  shows "\<exists>e. NewInvoiceFromProtoMessage tsl r n now = Inl e \<and> (\<forall>T. is_a T e \<longleftrightarrow> T = TValidation)"
proof (cases "r = None")
  case True
  then have fails: "\<not> passes (chain [NotNil ''invoiceProto'' (ptr r)])"
    by (simp add: validator_simps)
  have "only_constraints (chain [NotNil ''invoiceProto'' (ptr r)])" by (simp add: validator_simps)
  with fails obtain e where "Validate (chain [NotNil ''invoiceProto'' (ptr r)]) = Some e"
    "\<forall>T. is_a T e \<longleftrightarrow> T = TValidation"
    using Validate_failed by blast
  then show ?thesis by (simp add: NewInvoiceFromProtoMessage_def)
next
  case False
  then have "\<not> passes (invoice_request_checks tsl r)"
    using assms by (simp add: invoice_request_checks_pass)
  then obtain e where "Validate (invoice_request_checks tsl r) = Some e"
    "\<forall>T. is_a T e \<longleftrightarrow> T = TValidation"
    using Validate_failed invoice_request_checks_constraints by blast
  moreover have "Validate (chain [NotNil ''invoiceProto'' (ptr r)]) = None"
    using False by (intro Validate_passed) (simp add: validator_simps)
  ultimately show ?thesis by (simp add: NewInvoiceFromProtoMessage_def Let_def)
qed

lemma NewInvoice_Inr_iff:
  "NewInvoiceFromProtoMessage tsl r n now = Inr invc \<longleftrightarrow>
     valid_create_request tsl r \<and> invc = invoice_of tsl r n now"
proof (cases "valid_create_request tsl r")
  case True
  then show ?thesis by (auto simp: NewInvoice_valid)
next
  case False
  obtain e where "NewInvoiceFromProtoMessage tsl r n now = Inl e"
    using NewInvoice_invalid[OF False, of n now] by blast
  with False show ?thesis by simp
qed

lemma wf_invoice_of:
  "valid_create_request tsl r \<Longrightarrow> \<not> is_blank n \<Longrightarrow> wf_invoice (invoice_of tsl r n now)"
  by (auto simp: valid_create_request_def valid_payer_def valid_money_def wf_invoice_def
      invoice_of_def doc_money_of_def Let_def IsValidInvoiceStatus_def InvoiceStatusPending_def)

section \<open>When a response becomes a receipt\<close>

definition valid_receipt_response :: "pb_PayWithCardResponse option \<Rightarrow> bool" where
  "valid_receipt_response r \<longleftrightarrow>
     \<not> is_blank (PayWithCardResponse_GetReceiptNumber r) \<and>
     \<not> is_blank (PayWithCardResponse_GetInvoiceNumber r) \<and>
     PayWithCardResponse_GetCard r \<noteq> None \<and>
     \<not> is_blank (CardSummary_GetBrand (PayWithCardResponse_GetCard r)) \<and>
     \<not> is_blank (CardSummary_GetLast4 (PayWithCardResponse_GetCard r)) \<and>
     PayWithCardResponse_GetProcessedAt r \<noteq> None"

lemma receipt_checks_pass [validator_simps]:
  "passes (receipt_checks r) \<longleftrightarrow> valid_receipt_response r"
  by (auto simp: receipt_checks_def validator_simps valid_receipt_response_def)

definition receipt_of ::
  "timestamp_lib \<Rightarrow> object_id \<Rightarrow> pb_PayWithCardResponse option \<Rightarrow> doc_Receipt" where
  "receipt_of tsl i r = \<lparr>
     Receipt_Id = i,
     Receipt_ReceiptNumber = PayWithCardResponse_GetReceiptNumber r,
     Receipt_InvoiceNumber = PayWithCardResponse_GetInvoiceNumber r,
     Receipt_Card = \<lparr>
       doc_Brand = CardSummary_GetBrand (PayWithCardResponse_GetCard r),
       doc_Last4 = CardSummary_GetLast4 (PayWithCardResponse_GetCard r)\<rparr>,
     Receipt_ProcessedAt = AsTime tsl (PayWithCardResponse_GetProcessedAt r)\<rparr>"

lemma NewReceipt_valid:
  assumes "valid_receipt_response r"
  shows "NewReceiptFromProtMessage tsl i r = Inr (receipt_of tsl i r)"
proof -
  have "Validate (receipt_checks r) = None" using assms by (simp add: validator_simps)
  then show ?thesis by (simp add: NewReceiptFromProtMessage_def receipt_of_def)
qed

lemma NewReceipt_invalid:
  assumes "\<not> valid_receipt_response r"
  shows "\<exists>e. NewReceiptFromProtMessage tsl i r = Inl e \<and> (\<forall>T. is_a T e \<longleftrightarrow> T = TValidation)"
proof -
  have "\<not> passes (receipt_checks r)" using assms by (simp add: receipt_checks_pass)
  then obtain e where "Validate (receipt_checks r) = Some e"
    "\<forall>T. is_a T e \<longleftrightarrow> T = TValidation"
    using Validate_failed receipt_checks_constraints by blast
  then show ?thesis by (simp add: NewReceiptFromProtMessage_def)
qed

end
