(* ===== verification/Config.thy ===== *)
theory Config
  imports Prelude
begin

text \<open>
  internal/config: the configuration records the components are built from. An \<open>int\<close> is 64 bits
  wide. Their reading from the environment is in \<open>Environment\<close>.
\<close>

text \<open>A secret is a string that prints as \<open>REDACTED\<close>.\<close>

type_synonym secret = string

definition Secret_String :: "secret \<Rightarrow> string" where
  "Secret_String s = ''REDACTED''"

record ExchangeConfig =
  Exchange_Name :: string
  Exchange_Kind :: string
  Exchange_Durable :: bool
  Exchange_AutoDelete :: bool
  Exchange_Internal :: bool
  Exchange_NoWait :: bool

record QueueConfig =
  Queue_Name :: string
  Queue_Durable :: bool
  Queue_AutoDelete :: bool
  Queue_Exclusive :: bool
  Queue_NoWait :: bool

record BindingConfig =
  Binding_ExchangeName :: string
  Binding_RoutingKey :: string
  Binding_NoWait :: bool

record PublishConfig =
  Publish_Mandatory :: bool
  Publish_Immediate :: bool

record ConsumeConfig =
  Consume_Consumer :: string
  Consume_AutoAck :: bool
  Consume_Exclusive :: bool
  Consume_NoLocal :: bool
  Consume_NoWait :: bool

text \<open>The connection settings of RabbitMQ; the publisher and consumer groups are passed apart.\<close>

record RabbitMqConfig =
  Rabbit_Username :: secret
  Rabbit_Password :: secret
  Rabbit_Host :: string
  Rabbit_Port :: "64 word"

text \<open>The groups of \<open>RabbitMqConfig\<close>.\<close>

record PublishersConfig =
  PaymentExchange :: ExchangeConfig
  PaymentPublish :: PublishConfig
  GuestCommunicationExchange :: ExchangeConfig
  GuestCommunicationPublish :: PublishConfig

record ConsumersConfig =
  InvoiceQueue :: QueueConfig
  InvoiceBinding :: BindingConfig
  InvoiceConsume :: ConsumeConfig

record MongoConfig =
  Mongo_Username :: secret
  Mongo_Password :: secret
  Mongo_Host :: string
  Mongo_Database :: string
  Mongo_ReplicaSet :: string
  Mongo_ConnectionTimeoutInSeconds :: "64 word"
  Mongo_ServerSelectionTimeoutInSeconds :: "64 word"
  Mongo_PingTimeoutInSeconds :: "64 word"
  Mongo_StartupTimeoutInSeconds :: "64 word"
  Mongo_MaxConnIdleTimeInSeconds :: "64 word"
  Mongo_MaxPoolSize :: "64 word"
  Mongo_MinPoolSize :: "64 word"
  Mongo_RetryWrites :: bool
  Mongo_InvoiceCollection :: string
  Mongo_ReceiptCollection :: string

record ServerConfig =
  Server_Host :: string
  Server_Port :: "64 word"
  Server_ReadHeaderTimeoutInSeconds :: "64 word"
  Server_ReadTimeoutInSeconds :: "64 word"
  Server_WriteTimeoutInSeconds :: "64 word"
  Server_IdleTimeoutInSeconds :: "64 word"

record AppConfig =
  App_ServiceName :: string
  App_Version :: string
  App_LogLevel :: "64 word"
  App_Server :: ServerConfig

record ServicesConfig =
  Clock_GrpcHost :: string
  Clock_GrpcPort :: "64 word"
  Card_Host :: string
  Card_FailChance :: "64 word"

record TelemetryConfig =
  OTLP_Endpoint :: string
  OTLP_GrpcPort :: "64 word"
  OTLP_HealthPort :: "64 word"
  OTLP_Insecure :: bool
  OTLP_ShutdownTimeoutInSeconds :: "64 word"

record Configs =
  Cfg_App :: AppConfig
  Cfg_Services :: ServicesConfig
  Cfg_Mongo :: MongoConfig
  Cfg_RabbitMq :: RabbitMqConfig
  Cfg_Publishers :: PublishersConfig
  Cfg_Consumers :: ConsumersConfig
  Cfg_Telemetry :: TelemetryConfig

text \<open>
  \<open>time.Duration(n) * time.Second\<close>, in nanoseconds: the product wraps at 64 bits.
\<close>

definition seconds :: "64 word \<Rightarrow> int" where
  "seconds n = sint (n * 1000000000)"

text \<open>No wrap up to 9223372036 seconds, some 292 years.\<close>

lemma seconds_exact:
  assumes "0 \<le> sint n" and "sint n \<le> 9223372036"
  shows "seconds n = sint n * 1000000000"
proof -
  have "sint (n * 1000000000) = signed_take_bit 63 (sint n * sint (1000000000 :: 64 word))"
    by (simp add: sint_word_mult)
  also have "sint (1000000000 :: 64 word) = 1000000000" by code_simp
  also have "signed_take_bit 63 (sint n * 1000000000) = sint n * 1000000000"
    using assms by (intro signed_take_bit_int_eq_self) simp_all
  finally show ?thesis by (simp add: seconds_def)
qed

end
