(* ===== verification/Ports.thy ===== *)
theory Ports
  imports Document Config
begin

text \<open>
  internal/port: the interfaces the services are written against, each a record of its methods.
  A method is a call on the state of the world outside: it takes that state and returns a result
  or an error, with the next state. The locales state what an implementation promises.
\<close>

type_synonym ('s, 'a) call = "'s \<Rightarrow> (go_err + 'a) \<times> 's"

section \<open>The interfaces\<close>

record 's clock_port =
  Now :: "('s, go_time) call"
  CloseClock :: "('s, unit) call"

record 's invoice_repo =
  FindByInvoiceNumber :: "string \<Rightarrow> ('s, doc_Invoice) call"
  FindByBookingNumberAndDocumentNumber :: "string \<Rightarrow> string \<Rightarrow> ('s, doc_Invoice) call"
  UpdateStatus :: "string \<Rightarrow> string \<Rightarrow> go_time \<Rightarrow> ('s, unit) call"
  AddInvoice :: "doc_Invoice \<Rightarrow> ('s, object_id) call"

record 's receipt_repo =
  GetById :: "object_id \<Rightarrow> ('s, doc_Receipt) call"
  AddReceipt :: "doc_Receipt \<Rightarrow> ('s, object_id) call"

text \<open>The messages the program publishes.\<close>

datatype proto_message =
    PaymentRequestMsg pb_PaymentRequest
  | PaymentConfirmationMsg pb_PaymentConfirmation

record 's mq_producer =
  DeclareExchange :: "ExchangeConfig \<Rightarrow> ('s, unit) call"
  Publish :: "proto_message \<Rightarrow> string \<Rightarrow> ('s, unit) call"
  CloseProducer :: "('s, unit) call"

text \<open>
  The fields of an \<open>amqp.Delivery\<close> the program reads; \<open>Ack\<close> and \<open>Nack\<close> are the broker's. The
  channel of deliveries is the list of what it yields until it is closed.
\<close>

record delivery =
  ContentType :: string
  Body :: "8 word list"
  DeliveryTag :: "64 word"
  RoutingKey :: string

record 's acknowledger =
  Ack :: "64 word \<Rightarrow> bool \<Rightarrow> 's \<Rightarrow> go_err option \<times> 's"
  Nack :: "64 word \<Rightarrow> bool \<Rightarrow> bool \<Rightarrow> 's \<Rightarrow> go_err option \<times> 's"

record 's mq_consumer =
  DeclareQueue :: "QueueConfig \<Rightarrow> ('s, unit) call"
  BindQueue :: "BindingConfig \<Rightarrow> ('s, unit) call"
  Consume :: "('s, delivery list) call"
  CloseConsumer :: "('s, unit) call"

text \<open>
  The sources of randomness and of the machine's own time: \<open>math/rand.Int\<close>, \<open>uuid.NewRandom\<close>
  (the text of the UUID), \<open>uuid.New\<close> (\<^term>\<open>None\<close> when it panics), \<open>crypto/rand.Read\<close> (the
  bytes it puts in the buffer, by index), \<open>timestamppb.Now\<close> and \<open>bson.NewObjectID\<close>.
\<close>

record 's runtime =
  RandInt :: "'s \<Rightarrow> int \<times> 's"
  UuidNewRandom :: "('s, string) call"
  UuidNew :: "'s \<Rightarrow> string option \<times> 's"
  RandRead :: "('s, nat \<Rightarrow> 8 word) call"
  TimestampNow :: "'s \<Rightarrow> pb_Timestamp \<times> 's"
  NewObjectID :: "'s \<Rightarrow> object_id \<times> 's"

section \<open>What the invoice repository promises\<close>

text \<open>
  How a document reads back: the same but for the identifier the database gives it and the
  precision of its times.
\<close>

definition same_record :: "doc_Invoice \<Rightarrow> doc_Invoice \<Rightarrow> bool" where
  "same_record d d' \<longleftrightarrow> (\<exists>i t1 t2 t3 t4. d' = d\<lparr>Invoice_Id := i, Invoice_IssuedAt := t1,
     Invoice_DueAt := t2, Invoice_CreatedAt := t3, Invoice_UpdatedAt := t4\<rparr>)"

lemma same_record_fields:
  assumes "same_record d d'"
  shows "Invoice_InvoiceNumber d' = Invoice_InvoiceNumber d"
    "Invoice_Status d' = Invoice_Status d"
    "Invoice_IdempotencyId d' = Invoice_IdempotencyId d"
    "Invoice_BookingId d' = Invoice_BookingId d"
    "Invoice_PayerId d' = Invoice_PayerId d"
    "Invoice_Payer d' = Invoice_Payer d"
    "Invoice_Booking d' = Invoice_Booking d"
    "Invoice_Total d' = Invoice_Total d"
  using assms by (auto simp: same_record_def)

lemma same_record_id: "same_record d (d\<lparr>Invoice_Id := i\<rparr>)"
  unfolding same_record_def
  by (intro exI[of _ i] exI[of _ "Invoice_IssuedAt d"] exI[of _ "Invoice_DueAt d"]
      exI[of _ "Invoice_CreatedAt d"] exI[of _ "Invoice_UpdatedAt d"]) simp

text \<open>One document with the number has its status set, everything else stays.\<close>

definition status_set :: "string \<Rightarrow> string \<Rightarrow> doc_Invoice list \<Rightarrow> doc_Invoice list \<Rightarrow> bool" where
  "status_set n st ds ds' \<longleftrightarrow>
     (\<exists>i d'. i < length ds \<and> Invoice_InvoiceNumber (ds ! i) = n \<and>
        same_record ((ds ! i)\<lparr>Invoice_Status := st\<rparr>) d' \<and> ds' = ds[i := d'])"

definition inserted :: "doc_Invoice \<Rightarrow> doc_Invoice list \<Rightarrow> doc_Invoice list \<Rightarrow> bool" where
  "inserted d ds ds' \<longleftrightarrow> (\<exists>d'. same_record d d' \<and> ds' = ds @ [d'])"

text \<open>
  \<open>docs\<close> is what is stored, \<open>rest\<close> everything else the repository must leave alone.
\<close>

locale invoice_repo_port =
  fixes repo :: "'s invoice_repo"
    and docs :: "'s \<Rightarrow> doc_Invoice list"
    and rest :: "'s \<Rightarrow> 'r"
  assumes find_quiet:
      "FindByInvoiceNumber repo n s = (r, s') \<Longrightarrow> docs s' = docs s \<and> rest s' = rest s"
    and find_found:
      "FindByInvoiceNumber repo n s = (Inr d, s') \<Longrightarrow> d \<in> set (docs s) \<and> Invoice_InvoiceNumber d = n"
    and find_missing:
      "FindByInvoiceNumber repo n s = (Inl e, s') \<Longrightarrow> is_a TDbInvoiceNotFound e \<Longrightarrow>
         d \<in> set (docs s) \<Longrightarrow> Invoice_InvoiceNumber d \<noteq> n"
    and find_booking_quiet:
      "FindByBookingNumberAndDocumentNumber repo b p s = (r, s') \<Longrightarrow>
         docs s' = docs s \<and> rest s' = rest s"
    and find_booking_found:
      "FindByBookingNumberAndDocumentNumber repo b p s = (Inr d, s') \<Longrightarrow>
         d \<in> set (docs s) \<and> Invoice_BookingId d = b \<and> doc_DocumentNumber (Invoice_Payer d) = p"
    and find_booking_missing:
      "FindByBookingNumberAndDocumentNumber repo b p s = (Inl e, s') \<Longrightarrow> is_a TDbInvoiceNotFound e \<Longrightarrow>
         d \<in> set (docs s) \<Longrightarrow> Invoice_BookingId d \<noteq> b \<or> doc_DocumentNumber (Invoice_Payer d) \<noteq> p"
    and update_rest: "UpdateStatus repo n st t s = (ru, s') \<Longrightarrow> rest s' = rest s"
    and update_done:
      "UpdateStatus repo n st t s = (Inr u, s') \<Longrightarrow>
         IsValidInvoiceStatus st \<and> status_set n st (docs s) (docs s')"
    and update_failed:
      "UpdateStatus repo n st t s = (Inl e, s') \<Longrightarrow>
         docs s' = docs s \<or> IsValidInvoiceStatus st \<and> status_set n st (docs s) (docs s')"
    and update_missing:
      "UpdateStatus repo n st t s = (Inl e, s') \<Longrightarrow> is_a TDbInvoiceNotFound e \<Longrightarrow>
         docs s' = docs s \<and> (\<forall>d\<in>set (docs s). Invoice_InvoiceNumber d \<noteq> n)"
    and add_rest: "AddInvoice repo d s = (ra, s') \<Longrightarrow> rest s' = rest s"
    and add_done: "AddInvoice repo d s = (Inr i, s') \<Longrightarrow> wf_invoice d \<and> inserted d (docs s) (docs s')"
    and add_failed:
      "AddInvoice repo d s = (Inl e, s') \<Longrightarrow>
         docs s' = docs s \<or> wf_invoice d \<and> inserted d (docs s) (docs s')"
    and add_duplicate:
      "AddInvoice repo d s = (Inl e, s') \<Longrightarrow> is_a TDbAlreadyExists e \<Longrightarrow> docs s' = docs s"
    and add_no_app: "AddInvoice repo d s = (Inl e, s') \<Longrightarrow> \<not> is_a TAppAlreadyExists e"
begin

text \<open>What an update can do to the stored invoices, whatever it returns.\<close>

lemma update_cases:
  "UpdateStatus repo n st t s = (r, s') \<Longrightarrow> docs s' = docs s \<or> status_set n st (docs s) (docs s')"
  using update_done update_failed by (cases r) blast+

lemma add_cases:
  "AddInvoice repo d s = (r, s') \<Longrightarrow> docs s' = docs s \<or> inserted d (docs s) (docs s')"
  using add_done add_failed by (cases r) blast+

text \<open>The repository never changes how many invoices there are but by one added at the end.\<close>

lemma update_length: "UpdateStatus repo n st t s = (r, s') \<Longrightarrow> length (docs s') = length (docs s)"
  by (drule update_cases) (auto simp: status_set_def)

text \<open>Every operation keeps the stored invoices well formed.\<close>

lemma status_set_wf:
  assumes "status_set n st ds ds'" and "IsValidInvoiceStatus st" and "\<forall>d\<in>set ds. wf_invoice d"
  shows "\<forall>d\<in>set ds'. wf_invoice d"
proof -
  from assms(1) obtain i d' where i: "i < length ds"
    "same_record ((ds ! i)\<lparr>Invoice_Status := st\<rparr>) d'" "ds' = ds[i := d']"
    by (auto simp: status_set_def)
  from i(1) assms(3) have "wf_invoice (ds ! i)" by simp
  then have "wf_invoice d'"
    using same_record_fields[OF i(2)] assms(2) by (simp add: wf_invoice_def)
  then show ?thesis using i assms(3) set_update_subset_insert[of ds i d'] by auto
qed

lemma update_wf:
  assumes "UpdateStatus repo n st t s = (r, s')" and "\<forall>d\<in>set (docs s). wf_invoice d"
  shows "\<forall>d\<in>set (docs s'). wf_invoice d"
  using update_done update_failed status_set_wf assms by (cases r) metis+

lemma add_wf:
  assumes "AddInvoice repo d s = (r, s')" and "\<forall>d\<in>set (docs s). wf_invoice d"
  shows "\<forall>d\<in>set (docs s'). wf_invoice d"
proof -
  have "docs s' = docs s \<or> wf_invoice d \<and> inserted d (docs s) (docs s')"
    using add_done add_failed assms(1) by (cases r) blast+
  moreover have "wf_invoice d'" if "wf_invoice d" "same_record d d'" for d'
    using that(1) same_record_fields[OF that(2)] by (simp add: wf_invoice_def)
  ultimately show ?thesis using assms(2) by (auto simp: inserted_def)
qed

end

section \<open>What the receipt repository promises\<close>

definition same_receipt :: "doc_Receipt \<Rightarrow> doc_Receipt \<Rightarrow> bool" where
  "same_receipt d d' \<longleftrightarrow> (\<exists>i t. d' = d\<lparr>Receipt_Id := i, Receipt_ProcessedAt := t\<rparr>)"

lemma same_receipt_fields:
  assumes "same_receipt d d'"
  shows "Receipt_ReceiptNumber d' = Receipt_ReceiptNumber d"
    "Receipt_InvoiceNumber d' = Receipt_InvoiceNumber d"
    "Receipt_Card d' = Receipt_Card d"
  using assms by (auto simp: same_receipt_def)

lemma same_receipt_refl: "same_receipt d d"
  unfolding same_receipt_def
  by (intro exI[of _ "Receipt_Id d"] exI[of _ "Receipt_ProcessedAt d"]) simp

definition receipt_inserted :: "doc_Receipt \<Rightarrow> doc_Receipt list \<Rightarrow> doc_Receipt list \<Rightarrow> bool" where
  "receipt_inserted d ds ds' \<longleftrightarrow> (\<exists>d'. same_receipt d d' \<and> ds' = ds @ [d'])"

locale receipt_repo_port =
  fixes rrepo :: "'s receipt_repo"
    and rcpts :: "'s \<Rightarrow> doc_Receipt list"
    and rrest :: "'s \<Rightarrow> 'r"
  assumes get_quiet: "GetById rrepo i s = (r, s') \<Longrightarrow> rcpts s' = rcpts s \<and> rrest s' = rrest s"
    and get_found: "GetById rrepo i s = (Inr d, s') \<Longrightarrow> d \<in> set (rcpts s) \<and> Receipt_Id d = i"
    and radd_rest: "AddReceipt rrepo d s = (ra, s') \<Longrightarrow> rrest s' = rrest s"
    and radd_done: "AddReceipt rrepo d s = (Inr i, s') \<Longrightarrow> receipt_inserted d (rcpts s) (rcpts s')"
    and radd_failed:
      "AddReceipt rrepo d s = (Inl e, s') \<Longrightarrow>
         rcpts s' = rcpts s \<or> receipt_inserted d (rcpts s) (rcpts s')"
begin

lemma radd_cases:
  "AddReceipt rrepo d s = (r, s') \<Longrightarrow>
     rcpts s' = rcpts s \<or> receipt_inserted d (rcpts s) (rcpts s')"
  using radd_done radd_failed by (cases r) blast+

end

section \<open>What the producer promises\<close>

text \<open>
  \<open>sent\<close> is the log of what reached the broker, with the routing key: a publish that returns no
  error added its message, one that returns an error may have.
\<close>

locale producer_port =
  fixes prod :: "'s mq_producer"
    and sent :: "'s \<Rightarrow> (proto_message \<times> string) list"
    and prest :: "'s \<Rightarrow> 'r"
  assumes publish_rest: "Publish prod m k s = (r, s') \<Longrightarrow> prest s' = prest s"
    and publish_done: "Publish prod m k s = (Inr u, s') \<Longrightarrow> sent s' = sent s @ [(m, k)]"
    and publish_failed:
      "Publish prod m k s = (Inl e, s') \<Longrightarrow> sent s' = sent s \<or> sent s' = sent s @ [(m, k)]"
    and publish_no_constraint: "Publish prod m k s = (Inl e, s') \<Longrightarrow> \<not> is_a TValidation e"
begin

lemma publish_cases:
  "Publish prod m k s = (r, s') \<Longrightarrow> sent s' = sent s \<or> sent s' = sent s @ [(m, k)]"
  using publish_done publish_failed by (cases r) blast+

end

section \<open>What the broker, the clock and the runtime promise\<close>

text \<open>The answers given to the broker for a delivery.\<close>

datatype settlement =
    Acked "64 word" bool
  | Nacked "64 word" bool bool

locale acknowledger_port =
  fixes ackn :: "'s acknowledger"
    and settled :: "'s \<Rightarrow> settlement list"
    and arest :: "'s \<Rightarrow> 'r"
  assumes ack_rest: "Ack ackn tag m s = (r, s') \<Longrightarrow> arest s' = arest s"
    and ack_done: "Ack ackn tag m s = (None, s') \<Longrightarrow> settled s' = settled s @ [Acked tag m]"
    and ack_failed: "Ack ackn tag m s = (Some e, s') \<Longrightarrow> settled s' = settled s"
    and ack_plain: "Ack ackn tag m s = (Some e, s') \<Longrightarrow> \<not> is_a T e"
    and nack_rest: "Nack ackn tag m q s = (r, s') \<Longrightarrow> arest s' = arest s"
    and nack_done: "Nack ackn tag m q s = (None, s') \<Longrightarrow> settled s' = settled s @ [Nacked tag m q]"
    and nack_failed: "Nack ackn tag m q s = (Some e, s') \<Longrightarrow> settled s' = settled s"

locale clock_quiet =
  fixes clk :: "'s clock_port"
    and crest :: "'s \<Rightarrow> 'r"
  assumes now_rest: "Now clk s = (r, s') \<Longrightarrow> crest s' = crest s"

locale consumer_quiet =
  fixes cons :: "'s mq_consumer"
    and crest :: "'s \<Rightarrow> 'r"
  assumes consume_rest: "Consume cons s = (r, s') \<Longrightarrow> crest s' = crest s"

text \<open>
  \<open>rand.Int\<close> is a non-negative 63-bit integer; the text of a UUID is 32 hexadecimal digits in
  five groups.
\<close>

definition hex_digits :: string where
  "hex_digits = ''0123456789abcdef''"

definition uuid_text :: "string \<Rightarrow> bool" where
  "uuid_text u \<longleftrightarrow> length u = 36 \<and> length (remove_dashes u) = 32 \<and>
     set (remove_dashes u) \<subseteq> set hex_digits"

locale runtime_port =
  fixes rt :: "'s runtime"
    and rtrest :: "'s \<Rightarrow> 'r"
  assumes rand_rest: "RandInt rt s = (i, s') \<Longrightarrow> rtrest s' = rtrest s"
    and rand_range: "RandInt rt s = (i, s') \<Longrightarrow> 0 \<le> i \<and> i < 2 ^ 63"
    and uuid_rest: "UuidNewRandom rt s = (u, s') \<Longrightarrow> rtrest s' = rtrest s"
    and uuid_shape: "UuidNewRandom rt s = (Inr t, s') \<Longrightarrow> uuid_text t"
    and uuid_new_rest: "UuidNew rt s = (v, s') \<Longrightarrow> rtrest s' = rtrest s"
    and read_rest: "RandRead rt s = (b, s') \<Longrightarrow> rtrest s' = rtrest s"
    and timestamp_rest: "TimestampNow rt s = (n, s') \<Longrightarrow> rtrest s' = rtrest s"
    and object_id_rest: "NewObjectID rt s = (k, s') \<Longrightarrow> rtrest s' = rtrest s"

section \<open>All the ports of the application\<close>

text \<open>
  The services run over one world \<open>'s\<close>, of which four parts matter: the stored invoices and
  receipts, the messages sent and the answers to the broker. Every port touches its own part
  only.
\<close>

locale app_ports =
  invs: invoice_repo_port repo docs "\<lambda>s. (rcpts s, sent s, settled s)" +
  recs: receipt_repo_port rrepo rcpts "\<lambda>s. (docs s, sent s, settled s)" +
  prods: producer_port prod sent "\<lambda>s. (docs s, rcpts s, settled s)" +
  acks: acknowledger_port ackn settled "\<lambda>s. (docs s, rcpts s, sent s)" +
  clks: clock_quiet clk "\<lambda>s. (docs s, rcpts s, sent s, settled s)" +
  rts: runtime_port rt "\<lambda>s. (docs s, rcpts s, sent s, settled s)"
  for repo :: "'s invoice_repo"
    and rrepo :: "'s receipt_repo"
    and prod :: "'s mq_producer"
    and ackn :: "'s acknowledger"
    and clk :: "'s clock_port"
    and rt :: "'s runtime"
    and docs :: "'s \<Rightarrow> doc_Invoice list"
    and rcpts :: "'s \<Rightarrow> doc_Receipt list"
    and sent :: "'s \<Rightarrow> (proto_message \<times> string) list"
    and settled :: "'s \<Rightarrow> settlement list"
begin

text \<open>The operations that change none of the four parts.\<close>

lemma now_quiet [port_quiet]:
  "Now clk s = (r, s') \<Longrightarrow>
     docs s' = docs s \<and> rcpts s' = rcpts s \<and> sent s' = sent s \<and> settled s' = settled s"
  using clks.now_rest by fastforce

lemma find_all_quiet [port_quiet]:
  "FindByInvoiceNumber repo n s = (r, s') \<Longrightarrow>
     docs s' = docs s \<and> rcpts s' = rcpts s \<and> sent s' = sent s \<and> settled s' = settled s"
  using invs.find_quiet by fastforce

lemma find_booking_all_quiet [port_quiet]:
  "FindByBookingNumberAndDocumentNumber repo b p s = (r, s') \<Longrightarrow>
     docs s' = docs s \<and> rcpts s' = rcpts s \<and> sent s' = sent s \<and> settled s' = settled s"
  using invs.find_booking_quiet by fastforce

lemma rand_quiet [port_quiet]:
  "RandInt rt s = (i, s') \<Longrightarrow>
     docs s' = docs s \<and> rcpts s' = rcpts s \<and> sent s' = sent s \<and> settled s' = settled s"
  using rts.rand_rest by fastforce

lemma timestamp_quiet [port_quiet]:
  "TimestampNow rt s = (n, s') \<Longrightarrow>
     docs s' = docs s \<and> rcpts s' = rcpts s \<and> sent s' = sent s \<and> settled s' = settled s"
  using rts.timestamp_rest by fastforce

lemma uuid_new_quiet [port_quiet]:
  "UuidNew rt s = (v, s') \<Longrightarrow>
     docs s' = docs s \<and> rcpts s' = rcpts s \<and> sent s' = sent s \<and> settled s' = settled s"
  using rts.uuid_new_rest by fastforce

lemma object_id_quiet [port_quiet]:
  "NewObjectID rt s = (k, s') \<Longrightarrow>
     docs s' = docs s \<and> rcpts s' = rcpts s \<and> sent s' = sent s \<and> settled s' = settled s"
  using rts.object_id_rest by fastforce

text \<open>The operations that change one part.\<close>

lemma update_frame:
  "UpdateStatus repo n st t s = (ru, s') \<Longrightarrow>
     rcpts s' = rcpts s \<and> sent s' = sent s \<and> settled s' = settled s"
  using invs.update_rest by fastforce

lemma add_frame:
  "AddInvoice repo d s = (ra, s') \<Longrightarrow>
     rcpts s' = rcpts s \<and> sent s' = sent s \<and> settled s' = settled s"
  using invs.add_rest by fastforce

lemma radd_frame:
  "AddReceipt rrepo d s = (ra, s') \<Longrightarrow>
     docs s' = docs s \<and> sent s' = sent s \<and> settled s' = settled s"
  using recs.radd_rest by fastforce

lemma publish_frame:
  "Publish prod m k s = (r, s') \<Longrightarrow>
     docs s' = docs s \<and> rcpts s' = rcpts s \<and> settled s' = settled s"
  using prods.publish_rest by fastforce

lemma ack_frame:
  "Ack ackn tag m s = (r, s') \<Longrightarrow>
     docs s' = docs s \<and> rcpts s' = rcpts s \<and> sent s' = sent s"
  using acks.ack_rest by fastforce

lemma nack_frame:
  "Nack ackn tag m q s = (r, s') \<Longrightarrow>
     docs s' = docs s \<and> rcpts s' = rcpts s \<and> sent s' = sent s"
  using acks.nack_rest by fastforce

end

end
