(* ===== verification/Repository.thy ===== *)
theory Repository
  imports Ports
begin

text \<open>
  internal/infra/db: the repositories over a MongoDB collection (invoice_repository.go,
  receipt_repository.go). The driver's collection is a parameter; the locale
  \<open>mongo_documents\<close> states its documented behaviour. The repositories are proved to keep
  the promises of \<^const>\<open>invoice_repo_port\<close> and \<^const>\<open>receipt_repo_port\<close> over any such collection.
\<close>

section \<open>The driver's collection\<close>

text \<open>
  A filter is the test it makes on a document, an update the change it makes to one.
  \<open>InsertOne\<close> gives \<open>InsertedID\<close>, an \<open>ObjectID\<close> or a value of another type, of which only the
  type's name is kept; \<open>FindOne\<close> the decoded document; \<open>UpdateOne\<close> the \<open>MatchedCount\<close>.
\<close>

record ('s, 'd) mongo_collection =
  InsertOne :: "'d \<Rightarrow> ('s, string + object_id) call"
  FindOne :: "('d \<Rightarrow> bool) \<Rightarrow> ('s, 'd) call"
  UpdateOne :: "('d \<Rightarrow> bool) \<Rightarrow> ('d \<Rightarrow> 'd) \<Rightarrow> ('s, nat) call"

text \<open>
  \<open>docs\<close> is what the collection holds, as it decodes; \<open>stored d d'\<close> says that \<open>d'\<close> is what a
  written \<open>d\<close> decodes to (BSON keeps times to the millisecond and an empty identifier is
  replaced). A write that returns an error may have been applied, as with a lost reply, but for
  a duplicate key. No error of the driver is one of the program's own.
\<close>

locale mongo_documents =
  fixes coll :: "('s, 'd) mongo_collection"
    and docs :: "'s \<Rightarrow> 'd list"
    and rest :: "'s \<Rightarrow> 'r"
    and stored :: "'d \<Rightarrow> 'd \<Rightarrow> bool"
  assumes find_frame: "FindOne coll P s = (r, s') \<Longrightarrow> docs s' = docs s \<and> rest s' = rest s"
    and find_hit: "FindOne coll P s = (Inr d, s') \<Longrightarrow> d \<in> set (docs s) \<and> P d"
    and find_none:
      "FindOne coll P s = (Inl e, s') \<Longrightarrow> is_no_documents e \<Longrightarrow> d \<in> set (docs s) \<Longrightarrow> \<not> P d"
    and find_err: "FindOne coll P s = (Inl e, s') \<Longrightarrow> \<not> is_a T e"
    and insert_frame: "InsertOne coll d s = (ri, s') \<Longrightarrow> rest s' = rest s"
    and insert_ok: "InsertOne coll d s = (Inr i, s') \<Longrightarrow> \<exists>d'. stored d d' \<and> docs s' = docs s @ [d']"
    and insert_err:
      "InsertOne coll d s = (Inl e, s') \<Longrightarrow>
         docs s' = docs s \<or> (\<exists>d'. stored d d' \<and> docs s' = docs s @ [d'])"
    and insert_dup: "InsertOne coll d s = (Inl e, s') \<Longrightarrow> is_duplicate_key e \<Longrightarrow> docs s' = docs s"
    and insert_plain: "InsertOne coll d s = (Inl e, s') \<Longrightarrow> \<not> is_a T e"
    and update_frame: "UpdateOne coll P f s = (ru, s') \<Longrightarrow> rest s' = rest s"
    and update_none:
      "UpdateOne coll P f s = (Inr 0, s') \<Longrightarrow> docs s' = docs s \<and> (\<forall>d\<in>set (docs s). \<not> P d)"
    and update_hit:
      "UpdateOne coll P f s = (Inr (Suc k), s') \<Longrightarrow>
         \<exists>i<length (docs s). P (docs s ! i) \<and>
           (\<exists>d'. stored (f (docs s ! i)) d' \<and> docs s' = (docs s)[i := d'])"
    and update_err:
      "UpdateOne coll P f s = (Inl e, s') \<Longrightarrow>
         docs s' = docs s \<or> (\<exists>i<length (docs s). P (docs s ! i) \<and>
           (\<exists>d'. stored (f (docs s ! i)) d' \<and> docs s' = (docs s)[i := d']))"
    and update_plain: "UpdateOne coll P f s = (Inl e, s') \<Longrightarrow> \<not> is_a T e"

section \<open>invoice_repository.go\<close>

definition find_invoice ::
  "('s, doc_Invoice) mongo_collection \<Rightarrow> (doc_Invoice \<Rightarrow> bool) \<Rightarrow> ('s, doc_Invoice) call" where
  "find_invoice coll flt s =
    (case FindOne coll flt s of
       (Inl err, s1) \<Rightarrow>
         if is_no_documents err then (Inl (DbInvoiceNotFoundErr (Some err)), s1)
         else (Inl (DbCorruptedDataErr (Some err)), s1)
     | (Inr invoice, s1) \<Rightarrow> (Inr invoice, s1))"

definition FindByInvoiceNumber_impl ::
  "('s, doc_Invoice) mongo_collection \<Rightarrow> string \<Rightarrow> ('s, doc_Invoice) call" where
  "FindByInvoiceNumber_impl coll invoiceNumber s =
    (case Validate (chain [NotBlank ''invoiceNumber'' invoiceNumber]) of
       Some err \<Rightarrow> (Inl err, s)
     | None \<Rightarrow> find_invoice coll (\<lambda>d. Invoice_InvoiceNumber d = invoiceNumber) s)"

definition FindByBookingNumberAndDocumentNumber_impl ::
  "('s, doc_Invoice) mongo_collection \<Rightarrow> string \<Rightarrow> string \<Rightarrow> ('s, doc_Invoice) call" where
  "FindByBookingNumberAndDocumentNumber_impl coll bookingNumber documentNumber s =
    (case Validate (chain
       [NotBlank ''bookingNumber'' bookingNumber,
        NotBlank ''documentNumber'' documentNumber]) of
       Some err \<Rightarrow> (Inl err, s)
     | None \<Rightarrow> find_invoice coll
         (\<lambda>d. Invoice_BookingId d = bookingNumber \<and>
              doc_DocumentNumber (Invoice_Payer d) = documentNumber) s)"

text \<open>A time is a struct to \<open>reflect\<close>, zero when it is the zero time.\<close>

definition time_value :: "go_time \<Rightarrow> go_value" where
  "time_value t = VStruct (t = zero_time)"

definition add_invoice_checks :: "doc_Invoice \<Rightarrow> validator" where
  "add_invoice_checks invoice = chain
    [NotBlank ''invoice.invoice_number'' (Invoice_InvoiceNumber invoice),
     NotBlank ''invoice.status'' (Invoice_Status invoice),
     NotBlank ''invoice.idempotency_id'' (Invoice_IdempotencyId invoice),
     NotBlank ''invoice.booking_id'' (Invoice_BookingId invoice),
     NotBlank ''invoice.payer_id'' (Invoice_PayerId invoice),
     NotBlank ''invoice.payer.document_number'' (doc_DocumentNumber (Invoice_Payer invoice)),
     PositiveValue ''invoice.total.amount'' (int64 (doc_Amount (Invoice_Total invoice))),
     NotBlank ''invoice.total.currency'' (doc_Currency (Invoice_Total invoice)),
     NotZeroValue ''invoice.issued_at'' (time_value (Invoice_IssuedAt invoice)),
     NotZeroValue ''invoice.due_at'' (time_value (Invoice_DueAt invoice))]"

definition AddInvoice_impl ::
  "('s, doc_Invoice) mongo_collection \<Rightarrow> doc_Invoice \<Rightarrow> ('s, object_id) call" where
  "AddInvoice_impl coll invoice s =
    (case Validate (add_invoice_checks invoice) of
       Some err \<Rightarrow> (Inl err, s)
     | None \<Rightarrow>
      if \<not> IsValidInvoiceStatus (Invoice_Status invoice)
      then (Inl (ErrValidationConstrain ''invoice.status'' ''must be one of pending, paid''), s)
      else (case InsertOne coll invoice s of
         (Inl err, s1) \<Rightarrow>
           if is_duplicate_key err then (Inl (DbAlreadyExistsErr (Some err)), s1)
           else (Inl (DbUnexpectedErr ''failed to insert invoice'' (Some err)), s1)
       | (Inr (Inr invoiceId), s1) \<Rightarrow> (Inr invoiceId, s1)
       | (Inr (Inl ty), s1) \<Rightarrow>
           (Inl (DbUnexpectedErr ''unexpected inserted id type''
              (Some (PlainErr (''unexpected inserted id type: '' @ ty)))), s1)))"

definition UpdateStatus_impl ::
  "('s, doc_Invoice) mongo_collection \<Rightarrow> string \<Rightarrow> string \<Rightarrow> go_time \<Rightarrow> ('s, unit) call" where
  "UpdateStatus_impl coll invoiceNumber status updatedAt s =
    (case Validate (chain
       [NotBlank ''invoiceNumber'' invoiceNumber,
        NotBlank ''status'' status,
        NotZeroValue ''updatedAt'' (time_value updatedAt)]) of
       Some err \<Rightarrow> (Inl err, s)
     | None \<Rightarrow>
      if \<not> IsValidInvoiceStatus status
      then (Inl (ErrValidationConstrain ''status'' ''must be one of pending, paid''), s)
      else (case UpdateOne coll (\<lambda>d. Invoice_InvoiceNumber d = invoiceNumber)
             (\<lambda>d. d\<lparr>Invoice_Status := status, Invoice_UpdatedAt := updatedAt\<rparr>) s of
         (Inl err, s1) \<Rightarrow> (Inl (DbUnexpectedErr ''failed to update invoice status'' (Some err)), s1)
       | (Inr matchedCount, s1) \<Rightarrow>
           if matchedCount = 0
           then (Inl (DbInvoiceNotFoundErr
                   (Some (LibErr NoDocuments ''mongo: no documents in result''))), s1)
           else (Inr (), s1)))"

definition mongo_invoice_repo :: "('s, doc_Invoice) mongo_collection \<Rightarrow> 's invoice_repo" where
  "mongo_invoice_repo coll = \<lparr>
     FindByInvoiceNumber = FindByInvoiceNumber_impl coll,
     FindByBookingNumberAndDocumentNumber = FindByBookingNumberAndDocumentNumber_impl coll,
     UpdateStatus = UpdateStatus_impl coll,
     AddInvoice = AddInvoice_impl coll\<rparr>"

text \<open>\<open>db\<close> is the database handle, nil or not, and its collection \<open>invoices\<close>.\<close>

definition NewInvoiceRepo ::
  "('s, doc_Invoice) mongo_collection option \<Rightarrow> go_err + 's invoice_repo" where
  "NewInvoiceRepo db =
    (case Validate (chain [NotNil ''mongo_db'' (ptr db)]) of
       Some err \<Rightarrow> Inl err
     | None \<Rightarrow> Inr (mongo_invoice_repo (the db)))"

section \<open>receipt_repository.go\<close>

definition GetById_impl ::
  "('s, doc_Receipt) mongo_collection \<Rightarrow> object_id \<Rightarrow> ('s, doc_Receipt) call" where
  "GetById_impl coll i s =
    (case Validate (chain [NotNilObjectID ''id'' i]) of
       Some err \<Rightarrow> (Inl err, s)
     | None \<Rightarrow>
      (case FindOne coll (\<lambda>d. Receipt_Id d = i) s of
         (Inl err, s1) \<Rightarrow>
           if is_no_documents err then (Inl (DbReceiptNotFoundErr (Some err)), s1)
           else (Inl (DbCorruptedDataErr (Some err)), s1)
       | (Inr receipt, s1) \<Rightarrow> (Inr receipt, s1)))"

definition add_receipt_checks :: "doc_Receipt \<Rightarrow> validator" where
  "add_receipt_checks receipt = chain
    [NotBlank ''receipt.receipt_number'' (Receipt_ReceiptNumber receipt),
     NotBlank ''receipt.invoice_number'' (Receipt_InvoiceNumber receipt),
     NotBlank ''receipt.card.brand'' (doc_Brand (Receipt_Card receipt)),
     NotBlank ''receipt.card.last4'' (doc_Last4 (Receipt_Card receipt)),
     NotZeroValue ''receipt.processed_at'' (time_value (Receipt_ProcessedAt receipt))]"

definition AddReceipt_impl ::
  "('s, doc_Receipt) mongo_collection \<Rightarrow> doc_Receipt \<Rightarrow> ('s, object_id) call" where
  "AddReceipt_impl coll receipt s =
    (case Validate (add_receipt_checks receipt) of
       Some err \<Rightarrow> (Inl err, s)
     | None \<Rightarrow>
      (case InsertOne coll receipt s of
         (Inl err, s1) \<Rightarrow>
           if is_duplicate_key err then (Inl (DbAlreadyExistsErr (Some err)), s1)
           else (Inl (DbUnexpectedErr ''failed to insert receipt'' (Some err)), s1)
       | (Inr (Inr insertedID), s1) \<Rightarrow> (Inr insertedID, s1)
       | (Inr (Inl ty), s1) \<Rightarrow>
           (Inl (DbUnexpectedErr ''unexpected inserted id type''
              (Some (PlainErr (''unexpected inserted id type: '' @ ty)))), s1)))"

definition mongo_receipt_repo :: "('s, doc_Receipt) mongo_collection \<Rightarrow> 's receipt_repo" where
  "mongo_receipt_repo coll = \<lparr>GetById = GetById_impl coll, AddReceipt = AddReceipt_impl coll\<rparr>"

definition NewReceiptRepo ::
  "('s, doc_Receipt) mongo_collection option \<Rightarrow> go_err + 's receipt_repo" where
  "NewReceiptRepo db =
    (case Validate (chain [NotNil ''mongo_db'' (ptr db)]) of
       Some err \<Rightarrow> Inl err
     | None \<Rightarrow> Inr (mongo_receipt_repo (the db)))"

section \<open>The checks as conditions\<close>

lemma add_invoice_checks_pass [validator_simps]:
  "passes (add_invoice_checks d) \<and> IsValidInvoiceStatus (Invoice_Status d) \<longleftrightarrow>
     wf_invoice d \<and> Invoice_IssuedAt d \<noteq> zero_time \<and> Invoice_DueAt d \<noteq> zero_time"
proof -
  have "\<not> is_blank ''pending''" "\<not> is_blank ''paid''"
    by (rule not_blank_Cons, simp add: space_leads_def go_spaces_def)+
  then have "IsValidInvoiceStatus st \<Longrightarrow> \<not> is_blank st" for st
    by (auto simp: IsValidInvoiceStatus_def InvoiceStatusPending_def InvoiceStatusPaid_def
        split: if_splits)
  then show ?thesis
    by (auto simp: add_invoice_checks_def wf_invoice_def time_value_def validator_simps)
qed

lemma add_invoice_checks_constraints: "only_constraints (add_invoice_checks d)"
  by (simp add: add_invoice_checks_def validator_simps)

lemma add_receipt_checks_constraints: "only_constraints (add_receipt_checks d)"
  by (simp add: add_receipt_checks_def validator_simps)

lemma not_found_only:
  assumes "\<And>T. \<not> is_a T x"
  shows "is_a T (DbCorruptedDataErr (Some x)) \<longleftrightarrow> T = TDbCorrupted"
    "is_a T (DbInvoiceNotFoundErr (Some x)) \<longleftrightarrow> T = TDbInvoiceNotFound"
    "is_a T (DbUnexpectedErr m (Some x)) \<longleftrightarrow> T = TDbUnexpected"
    "is_a T (DbAlreadyExistsErr (Some x)) \<longleftrightarrow> T = TDbAlreadyExists"
  using assms by (auto simp: error_simps)

text \<open>
  What each operation does: refuse its arguments with a validation error and touch nothing, or
  call the driver and pass on what it says.
\<close>

definition refused :: "go_err \<Rightarrow> bool" where
  "refused e \<longleftrightarrow> (\<forall>T. is_a T e \<longleftrightarrow> T = TValidation)"

lemma refused_not [error_simps]: "refused e \<Longrightarrow> T \<noteq> TValidation \<Longrightarrow> \<not> is_a T e"
  by (simp add: refused_def)

lemma Validate_refused: "Validate v = Some e \<Longrightarrow> only_constraints v \<Longrightarrow> refused e"
  by (simp add: refused_def Validate_is_a)

lemma constraint_refused: "refused (ErrValidationConstrain f m)"
  by (simp add: refused_def error_simps)

lemma valid_status_not_blank: "IsValidInvoiceStatus st \<Longrightarrow> \<not> is_blank st"
proof -
  have "\<not> is_blank ''pending''" "\<not> is_blank ''paid''"
    by (rule not_blank_Cons, simp add: space_leads_def go_spaces_def)+
  then show "IsValidInvoiceStatus st \<Longrightarrow> \<not> is_blank st"
    by (auto simp: IsValidInvoiceStatus_def InvoiceStatusPending_def InvoiceStatusPaid_def
        split: if_splits)
qed

lemma FindByInvoiceNumber_cases:
  assumes "FindByInvoiceNumber_impl coll n s = (r, s')"
  obtains e where "is_blank n" "r = Inl e" "s' = s" "refused e"
  | "\<not> is_blank n" "find_invoice coll (\<lambda>d. Invoice_InvoiceNumber d = n) s = (r, s')"
proof (cases "Validate (chain [NotBlank ''invoiceNumber'' n])")
  case None
  then have "\<not> is_blank n" by (simp add: validator_simps)
  then show ?thesis using assms None that(2) by (simp add: FindByInvoiceNumber_impl_def)
next
  case (Some e)
  then have "is_blank n" using Validate_passes[of "chain [NotBlank ''invoiceNumber'' n]"]
    by (simp add: validator_simps)
  then show ?thesis
    using that(1)[of e] Some assms Validate_refused[OF Some]
    by (simp add: FindByInvoiceNumber_impl_def chain_simps only_constraints_checks)
qed

lemma FindByBooking_cases:
  assumes "FindByBookingNumberAndDocumentNumber_impl coll b p s = (r, s')"
  obtains e where "r = Inl e" "s' = s" "refused e"
  | "\<not> is_blank b" "\<not> is_blank p" "find_invoice coll (\<lambda>d. Invoice_BookingId d = b \<and>
      doc_DocumentNumber (Invoice_Payer d) = p) s = (r, s')"
proof (cases "Validate (chain [NotBlank ''bookingNumber'' b, NotBlank ''documentNumber'' p])")
  case None
  then have "\<not> is_blank b" "\<not> is_blank p" by (simp_all add: validator_simps)
  then show ?thesis
    using assms None that(2) by (simp add: FindByBookingNumberAndDocumentNumber_impl_def)
next
  case (Some e)
  then show ?thesis
    using that(1)[of e] assms Validate_refused[OF Some]
    by (simp add: FindByBookingNumberAndDocumentNumber_impl_def validator_simps)
qed

lemma AddInvoice_cases:
  assumes "AddInvoice_impl coll d s = (r, s')"
  obtains (refuse) e where "r = Inl e" "s' = s" "refused e"
  | (insert) ri where "wf_invoice d" "InsertOne coll d s = (ri, s')"
      "r = (case ri of Inl err \<Rightarrow>
         Inl (if is_duplicate_key err then DbAlreadyExistsErr (Some err)
              else DbUnexpectedErr ''failed to insert invoice'' (Some err))
       | Inr (Inr i) \<Rightarrow> Inr i
       | Inr (Inl ty) \<Rightarrow> Inl (DbUnexpectedErr ''unexpected inserted id type''
           (Some (PlainErr (''unexpected inserted id type: '' @ ty)))))"
proof (cases "Validate (add_invoice_checks d)")
  case None
  show ?thesis
  proof (cases "IsValidInvoiceStatus (Invoice_Status d)")
    case True
    with None have "wf_invoice d"
      using add_invoice_checks_pass[of d] by (simp add: passes_def)
    then show ?thesis
      using insert[of "fst (InsertOne coll d s)"] assms None True
      by (auto simp: AddInvoice_impl_def split: prod.splits sum.splits if_splits)
  next
    case False
    then show ?thesis
      using refuse[OF _ _ constraint_refused] assms None by (auto simp: AddInvoice_impl_def)
  qed
next
  case (Some e)
  then show ?thesis
    using refuse[of e] assms Validate_refused[OF Some add_invoice_checks_constraints]
    by (simp add: AddInvoice_impl_def)
qed

lemma UpdateStatus_cases:
  assumes "UpdateStatus_impl coll n st t s = (r, s')"
  obtains (refuse) e where "r = Inl e" "s' = s" "refused e"
  | (update) ru where "IsValidInvoiceStatus st" "t \<noteq> zero_time"
      "UpdateOne coll (\<lambda>d. Invoice_InvoiceNumber d = n)
         (\<lambda>d. d\<lparr>Invoice_Status := st, Invoice_UpdatedAt := t\<rparr>) s = (ru, s')"
      "r = (case ru of Inl err \<Rightarrow> Inl (DbUnexpectedErr ''failed to update invoice status'' (Some err))
       | Inr k \<Rightarrow> if k = 0 then Inl (DbInvoiceNotFoundErr
                (Some (LibErr NoDocuments ''mongo: no documents in result'')))
           else Inr ())"
proof -
  let ?v = "chain [NotBlank ''invoiceNumber'' n, NotBlank ''status'' st,
    NotZeroValue ''updatedAt'' (time_value t)]"
  show ?thesis
  proof (cases "Validate ?v")
    case None
    then have "t \<noteq> zero_time" by (simp add: validator_simps time_value_def)
    then show ?thesis
      using update[of "fst (UpdateOne coll (\<lambda>d. Invoice_InvoiceNumber d = n)
          (\<lambda>d. d\<lparr>Invoice_Status := st, Invoice_UpdatedAt := t\<rparr>) s)"]
        refuse[OF _ _ constraint_refused] assms None
      by (cases "IsValidInvoiceStatus st")
        (auto simp: UpdateStatus_impl_def split: prod.splits sum.splits if_splits)
  next
    case (Some e)
    then show ?thesis
      using refuse[of e] assms Validate_refused[OF Some]
      by (simp add: UpdateStatus_impl_def validator_simps)
  qed
qed

section \<open>The invoice repository keeps its promises\<close>

text \<open>
  A collection of invoices: what is read back differs from what was written in the identifier
  and the precision of the times only.
\<close>

locale invoice_collection = mongo_documents coll docs rest stored
  for coll :: "('s, doc_Invoice) mongo_collection"
    and docs :: "'s \<Rightarrow> doc_Invoice list"
    and rest :: "'s \<Rightarrow> 'r"
    and stored :: "doc_Invoice \<Rightarrow> doc_Invoice \<Rightarrow> bool" +
  assumes stored_same: "stored d d' \<Longrightarrow> same_record d d'"
begin

lemma find_invoice_quiet:
  "find_invoice coll P s = (r, s') \<Longrightarrow> docs s' = docs s \<and> rest s' = rest s"
  using find_frame[of P s]
  by (auto simp: find_invoice_def split: prod.splits sum.splits if_splits)

lemma find_invoice_found:
  "find_invoice coll P s = (Inr d, s') \<Longrightarrow> d \<in> set (docs s) \<and> P d"
  using find_hit[of P s]
  by (auto simp: find_invoice_def split: prod.splits sum.splits if_splits)

lemma find_invoice_missing:
  "find_invoice coll P s = (Inl e, s') \<Longrightarrow> is_a TDbInvoiceNotFound e \<Longrightarrow> d \<in> set (docs s) \<Longrightarrow> \<not> P d"
  using find_none[of P s] find_err[of P s]
  by (auto simp: find_invoice_def error_simps split: prod.splits sum.splits if_splits)

lemma inserted_stored:
  "\<exists>d'. stored d d' \<and> ds' = ds @ [d'] \<Longrightarrow> inserted d ds ds'"
  using stored_same by (auto simp: inserted_def)

lemma insert_some:
  "InsertOne coll d s = (ri, s') \<Longrightarrow> docs s' = docs s \<or> inserted d (docs s) (docs s')"
  using insert_ok insert_err inserted_stored by (cases ri) blast+

lemma set_stored:
  assumes "\<exists>i<length ds. Invoice_InvoiceNumber (ds ! i) = n \<and>
    (\<exists>d'. stored ((ds ! i)\<lparr>Invoice_Status := st, Invoice_UpdatedAt := t\<rparr>) d' \<and> ds' = ds[i := d'])"
  shows "status_set n st ds ds'"
proof -
  from assms obtain i d' where i: "i < length ds" "Invoice_InvoiceNumber (ds ! i) = n"
    "stored ((ds ! i)\<lparr>Invoice_Status := st, Invoice_UpdatedAt := t\<rparr>) d'" "ds' = ds[i := d']"
    by blast
  have "same_record ((ds ! i)\<lparr>Invoice_Status := st\<rparr>) d'"
    using stored_same[OF i(3)] by (fastforce simp: same_record_def)
  with i show ?thesis by (auto simp: status_set_def)
qed

lemma update_hit_set:
  "UpdateOne coll (\<lambda>d. Invoice_InvoiceNumber d = n)
     (\<lambda>d. d\<lparr>Invoice_Status := st, Invoice_UpdatedAt := t\<rparr>) s = (Inr (Suc k), s') \<Longrightarrow>
   status_set n st (docs s) (docs s')"
  by (rule set_stored) (drule update_hit, blast)

lemma update_none_number:
  "UpdateOne coll (\<lambda>d. Invoice_InvoiceNumber d = n) f s = (Inr 0, s') \<Longrightarrow>
     docs s' = docs s \<and> (\<forall>d\<in>set (docs s). Invoice_InvoiceNumber d \<noteq> n)"
  by (drule update_none) simp

lemma update_not_found:
  assumes "UpdateStatus_impl coll n st t s = (Inl e, s')" and "is_a TDbInvoiceNotFound e"
  shows "docs s' = docs s \<and> (\<forall>d\<in>set (docs s). Invoice_InvoiceNumber d \<noteq> n)"
  using assms(1)
proof (cases rule: UpdateStatus_cases)
  case (refuse e)
  then show ?thesis using assms(2) by (simp add: error_simps)
next
  case (update ru)
  then have "ru = Inr 0"
    using assms(2) update(3,4)
    by (cases ru) (auto simp: error_simps dest: update_plain split: if_splits)
  with update(3) show ?thesis by (auto dest!: update_none_number)
qed

lemma update_err_set:
  assumes "UpdateOne coll (\<lambda>d. Invoice_InvoiceNumber d = n)
     (\<lambda>d. d\<lparr>Invoice_Status := st, Invoice_UpdatedAt := t\<rparr>) s = (Inl e, s')"
  shows "docs s' = docs s \<or> status_set n st (docs s) (docs s')"
  using update_err[OF assms] 
    set_stored[where ds = "docs s" and n = n and st = st and t = t and ds' = "docs s'"] by blast

end

sublocale invoice_collection \<subseteq> mongo_invoices:
  invoice_repo_port "mongo_invoice_repo coll" docs rest
proof
  note [simp] = mongo_invoice_repo_def
  fix n b p st t s s' d
  show "docs s' = docs s \<and> rest s' = rest s"
    if "FindByInvoiceNumber (mongo_invoice_repo coll) n s = (r, s')" for r
    using that find_invoice_quiet by (auto elim!: FindByInvoiceNumber_cases)
  show "d \<in> set (docs s) \<and> Invoice_InvoiceNumber d = n"
    if "FindByInvoiceNumber (mongo_invoice_repo coll) n s = (Inr d, s')"
    using that find_invoice_found by (auto elim!: FindByInvoiceNumber_cases)
  show "Invoice_InvoiceNumber d \<noteq> n"
    if "FindByInvoiceNumber (mongo_invoice_repo coll) n s = (Inl e, s')"
      "is_a TDbInvoiceNotFound e" "d \<in> set (docs s)" for e
    using that find_invoice_missing by (fastforce simp: error_simps elim!: FindByInvoiceNumber_cases)
  show "docs s' = docs s \<and> rest s' = rest s"
    if "FindByBookingNumberAndDocumentNumber (mongo_invoice_repo coll) b p s = (r, s')" for r
    using that find_invoice_quiet by (auto elim!: FindByBooking_cases)
  show "d \<in> set (docs s) \<and> Invoice_BookingId d = b \<and> doc_DocumentNumber (Invoice_Payer d) = p"
    if "FindByBookingNumberAndDocumentNumber (mongo_invoice_repo coll) b p s = (Inr d, s')"
    using that find_invoice_found by (auto elim!: FindByBooking_cases)
  show "Invoice_BookingId d \<noteq> b \<or> doc_DocumentNumber (Invoice_Payer d) \<noteq> p"
    if "FindByBookingNumberAndDocumentNumber (mongo_invoice_repo coll) b p s = (Inl e, s')"
      "is_a TDbInvoiceNotFound e" "d \<in> set (docs s)" for e
    using that find_invoice_missing by (fastforce simp: error_simps elim!: FindByBooking_cases)
  show "rest s' = rest s"
    if "UpdateStatus (mongo_invoice_repo coll) n st t s = (ru, s')" for ru
    using that update_frame by (auto elim!: UpdateStatus_cases)
  show "IsValidInvoiceStatus st \<and> status_set n st (docs s) (docs s')"
    if "UpdateStatus (mongo_invoice_repo coll) n st t s = (Inr u, s')" for u
    using that update_hit_set
    by (auto elim!: UpdateStatus_cases split: sum.splits if_splits simp: gr0_conv_Suc)
  show "docs s' = docs s \<or> IsValidInvoiceStatus st \<and> status_set n st (docs s) (docs s')"
    if "UpdateStatus (mongo_invoice_repo coll) n st t s = (Inl e, s')" for e
    using that by (auto elim!: UpdateStatus_cases split: sum.splits if_splits
        dest: update_err_set update_none)
  show "docs s' = docs s \<and> (\<forall>d\<in>set (docs s). Invoice_InvoiceNumber d \<noteq> n)"
    if "UpdateStatus (mongo_invoice_repo coll) n st t s = (Inl e, s')"
      "is_a TDbInvoiceNotFound e" for e
    using that update_not_found by auto
  show "rest s' = rest s" if "AddInvoice (mongo_invoice_repo coll) d s = (ra, s')" for ra
    using that insert_frame by (auto elim!: AddInvoice_cases)
  show "wf_invoice d \<and> inserted d (docs s) (docs s')"
    if "AddInvoice (mongo_invoice_repo coll) d s = (Inr i, s')" for i
    using that insert_ok inserted_stored
    by (auto elim!: AddInvoice_cases split: sum.splits if_splits)
  show "docs s' = docs s \<or> wf_invoice d \<and> inserted d (docs s) (docs s')"
    if "AddInvoice (mongo_invoice_repo coll) d s = (Inl e, s')" for e
    using that insert_some by (auto elim!: AddInvoice_cases split: sum.splits if_splits)
  show "docs s' = docs s"
    if "AddInvoice (mongo_invoice_repo coll) d s = (Inl e, s')" "is_a TDbAlreadyExists e" for e
    using that insert_dup insert_plain
    by (auto elim!: AddInvoice_cases split: sum.splits if_splits simp: error_simps)
  show "\<not> is_a TAppAlreadyExists e"
    if "AddInvoice (mongo_invoice_repo coll) d s = (Inl e, s')" for e
    using that insert_plain
    by (auto elim!: AddInvoice_cases split: sum.splits if_splits simp: error_simps)
qed

section \<open>The receipt repository keeps its promises\<close>

lemma GetById_cases:
  assumes "GetById_impl coll i s = (r, s')"
  obtains (refuse) e where "r = Inl e" "s' = s" "refused e"
  | (find) rf where "i \<noteq> 0" "FindOne coll (\<lambda>d. Receipt_Id d = i) s = (rf, s')"
      "r = (case rf of Inl err \<Rightarrow>
         Inl (if is_no_documents err then DbReceiptNotFoundErr (Some err)
              else DbCorruptedDataErr (Some err))
       | Inr d \<Rightarrow> Inr d)"
proof (cases "Validate (chain [NotNilObjectID ''id'' i])")
  case None
  then have "i \<noteq> 0" by (simp add: validator_simps)
  then show ?thesis
    using assms None find[of "fst (FindOne coll (\<lambda>d. Receipt_Id d = i) s)"]
    by (auto simp: GetById_impl_def split: prod.splits sum.splits if_splits)
next
  case (Some e)
  then show ?thesis
    using refuse[of e] assms Validate_refused[OF Some]
    by (simp add: GetById_impl_def chain_simps only_constraints_checks)
qed

lemma AddReceipt_cases:
  assumes "AddReceipt_impl coll d s = (r, s')"
  obtains (refuse) e where "r = Inl e" "s' = s" "refused e"
  | (insert) ri where "Receipt_ProcessedAt d \<noteq> zero_time" "InsertOne coll d s = (ri, s')"
      "r = (case ri of Inl err \<Rightarrow>
         Inl (if is_duplicate_key err then DbAlreadyExistsErr (Some err)
              else DbUnexpectedErr ''failed to insert receipt'' (Some err))
       | Inr (Inr i) \<Rightarrow> Inr i
       | Inr (Inl ty) \<Rightarrow> Inl (DbUnexpectedErr ''unexpected inserted id type''
           (Some (PlainErr (''unexpected inserted id type: '' @ ty)))))"
proof (cases "Validate (add_receipt_checks d)")
  case None
  then have "Receipt_ProcessedAt d \<noteq> zero_time"
    by (simp add: add_receipt_checks_def validator_simps time_value_def)
  then show ?thesis
    using assms None insert[of "fst (InsertOne coll d s)"]
    by (auto simp: AddReceipt_impl_def split: prod.splits sum.splits if_splits)
next
  case (Some e)
  then show ?thesis
    using refuse[of e] assms Validate_refused[OF Some add_receipt_checks_constraints]
    by (simp add: AddReceipt_impl_def)
qed

locale receipt_collection = mongo_documents coll docs rest stored
  for coll :: "('s, doc_Receipt) mongo_collection"
    and docs :: "'s \<Rightarrow> doc_Receipt list"
    and rest :: "'s \<Rightarrow> 'r"
    and stored :: "doc_Receipt \<Rightarrow> doc_Receipt \<Rightarrow> bool" +
  assumes stored_same_receipt: "stored d d' \<Longrightarrow> same_receipt d d'"
begin

lemma receipt_inserted_stored:
  "\<exists>d'. stored d d' \<and> ds' = ds @ [d'] \<Longrightarrow> receipt_inserted d ds ds'"
  using stored_same_receipt by (auto simp: receipt_inserted_def)

lemma insert_any:
  "InsertOne coll d s = (ri, s') \<Longrightarrow> docs s' = docs s \<or> receipt_inserted d (docs s) (docs s')"
  using insert_ok insert_err receipt_inserted_stored by (cases ri) blast+

end

sublocale receipt_collection \<subseteq> mongo_receipts:
  receipt_repo_port "mongo_receipt_repo coll" docs rest
proof
  note [simp] = mongo_receipt_repo_def
  fix i s s' d
  show "docs s' = docs s \<and> rest s' = rest s"
    if "GetById (mongo_receipt_repo coll) i s = (r, s')" for r
    using that find_frame by (auto elim!: GetById_cases)
  show "d \<in> set (docs s) \<and> Receipt_Id d = i"
    if "GetById (mongo_receipt_repo coll) i s = (Inr d, s')"
    using that by (auto elim!: GetById_cases split: sum.splits dest!: find_hit)
  show "rest s' = rest s" if "AddReceipt (mongo_receipt_repo coll) d s = (ra, s')" for ra
    using that insert_frame by (auto elim!: AddReceipt_cases)
  show "receipt_inserted d (docs s) (docs s')"
    if "AddReceipt (mongo_receipt_repo coll) d s = (Inr i, s')"
    using that insert_ok receipt_inserted_stored
    by (auto elim!: AddReceipt_cases split: sum.splits if_splits)
  show "docs s' = docs s \<or> receipt_inserted d (docs s) (docs s')"
    if "AddReceipt (mongo_receipt_repo coll) d s = (Inl e, s')" for e
    using that insert_any by (auto elim!: AddReceipt_cases split: sum.splits if_splits)
qed

end
