(* ===== verification/RefWorld.thy ===== *)
theory RefWorld
  imports Repository
begin

text \<open>
  An executable world for the parameters of the model: two MongoDB collections held in lists, a
  broker that logs what it is sent and what is settled, a clock that stands still, and sources of
  randomness read from lists. \<open>world_down\<close> names the operations that fail. The laws stated
  for the external components hold of it, so the model can be run on concrete inputs.
\<close>

record world =
  world_invoices :: "doc_Invoice list"
  world_receipts :: "doc_Receipt list"
  world_sent :: "(proto_message \<times> string) list"
  world_settled :: "settlement list"
  world_now :: go_time
  world_draws :: "int list"
  world_seed :: nat
  world_down :: "string list"

text \<open>An empty world, at noon of 15 January 2026.\<close>

definition empty_world :: world where
  "empty_world = \<lparr>world_invoices = [], world_receipts = [], world_sent = [], world_settled = [],
     world_now = 1768478400 * 1000000000, world_draws = [], world_seed = 0, world_down = []\<rparr>"

definition down :: "string \<Rightarrow> world \<Rightarrow> bool" where
  "down op s \<longleftrightarrow> op \<in> set (world_down s)"

definition lost :: "string \<Rightarrow> go_err" where
  "lost op = LibErr OtherLib (op @ '': connection reset by peer'')"

definition fresh_id :: "world \<Rightarrow> object_id" where
  "fresh_id s = word_of_nat (Suc (world_seed s))"

section \<open>Collections\<close>

text \<open>A collection of documents of type \<open>'d\<close>, kept in one field of the world.\<close>

definition ref_insert ::
  "(world \<Rightarrow> 'd list) \<Rightarrow> (('d list \<Rightarrow> 'd list) \<Rightarrow> world \<Rightarrow> world) \<Rightarrow>
     (object_id \<Rightarrow> 'd \<Rightarrow> 'd) \<Rightarrow> 'd \<Rightarrow> (world, string + object_id) call" where
  "ref_insert get upd with_id d s =
    (if down ''insert'' s then (Inl (lost ''insert''), s)
     else if down ''duplicate'' s then (Inl (LibErr DuplicateKey ''E11000 duplicate key''), s)
     else (Inr (Inr (fresh_id s)),
       upd (\<lambda>ds. ds @ [with_id (fresh_id s) d]) (s\<lparr>world_seed := Suc (world_seed s)\<rparr>)))"

definition ref_find :: "(world \<Rightarrow> 'd list) \<Rightarrow> ('d \<Rightarrow> bool) \<Rightarrow> (world, 'd) call" where
  "ref_find get P s =
    (if down ''find'' s then (Inl (lost ''find''), s)
     else (case find P (get s) of
         None \<Rightarrow> (Inl (LibErr NoDocuments ''mongo: no documents in result''), s)
       | Some d \<Rightarrow> (Inr d, s)))"

definition ref_update ::
  "(world \<Rightarrow> 'd list) \<Rightarrow> (('d list \<Rightarrow> 'd list) \<Rightarrow> world \<Rightarrow> world) \<Rightarrow>
     ('d \<Rightarrow> bool) \<Rightarrow> ('d \<Rightarrow> 'd) \<Rightarrow> (world, nat) call" where
  "ref_update get upd P f s =
    (if down ''update'' s then (Inl (lost ''update''), s)
     else if find P (get s) = None then (Inr 0, s)
     else (Inr 1, upd (update_first P f) s))"

definition ref_invoices :: "(world, doc_Invoice) mongo_collection" where
  "ref_invoices = \<lparr>
     InsertOne = ref_insert world_invoices world_invoices_update (\<lambda>i d. d\<lparr>Invoice_Id := i\<rparr>),
     FindOne = ref_find world_invoices,
     UpdateOne = ref_update world_invoices world_invoices_update\<rparr>"

text \<open>A receipt comes with its identifier.\<close>

definition ref_receipts :: "(world, doc_Receipt) mongo_collection" where
  "ref_receipts = \<lparr>
     InsertOne = ref_insert world_receipts world_receipts_update (\<lambda>i d. d),
     FindOne = ref_find world_receipts,
     UpdateOne = ref_update world_receipts world_receipts_update\<rparr>"

lemma find_Some_set: "find P xs = Some x \<Longrightarrow> x \<in> set xs \<and> P x"
  by (auto simp: find_Some_iff)

lemma update_first_found:
  assumes "find P xs = Some x"
  shows "\<exists>i<length xs. P (xs ! i) \<and> update_first P f xs = xs[i := f (xs ! i)]"
  using update_first_index[of xs P f] find_Some_set[OF assms] by blast

lemma ref_find_err: "ref_find get P s = (Inl e, s') \<Longrightarrow> \<not> is_a T e"
  by (auto simp: ref_find_def lost_def error_simps split: if_splits option.splits)

lemma ref_find_missing:
  assumes "ref_find get P s = (Inl e, s')" and "is_no_documents e" and "d \<in> set (get s)"
  shows "\<not> P d"
  using assms by (auto simp: ref_find_def lost_def find_None_iff split: if_splits option.splits)

definition plain_stored :: "doc_Invoice \<Rightarrow> doc_Invoice \<Rightarrow> bool" where
  "plain_stored d d' \<longleftrightarrow> (\<exists>i. d' = d\<lparr>Invoice_Id := i\<rparr>)"

lemma plain_stored_refl: "plain_stored d d"
  unfolding plain_stored_def by (intro exI[of _ "Invoice_Id d"]) simp

interpretation ref_inv: invoice_collection ref_invoices world_invoices
  "\<lambda>s. (world_receipts s, world_sent s, world_settled s)" plain_stored
proof
  note [simp] = ref_invoices_def
  note [split] = if_splits option.splits
  fix P f s s' d e T
  show "world_invoices s' = world_invoices s \<and>
      (world_receipts s', world_sent s', world_settled s') =
      (world_receipts s, world_sent s, world_settled s)"
    if "FindOne ref_invoices P s = (r, s')" for r
    using that by (auto simp: ref_find_def)
  show "d \<in> set (world_invoices s) \<and> P d" if "FindOne ref_invoices P s = (Inr d, s')"
    using that by (auto simp: ref_find_def dest: find_Some_set)
  show "\<not> P d" if "FindOne ref_invoices P s = (Inl e, s')" "is_no_documents e"
      "d \<in> set (world_invoices s)"
    using that ref_find_missing[of world_invoices] by simp
  show "\<not> is_a T e" if "FindOne ref_invoices P s = (Inl e, s')"
    using that ref_find_err[of world_invoices] by simp
  show "(world_receipts s', world_sent s', world_settled s') =
      (world_receipts s, world_sent s, world_settled s)"
    if "InsertOne ref_invoices d s = (ri, s')" for ri
    using that by (auto simp: ref_insert_def)
  show "\<exists>d'. plain_stored d d' \<and> world_invoices s' = world_invoices s @ [d']"
    if "InsertOne ref_invoices d s = (Inr i, s')" for i
    using that by (auto simp: ref_insert_def plain_stored_def)
  show "world_invoices s' = world_invoices s \<or>
      (\<exists>d'. plain_stored d d' \<and> world_invoices s' = world_invoices s @ [d'])"
    if "InsertOne ref_invoices d s = (Inl e, s')"
    using that by (auto simp: ref_insert_def)
  show "world_invoices s' = world_invoices s"
    if "InsertOne ref_invoices d s = (Inl e, s')" "is_duplicate_key e"
    using that by (auto simp: ref_insert_def)
  show "\<not> is_a T e" if "InsertOne ref_invoices d s = (Inl e, s')"
    using that by (auto simp: ref_insert_def lost_def error_simps)
  show "(world_receipts s', world_sent s', world_settled s') =
      (world_receipts s, world_sent s, world_settled s)"
    if "UpdateOne ref_invoices P f s = (ru, s')" for ru
    using that by (auto simp: ref_update_def)
  show "world_invoices s' = world_invoices s \<and> (\<forall>d\<in>set (world_invoices s). \<not> P d)"
    if "UpdateOne ref_invoices P f s = (Inr 0, s')"
    using that by (auto simp: ref_update_def find_None_iff)
  show "\<not> is_a T e" if "UpdateOne ref_invoices P f s = (Inl e, s')"
    using that by (auto simp: ref_update_def lost_def error_simps)
  show "same_record d d'" if "plain_stored d d'" for d'
    using that same_record_id by (auto simp: plain_stored_def)
  have hit: "\<exists>i<length (world_invoices s). P (world_invoices s ! i) \<and>
      (\<exists>d'. plain_stored (f (world_invoices s ! i)) d' \<and>
        update_first P f (world_invoices s) = (world_invoices s)[i := d'])"
    if "find P (world_invoices s) = Some x" for x
    using update_first_found[OF that, of f] plain_stored_refl by blast
  show "\<exists>i<length (world_invoices s). P (world_invoices s ! i) \<and>
      (\<exists>d'. plain_stored (f (world_invoices s ! i)) d' \<and>
        world_invoices s' = (world_invoices s)[i := d'])"
    if "UpdateOne ref_invoices P f s = (Inr (Suc k), s')" for k
    using that by (auto simp: ref_update_def dest: hit)
  show "world_invoices s' = world_invoices s \<or> (\<exists>i<length (world_invoices s).
      P (world_invoices s ! i) \<and> (\<exists>d'. plain_stored (f (world_invoices s ! i)) d' \<and>
        world_invoices s' = (world_invoices s)[i := d']))"
    if "UpdateOne ref_invoices P f s = (Inl e, s')"
    using that by (auto simp: ref_update_def)
qed

interpretation ref_rec: receipt_collection ref_receipts world_receipts
  "\<lambda>s. (world_invoices s, world_sent s, world_settled s)" "\<lambda>d d'. d' = d"
proof
  note [simp] = ref_receipts_def
  note [split] = if_splits option.splits
  fix P f s s' d e T
  show "world_receipts s' = world_receipts s \<and>
      (world_invoices s', world_sent s', world_settled s') =
      (world_invoices s, world_sent s, world_settled s)"
    if "FindOne ref_receipts P s = (r, s')" for r
    using that by (auto simp: ref_find_def)
  show "d \<in> set (world_receipts s) \<and> P d" if "FindOne ref_receipts P s = (Inr d, s')"
    using that by (auto simp: ref_find_def dest: find_Some_set)
  show "\<not> P d" if "FindOne ref_receipts P s = (Inl e, s')" "is_no_documents e"
      "d \<in> set (world_receipts s)"
    using that ref_find_missing[of world_receipts] by simp
  show "\<not> is_a T e" if "FindOne ref_receipts P s = (Inl e, s')"
    using that ref_find_err[of world_receipts] by simp
  show "(world_invoices s', world_sent s', world_settled s') =
      (world_invoices s, world_sent s, world_settled s)"
    if "InsertOne ref_receipts d s = (ri, s')" for ri
    using that by (auto simp: ref_insert_def)
  show "\<exists>d'. d' = d \<and> world_receipts s' = world_receipts s @ [d']"
    if "InsertOne ref_receipts d s = (Inr i, s')" for i
    using that by (auto simp: ref_insert_def)
  show "world_receipts s' = world_receipts s \<or>
      (\<exists>d'. d' = d \<and> world_receipts s' = world_receipts s @ [d'])"
    if "InsertOne ref_receipts d s = (Inl e, s')"
    using that by (auto simp: ref_insert_def)
  show "world_receipts s' = world_receipts s"
    if "InsertOne ref_receipts d s = (Inl e, s')" "is_duplicate_key e"
    using that by (auto simp: ref_insert_def)
  show "\<not> is_a T e" if "InsertOne ref_receipts d s = (Inl e, s')"
    using that by (auto simp: ref_insert_def lost_def error_simps)
  show "(world_invoices s', world_sent s', world_settled s') =
      (world_invoices s, world_sent s, world_settled s)"
    if "UpdateOne ref_receipts P f s = (ru, s')" for ru
    using that by (auto simp: ref_update_def)
  show "world_receipts s' = world_receipts s \<and> (\<forall>d\<in>set (world_receipts s). \<not> P d)"
    if "UpdateOne ref_receipts P f s = (Inr 0, s')"
    using that by (auto simp: ref_update_def find_None_iff)
  show "\<not> is_a T e" if "UpdateOne ref_receipts P f s = (Inl e, s')"
    using that by (auto simp: ref_update_def lost_def error_simps)
  show "same_receipt d d'" if "d' = d" for d'
    using that same_receipt_refl by simp
  show "\<exists>i<length (world_receipts s). P (world_receipts s ! i) \<and>
      (\<exists>d'. d' = f (world_receipts s ! i) \<and> world_receipts s' = (world_receipts s)[i := d'])"
    if "UpdateOne ref_receipts P f s = (Inr (Suc k), s')" for k
    using that update_first_found[of P "world_receipts s" _ f] by (auto simp: ref_update_def)
  show "world_receipts s' = world_receipts s \<or> (\<exists>i<length (world_receipts s).
      P (world_receipts s ! i) \<and>
      (\<exists>d'. d' = f (world_receipts s ! i) \<and> world_receipts s' = (world_receipts s)[i := d']))"
    if "UpdateOne ref_receipts P f s = (Inl e, s')"
    using that by (auto simp: ref_update_def)
qed

section \<open>The other ports\<close>

definition ref_producer :: "world mq_producer" where
  "ref_producer = \<lparr>
     DeclareExchange = (\<lambda>cfg s. (Inr (), s)),
     Publish = (\<lambda>m k s. if down ''publish'' s then (Inl (lost ''publish''), s)
       else (Inr (), s\<lparr>world_sent := world_sent s @ [(m, k)]\<rparr>)),
     CloseProducer = (\<lambda>s. (Inr (), s))\<rparr>"

definition ref_acknowledger :: "world acknowledger" where
  "ref_acknowledger = \<lparr>
     Ack = (\<lambda>tag m s. if down ''ack'' s then (Some (lost ''ack''), s)
       else (None, s\<lparr>world_settled := world_settled s @ [Acked tag m]\<rparr>)),
     Nack = (\<lambda>tag m q s. if down ''nack'' s then (Some (lost ''nack''), s)
       else (None, s\<lparr>world_settled := world_settled s @ [Nacked tag m q]\<rparr>))\<rparr>"

definition ref_clock :: "world clock_port" where
  "ref_clock = \<lparr>
     Now = (\<lambda>s. if down ''clock'' s then (Inl (lost ''clock''), s) else (Inr (world_now s), s)),
     CloseClock = (\<lambda>s. (Inr (), s))\<rparr>"

definition ref_timestamps :: timestamp_lib where
  "ref_timestamps = \<lparr>
     AsTime = (\<lambda>ts. sint (case ts of None \<Rightarrow> 0 | Some t \<Rightarrow> Timestamp_Seconds t) * 1000000000 +
       sint (case ts of None \<Rightarrow> 0 | Some t \<Rightarrow> Timestamp_Nanos t)),
     TimestampNew = (\<lambda>t. \<lparr>Timestamp_Seconds = word_of_int (t div 1000000000),
       Timestamp_Nanos = word_of_int (t mod 1000000000)\<rparr>)\<rparr>"

definition ref_uuid :: string where
  "ref_uuid = ''0f8fad5b-d9cb-469f-a165-70867728950e''"

definition ref_runtime :: "world runtime" where
  "ref_runtime = \<lparr>
     RandInt = (\<lambda>s. case world_draws s of [] \<Rightarrow> (2 ^ 62, s)
       | i # is \<Rightarrow> (i mod 2 ^ 63, s\<lparr>world_draws := is\<rparr>)),
     UuidNewRandom = (\<lambda>s. if down ''uuid'' s then (Inl (lost ''uuid''), s) else (Inr ref_uuid, s)),
     UuidNew = (\<lambda>s. if down ''uuid'' s then (None, s) else (Some ref_uuid, s)),
     RandRead = (\<lambda>s. (Inr (\<lambda>i. word_of_nat (world_seed s + i)),
       s\<lparr>world_seed := Suc (world_seed s)\<rparr>)),
     TimestampNow = (\<lambda>s. (TimestampNew ref_timestamps (world_now s), s)),
     NewObjectID = (\<lambda>s. (fresh_id s, s\<lparr>world_seed := Suc (world_seed s)\<rparr>))\<rparr>"

lemma ref_timestamps_ok: "timestamps_ok ref_timestamps"
proof -
  have "sint (word_of_int (t div 1000000000) :: 64 word) * 1000000000 +
      sint (word_of_int (t mod 1000000000) :: 32 word) = t" if "timestamp_range t" for t
  proof -
    have "sint (word_of_int (t div 1000000000) :: 64 word) = t div 1000000000"
      using that by (simp add: timestamp_range_def sint_sbintrunc' signed_take_bit_int_eq_self)
    moreover have "sint (word_of_int (t mod 1000000000) :: 32 word) = t mod 1000000000"
    proof -
      have "0 \<le> t mod 1000000000" "t mod 1000000000 < 1000000000" by simp_all
      then show ?thesis by (simp add: sint_sbintrunc' signed_take_bit_int_eq_self)
    qed
    ultimately show ?thesis by simp
  qed
  then show ?thesis by (simp add: timestamps_ok_def ref_timestamps_def)
qed

lemma ref_uuid_text: "uuid_text ref_uuid"
  by (simp add: uuid_text_def ref_uuid_def remove_dashes_def hex_digits_def)

interpretation ref: app_ports "mongo_invoice_repo ref_invoices" "mongo_receipt_repo ref_receipts"
  ref_producer ref_acknowledger ref_clock ref_runtime
  world_invoices world_receipts world_sent world_settled
proof (intro app_ports.intro)
  show "invoice_repo_port (mongo_invoice_repo ref_invoices) world_invoices
      (\<lambda>s. (world_receipts s, world_sent s, world_settled s))"
    by (rule ref_inv.mongo_invoices.invoice_repo_port_axioms)
  show "receipt_repo_port (mongo_receipt_repo ref_receipts) world_receipts
      (\<lambda>s. (world_invoices s, world_sent s, world_settled s))"
    by (rule ref_rec.mongo_receipts.receipt_repo_port_axioms)
  show "producer_port ref_producer world_sent
      (\<lambda>s. (world_invoices s, world_receipts s, world_settled s))"
    by unfold_locales (auto simp: ref_producer_def lost_def error_simps split: if_splits)
  show "acknowledger_port ref_acknowledger world_settled
      (\<lambda>s. (world_invoices s, world_receipts s, world_sent s))"
    by unfold_locales (auto simp: ref_acknowledger_def lost_def error_simps split: if_splits)
  show "clock_quiet ref_clock
      (\<lambda>s. (world_invoices s, world_receipts s, world_sent s, world_settled s))"
    by unfold_locales (auto simp: ref_clock_def split: if_splits)
  show "runtime_port ref_runtime
      (\<lambda>s. (world_invoices s, world_receipts s, world_sent s, world_settled s))"
    by unfold_locales
      (auto simp: ref_runtime_def ref_uuid_text split: if_splits list.splits)
qed

lemmas ref_app_ports = ref.app_ports_axioms

end
