(* ===== verification/IdGen.thy ===== *)
theory IdGen
  imports RefWorld
begin

text \<open>
  internal/app/util/util.go: the identifiers printed for people, such as
  \<open>INV-20260115-3f9a0c\<close>: a prefix, the day, and six characters picked from the hexadecimal
  digits of a random UUID by six random bytes.
\<close>

definition invoiceNumberSuffixLength :: nat where
  "invoiceNumberSuffixLength = 6"

text \<open>The index expression divides by the length of \<open>source\<close> and panics when it is 0.\<close>

definition GenerateHumanFriendlyId ::
  "'s runtime \<Rightarrow> string \<Rightarrow> go_time \<Rightarrow> 's \<Rightarrow> (go_err, string) outcome \<times> 's" where
  "GenerateHumanFriendlyId rt pre now s =
    (case UuidNewRandom rt s of
       (Inl err, s1) \<Rightarrow>
         (Failed (AppUnexpectedErr ''unexpected error while generating uuid'' (Some err)), s1)
     | (Inr i, s1) \<Rightarrow>
       (let source = remove_dashes i in
        case RandRead rt s1 of
          (Inl err, s2) \<Rightarrow>
            (Failed (AppUnexpectedErr ''unexpected error while generating random'' (Some err)), s2)
        | (Inr random, s2) \<Rightarrow>
            if source = [] then (Panicked ''runtime error: integer divide by zero'', s2)
            else (Returned (pre @ ''-'' @ format_date now @ ''-'' @
                map (\<lambda>i. source ! (unat (random i) mod length source))
                  [0..<invoiceNumberSuffixLength]), s2)))"

section \<open>The shape of an identifier\<close>

definition friendly_id :: "string \<Rightarrow> go_time \<Rightarrow> string \<Rightarrow> bool" where
  "friendly_id pre now i \<longleftrightarrow>
     (\<exists>suffix. i = pre @ ''-'' @ format_date now @ ''-'' @ suffix \<and>
        length suffix = 6 \<and> set suffix \<subseteq> set hex_digits)"

lemma friendly_id_length:
  assumes "friendly_id pre now i" and "civil_from_days (now div nanos_per_day) = (y, m, d)"
    and "0 \<le> y" and "y \<le> 9999"
  shows "length i = length pre + 16"
  using assms(1) length_format_date[OF assms(2-4)] by (auto simp: friendly_id_def)

text \<open>The day can be read back from an identifier.\<close>

lemma friendly_id_date:
  assumes "friendly_id pre now i" and "civil_from_days (now div nanos_per_day) = (y, m, d)"
    and "0 \<le> y" and "y \<le> 9999"
  shows "parse_date (take 8 (drop (Suc (length pre)) i)) = (y, m, d)"
  using assms(1) length_format_date[OF assms(2-4)] parse_format_date[OF assms(2-4)]
  by (auto simp: friendly_id_def)

lemma friendly_id_not_blank:
  "friendly_id (c # pre) now i \<Longrightarrow> c \<notin> set space_leads \<Longrightarrow> \<not> is_blank i"
  by (auto simp: friendly_id_def not_blank_Cons)

text \<open>
  Every byte picks a digit of the source, and none is preferred: 256 is a multiple of 32, so
  each of the 32 positions is picked by eight of the 256 bytes.
\<close>

definition bytes_for :: "nat \<Rightarrow> nat \<Rightarrow> 8 word list" where
  "bytes_for n j = filter (\<lambda>b. unat b mod n = j) (map word_of_nat [0..<256])"

lemma residues_in_block:
  assumes "j < n"
  shows "filter (\<lambda>k. k mod n = j) [n * q..<n * q + n] = [n * q + j]"
proof -
  have "[n * q..<n * q + n] = map (\<lambda>i. i + n * q) [0..<n]"
    by (simp add: map_add_upt add.commute)
  moreover have "filter (\<lambda>i. (i + n * q) mod n = j) [0..<n] = filter (\<lambda>i. i = j) [0..<n]"
    by (intro filter_cong) auto
  moreover have "filter (\<lambda>i. i = j) [0..<n] = [j]" if "j < n" for n
    using that
  proof (induction n)
    case 0
    then show ?case by simp
  next
    case (Suc n)
    have "filter (\<lambda>i. i = j) [0..<n] = []" if "n \<le> j"
      using that by (auto simp: filter_empty_conv)
    then show ?case using Suc by (cases "j = n") simp_all
  qed
  ultimately show ?thesis using assms by (simp add: filter_map comp_def)
qed

lemma residues_uniform:
  assumes "j < n"
  shows "length (filter (\<lambda>k. k mod n = j) [0..<n * q]) = q"
proof (induction q)
  case 0
  then show ?case by simp
next
  case (Suc q)
  have "[0..<n * Suc q] = [0..<n * q] @ [n * q..<n * q + n]"
    using upt_add_eq_append[of 0 "n * q" n] by (simp add: algebra_simps)
  then show ?case using Suc residues_in_block[OF assms] by simp
qed

lemma bytes_for_uniform:
  assumes "j < n" and "n * q = 256"
  shows "length (bytes_for n j) = q"
proof -
  have "unat (word_of_nat k :: 8 word) = k" if "k < 256" for k :: nat
    using that by (simp add: unsigned_of_nat take_bit_nat_eq_self)
  then have "filter (\<lambda>k. unat (word_of_nat k :: 8 word) mod n = j) [0..<256] =
      filter (\<lambda>k. k mod n = j) [0..<256]"
    by (intro filter_cong) auto
  then show ?thesis
    using residues_uniform[OF assms(1), of q] assms(2)
    by (simp add: bytes_for_def filter_map comp_def del: upt_rec_numeral)
qed

lemma all_bytes: "b \<in> set (map word_of_nat [0..<256] :: 8 word list)"
proof -
  have "unat b < 256" using unsigned_less[of b] by simp
  then have "b \<in> word_of_nat ` {0..<256}" by (intro image_eqI[of _ _ "unat b"]) simp_all
  then show ?thesis by (simp only: set_map set_upt)
qed

section \<open>What the generator returns\<close>

locale id_source = runtime_port rt rtrest
  for rt :: "'s runtime" and rtrest :: "'s \<Rightarrow> 'r"
begin

lemma GenerateHumanFriendlyId_cases:
  assumes "GenerateHumanFriendlyId rt pre now s = (r, s')"
  obtains (id) i where "r = Returned i" "friendly_id pre now i"
  | (failed) m e where "r = Failed (AppUnexpectedErr m (Some e))"
proof -
  have pick: "source ! (k mod length source) \<in> set source" if "source \<noteq> []" for source :: string and k
    using that by (intro nth_mem mod_less_divisor) simp
  show ?thesis
  proof (cases "UuidNewRandom rt s")
    case (Pair u s1)
    show ?thesis
    proof (cases u)
      case (Inl e)
      with Pair assms failed show ?thesis by (auto simp: GenerateHumanFriendlyId_def)
    next
      case (Inr t)
      with Pair have u: "uuid_text t" using uuid_shape by blast
      then have ne: "remove_dashes t \<noteq> []" by (auto simp: uuid_text_def)
      show ?thesis
      proof (cases "fst (RandRead rt s1)")
        case (Inl e)
        with Pair \<open>u = Inr t\<close> assms failed show ?thesis
          by (auto simp: GenerateHumanFriendlyId_def Let_def split: prod.splits)
      next
        case (Inr b)
        let ?suffix = "map (\<lambda>i. remove_dashes t ! (unat (b i) mod length (remove_dashes t)))
          [0..<invoiceNumberSuffixLength]"
        have "set ?suffix \<subseteq> set hex_digits"
          using u pick[OF ne] by (auto simp: uuid_text_def)
        moreover have "length ?suffix = 6" by (simp add: invoiceNumberSuffixLength_def)
        ultimately have "friendly_id pre now (pre @ ''-'' @ format_date now @ ''-'' @ ?suffix)"
          unfolding friendly_id_def by blast
        moreover have "r = Returned (pre @ ''-'' @ format_date now @ ''-'' @ ?suffix)"
          using Pair Inr \<open>u = Inr t\<close> ne assms
          by (auto simp: GenerateHumanFriendlyId_def Let_def split: prod.splits)
        ultimately show ?thesis using id by blast
      qed
    qed
  qed
qed

lemma GenerateHumanFriendlyId_rest:
  "GenerateHumanFriendlyId rt pre now s = (r, s') \<Longrightarrow> rtrest s' = rtrest s"
  using uuid_rest read_rest
  by (fastforce simp: GenerateHumanFriendlyId_def Let_def split: prod.splits sum.splits if_splits)

end

sublocale app_ports \<subseteq> ids: id_source rt "\<lambda>s. (docs s, rcpts s, sent s, settled s)"
  by unfold_locales

interpretation ref_ids: id_source ref_runtime
  "\<lambda>s. (world_invoices s, world_receipts s, world_sent s, world_settled s)"
  by unfold_locales

end
