(* ===== verification/InvoiceService.thy ===== *)
theory InvoiceService
  imports IdGen "HOL-Library.Sublist"
begin

text \<open>
  internal/app/invoice_service.go and internal/app/payment_request_mapper.go: the consumer of
  invoice requests. A delivery is decoded, turned into an invoice document, stored, announced by
  a payment request, and answered to the broker.
\<close>

section \<open>The payment request of an invoice\<close>

definition payment_url :: "string \<Rightarrow> string \<Rightarrow> string" where
  "payment_url host number = host @ ''/v1/payments/invoice/'' @ number"

definition buildPaymentRequest ::
  "timestamp_lib \<Rightarrow> doc_Invoice \<Rightarrow> string \<Rightarrow> pb_PaymentRequest" where
  "buildPaymentRequest tsl invoice host = \<lparr>
     PaymentRequest_InvoiceNumber = Invoice_InvoiceNumber invoice,
     PaymentRequest_Description = '''',
     PaymentRequest_Total = Some \<lparr>
       Money_Amount = doc_Amount (Invoice_Total invoice),
       Money_Currency = doc_Currency (Invoice_Total invoice)\<rparr>,
     PaymentRequest_IssuedAt = Some (TimestampNew tsl (Invoice_IssuedAt invoice)),
     PaymentRequest_ExpiresAt = Some (TimestampNew tsl (Invoice_DueAt invoice)),
     PaymentRequest_Booking = Some \<lparr>
       BookingSummary_CottageName = doc_CottageName (Invoice_Booking invoice),
       BookingSummary_Nights = doc_Nights (Invoice_Booking invoice),
       BookingSummary_NumberOfGuests = doc_NumberOfGuests (Invoice_Booking invoice)\<rparr>,
     PaymentRequest_Payer = Some \<lparr>
       PayerSummary_Name = doc_Name (Invoice_Payer invoice),
       PayerSummary_Email = doc_Email (Invoice_Payer invoice)\<rparr>,
     PaymentRequest_Options = [Some \<lparr>
       PaymentOption_Method = PaymentMethod_PAYMENT_METHOD_CREDIT_CARD,
       PaymentOption_PaymentUrl = payment_url host (Invoice_InvoiceNumber invoice),
       PaymentOption_Instructions = ''Please use the following url to pay for your booking''\<rparr>]\<rparr>"

text \<open>The checks of one option, at its place in the list, added to a validator.\<close>

definition option_field :: "nat \<Rightarrow> string" where
  "option_field idx = ''options['' @ itoa idx @ '']''"

fun option_checks :: "nat \<Rightarrow> pb_PaymentOption option list \<Rightarrow> validator \<Rightarrow> validator" where
  "option_checks idx [] v = v"
| "option_checks idx (opt # opts) v =
     option_checks (Suc idx) opts
       (NotBlank (option_field idx @ ''.instructions'') (PaymentOption_GetInstructions opt)
         (NotBlank (option_field idx @ ''.payment_url'') (PaymentOption_GetPaymentUrl opt)
           (PositiveValue (option_field idx @ ''.method'') (int32 (PaymentOption_GetMethod opt))
             (NotNil (option_field idx) (ptr opt) v))))"

definition payment_request_checks ::
  "timestamp_lib \<Rightarrow> pb_PaymentRequest option \<Rightarrow> validator" where
  "payment_request_checks tsl paymentRequest =
    (let issuedAt = PaymentRequest_GetIssuedAt paymentRequest;
         expiresAt = PaymentRequest_GetExpiresAt paymentRequest;
         booking = PaymentRequest_GetBooking paymentRequest;
         payer = PaymentRequest_GetPayer paymentRequest;
         total = PaymentRequest_GetTotal paymentRequest;
         options = PaymentRequest_GetOptions paymentRequest;
         validator1 = chain
           [NotNil ''paymentRequest'' (ptr paymentRequest),
            NotBlank ''invoice_number'' (PaymentRequest_GetInvoiceNumber paymentRequest),
            NotNil ''total'' (ptr total),
            PositiveValue ''total.amount'' (int64 (Money_GetAmount total)),
            NotBlank ''total.currency'' (Money_GetCurrency total),
            NotNil ''issued_at'' (ptr issuedAt),
            NotNil ''expires_at'' (ptr expiresAt),
            NotNil ''booking'' (ptr booking),
            NotBlank ''booking.cottage_name'' (BookingSummary_GetCottageName booking),
            PositiveValue ''booking.nights'' (int32 (BookingSummary_GetNights booking)),
            PositiveValue ''booking.number_of_guests''
              (int32 (BookingSummary_GetNumberOfGuests booking)),
            NotNil ''payer'' (ptr payer),
            NotBlank ''payer.name'' (PayerSummary_GetName payer),
            NotBlank ''payer.email'' (PayerSummary_GetEmail payer),
            PositiveValue ''options'' (Some (VInt (int (length options))))];
         validator2 = option_checks 0 options validator1
     in if issuedAt \<noteq> None \<and> expiresAt \<noteq> None
        then ValidPrecedence (AsTime tsl issuedAt) (AsTime tsl expiresAt) validator2
        else validator2)"

definition validatePaymentRequest ::
  "timestamp_lib \<Rightarrow> pb_PaymentRequest option \<Rightarrow> go_err option" where
  "validatePaymentRequest tsl paymentRequest =
     Validate (payment_request_checks tsl paymentRequest)"

section \<open>The service\<close>

record 's invoice_service =
  IS_clock :: "'s clock_port"
  IS_invoiceRepo :: "'s invoice_repo"
  IS_invoiceConsumer :: "'s mq_consumer"
  IS_paymentProducer :: "'s mq_producer"
  IS_paymentHost :: string

definition NewInvoiceService ::
  "'s invoice_repo option \<Rightarrow> 's clock_port option \<Rightarrow> 's mq_consumer option \<Rightarrow>
     's mq_producer option \<Rightarrow> string \<Rightarrow> go_err + 's invoice_service" where
  "NewInvoiceService invoiceRepo clock invoiceConsumer paymentProducer paymentHost =
    (case Validate (chain
       [NotNil ''invoice_repo'' (ptr invoiceRepo),
        NotNil ''clock'' (ptr clock),
        NotNil ''invoice_consumer'' (ptr invoiceConsumer),
        NotNil ''payment_producer'' (ptr paymentProducer),
        NotBlank ''payment_host'' paymentHost]) of
       Some err \<Rightarrow> Inl err
     | None \<Rightarrow> Inr \<lparr>
         IS_clock = the clock,
         IS_invoiceRepo = the invoiceRepo,
         IS_invoiceConsumer = the invoiceConsumer,
         IS_paymentProducer = the paymentProducer,
         IS_paymentHost = paymentHost\<rparr>)"

text \<open>
  \<open>proto.Unmarshal\<close> and \<open>protojson.Unmarshal\<close> into a fresh request; both clear the message
  they are given first.
\<close>

record codec =
  ProtoUnmarshal :: "8 word list \<Rightarrow> go_err + pb_CreateInvoicePaymentRequest"
  JsonUnmarshal :: "8 word list \<Rightarrow> go_err + pb_CreateInvoicePaymentRequest"

definition unmarshal_any ::
  "codec \<Rightarrow> delivery \<Rightarrow> go_err + pb_CreateInvoicePaymentRequest" where
  "unmarshal_any cdc dlv =
    (case ProtoUnmarshal cdc (Body dlv) of
       Inr req \<Rightarrow> Inr req
     | Inl _ \<Rightarrow>
      (case JsonUnmarshal cdc (Body dlv) of
         Inr req \<Rightarrow> Inr req
       | Inl _ \<Rightarrow> Inl (AppCorruptedDataError
           (''could not unmarshal message to dto.CreateInvoicePaymentRequest; unsupported content_type=''
              @ go_quote (ContentType dlv))
           (Some (PlainErr ''message body is neither valid protobuf nor valid protobuf json'')))))"

definition unmarshalRequest ::
  "codec \<Rightarrow> delivery \<Rightarrow> go_err + pb_CreateInvoicePaymentRequest" where
  "unmarshalRequest cdc dlv =
    (let contentType = to_lower (trim_space (ContentType dlv)) in
     if contentType = '''' \<or> contentType = ''application/protobuf'' then
       (case ProtoUnmarshal cdc (Body dlv) of
          Inr req \<Rightarrow> Inr req
        | Inl err \<Rightarrow>
            if contentType = ''application/protobuf'' then
              Inl (AppCorruptedDataError
                ''could not unmarshal protobuf message to dto.CreateInvoicePaymentRequest'' (Some err))
            else unmarshal_any cdc dlv)
     else if contentType = ''application/json'' then
       (case JsonUnmarshal cdc (Body dlv) of
          Inr req \<Rightarrow> Inr req
        | Inl err \<Rightarrow> Inl (AppCorruptedDataError
            ''could not unmarshal json message to dto.CreateInvoicePaymentRequest'' (Some err)))
     else unmarshal_any cdc dlv)"

definition generateInvoiceDoc ::
  "'s runtime \<Rightarrow> timestamp_lib \<Rightarrow> 's invoice_service \<Rightarrow> pb_CreateInvoicePaymentRequest option \<Rightarrow>
     's \<Rightarrow> (go_err, doc_Invoice) outcome \<times> 's" where
  "generateInvoiceDoc rt tsl svc createInvoiceRequest s =
    (case Now (IS_clock svc) s of
       (Inl err, s1) \<Rightarrow> (Failed (AppUnexpectedErr ''failed to get current time'' (Some err)), s1)
     | (Inr now, s1) \<Rightarrow>
      (case GenerateHumanFriendlyId rt ''INV'' now s1 of
         (Panicked m, s2) \<Rightarrow> (Panicked m, s2)
       | (Failed err, s2) \<Rightarrow>
           (Failed (AppUnexpectedErr ''failed to generate invoice number'' (Some err)), s2)
       | (Returned invoiceNumber, s2) \<Rightarrow>
          (case NewInvoiceFromProtoMessage tsl createInvoiceRequest invoiceNumber now of
             Inl err \<Rightarrow> (Failed (AppCorruptedDataError
                 ''could not create invoice document from request'' (Some err)), s2)
           | Inr invoice \<Rightarrow> (Returned invoice, s2))))"

definition saveInvoice :: "'s invoice_service \<Rightarrow> doc_Invoice \<Rightarrow> ('s, object_id) call" where
  "saveInvoice svc invoice s =
    (case AddInvoice (IS_invoiceRepo svc) invoice s of
       (Inl err, s1) \<Rightarrow>
         if is_a TDbAlreadyExists err then (Inl (AppAlreadyExistsErr (Some err)), s1)
         else (Inl (AppUnexpectedErr ''failed to add invoice'' (Some err)), s1)
     | (Inr invoiceID, s1) \<Rightarrow> (Inr invoiceID, s1))"

definition guest_key :: "doc_Invoice \<Rightarrow> string" where
  "guest_key invoice = ''guest.'' @ Invoice_PayerId invoice"

definition publishPaymentRequest ::
  "timestamp_lib \<Rightarrow> 's invoice_service \<Rightarrow> doc_Invoice \<Rightarrow> ('s, unit) call" where
  "publishPaymentRequest tsl svc invoice s =
    (let paymentRequest = buildPaymentRequest tsl invoice (IS_paymentHost svc) in
     case validatePaymentRequest tsl (Some paymentRequest) of
       Some err \<Rightarrow> (Inl err, s)
     | None \<Rightarrow>
      (let routingKey = guest_key invoice in
       case Publish (IS_paymentProducer svc) (PaymentRequestMsg paymentRequest) routingKey s of
         (Inl err, s1) \<Rightarrow>
           (Inl (AppPublishErr (''failed to publish paymentRequest; routingKey: '' @ routingKey
              @ ''; invoiceNumber: '' @ PaymentRequest_InvoiceNumber paymentRequest) (Some err)), s1)
       | (Inr _, s1) \<Rightarrow> (Inr (), s1)))"

text \<open>The error of a failed \<open>Nack\<close> is only logged.\<close>

definition nack :: "'s acknowledger \<Rightarrow> delivery \<Rightarrow> bool \<Rightarrow> bool \<Rightarrow> 's \<Rightarrow> 's" where
  "nack ackn dlv multiple requeue s = snd (Nack ackn (DeliveryTag dlv) multiple requeue s)"

definition processInvoiceDelivery ::
  "'s runtime \<Rightarrow> timestamp_lib \<Rightarrow> codec \<Rightarrow> 's acknowledger \<Rightarrow> 's invoice_service \<Rightarrow> delivery \<Rightarrow>
     's \<Rightarrow> (go_err, unit) outcome \<times> 's" where
  "processInvoiceDelivery rt tsl cdc ackn svc dlv s =
    (case unmarshalRequest cdc dlv of
       Inl err \<Rightarrow> (Failed err, nack ackn dlv False False s)
     | Inr req \<Rightarrow>
      (case generateInvoiceDoc rt tsl svc (Some req) s of
         (Panicked m, s1) \<Rightarrow> (Panicked m, s1)
       | (Failed err, s1) \<Rightarrow> (Failed err, nack ackn dlv False False s1)
       | (Returned invoice, s1) \<Rightarrow>
        (case saveInvoice svc invoice s1 of
           (Inl err, s2) \<Rightarrow>
             if is_a TAppAlreadyExists err then (Failed err, nack ackn dlv False False s2)
             else (Failed err, nack ackn dlv False True s2)
         | (Inr _, s2) \<Rightarrow>
          (case publishPaymentRequest tsl svc invoice s2 of
             (Inl err, s3) \<Rightarrow>
               if is_a TValidation err then (Failed err, nack ackn dlv False False s3)
               else (Failed err, nack ackn dlv False True s3)
           | (Inr _, s3) \<Rightarrow>
              (case Ack ackn (DeliveryTag dlv) False s3 of
                 (None, s4) \<Rightarrow> (Returned (), s4)
               | (Some err, s4) \<Rightarrow> (Failed err, s4))))))"

text \<open>The errors of a delivery are logged; a panic ends the goroutine, and the program.\<close>

fun process_deliveries ::
  "'s runtime \<Rightarrow> timestamp_lib \<Rightarrow> codec \<Rightarrow> 's acknowledger \<Rightarrow> 's invoice_service \<Rightarrow>
     delivery list \<Rightarrow> 's \<Rightarrow> (go_err, unit) outcome \<times> 's" where
  "process_deliveries rt tsl cdc ackn svc [] s = (Returned (), s)"
| "process_deliveries rt tsl cdc ackn svc (dlv # dlvs) s =
    (case processInvoiceDelivery rt tsl cdc ackn svc dlv s of
       (Panicked m, s1) \<Rightarrow> (Panicked m, s1)
     | (Failed err, s1) \<Rightarrow> process_deliveries rt tsl cdc ackn svc dlvs s1
     | (Returned _, s1) \<Rightarrow> process_deliveries rt tsl cdc ackn svc dlvs s1)"

definition StartInvoiceProcessing ::
  "'s runtime \<Rightarrow> timestamp_lib \<Rightarrow> codec \<Rightarrow> 's acknowledger \<Rightarrow> 's invoice_service \<Rightarrow>
     's \<Rightarrow> (go_err, unit) outcome \<times> 's" where
  "StartInvoiceProcessing rt tsl cdc ackn svc s =
    (case Consume (IS_invoiceConsumer svc) s of
       (Inl err, s1) \<Rightarrow> (Returned (), s1)
     | (Inr deliveries, s1) \<Rightarrow> process_deliveries rt tsl cdc ackn svc deliveries s1)"

section \<open>Valid payment requests\<close>

definition valid_option :: "pb_PaymentOption option \<Rightarrow> bool" where
  "valid_option opt \<longleftrightarrow> opt \<noteq> None \<and> 0 < sint (PaymentOption_GetMethod opt) \<and>
     \<not> is_blank (PaymentOption_GetPaymentUrl opt) \<and>
     \<not> is_blank (PaymentOption_GetInstructions opt)"

lemma option_checks_pass [validator_simps]:
  "passes (option_checks idx opts v) \<longleftrightarrow> passes v \<and> (\<forall>opt\<in>set opts. valid_option opt)"
  by (induction opts arbitrary: idx v) (auto simp: validator_simps valid_option_def)

lemma option_checks_constraints [validator_simps]:
  "only_constraints (option_checks idx opts v) \<longleftrightarrow> only_constraints v"
  by (induction opts arbitrary: idx v) (auto simp: validator_simps)

text \<open>The conditions on a payment request, said without the validator.\<close>

definition valid_payment_request :: "timestamp_lib \<Rightarrow> pb_PaymentRequest option \<Rightarrow> bool" where
  "valid_payment_request tsl r \<longleftrightarrow> r \<noteq> None \<and>
     \<not> is_blank (PaymentRequest_GetInvoiceNumber r) \<and>
     PaymentRequest_GetTotal r \<noteq> None \<and>
     0 < sint (Money_GetAmount (PaymentRequest_GetTotal r)) \<and>
     \<not> is_blank (Money_GetCurrency (PaymentRequest_GetTotal r)) \<and>
     PaymentRequest_GetIssuedAt r \<noteq> None \<and> PaymentRequest_GetExpiresAt r \<noteq> None \<and>
     AsTime tsl (PaymentRequest_GetIssuedAt r) < AsTime tsl (PaymentRequest_GetExpiresAt r) \<and>
     PaymentRequest_GetBooking r \<noteq> None \<and>
     \<not> is_blank (BookingSummary_GetCottageName (PaymentRequest_GetBooking r)) \<and>
     0 < sint (BookingSummary_GetNights (PaymentRequest_GetBooking r)) \<and>
     0 < sint (BookingSummary_GetNumberOfGuests (PaymentRequest_GetBooking r)) \<and>
     PaymentRequest_GetPayer r \<noteq> None \<and>
     \<not> is_blank (PayerSummary_GetName (PaymentRequest_GetPayer r)) \<and>
     \<not> is_blank (PayerSummary_GetEmail (PaymentRequest_GetPayer r)) \<and>
     PaymentRequest_GetOptions r \<noteq> [] \<and>
     (\<forall>opt\<in>set (PaymentRequest_GetOptions r). valid_option opt)"

lemma payment_request_checks_pass [validator_simps]:
  "passes (payment_request_checks tsl r) \<longleftrightarrow> valid_payment_request tsl r"
  unfolding payment_request_checks_def Let_def
  by (auto simp: validator_simps valid_payment_request_def split: if_splits)

lemma payment_request_checks_constraints [validator_simps]:
  "only_constraints (payment_request_checks tsl r)"
  unfolding payment_request_checks_def Let_def by (auto simp: validator_simps)

lemma validatePaymentRequest_None:
  "validatePaymentRequest tsl r = None \<longleftrightarrow> valid_payment_request tsl r"
  by (simp add: validatePaymentRequest_def validator_simps)

lemma payment_url_not_blank: "\<not> is_blank (payment_url host n)"
proof (rule not_blank_member)
  show "CHR ''/'' \<in> set (payment_url host n)" by (simp add: payment_url_def)
  show "CHR ''/'' \<notin> set (concat go_spaces)" by (simp add: go_spaces_def)
qed

lemma instructions_not_blank:
  "\<not> is_blank ''Please use the following url to pay for your booking''"
  by (rule not_blank_Cons) (simp add: space_leads_def go_spaces_def)

text \<open>The times of a request can be written as timestamps.\<close>

definition times_in_range :: "timestamp_lib \<Rightarrow> pb_CreateInvoicePaymentRequest option \<Rightarrow> bool" where
  "times_in_range tsl r \<longleftrightarrow>
     timestamp_range (AsTime tsl (CreateInvoicePaymentRequest_GetIssuedAt r)) \<and>
     timestamp_range (AsTime tsl (CreateInvoicePaymentRequest_GetDueAt r))"

text \<open>The request made for an invoice the service generated is valid.\<close>

lemma generated_request_valid:
  assumes "timestamps_ok tsl" and "valid_create_request tsl r" and "times_in_range tsl r"
    and "\<not> is_blank n"
  shows "valid_payment_request tsl (Some (buildPaymentRequest tsl (invoice_of tsl r n now) host))"
proof -
  have "AsTime tsl (Some (TimestampNew tsl (AsTime tsl t))) = AsTime tsl t"
    if "timestamp_range (AsTime tsl t)" for t
    using assms(1) that by (simp add: timestamps_ok_def)
  then show ?thesis
    using assms(2-4) payment_url_not_blank instructions_not_blank
    by (auto simp: valid_payment_request_def buildPaymentRequest_def invoice_of_def doc_money_of_def
        Let_def valid_create_request_def valid_payer_def valid_booking_def valid_money_def
        times_in_range_def valid_option_def PaymentMethod_PAYMENT_METHOD_CREDIT_CARD_def)
qed

lemma inv_prefix_not_blank: "friendly_id ''INV'' now n \<Longrightarrow> \<not> is_blank n"
  by (erule friendly_id_not_blank) (simp add: space_leads_def go_spaces_def)

section \<open>The ways a delivery is processed\<close>

lemma process_cases:
  assumes "processInvoiceDelivery rt tsl cdc ackn svc dlv s = (r, s')"
  obtains (undecodable) err where "unmarshalRequest cdc dlv = Inl err" "r = Failed err"
      "s' = nack ackn dlv False False s"
  | (crashed) req m where "unmarshalRequest cdc dlv = Inr req"
      "generateInvoiceDoc rt tsl svc (Some req) s = (Panicked m, s')" "r = Panicked m"
  | (ungenerated) req err s1 where "unmarshalRequest cdc dlv = Inr req"
      "generateInvoiceDoc rt tsl svc (Some req) s = (Failed err, s1)" "r = Failed err"
      "s' = nack ackn dlv False False s1"
  | (unsaved) req d s1 err s2 where "unmarshalRequest cdc dlv = Inr req"
      "generateInvoiceDoc rt tsl svc (Some req) s = (Returned d, s1)"
      "saveInvoice svc d s1 = (Inl err, s2)" "r = Failed err"
      "s' = nack ackn dlv False (\<not> is_a TAppAlreadyExists err) s2"
  | (unpublished) req d s1 i s2 err s3 where "unmarshalRequest cdc dlv = Inr req"
      "generateInvoiceDoc rt tsl svc (Some req) s = (Returned d, s1)"
      "saveInvoice svc d s1 = (Inr i, s2)"
      "publishPaymentRequest tsl svc d s2 = (Inl err, s3)" "r = Failed err"
      "s' = nack ackn dlv False (\<not> is_a TValidation err) s3"
  | (acknowledged) req d s1 i s2 u s3 a where "unmarshalRequest cdc dlv = Inr req"
      "generateInvoiceDoc rt tsl svc (Some req) s = (Returned d, s1)"
      "saveInvoice svc d s1 = (Inr i, s2)"
      "publishPaymentRequest tsl svc d s2 = (Inr u, s3)"
      "Ack ackn (DeliveryTag dlv) False s3 = (a, s')"
      "r = (case a of None \<Rightarrow> Returned () | Some e \<Rightarrow> Failed e)"
proof (cases "unmarshalRequest cdc dlv")
  case (Inl err)
  with assms undecodable show ?thesis by (simp add: processInvoiceDelivery_def)
next
  case (Inr req)
  note un = Inr
  show ?thesis
  proof (cases "generateInvoiceDoc rt tsl svc (Some req) s")
    case (Pair g s1)
    note gen = Pair
    show ?thesis
    proof (cases g)
      case (Failed err)
      with un gen assms ungenerated show ?thesis by (simp add: processInvoiceDelivery_def)
    next
      case (Panicked m)
      with un gen assms crashed show ?thesis by (simp add: processInvoiceDelivery_def)
    next
      case (Returned d)
      note gen = gen[unfolded Returned]
      show ?thesis
      proof (cases "saveInvoice svc d s1")
        case (Pair sv s2)
        note sav = Pair
        show ?thesis
        proof (cases sv)
          case (Inl err)
          with un gen sav assms unsaved[of req d s1 err s2] show ?thesis
            by (auto simp: processInvoiceDelivery_def split: if_splits)
        next
          case (Inr i)
          note sav = sav[unfolded Inr]
          show ?thesis
          proof (cases "publishPaymentRequest tsl svc d s2")
            case (Pair p s3)
            with un gen sav assms unpublished[of req d s1 i s2 _ s3]
              acknowledged[of req d s1 i s2 _ s3]
            show ?thesis
              by (cases p; cases "Ack ackn (DeliveryTag dlv) False s3")
                (auto simp: processInvoiceDelivery_def split: if_splits option.splits)
          qed
        qed
      qed
    qed
  qed
qed

lemma publishPaymentRequest_cases:
  assumes "publishPaymentRequest tsl svc d s = (r, s')"
  obtains (invalid) e where "r = Inl e" "s' = s"
      "\<not> valid_payment_request tsl (Some (buildPaymentRequest tsl d (IS_paymentHost svc)))"
  | (sent) p where "valid_payment_request tsl (Some (buildPaymentRequest tsl d (IS_paymentHost svc)))"
      "Publish (IS_paymentProducer svc) (PaymentRequestMsg (buildPaymentRequest tsl d
        (IS_paymentHost svc))) (guest_key d) s = (p, s')"
      "\<And>u. p = Inr u \<Longrightarrow> r = Inr ()" "\<And>e. p = Inl e \<Longrightarrow> \<exists>m. r = Inl (AppPublishErr m (Some e))"
proof (cases "validatePaymentRequest tsl (Some (buildPaymentRequest tsl d (IS_paymentHost svc)))")
  case (Some e)
  then have "\<not> valid_payment_request tsl (Some (buildPaymentRequest tsl d (IS_paymentHost svc)))"
    by (simp add: validatePaymentRequest_None[symmetric])
  with Some assms invalid[of e] show ?thesis by (simp add: publishPaymentRequest_def)
next
  case None
  note v = None
  then have "valid_payment_request tsl (Some (buildPaymentRequest tsl d (IS_paymentHost svc)))"
    by (simp add: validatePaymentRequest_None)
  with v show ?thesis
    using assms sent[of "fst (Publish (IS_paymentProducer svc) (PaymentRequestMsg
        (buildPaymentRequest tsl d (IS_paymentHost svc))) (guest_key d) s)"]
    by (auto simp: publishPaymentRequest_def Let_def split: prod.splits sum.splits)
qed

section \<open>What the stages do to the stored data\<close>

definition invoice_service_over ::
  "'s clock_port \<Rightarrow> 's invoice_repo \<Rightarrow> 's mq_consumer \<Rightarrow> 's mq_producer \<Rightarrow> string \<Rightarrow>
     's invoice_service" where
  "invoice_service_over clk repo cons prd host = \<lparr>
     IS_clock = clk, IS_invoiceRepo = repo, IS_invoiceConsumer = cons,
     IS_paymentProducer = prd, IS_paymentHost = host\<rparr>"

lemma invoice_service_over_simps [simp]:
  "IS_clock (invoice_service_over clk repo cons prd host) = clk"
  "IS_invoiceRepo (invoice_service_over clk repo cons prd host) = repo"
  "IS_invoiceConsumer (invoice_service_over clk repo cons prd host) = cons"
  "IS_paymentProducer (invoice_service_over clk repo cons prd host) = prd"
  "IS_paymentHost (invoice_service_over clk repo cons prd host) = host"
  by (simp_all add: invoice_service_over_def)

context app_ports
begin

lemma id_quiet [port_quiet]:
  "GenerateHumanFriendlyId rt pre now s = (r, s') \<Longrightarrow>
     docs s' = docs s \<and> rcpts s' = rcpts s \<and> sent s' = sent s \<and> settled s' = settled s"
  using ids.GenerateHumanFriendlyId_rest by fastforce

lemma generate_quiet [port_quiet]:
  assumes "generateInvoiceDoc rt tsl (invoice_service_over clk repo cons prod host) req s = (r, s')"
  shows "docs s' = docs s \<and> rcpts s' = rcpts s \<and> sent s' = sent s \<and> settled s' = settled s"
proof -
  obtain n s1 where n: "Now clk s = (n, s1)" by fastforce
  note q = now_quiet[OF n]
  show ?thesis
  proof (cases n)
    case (Inl e)
    with n q assms show ?thesis by (auto simp: generateInvoiceDoc_def)
  next
    case (Inr now)
    obtain g s2 where g: "GenerateHumanFriendlyId rt ''INV'' now s1 = (g, s2)" by fastforce
    with Inr n q id_quiet[OF g] assms show ?thesis
      by (auto simp: generateInvoiceDoc_def split: outcome.splits sum.splits)
  qed
qed

lemma generate_no_panic:
  "generateInvoiceDoc rt tsl (invoice_service_over clk repo cons prod host) req s \<noteq> (Panicked m, s')"
  by (auto simp: generateInvoiceDoc_def split: prod.splits sum.splits outcome.splits
      elim: ids.GenerateHumanFriendlyId_cases)

lemma generate_returned:
  assumes "generateInvoiceDoc rt tsl (invoice_service_over clk repo cons prod host) req s =
    (Returned d, s')"
  obtains now n where "valid_create_request tsl req" "friendly_id ''INV'' now n"
    "d = invoice_of tsl req n now"
  using assms
  by (fastforce simp: generateInvoiceDoc_def NewInvoice_Inr_iff
      split: prod.splits sum.splits outcome.splits elim: ids.GenerateHumanFriendlyId_cases)

lemma nack_effect:
  assumes "s' = nack ackn dlv m q s"
  shows "docs s' = docs s" "rcpts s' = rcpts s" "sent s' = sent s"
    "settled s' = settled s \<or> settled s' = settled s @ [Nacked (DeliveryTag dlv) m q]"
proof -
  obtain a where a: "Nack ackn (DeliveryTag dlv) m q s = (a, s')"
    using assms by (cases "Nack ackn (DeliveryTag dlv) m q s") (simp add: nack_def)
  show "docs s' = docs s" "rcpts s' = rcpts s" "sent s' = sent s" using nack_frame[OF a] by simp_all
  show "settled s' = settled s \<or> settled s' = settled s @ [Nacked (DeliveryTag dlv) m q]"
    using acks.nack_done acks.nack_failed a by (cases a) blast+
qed

lemma save_effect:
  assumes "saveInvoice (invoice_service_over clk repo cons prod host) d s = (r, s')"
  shows "rcpts s' = rcpts s" "sent s' = sent s" "settled s' = settled s"
    "r = Inr i \<Longrightarrow> wf_invoice d \<and> inserted d (docs s) (docs s')"
    "r = Inl e \<Longrightarrow> docs s' = docs s \<or> wf_invoice d \<and> inserted d (docs s) (docs s')"
    "r = Inl e \<Longrightarrow> is_a TAppAlreadyExists e \<Longrightarrow> docs s' = docs s"
proof -
  obtain a s1 where a: "AddInvoice repo d s = (a, s1)" by fastforce
  with assms have s1: "s1 = s'" by (auto simp: saveInvoice_def split: sum.splits if_splits)
  note a = a[unfolded s1]
  show "rcpts s' = rcpts s" "sent s' = sent s" "settled s' = settled s"
    using add_frame[OF a] by simp_all
  show "wf_invoice d \<and> inserted d (docs s) (docs s')" if "r = Inr i"
    using that a assms invs.add_done
    by (auto simp: saveInvoice_def split: sum.splits if_splits)
  show "docs s' = docs s \<or> wf_invoice d \<and> inserted d (docs s) (docs s')" if "r = Inl e"
    using that a assms invs.add_failed
    by (auto simp: saveInvoice_def split: sum.splits if_splits)
  show "docs s' = docs s" if "r = Inl e" "is_a TAppAlreadyExists e"
    using that a assms invs.add_duplicate invs.add_no_app
    by (auto simp: saveInvoice_def error_simps split: sum.splits if_splits)
qed

lemma publish_effect:
  assumes "publishPaymentRequest tsl (invoice_service_over clk repo cons prod host) d s = (r, s')"
  shows "docs s' = docs s" "rcpts s' = rcpts s" "settled s' = settled s"
    "r = Inr u \<Longrightarrow> sent s' =
       sent s @ [(PaymentRequestMsg (buildPaymentRequest tsl d host), guest_key d)]"
    "r = Inl e \<Longrightarrow> sent s' = sent s \<or> sent s' =
       sent s @ [(PaymentRequestMsg (buildPaymentRequest tsl d host), guest_key d)]"
    "r = Inl e \<Longrightarrow> is_a TValidation e \<Longrightarrow>
       s' = s \<and> \<not> valid_payment_request tsl (Some (buildPaymentRequest tsl d host))"
proof -
  let ?m = "PaymentRequestMsg (buildPaymentRequest tsl d host)"
  have quiet: "s' = s \<or> (\<exists>p. Publish prod ?m (guest_key d) s = (p, s'))"
    using assms by (auto elim!: publishPaymentRequest_cases)
  then show "docs s' = docs s" "rcpts s' = rcpts s" "settled s' = settled s"
    using publish_frame by blast+
  show "sent s' = sent s @ [(?m, guest_key d)]" if "r = Inr u"
    using assms
  proof (cases rule: publishPaymentRequest_cases)
    case (sent p)
    then show ?thesis using that prods.publish_done by (cases p) auto
  qed (use that in simp)
  show "sent s' = sent s \<or> sent s' = sent s @ [(?m, guest_key d)]" if "r = Inl e"
    using quiet prods.publish_cases by blast
  show "s' = s \<and> \<not> valid_payment_request tsl (Some (buildPaymentRequest tsl d host))"
    if "r = Inl e" "is_a TValidation e"
    using assms
  proof (cases rule: publishPaymentRequest_cases)
    case (sent p)
    then show ?thesis
      using that prods.publish_no_constraint by (cases p) (auto simp: error_simps)
  qed (use that in simp)
qed

end

section \<open>The specification of a delivery\<close>

text \<open>
  What the service promises about the stored invoices, the messages sent and the answers given,
  without its stages. An answer may be lost on its way to the broker. A delivery is refused, or
  sent back with nothing done, or sent back with its invoice stored and perhaps announced, or
  stored, announced and acknowledged.
\<close>

type_synonym invoice_view =
  "doc_Invoice list \<times> (proto_message \<times> string) list \<times> settlement list"

definition answered :: "settlement \<Rightarrow> settlement list \<Rightarrow> settlement list \<Rightarrow> bool" where
  "answered a xs xs' \<longleftrightarrow> xs' = xs \<or> xs' = xs @ [a]"

definition request_message ::
  "timestamp_lib \<Rightarrow> string \<Rightarrow> doc_Invoice \<Rightarrow> proto_message \<times> string" where
  "request_message tsl host d = (PaymentRequestMsg (buildPaymentRequest tsl d host), guest_key d)"

definition fresh_invoice :: "timestamp_lib \<Rightarrow> doc_Invoice \<Rightarrow> bool" where
  "fresh_invoice tsl d \<longleftrightarrow> wf_invoice d \<and> (\<exists>r now n. valid_create_request tsl (Some r) \<and>
     friendly_id ''INV'' now n \<and> d = invoice_of tsl (Some r) n now)"

lemma fresh_invoice_of:
  assumes "valid_create_request tsl (Some r)" and "friendly_id ''INV'' now n"
  shows "fresh_invoice tsl (invoice_of tsl (Some r) n now)"
  using assms wf_invoice_of[OF assms(1) inv_prefix_not_blank[OF assms(2)], of now]
  by (auto simp: fresh_invoice_def)

inductive invoice_step ::
  "timestamp_lib \<Rightarrow> string \<Rightarrow> delivery \<Rightarrow> invoice_view \<Rightarrow> invoice_view \<Rightarrow> bool"
  for tsl host dlv where
  refused: "answered (Nacked (DeliveryTag dlv) False q) xs xs' \<Longrightarrow>
    invoice_step tsl host dlv (ds, ms, xs) (ds, ms, xs')"
| half_done: "fresh_invoice tsl d \<Longrightarrow> inserted d ds ds' \<Longrightarrow>
    ms' = ms \<or> ms' = ms @ [request_message tsl host d] \<Longrightarrow>
    answered (Nacked (DeliveryTag dlv) False q) xs xs' \<Longrightarrow>
    q \<or> ms' = ms \<Longrightarrow>
    invoice_step tsl host dlv (ds, ms, xs) (ds', ms', xs')"
| acknowledged: "fresh_invoice tsl d \<Longrightarrow> inserted d ds ds' \<Longrightarrow>
    answered (Acked (DeliveryTag dlv) False) xs xs' \<Longrightarrow>
    invoice_step tsl host dlv (ds, ms, xs) (ds', ms @ [request_message tsl host d], xs')"

inductive_cases invoice_stepE: "invoice_step tsl host dlv (ds, ms, xs) (ds', ms', xs')"

inductive invoice_run ::
  "timestamp_lib \<Rightarrow> string \<Rightarrow> delivery list \<Rightarrow> invoice_view \<Rightarrow> invoice_view \<Rightarrow> bool"
  for tsl host where
  no_delivery: "invoice_run tsl host [] v v"
| next_delivery: "invoice_step tsl host dlv u v \<Longrightarrow> invoice_run tsl host dlvs v w \<Longrightarrow>
    invoice_run tsl host (dlv # dlvs) u w"

text \<open>Every request among the messages announces an invoice that is stored.\<close>

definition announces :: "pb_PaymentRequest \<Rightarrow> doc_Invoice \<Rightarrow> bool" where
  "announces p d \<longleftrightarrow> PaymentRequest_InvoiceNumber p = Invoice_InvoiceNumber d \<and>
     PaymentRequest_Total p = Some \<lparr>Money_Amount = doc_Amount (Invoice_Total d),
       Money_Currency = doc_Currency (Invoice_Total d)\<rparr>"

definition requests_backed :: "invoice_view \<Rightarrow> bool" where
  "requests_backed v \<longleftrightarrow> (case v of (ds, ms, xs) \<Rightarrow>
     \<forall>p k. (PaymentRequestMsg p, k) \<in> set ms \<longrightarrow>
       (\<exists>d\<in>set ds. announces p d \<and> k = guest_key d))"

definition all_wf :: "invoice_view \<Rightarrow> bool" where
  "all_wf v \<longleftrightarrow> (case v of (ds, ms, xs) \<Rightarrow> \<forall>d\<in>set ds. wf_invoice d)"

lemma same_record_announced:
  assumes "same_record d d'" and "request_message tsl host d = (PaymentRequestMsg p, k)"
  shows "announces p d' \<and> k = guest_key d'"
  using assms(2) same_record_fields[OF assms(1)]
  by (auto simp: request_message_def announces_def buildPaymentRequest_def guest_key_def)

lemma same_record_wf: "same_record d d' \<Longrightarrow> wf_invoice d \<Longrightarrow> wf_invoice d'"
  using same_record_fields[of d d'] by (simp add: wf_invoice_def)

lemma backed_inserted:
  assumes "requests_backed (ds, ms, xs)" and "inserted d ds ds'"
    and "ms' = ms \<or> ms' = ms @ [request_message tsl host d]"
  shows "requests_backed (ds', ms', xs')"
  unfolding requests_backed_def prod.case
proof (intro allI impI)
  fix p k
  assume "(PaymentRequestMsg p, k) \<in> set ms'"
  then consider "(PaymentRequestMsg p, k) \<in> set ms" | "request_message tsl host d = (PaymentRequestMsg p, k)"
    using assms(3) by auto
  then show "\<exists>d\<in>set ds'. announces p d \<and> k = guest_key d"
  proof cases
    case 1
    with assms(1,2) show ?thesis by (auto simp: requests_backed_def inserted_def)
  next
    case 2
    from assms(2) obtain d' where "same_record d d'" "ds' = ds @ [d']" by (auto simp: inserted_def)
    then show ?thesis using same_record_announced[OF _ 2, of d'] by auto
  qed
qed

lemma backed_answers: "requests_backed (ds, ms, xs) \<Longrightarrow> requests_backed (ds, ms, xs')"
  by (simp add: requests_backed_def)

lemma step_keeps_backed: "invoice_step tsl host dlv u v \<Longrightarrow> requests_backed u \<Longrightarrow> requests_backed v"
proof (induction rule: invoice_step.induct)
  case refused
  then show ?case by (blast intro: backed_answers)
next
  case half_done
  then show ?case by (blast intro: backed_inserted)
next
  case acknowledged
  then show ?case by (blast intro: backed_inserted)
qed

lemma step_keeps_wf: "invoice_step tsl host dlv u v \<Longrightarrow> all_wf u \<Longrightarrow> all_wf v"
  by (induction rule: invoice_step.induct)
    (auto simp: all_wf_def inserted_def fresh_invoice_def intro: same_record_wf)

lemma run_keeps:
  "invoice_run tsl host dlvs u v \<Longrightarrow> requests_backed u \<and> all_wf u \<Longrightarrow> requests_backed v \<and> all_wf v"
  by (induction rule: invoice_run.induct) (auto dest: step_keeps_backed step_keeps_wf)

text \<open>
  Counting: a run stores at least as many invoices as it sends requests, sends at least as many
  requests as it acknowledges deliveries, and answers no delivery twice.
\<close>

fun is_acked :: "settlement \<Rightarrow> bool" where
  "is_acked (Acked _ _) = True"
| "is_acked (Nacked _ _ _) = False"

definition view_invoices :: "invoice_view \<Rightarrow> nat" where
  "view_invoices v = length (fst v)"

definition view_requests :: "invoice_view \<Rightarrow> nat" where
  "view_requests v = length (fst (snd v))"

definition view_acks :: "invoice_view \<Rightarrow> nat" where
  "view_acks v = count_if is_acked (snd (snd v))"

definition view_answers :: "invoice_view \<Rightarrow> nat" where
  "view_answers v = length (snd (snd v))"

definition counts_ok :: "nat \<Rightarrow> invoice_view \<Rightarrow> invoice_view \<Rightarrow> bool" where
  "counts_ok n u v \<longleftrightarrow>
     view_requests v + view_invoices u \<le> view_invoices v + view_requests u \<and>
     view_acks v + view_requests u \<le> view_requests v + view_acks u \<and>
     view_requests u \<le> view_requests v \<and> view_acks u \<le> view_acks v \<and>
     view_answers v \<le> n + view_answers u"

lemma step_counts: "invoice_step tsl host dlv u v \<Longrightarrow> counts_ok 1 u v"
  by (induction rule: invoice_step.induct)
    (auto simp: counts_ok_def view_requests_def view_invoices_def view_acks_def view_answers_def
      inserted_def answered_def)

lemma counts_trans: "counts_ok m u v \<Longrightarrow> counts_ok n v w \<Longrightarrow> counts_ok (m + n) u w"
  unfolding counts_ok_def by (elim conjE, intro conjI) linarith+

lemma run_counts: "invoice_run tsl host dlvs u v \<Longrightarrow> counts_ok (length dlvs) u v"
proof (induction rule: invoice_run.induct)
  case (no_delivery v)
  then show ?case by (simp add: counts_ok_def)
next
  case (next_delivery dlv u v dlvs w)
  show ?case using counts_trans[OF step_counts[OF next_delivery(1)] next_delivery.IH] by simp
qed

section \<open>The service implements the specification\<close>

context app_ports
begin

definition view :: "'s \<Rightarrow> invoice_view" where
  "view s = (docs s, sent s, settled s)"

lemma process_refines:
  assumes "processInvoiceDelivery rt tsl cdc ackn (invoice_service_over clk repo cons prod host)
      dlv s = (r, s')"
  shows "\<not> is_panic r \<and> invoice_step tsl host dlv (view s) (view s')"
  using assms
proof (cases rule: process_cases)
  case (undecodable err)
  then show ?thesis
    using nack_effect[OF undecodable(3)] by (auto simp: view_def answered_def intro: refused)
next
  case (crashed req m)
  then show ?thesis using generate_no_panic by blast
next
  case (ungenerated req err s1)
  then show ?thesis
    using nack_effect[OF ungenerated(4)] generate_quiet[OF ungenerated(2)]
    by (auto simp: view_def answered_def intro: refused)
next
  case (unsaved req d s1 err s2)
  note eff = nack_effect[OF unsaved(5)] generate_quiet[OF unsaved(2)] save_effect[OF unsaved(3)]
  have fresh: "fresh_invoice tsl d"
    using generate_returned[OF unsaved(2)] fresh_invoice_of by metis
  show ?thesis
  proof (cases "docs s2 = docs s1")
    case True
    with unsaved eff show ?thesis by (auto simp: view_def answered_def intro: refused)
  next
    case False
    then have "wf_invoice d" "inserted d (docs s1) (docs s2)" using eff by blast+
    then have "invoice_step tsl host dlv (docs s, sent s, settled s) (docs s2, sent s, settled s')"
      using eff fresh
      by (intro half_done[where d = d and q = "\<not> is_a TAppAlreadyExists err"])
        (simp_all add: answered_def)
    then show ?thesis using unsaved(4) eff by (simp add: view_def)
  qed
next
  case (unpublished req d s1 i s2 err s3)
  note eff = nack_effect[OF unpublished(6)] generate_quiet[OF unpublished(2)]
    save_effect(1-3)[OF unpublished(3)] publish_effect(1-3)[OF unpublished(4)]
  have fresh: "fresh_invoice tsl d"
    using generate_returned[OF unpublished(2)] fresh_invoice_of by metis
  have ins: "inserted d (docs s1) (docs s2)" using save_effect(4)[OF unpublished(3)] by blast
  have ms: "sent s3 = sent s \<or> sent s3 = sent s @ [request_message tsl host d]"
    using publish_effect(5)[OF unpublished(4)] eff by (simp add: request_message_def)
  have q: "\<not> is_a TValidation err \<or> sent s3 = sent s"
    using publish_effect(6)[OF unpublished(4)] eff by auto
  have "invoice_step tsl host dlv (docs s, sent s, settled s) (docs s2, sent s3, settled s')"
    using eff ins ms q fresh
    by (intro half_done[where d = d and q = "\<not> is_a TValidation err"]) (simp_all add: answered_def)
  then show ?thesis using unpublished(5) eff by (simp add: view_def)
next
  case (acknowledged req d s1 i s2 u s3 a)
  note eff = ack_frame[OF acknowledged(5)] generate_quiet[OF acknowledged(2)]
    save_effect[OF acknowledged(3)] publish_effect[OF acknowledged(4)]
  have fresh: "fresh_invoice tsl d"
    using generate_returned[OF acknowledged(2)] fresh_invoice_of by metis
  have ans: "answered (Acked (DeliveryTag dlv) False) (settled s3) (settled s')"
    using acks.ack_done acks.ack_failed acknowledged(5) by (cases a) (auto simp: answered_def)
  have "view s' = (docs s2, sent s @ [request_message tsl host d], settled s')"
    using eff by (simp add: view_def request_message_def)
  moreover have "invoice_step tsl host dlv (docs s, sent s, settled s) \<dots>"
    using eff ans fresh by (intro invoice_step.acknowledged[where d = d]) simp_all
  ultimately show ?thesis using acknowledged(6) by (simp add: view_def split: option.splits)
qed

end

section \<open>Runs\<close>

definition answer_tag :: "settlement \<Rightarrow> 64 word" where
  "answer_tag a = (case a of Acked t _ \<Rightarrow> t | Nacked t _ _ \<Rightarrow> t)"

lemma answered_tag:
  "answered a xs xs' \<Longrightarrow> answer_tag a = t \<Longrightarrow>
     xs' = xs \<or> (\<exists>b. xs' = xs @ [b] \<and> answer_tag b = t)"
  by (auto simp: answered_def)

lemma step_answers:
  "invoice_step tsl host dlv (ds, ms, xs) (ds', ms', xs') \<Longrightarrow>
     xs' = xs \<or> (\<exists>a. xs' = xs @ [a] \<and> answer_tag a = DeliveryTag dlv)"
  by (erule invoice_stepE; erule answered_tag; simp add: answer_tag_def)

text \<open>The answers of a run are to its deliveries, in their order, none twice.\<close>

lemma run_answers:
  "invoice_run tsl host dlvs u v \<Longrightarrow>
     \<exists>as. snd (snd v) = snd (snd u) @ as \<and> subseq (map answer_tag as) (map DeliveryTag dlvs)"
proof (induction rule: invoice_run.induct)
  case (no_delivery v)
  then show ?case by simp
next
  case (next_delivery dlv u v dlvs w)
  obtain ds ms xs ds' ms' xs' where uv: "u = (ds, ms, xs)" "v = (ds', ms', xs')"
    by (metis prod_cases3)
  from next_delivery.IH obtain as where as: "snd (snd w) = xs' @ as"
    "subseq (map answer_tag as) (map DeliveryTag dlvs)" using uv by auto
  from next_delivery.hyps(1) uv consider "xs' = xs"
    | a where "xs' = xs @ [a]" "answer_tag a = DeliveryTag dlv"
    using step_answers by blast
  then show ?case
  proof cases
    case 1
    with as uv show ?thesis by (intro exI[of _ as]) auto
  next
    case 2
    with as uv show ?thesis by (intro exI[of _ "a # as"]) auto
  qed
qed

context app_ports
begin

lemma deliveries_refine:
  assumes "process_deliveries rt tsl cdc ackn (invoice_service_over clk repo cons prod host) dlvs s =
    (r, s')"
  shows "r = Returned () \<and> invoice_run tsl host dlvs (view s) (view s')"
  using assms
proof (induction dlvs arbitrary: s)
  case Nil
  then show ?case by (simp add: no_delivery)
next
  case (Cons dlv dlvs)
  obtain q s1 where q: "processInvoiceDelivery rt tsl cdc ackn
      (invoice_service_over clk repo cons prod host) dlv s = (q, s1)" by fastforce
  note step = process_refines[OF q]
  then have "process_deliveries rt tsl cdc ackn (invoice_service_over clk repo cons prod host)
      dlvs s1 = (r, s')"
    using Cons.prems q by (cases q) simp_all
  with Cons.IH[OF this] step show ?case by (auto intro: next_delivery)
qed

lemma acknowledged_delivery:
  assumes "processInvoiceDelivery rt tsl cdc ackn (invoice_service_over clk repo cons prod host)
      dlv s = (Returned (), s')"
  obtains req d now n where "unmarshalRequest cdc dlv = Inr req"
    "valid_create_request tsl (Some req)" "friendly_id ''INV'' now n"
    "d = invoice_of tsl (Some req) n now" "inserted d (docs s) (docs s')"
    "sent s' = sent s @ [request_message tsl host d]"
    "settled s' = settled s @ [Acked (DeliveryTag dlv) False]"
  using assms
proof (cases rule: process_cases)
  case (acknowledged req d s1 i s2 u s3 a)
  obtain now n where d: "valid_create_request tsl (Some req)" "friendly_id ''INV'' now n"
    "d = invoice_of tsl (Some req) n now" using generate_returned[OF acknowledged(2)] by metis
  have "a = None" using acknowledged(6) by (cases a) auto
  then have st: "settled s' = settled s3 @ [Acked (DeliveryTag dlv) False]"
    using acks.ack_done acknowledged(5) by blast
  note g = generate_quiet[OF acknowledged(2)] and sv = save_effect(1-3)[OF acknowledged(3)]
    and p = publish_effect(1-3)[OF acknowledged(4)] and k = ack_frame[OF acknowledged(5)]
  have 1: "inserted d (docs s) (docs s')"
    using save_effect(4)[OF acknowledged(3) refl] g p k by simp
  have 2: "sent s' = sent s @ [request_message tsl host d]"
    using publish_effect(4)[OF acknowledged(4) refl] g sv k by (simp add: request_message_def)
  have 3: "settled s' = settled s @ [Acked (DeliveryTag dlv) False]"
    using st g sv p by simp
  show ?thesis by (rule that[OF acknowledged(1) d 1 2 3])
qed simp_all

end

section \<open>Redelivery and requests that can never be stored\<close>

context app_ports
begin

lemma process_docs:
  assumes "processInvoiceDelivery rt tsl cdc ackn (invoice_service_over clk repo cons prod host)
      dlv s = (r, s')"
  shows "docs s' = docs s \<or> (\<exists>req now n. unmarshalRequest cdc dlv = Inr req \<and>
    inserted (invoice_of tsl (Some req) n now) (docs s) (docs s'))"
  using assms
proof (cases rule: process_cases)
  case (unsaved req d s1 err s2)
  note q = generate_quiet[OF unsaved(2)] nack_effect(1)[OF unsaved(5)]
  have "docs s2 = docs s1 \<or> inserted d (docs s1) (docs s2)"
    using save_effect(5)[OF unsaved(3) refl] by blast
  moreover obtain now n where "d = invoice_of tsl (Some req) n now"
    using generate_returned[OF unsaved(2)] by metis
  ultimately show ?thesis using q unsaved(1) by auto
next
  case (unpublished req d s1 i s2 err s3)
  note q = generate_quiet[OF unpublished(2)] nack_effect(1)[OF unpublished(6)]
    publish_effect(1)[OF unpublished(4)]
  have "inserted d (docs s1) (docs s2)" using save_effect(4)[OF unpublished(3) refl] by blast
  moreover obtain now n where "d = invoice_of tsl (Some req) n now"
    using generate_returned[OF unpublished(2)] by metis
  ultimately show ?thesis using q unpublished(1) by auto
next
  case (acknowledged req d s1 i s2 u s3 a)
  note q = generate_quiet[OF acknowledged(2)] ack_frame[OF acknowledged(5)]
    publish_effect(1)[OF acknowledged(4)]
  have "inserted d (docs s1) (docs s2)" using save_effect(4)[OF acknowledged(3) refl] by blast
  moreover obtain now n where "d = invoice_of tsl (Some req) n now"
    using generate_returned[OF acknowledged(2)] by metis
  ultimately show ?thesis using q acknowledged(1) by auto
next
  case (ungenerated req err s1)
  then show ?thesis
    using generate_quiet[OF ungenerated(2)] nack_effect(1)[OF ungenerated(4)] by simp
next
  case (undecodable err)
  then show ?thesis using nack_effect(1)[OF undecodable(3)] by simp
next
  case (crashed req m)
  then show ?thesis using generate_no_panic by blast
qed

lemma inserted_idempotency_count:
  assumes "inserted (invoice_of tsl (Some req) n now) ds ds'"
    and "CreateInvoicePaymentRequest_IdempotencyKey req = key"
  shows "count_if (\<lambda>d. Invoice_IdempotencyId d = key) ds' =
    Suc (count_if (\<lambda>d. Invoice_IdempotencyId d = key) ds)"
proof -
  obtain d' where d': "same_record (invoice_of tsl (Some req) n now) d'" "ds' = ds @ [d']"
    using assms(1) by (auto simp: inserted_def)
  have "Invoice_IdempotencyId d' = key"
    using same_record_fields(3)[OF d'(1)] assms(2) by (simp add: invoice_of_def)
  with d'(2) show ?thesis by simp
qed

lemma generate_invalid:
  assumes "\<not> valid_create_request tsl req"
  shows "generateInvoiceDoc rt tsl (invoice_service_over clk repo cons prod host) req s \<noteq>
    (Returned d, s')"
  using assms generate_returned by metis

end

text \<open>A valid request whose issue or due time is the zero time makes an invoice no repository takes.\<close>

lemma zero_time_invoice_refused:
  assumes "AsTime tsl (CreateInvoicePaymentRequest_GetIssuedAt r) = zero_time \<or>
      AsTime tsl (CreateInvoicePaymentRequest_GetDueAt r) = zero_time"
  shows "\<exists>e. AddInvoice_impl coll (invoice_of tsl r n now) s = (Inl e, s) \<and> refused e"
proof -
  have "\<not> (passes (add_invoice_checks (invoice_of tsl r n now)) \<and>
      IsValidInvoiceStatus (Invoice_Status (invoice_of tsl r n now)))"
    using assms unfolding add_invoice_checks_pass by (auto simp: invoice_of_def)
  moreover have "IsValidInvoiceStatus (Invoice_Status (invoice_of tsl r n now))"
    by (simp add: invoice_of_def IsValidInvoiceStatus_def InvoiceStatusPending_def)
  ultimately obtain e where e: "Validate (add_invoice_checks (invoice_of tsl r n now)) = Some e"
    by (auto simp: passes_def)
  then have "refused e" using Validate_refused add_invoice_checks_constraints by blast
  with e show ?thesis by (simp add: AddInvoice_impl_def)
qed

end
