(* ===== verification/InvoiceClaims.thy ===== *)
theory InvoiceClaims
  imports InvoiceService
begin

text \<open>
  The properties of the invoice consumer, each with a run of the model that meets its hypotheses.
\<close>

section \<open>A request to run the model on\<close>

definition sample_request :: pb_CreateInvoicePaymentRequest where
  "sample_request = \<lparr>
     CreateInvoicePaymentRequest_IdempotencyKey = ''idem-1'',
     CreateInvoicePaymentRequest_BookingId = ''booking-1'',
     CreateInvoicePaymentRequest_PayerId = ''payer-1'',
     CreateInvoicePaymentRequest_IssuedAt = Some \<lparr>Timestamp_Seconds = 1767225600, Timestamp_Nanos = 0\<rparr>,
     CreateInvoicePaymentRequest_DueAt = Some \<lparr>Timestamp_Seconds = 1767312000, Timestamp_Nanos = 0\<rparr>,
     CreateInvoicePaymentRequest_Payer = Some \<lparr>
       Payer_Name = ''Ana'', Payer_Email = ''ana@mail'', Payer_DocumentNumber = ''doc-1'',
       Payer_BillingAddress = ''street 1''\<rparr>,
     CreateInvoicePaymentRequest_Booking = Some \<lparr>
       BookingSnapshot_CottageName = ''Lake'', BookingSnapshot_Nights = 2,
       BookingSnapshot_NumberOfGuests = 3,
       BookingSnapshot_ValuePerNight = Some \<lparr>Money_Amount = 10000, Money_Currency = ''BRL''\<rparr>\<rparr>,
     CreateInvoicePaymentRequest_Total = Some \<lparr>Money_Amount = 20000, Money_Currency = ''BRL''\<rparr>,
     CreateInvoicePaymentRequest_TaxTotal = Some \<lparr>Money_Amount = 0, Money_Currency = ''BRL''\<rparr>,
     CreateInvoicePaymentRequest_DiscountTotal = Some \<lparr>Money_Amount = 0, Money_Currency = ''BRL''\<rparr>\<rparr>"

definition ref_codec :: codec where
  "ref_codec = \<lparr>
     ProtoUnmarshal = (\<lambda>b. if b = [1] then Inr sample_request else Inl (lost ''proto'')),
     JsonUnmarshal = (\<lambda>b. if b = [2] then Inr sample_request else Inl (lost ''json''))\<rparr>"

definition sample_delivery :: delivery where
  "sample_delivery = \<lparr>ContentType = [], Body = [1], DeliveryTag = 7, RoutingKey = ''invoice''\<rparr>"

definition ref_consumer :: "world mq_consumer" where
  "ref_consumer = \<lparr>
     DeclareQueue = (\<lambda>cfg s. (Inr (), s)),
     BindQueue = (\<lambda>cfg s. (Inr (), s)),
     Consume = (\<lambda>s. (Inr [sample_delivery], s)),
     CloseConsumer = (\<lambda>s. (Inr (), s))\<rparr>"

abbreviation ref_invoice_service :: "world invoice_service" where
  "ref_invoice_service \<equiv> invoice_service_over ref_clock (mongo_invoice_repo ref_invoices)
     ref_consumer ref_producer ''https://pay''"

abbreviation sample_processing :: "(go_err, unit) outcome \<times> world" where
  "sample_processing \<equiv> processInvoiceDelivery ref_runtime ref_timestamps ref_codec
     ref_acknowledger ref_invoice_service sample_delivery empty_world"

lemma sample_processed: "sample_processing = (Returned (), snd sample_processing)"
proof -
  have "fst sample_processing = Returned ()" by code_simp
  then show ?thesis by (metis prod.collapse)
qed

abbreviation bad_delivery :: delivery where
  "bad_delivery \<equiv> sample_delivery\<lparr>Body := [3], DeliveryTag := 8\<rparr>"

abbreviation sample_loop :: "(go_err, unit) outcome \<times> world" where
  "sample_loop \<equiv> process_deliveries ref_runtime ref_timestamps ref_codec
     ref_acknowledger ref_invoice_service [sample_delivery, bad_delivery] empty_world"

section \<open>Properties\<close>

text \<open>C4: processing one delivery never panics and does exactly what the specification
  \<^const>\<open>invoice_step\<close> allows: refuse it, send it back, or store its invoice, announce it and
  acknowledge it, in this order.\<close>

theorem invoice_delivery_refines:
  assumes "app_ports repo rrepo prd ackn clk rt docs rcpts sent settled"
    and "processInvoiceDelivery rt tsl cdc ackn (invoice_service_over clk repo cons prd host) dlv s =
      (r, s')"
  shows "\<not> is_panic r \<and> invoice_step tsl host dlv
    (docs s, sent s, settled s) (docs s', sent s', settled s')"
  using app_ports.process_refines[OF assms] by (simp add: app_ports.view_def[OF assms(1)])

theorem invoice_delivery_refines_witness:
  "(case sample_processing of (r, s') \<Rightarrow> r = Returned () \<and>
     invoice_step ref_timestamps ''https://pay'' sample_delivery
       (world_invoices empty_world, world_sent empty_world, world_settled empty_world)
       (world_invoices s', world_sent s', world_settled s'))"
  by (subst sample_processed)
    (use invoice_delivery_refines[OF ref_app_ports sample_processed] in simp)

text \<open>C14: whatever deliveries come, the consumer loop ends without a panic, and if every payment
  request sent so far announces a stored invoice and every stored invoice is well formed, both
  still hold after it.\<close>

theorem invoice_processing_keeps_backed:
  assumes "app_ports repo rrepo prd ackn clk rt docs rcpts sent settled"
    and "Consume cons s = (Inr dlvs, s1)"
    and "StartInvoiceProcessing rt tsl cdc ackn (invoice_service_over clk repo cons prd host) s =
      (r, s')"
    and "requests_backed (docs s1, sent s1, settled s1) \<and> all_wf (docs s1, sent s1, settled s1)"
  shows "r = Returned () \<and>
    requests_backed (docs s', sent s', settled s') \<and> all_wf (docs s', sent s', settled s')"
proof -
  have "process_deliveries rt tsl cdc ackn (invoice_service_over clk repo cons prd host) dlvs s1 =
      (r, s')"
    using assms(2,3) by (simp add: StartInvoiceProcessing_def)
  from app_ports.deliveries_refine[OF assms(1) this] assms(4) show ?thesis
    by (auto simp: app_ports.view_def[OF assms(1)] dest: run_keeps)
qed

theorem invoice_processing_keeps_backed_witness:
  "(case StartInvoiceProcessing ref_runtime ref_timestamps ref_codec ref_acknowledger
      ref_invoice_service empty_world of (r, s') \<Rightarrow> r = Returned () \<and>
    requests_backed (world_invoices s', world_sent s', world_settled s') \<and>
    all_wf (world_invoices s', world_sent s', world_settled s'))"
proof -
  let ?r = "StartInvoiceProcessing ref_runtime ref_timestamps ref_codec ref_acknowledger
      ref_invoice_service empty_world"
  have c: "Consume ref_consumer empty_world = (Inr [sample_delivery], empty_world)"
    by (simp add: ref_consumer_def)
  have init: "requests_backed (world_invoices empty_world, world_sent empty_world,
      world_settled empty_world) \<and> all_wf (world_invoices empty_world, world_sent empty_world,
      world_settled empty_world)"
    by (simp add: requests_backed_def all_wf_def empty_world_def)
  have "fst ?r = Returned () \<and> requests_backed (world_invoices (snd ?r), world_sent (snd ?r),
      world_settled (snd ?r)) \<and> all_wf (world_invoices (snd ?r), world_sent (snd ?r),
      world_settled (snd ?r))"
    by (rule invoice_processing_keeps_backed[OF ref_app_ports c prod.collapse[symmetric] init])
  then show ?thesis by (simp add: case_prod_beta)
qed

text \<open>C13: over a run of the consumer loop no delivery is answered twice and the answers keep the
  order of the deliveries; no more deliveries are acknowledged than payment requests are sent,
  and no more requests are sent than invoices are stored.\<close>

theorem invoice_processing_answers:
  assumes "app_ports repo rrepo prd ackn clk rt docs rcpts sent settled"
    and "process_deliveries rt tsl cdc ackn (invoice_service_over clk repo cons prd host) dlvs s =
      (r, s')"
  shows "(\<exists>as. settled s' = settled s @ as \<and>
      subseq (map answer_tag as) (map DeliveryTag dlvs)) \<and>
    counts_ok (length dlvs) (docs s, sent s, settled s) (docs s', sent s', settled s')"
proof -
  have "invoice_run tsl host dlvs (docs s, sent s, settled s) (docs s', sent s', settled s')"
    using app_ports.deliveries_refine[OF assms] by (simp add: app_ports.view_def[OF assms(1)])
  from run_answers[OF this] run_counts[OF this] show ?thesis by simp
qed

theorem invoice_processing_answers_witness:
  "(\<exists>as. world_settled (snd sample_loop) = world_settled empty_world @ as \<and>
      subseq (map answer_tag as) (map DeliveryTag [sample_delivery, bad_delivery])) \<and>
    counts_ok (length [sample_delivery, bad_delivery])
      (world_invoices empty_world, world_sent empty_world, world_settled empty_world)
      (world_invoices (snd sample_loop), world_sent (snd sample_loop),
       world_settled (snd sample_loop)) \<and>
    world_settled (snd sample_loop) = [Acked 7 False, Nacked 8 False False]"
proof -
  have "world_settled (snd sample_loop) = [Acked 7 False, Nacked 8 False False]" by code_simp
  with invoice_processing_answers[OF ref_app_ports prod.collapse[symmetric]] show ?thesis by blast
qed



text \<open>C27: a body that does not decode, or a request that misses a field or has its dates in the
  wrong order, stores nothing and sends nothing, and the delivery is not sent back.\<close>

theorem invalid_request_dropped:
  assumes "app_ports repo rrepo prd ackn clk rt docs rcpts sent settled"
    and "processInvoiceDelivery rt tsl cdc ackn (invoice_service_over clk repo cons prd host) dlv s =
      (r, s')"
    and "\<And>req. unmarshalRequest cdc dlv = Inr req \<Longrightarrow> \<not> valid_create_request tsl (Some req)"
  shows "(\<exists>e. r = Failed e) \<and> docs s' = docs s \<and> sent s' = sent s \<and>
    answered (Nacked (DeliveryTag dlv) False False) (settled s) (settled s')"
  using assms(2)
proof (cases rule: process_cases)
  case (undecodable err)
  then show ?thesis
    using app_ports.nack_effect[OF assms(1) undecodable(3)] by (simp add: answered_def)
next
  case (ungenerated req err s1)
  then show ?thesis
    using app_ports.nack_effect[OF assms(1) ungenerated(4)]
      app_ports.generate_quiet[OF assms(1) ungenerated(2)] by (simp add: answered_def)
next
  case (crashed req m)
  then show ?thesis using app_ports.generate_no_panic[OF assms(1)] by blast
qed (use assms(3) app_ports.generate_invalid[OF assms(1)] in blast)+

theorem invalid_request_dropped_witness:
  "(case processInvoiceDelivery ref_runtime ref_timestamps ref_codec ref_acknowledger
      ref_invoice_service bad_delivery empty_world of (r, s') \<Rightarrow>
    (\<exists>e. r = Failed e) \<and> world_invoices s' = world_invoices empty_world \<and>
    world_sent s' = world_sent empty_world)"
proof -
  have "isl (unmarshalRequest ref_codec bad_delivery)" by code_simp
  then have "\<not> valid_create_request ref_timestamps (Some req)"
    if "unmarshalRequest ref_codec bad_delivery = Inr req" for req
    using that by simp
  from invalid_request_dropped[OF ref_app_ports prod.collapse[symmetric] this]
  show ?thesis by (auto simp: case_prod_beta)
qed

context app_ports
begin

lemma nack_answers:
  "Nack ackn tag m q s = (None, s') \<Longrightarrow> settled s' = settled s @ [Nacked tag m q]"
  by (rule acks.nack_done)

end

text \<open>C28: a valid request that arrives while the clock simulator does not answer is lost: it is rejected
  without being put back, as an undecodable one is, and nothing of it is stored or sent.\<close>

theorem clock_outage_drops_request:
  assumes "app_ports repo rrepo prd ackn clk rt docs rcpts sent settled"
    and "unmarshalRequest cdc dlv = Inr req"
    and "Now clk s = (Inl e, s1)"
    and "Nack ackn (DeliveryTag dlv) False False s1 = (None, s2)"
  shows "processInvoiceDelivery rt tsl cdc ackn (invoice_service_over clk repo cons prd host) dlv s =
      (Failed (AppUnexpectedErr ''failed to get current time'' (Some e)), s2) \<and>
    docs s2 = docs s \<and> sent s2 = sent s \<and>
    settled s2 = settled s @ [Nacked (DeliveryTag dlv) False False]"
proof -
  have n: "s2 = nack ackn dlv False False s1" using assms(4) by (simp add: nack_def)
  have "settled s2 = settled s1 @ [Nacked (DeliveryTag dlv) False False]"
    by (rule app_ports.nack_answers[OF assms(1,4)])
  with assms(2,3) n app_ports.nack_effect[OF assms(1) n] app_ports.now_quiet[OF assms(1,3)]
  show ?thesis by (simp add: processInvoiceDelivery_def generateInvoiceDoc_def)
qed

definition clockless_world :: world where
  "clockless_world = empty_world\<lparr>world_down := [''clock'']\<rparr>"

theorem clock_outage_drops_request_witness:
  "(case processInvoiceDelivery ref_runtime ref_timestamps ref_codec ref_acknowledger
      ref_invoice_service sample_delivery clockless_world of (r, s') \<Rightarrow>
    world_invoices s' = [] \<and> world_sent s' = [] \<and>
    world_settled s' = [Nacked (DeliveryTag sample_delivery) False False])"
proof -
  have d: "unmarshalRequest ref_codec sample_delivery = Inr sample_request" by code_simp
  let ?n = "Nack ref_acknowledger (DeliveryTag sample_delivery) False False clockless_world"
  have n: "Now ref_clock clockless_world = (Inl (lost ''clock''), clockless_world)"
    "Nack ref_acknowledger (DeliveryTag sample_delivery) False False clockless_world = (None, snd ?n)"
    by (simp_all add: ref_clock_def ref_acknowledger_def clockless_world_def down_def empty_world_def)
  from clock_outage_drops_request[OF ref_app_ports d n, of ref_timestamps]
  show ?thesis by (simp add: clockless_world_def empty_world_def)
qed

text \<open>C26: the payment request built for an invoice the service generated always passes the
  service's own validation, so the branch that drops a stored invoice's delivery because its
  request is invalid is never taken.\<close>

theorem own_payment_requests_valid:
  assumes "app_ports repo rrepo prd ackn clk rt docs rcpts sent settled"
    and "timestamps_ok tsl" and "times_in_range tsl (Some req)"
    and "generateInvoiceDoc rt tsl (invoice_service_over clk repo cons prd host) (Some req) s =
      (Returned invoice, s')"
  shows "validatePaymentRequest tsl (Some (buildPaymentRequest tsl invoice host)) = None"
proof -
  obtain now n where "valid_create_request tsl (Some req)" "friendly_id ''INV'' now n"
    "invoice = invoice_of tsl (Some req) n now"
    using app_ports.generate_returned[OF assms(1,4)] by metis
  then show ?thesis
    using generated_request_valid[OF assms(2) _ assms(3) inv_prefix_not_blank]
    by (simp add: validatePaymentRequest_None)
qed

theorem own_payment_requests_valid_witness:
  "\<exists>d s'. generateInvoiceDoc ref_runtime ref_timestamps ref_invoice_service
      (Some sample_request) empty_world = (Returned d, s') \<and>
    validatePaymentRequest ref_timestamps
      (Some (buildPaymentRequest ref_timestamps d ''https://pay'')) = None"
proof -
  let ?d = "invoice_of ref_timestamps (Some sample_request) ''INV-20260115-0f8fad''
    (world_now empty_world)"
  let ?g = "generateInvoiceDoc ref_runtime ref_timestamps ref_invoice_service
    (Some sample_request) empty_world"
  have "fst ?g = Returned ?d" by code_simp
  then have g: "?g = (Returned ?d, snd ?g)" by (metis prod.collapse)
  have "times_in_range ref_timestamps (Some sample_request)"
    by (simp add: times_in_range_def sample_request_def ref_timestamps_def timestamp_range_def)
  from own_payment_requests_valid[OF ref_app_ports ref_timestamps_ok this g] g
  show ?thesis by blast
qed





text \<open>C38: nothing in the service recognises a request it has seen: a delivery whose invoice was
  stored, but which was sent back because its payment request could not be published, is stored
  a second time under the same idempotency key when it is delivered again.\<close>

theorem redelivery_stores_again:
  assumes "app_ports repo rrepo prd ackn clk rt docs rcpts sent settled"
    and "unmarshalRequest cdc dlv = Inr req"
    and "processInvoiceDelivery rt tsl cdc ackn (invoice_service_over clk repo cons prd host) dlv s =
      (r, s1)" and "docs s1 \<noteq> docs s"
    and "docs t = docs s1"
    and "processInvoiceDelivery rt tsl cdc ackn (invoice_service_over clk repo cons prd host) dlv t =
      (Returned (), t1)"
  shows "count_if (\<lambda>d. Invoice_IdempotencyId d = CreateInvoicePaymentRequest_IdempotencyKey req) (docs t1) =
    count_if (\<lambda>d. Invoice_IdempotencyId d = CreateInvoicePaymentRequest_IdempotencyKey req) (docs s) + 2"
proof -
  let ?c = "count_if (\<lambda>d. Invoice_IdempotencyId d = CreateInvoicePaymentRequest_IdempotencyKey req)"
  obtain n now where "inserted (invoice_of tsl (Some req) n now) (docs s) (docs s1)"
    using app_ports.process_docs[OF assms(1,3)] assms(2,4) by auto
  then have "?c (docs s1) = Suc (?c (docs s))"
    using app_ports.inserted_idempotency_count[OF assms(1)] by blast
  moreover obtain n' now' where "inserted (invoice_of tsl (Some req) n' now') (docs t) (docs t1)"
    using app_ports.acknowledged_delivery[OF assms(1,6)] assms(2) by (metis sum.inject(2))
  then have "?c (docs t1) = Suc (?c (docs t))"
    using app_ports.inserted_idempotency_count[OF assms(1)] by blast
  ultimately show ?thesis using assms(5) by simp
qed

definition unpublished_world :: world where
  "unpublished_world = empty_world\<lparr>world_down := [''publish'']\<rparr>"

theorem redelivery_stores_again_witness:
  "\<exists>t1::world. count_if (\<lambda>d. Invoice_IdempotencyId d = CreateInvoicePaymentRequest_IdempotencyKey sample_request)
     (world_invoices t1) = count_if (\<lambda>d. Invoice_IdempotencyId d =
       CreateInvoicePaymentRequest_IdempotencyKey sample_request) (world_invoices unpublished_world) + 2"
proof -
  let ?p = "processInvoiceDelivery ref_runtime ref_timestamps ref_codec ref_acknowledger
    ref_invoice_service sample_delivery unpublished_world"
  let ?t = "(snd ?p)\<lparr>world_down := []\<rparr>"
  let ?q = "processInvoiceDelivery ref_runtime ref_timestamps ref_codec ref_acknowledger
    ref_invoice_service sample_delivery ?t"
  have u: "unmarshalRequest ref_codec sample_delivery = Inr sample_request"
    by code_simp
  have run: "length (world_invoices (snd ?p)) \<noteq> length (world_invoices unpublished_world) \<and>
      fst ?q = Returned ()" by code_simp
  obtain r s1 where P: "?p = (r, s1)" by fastforce
  obtain x t1 where Q: "?q = (x, t1)" by fastforce
  have p: "world_invoices s1 \<noteq> world_invoices unpublished_world" using run P by auto
  have t: "world_invoices (s1\<lparr>world_down := []\<rparr>) = world_invoices s1" by simp
  have q: "processInvoiceDelivery ref_runtime ref_timestamps ref_codec ref_acknowledger
      ref_invoice_service sample_delivery (s1\<lparr>world_down := []\<rparr>) = (Returned (), t1)"
    using run P Q by simp
  from redelivery_stores_again[OF ref_app_ports u P p t q] show ?thesis by (rule exI[of _ t1])
qed

text \<open>How a body is decoded: a delivery that declares protobuf or JSON is read as that and as
  nothing else; any other content type, or none, is tried as protobuf first and as JSON after;
  whatever cannot be read is an error about corrupted data.\<close>

theorem unmarshal_table:
  "case unmarshalRequest cdc dlv of
     Inr req \<Rightarrow>
       (if to_lower (trim_space (ContentType dlv)) = ''application/protobuf''
        then ProtoUnmarshal cdc (Body dlv) = Inr req
        else if to_lower (trim_space (ContentType dlv)) = ''application/json''
        then JsonUnmarshal cdc (Body dlv) = Inr req
        else ProtoUnmarshal cdc (Body dlv) = Inr req \<or>
          isl (ProtoUnmarshal cdc (Body dlv)) \<and> JsonUnmarshal cdc (Body dlv) = Inr req)
   | Inl err \<Rightarrow> is_a TAppCorrupted err \<and>
       (isl (ProtoUnmarshal cdc (Body dlv)) \<or> isl (JsonUnmarshal cdc (Body dlv)))"
  by (auto simp: unmarshalRequest_def unmarshal_any_def Let_def error_simps split: sum.splits)

text \<open>The service is made exactly when every port is given and the payment host is not blank;
  otherwise its constructor returns a validation error and nothing else.\<close>

theorem invoice_service_made_iff:
  "case NewInvoiceService invoiceRepo clock invoiceConsumer paymentProducer paymentHost of
     Inl err \<Rightarrow> refused err \<and> (invoiceRepo = None \<or> clock = None \<or> invoiceConsumer = None \<or>
       paymentProducer = None \<or> is_blank paymentHost)
   | Inr svc \<Rightarrow> invoiceRepo = Some (IS_invoiceRepo svc) \<and> clock = Some (IS_clock svc) \<and>
       invoiceConsumer = Some (IS_invoiceConsumer svc) \<and>
       paymentProducer = Some (IS_paymentProducer svc) \<and> \<not> is_blank paymentHost \<and>
       IS_paymentHost svc = paymentHost"
proof -
  let ?v = "chain [NotNil ''invoice_repo'' (ptr invoiceRepo), NotNil ''clock'' (ptr clock),
    NotNil ''invoice_consumer'' (ptr invoiceConsumer),
    NotNil ''payment_producer'' (ptr paymentProducer), NotBlank ''payment_host'' paymentHost]"
  have ok: "Validate ?v = None \<longleftrightarrow> invoiceRepo \<noteq> None \<and> clock \<noteq> None \<and> invoiceConsumer \<noteq> None \<and>
      paymentProducer \<noteq> None \<and> \<not> is_blank paymentHost"
    by (auto simp: validator_simps)
  have con: "only_constraints ?v" by (simp add: validator_simps)
  show ?thesis
  proof (cases "Validate ?v")
    case None
    then show ?thesis using ok by (auto simp: NewInvoiceService_def)
  next
    case (Some e)
    then show ?thesis using ok Validate_refused[OF Some con] by (auto simp: NewInvoiceService_def)
  qed
qed

end
