(* ===== verification/PaymentMaking.thy ===== *)
theory PaymentMaking
  imports IdGen
begin

text \<open>
  internal/app/payment_making_service.go: paying an invoice with a card. The call checks the
  request, loads the invoice, draws whether the simulated payment fails, marks the invoice paid
  and replies; the receipt and the confirmation are the work of a goroutine it leaves behind.
\<close>

section \<open>The service\<close>

record 's payment_service =
  PM_failChance :: int
  PM_clock :: "'s clock_port"
  PM_invoiceRepo :: "'s invoice_repo"
  PM_receiptRepo :: "'s receipt_repo"
  PM_paymentProducer :: "'s mq_producer"

definition NewPaymentMakingServer ::
  "int \<Rightarrow> 's clock_port option \<Rightarrow> 's invoice_repo option \<Rightarrow> 's receipt_repo option \<Rightarrow>
     's mq_producer option \<Rightarrow> go_err + 's payment_service" where
  "NewPaymentMakingServer failChance clock invoiceRepo receiptRepo producer =
    (case Validate (chain
       [NotNil ''clock'' (ptr clock),
        NotNil ''invoice_repo'' (ptr invoiceRepo),
        NotNil ''receipt_repo'' (ptr receiptRepo),
        NotNil ''payment_producer'' (ptr producer)]) of
       Some err \<Rightarrow> Inl err
     | None \<Rightarrow>
      if failChance < 0
      then Inl (ErrValidationConstrain ''fail_chance'' ''must be greater than or equal to 0'')
      else Inr \<lparr>
         PM_failChance = failChance,
         PM_clock = the clock,
         PM_invoiceRepo = the invoiceRepo,
         PM_receiptRepo = the receiptRepo,
         PM_paymentProducer = the producer\<rparr>)"

section \<open>The call\<close>

definition pay_request_checks :: "pb_PayWithCardRequest option \<Rightarrow> validator" where
  "pay_request_checks req =
    (let card = PayWithCardRequest_GetCard req in chain
      [NotBlank ''invoice_number'' (PayWithCardRequest_GetInvoiceNumber req),
       NotBlank ''card.number'' (Card_GetNumber card),
       NotZeroValue ''card.exp_month'' (VInt (sint (Card_GetExpMonth card))),
       NotZeroValue ''card.exp_year'' (VInt (sint (Card_GetExpYear card))),
       NotBlank ''card.cvv'' (Card_GetCvv card),
       NotBlank ''card.holder_name'' (Card_GetHolderName card)])"

definition mapError :: "go_err \<Rightarrow> rpc_error" where
  "mapError err =
    (if is_a TDbInvoiceNotFound err then Status NotFound (error_text err)
     else if is_a TDbCorrupted err
       then Status Internal ''database returned corrupted invoice data''
     else Status Internal (error_text err))"

definition buildResponse ::
  "'s runtime \<Rightarrow> pb_PayWithCardRequest option \<Rightarrow> 32 word \<Rightarrow> go_time \<Rightarrow> 's \<Rightarrow>
     (go_err, pb_PayWithCardResponse) outcome \<times> 's" where
  "buildResponse rt req status now s =
    (let card = PayWithCardRequest_GetCard req in
     case last_bytes 4 (Card_GetNumber card) of
       None \<Rightarrow> (Panicked ''runtime error: slice bounds out of range'', s)
     | Some cardNumberLast4 \<Rightarrow>
      (let cardSummary = \<lparr>
         CardSummary_Brand = Card_GetBrand card,
         CardSummary_Last4 = cardNumberLast4\<rparr> in
       case GenerateHumanFriendlyId rt ''RCPT'' now s of
         (Panicked m, s1) \<Rightarrow> (Panicked m, s1)
       | (Failed err, s1) \<Rightarrow>
           (Failed (AppUnexpectedErr ''failed to generate receipt number'' (Some err)), s1)
       | (Returned receiptNumber, s1) \<Rightarrow>
          (let (processedAt, s2) = TimestampNow rt s1 in
           (Returned \<lparr>
              PayWithCardResponse_ReceiptNumber = receiptNumber,
              PayWithCardResponse_InvoiceNumber = PayWithCardRequest_GetInvoiceNumber req,
              PayWithCardResponse_Status = status,
              PayWithCardResponse_Card = Some cardSummary,
              PayWithCardResponse_ProcessedAt = Some processedAt\<rparr>, s2))))"

text \<open>Whether a draw of \<open>rand.Int\<close> makes the simulated payment fail.\<close>

definition draw_fails :: "int \<Rightarrow> int \<Rightarrow> bool" where
  "draw_fails failChance n \<longleftrightarrow> n < failChance"

text \<open>
  The result: the reply or error of the call, and the work left to a goroutine, if any: the time
  of the payment and the reply. An error that is not nil hides the reply.
\<close>

type_synonym pay_result = "(rpc_error, pb_PayWithCardResponse) outcome"
type_synonym pay_job = "go_time \<times> pb_PayWithCardResponse"

definition PayWithCard ::
  "'s runtime \<Rightarrow> 's payment_service \<Rightarrow> pb_PayWithCardRequest option \<Rightarrow> 's \<Rightarrow>
     pay_result \<times> pay_job option \<times> 's" where
  "PayWithCard rt svc req s =
    (case Validate (pay_request_checks req) of
       Some err \<Rightarrow> (Failed (Status InvalidArgument (error_text err)), None, s)
     | None \<Rightarrow>
      (case Now (PM_clock svc) s of
         (Inl err, s1) \<Rightarrow> (Failed (Status Internal (error_text err)), None, s1)
       | (Inr now, s1) \<Rightarrow>
        (case FindByInvoiceNumber (PM_invoiceRepo svc) (PayWithCardRequest_GetInvoiceNumber req) s1 of
           (Inl err, s2) \<Rightarrow> (Failed (mapError err), None, s2)
         | (Inr invoice, s2) \<Rightarrow>
          if equal_fold (Invoice_Status invoice) InvoiceStatusPaid
          then (Failed (Status FailedPrecondition ''invoice is already paid''), None, s2)
          else
           (let (n, s3) = RandInt rt s2 in
            if draw_fails (PM_failChance svc) n then
              (case buildResponse rt req PaymentStatus_PAYMENT_STATUS_FAILED now s3 of
                 (Panicked m, s4) \<Rightarrow> (Panicked m, None, s4)
               | (Failed err, s4) \<Rightarrow> (Failed (RawErr err), None, s4)
               | (Returned resp, s4) \<Rightarrow> (Returned resp, None, s4))
            else
              (case UpdateStatus (PM_invoiceRepo svc) (PayWithCardRequest_GetInvoiceNumber req)
                      InvoiceStatusPaid now s3 of
                 (Inl err, s4) \<Rightarrow> (Failed (mapError err), None, s4)
               | (Inr _, s4) \<Rightarrow>
                (case buildResponse rt req PaymentStatus_PAYMENT_STATUS_SUCCEEDED now s4 of
                   (Panicked m, s5) \<Rightarrow> (Panicked m, None, s5)
                 | (Failed err, s5) \<Rightarrow> (Failed (Status Internal (error_text err)), None, s5)
                 | (Returned resp, s5) \<Rightarrow> (Returned resp, Some (now, resp), s5)))))))"

section \<open>The work after a payment\<close>

definition saveReceipt ::
  "'s runtime \<Rightarrow> timestamp_lib \<Rightarrow> 's payment_service \<Rightarrow> pb_PayWithCardResponse \<Rightarrow>
     ('s, doc_Receipt) call" where
  "saveReceipt rt tsl svc resp s =
    (case NewReceiptFromProtMessage tsl (fst (NewObjectID rt s)) (Some resp) of
       Inl err \<Rightarrow> (Inl err, s)
     | Inr receipt \<Rightarrow>
      (case AddReceipt (PM_receiptRepo svc) receipt (snd (NewObjectID rt s)) of
         (Inl err, s2) \<Rightarrow>
           if is_a TDbAlreadyExists err then (Inl (AppAlreadyExistsErr (Some err)), s2)
           else if is_a TDbCorrupted err then
             (Inl (AppCorruptedDataError ''database returned corrupted receipt data'' (Some err)), s2)
           else (Inl (AppUnexpectedErr ''unexpect error happened while saving receipt''
             (Some err)), s2)
       | (Inr _, s2) \<Rightarrow> (Inr receipt, s2)))"

definition confirmation_key :: "doc_Invoice \<Rightarrow> string" where
  "confirmation_key invoice = ''booking.'' @ Invoice_BookingId invoice @ ''.confirmation''"

definition sendConfirmationMessage ::
  "'s runtime \<Rightarrow> timestamp_lib \<Rightarrow> 's payment_service \<Rightarrow> go_time \<Rightarrow> pb_PayWithCardResponse \<Rightarrow>
     's \<Rightarrow> (go_err, unit) outcome \<times> 's" where
  "sendConfirmationMessage rt tsl svc now resp s =
    (case FindByInvoiceNumber (PM_invoiceRepo svc) (PayWithCardResponse_GetInvoiceNumber (Some resp)) s of
       (Inl err, s1) \<Rightarrow>
         if is_a TDbInvoiceNotFound err then (Failed (AppInvoiceNotFoundErr (Some err)), s1)
         else if is_a TDbCorrupted err then (Failed (AppCorruptedDataError [] (Some err)), s1)
         else (Failed (AppUnexpectedErr ''unexpected error happened while getting invoice''
           (Some err)), s1)
     | (Inr invoice, s1) \<Rightarrow>
      (case UuidNew rt s1 of
         (None, s2) \<Rightarrow> (Panicked ''uuid: reading random failed'', s2)
       | (Some i, s2) \<Rightarrow>
        (let confirmation = \<lparr>
           PaymentConfirmation_Id = i,
           PaymentConfirmation_BookingId = Invoice_BookingId invoice,
           PaymentConfirmation_PayerId = Invoice_PayerId invoice,
           PaymentConfirmation_InvoiceNumber = Invoice_InvoiceNumber invoice,
           PaymentConfirmation_ReceiptNumber = PayWithCardResponse_GetReceiptNumber (Some resp),
           PaymentConfirmation_ConfirmedAt = Some (TimestampNew tsl now)\<rparr> in
         case Publish (PM_paymentProducer svc) (PaymentConfirmationMsg confirmation)
                (confirmation_key invoice) s2 of
           (Inl err, s3) \<Rightarrow> (Failed (AppUnexpectedErr
               ''unexpected error happened while publishing payment confirmation message''
               (Some err)), s3)
         | (Inr _, s3) \<Rightarrow> (Returned (), s3))))"

text \<open>The goroutine of a successful payment; its errors are only logged.\<close>

definition post_payment_work ::
  "'s runtime \<Rightarrow> timestamp_lib \<Rightarrow> 's payment_service \<Rightarrow> pay_job \<Rightarrow> 's \<Rightarrow>
     (go_err, unit) outcome \<times> 's" where
  "post_payment_work rt tsl svc job s =
    (case saveReceipt rt tsl svc (snd job) s of
       (Inl err, s1) \<Rightarrow> (Failed err, s1)
     | (Inr _, s1) \<Rightarrow> sendConfirmationMessage rt tsl svc (fst job) (snd job) s1)"

section \<open>The checks as conditions\<close>

definition valid_pay_request :: "pb_PayWithCardRequest option \<Rightarrow> bool" where
  "valid_pay_request req \<longleftrightarrow>
     (let card = PayWithCardRequest_GetCard req in
      \<not> is_blank (PayWithCardRequest_GetInvoiceNumber req) \<and> \<not> is_blank (Card_GetNumber card) \<and>
      sint (Card_GetExpMonth card) \<noteq> 0 \<and> sint (Card_GetExpYear card) \<noteq> 0 \<and>
      \<not> is_blank (Card_GetCvv card) \<and> \<not> is_blank (Card_GetHolderName card))"

lemma pay_request_checks_pass [validator_simps]:
  "passes (pay_request_checks req) \<longleftrightarrow> valid_pay_request req"
  by (auto simp: pay_request_checks_def valid_pay_request_def Let_def validator_simps)

lemma valid_pay_request_None: "Validate (pay_request_checks req) = None \<longleftrightarrow> valid_pay_request req"
  by (simp add: validator_simps)

section \<open>The ways a payment ends\<close>

definition failed_reply :: "(go_err, pb_PayWithCardResponse) outcome \<Rightarrow> pay_result" where
  "failed_reply g = (case g of Panicked m \<Rightarrow> Panicked m | Failed e \<Rightarrow> Failed (RawErr e)
     | Returned resp \<Rightarrow> Returned resp)"

definition charged_reply :: "(go_err, pb_PayWithCardResponse) outcome \<Rightarrow> pay_result" where
  "charged_reply g = (case g of Panicked m \<Rightarrow> Panicked m
     | Failed e \<Rightarrow> Failed (Status Internal (error_text e)) | Returned resp \<Rightarrow> Returned resp)"

definition charged_job ::
  "go_time \<Rightarrow> (go_err, pb_PayWithCardResponse) outcome \<Rightarrow> pay_job option" where
  "charged_job now g = (case g of Returned resp \<Rightarrow> Some (now, resp) | _ \<Rightarrow> None)"

text \<open>The payment got as far as the draw.\<close>

definition drawn ::
  "'s runtime \<Rightarrow> 's payment_service \<Rightarrow> pb_PayWithCardRequest option \<Rightarrow> 's \<Rightarrow>
     go_time \<Rightarrow> doc_Invoice \<Rightarrow> int \<Rightarrow> 's \<Rightarrow> bool" where
  "drawn rt svc req s now d n s3 \<longleftrightarrow> valid_pay_request req \<and>
     (\<exists>s1 s2. Now (PM_clock svc) s = (Inr now, s1) \<and>
       FindByInvoiceNumber (PM_invoiceRepo svc) (PayWithCardRequest_GetInvoiceNumber req) s1 =
         (Inr d, s2) \<and>
       \<not> equal_fold (Invoice_Status d) InvoiceStatusPaid \<and> RandInt rt s2 = (n, s3))"

lemma pay_cases:
  assumes "PayWithCard rt svc req s = (r, job, s')"
  obtains (invalid) e where "\<not> valid_pay_request req"
      "r = Failed (Status InvalidArgument (error_text e))" "job = None" "s' = s"
  | (clock_error) e where "valid_pay_request req" "Now (PM_clock svc) s = (Inl e, s')"
      "r = Failed (Status Internal (error_text e))" "job = None"
  | (find_error) now s1 e where "valid_pay_request req" "Now (PM_clock svc) s = (Inr now, s1)"
      "FindByInvoiceNumber (PM_invoiceRepo svc) (PayWithCardRequest_GetInvoiceNumber req) s1 =
         (Inl e, s')" "r = Failed (mapError e)" "job = None"
  | (paid) now s1 d where "valid_pay_request req" "Now (PM_clock svc) s = (Inr now, s1)"
      "FindByInvoiceNumber (PM_invoiceRepo svc) (PayWithCardRequest_GetInvoiceNumber req) s1 =
         (Inr d, s')" "equal_fold (Invoice_Status d) InvoiceStatusPaid"
      "r = Failed (Status FailedPrecondition ''invoice is already paid'')" "job = None"
  | (unlucky) now d n s3 g where "drawn rt svc req s now d n s3"
      "draw_fails (PM_failChance svc) n"
      "buildResponse rt req PaymentStatus_PAYMENT_STATUS_FAILED now s3 = (g, s')"
      "r = failed_reply g" "job = None"
  | (update_error) now d n s3 e where "drawn rt svc req s now d n s3"
      "\<not> draw_fails (PM_failChance svc) n"
      "UpdateStatus (PM_invoiceRepo svc) (PayWithCardRequest_GetInvoiceNumber req)
         InvoiceStatusPaid now s3 = (Inl e, s')" "r = Failed (mapError e)" "job = None"
  | (charged) now d n s3 u s4 g where "drawn rt svc req s now d n s3"
      "\<not> draw_fails (PM_failChance svc) n"
      "UpdateStatus (PM_invoiceRepo svc) (PayWithCardRequest_GetInvoiceNumber req)
         InvoiceStatusPaid now s3 = (Inr u, s4)"
      "buildResponse rt req PaymentStatus_PAYMENT_STATUS_SUCCEEDED now s4 = (g, s')"
      "r = charged_reply g" "job = charged_job now g"
proof (cases "Validate (pay_request_checks req)")
  case (Some e)
  then have "\<not> valid_pay_request req" by (simp add: valid_pay_request_None[symmetric])
  with Some assms invalid[of e] show ?thesis by (simp add: PayWithCard_def)
next
  case None
  then have ok: "valid_pay_request req" by (simp add: valid_pay_request_None)
  obtain a s1 where clk: "Now (PM_clock svc) s = (a, s1)" by fastforce
  show ?thesis
  proof (cases a)
    case (Inl e)
    with None clk assms clock_error[OF ok, of e] show ?thesis by (simp add: PayWithCard_def)
  next
    case (Inr now)
    obtain f s2 where fnd: "FindByInvoiceNumber (PM_invoiceRepo svc)
        (PayWithCardRequest_GetInvoiceNumber req) s1 = (f, s2)" by fastforce
    note clk = clk[unfolded Inr]
    show ?thesis
    proof (cases f)
      case (Inl e)
      with None clk fnd assms find_error[OF ok clk, of e] show ?thesis
        by (simp add: PayWithCard_def)
    next
      case (Inr d)
      note fnd = fnd[unfolded Inr]
      show ?thesis
      proof (cases "equal_fold (Invoice_Status d) InvoiceStatusPaid")
        case True
        with None clk fnd assms paid[OF ok clk, of d] show ?thesis by (simp add: PayWithCard_def)
      next
        case False
        obtain n s3 where rnd: "RandInt rt s2 = (n, s3)" by fastforce
        with ok clk fnd False have dr: "drawn rt svc req s now d n s3" by (auto simp: drawn_def)
        show ?thesis
        proof (cases "draw_fails (PM_failChance svc) n")
          case True
          with None clk fnd False rnd assms
            unlucky[OF dr True, of "fst (buildResponse rt req PaymentStatus_PAYMENT_STATUS_FAILED now s3)"]
          show ?thesis
            by (auto simp: PayWithCard_def failed_reply_def split: prod.splits outcome.splits)
        next
          case lucky: False
          obtain w s4 where upd: "UpdateStatus (PM_invoiceRepo svc)
              (PayWithCardRequest_GetInvoiceNumber req) InvoiceStatusPaid now s3 = (w, s4)"
            by fastforce
          show ?thesis
          proof (cases w)
            case (Inl e)
            with None clk fnd False rnd lucky upd assms update_error[OF dr lucky, of e] show ?thesis
              by (simp add: PayWithCard_def)
          next
            case (Inr u)
            obtain g s5 where bld: "buildResponse rt req PaymentStatus_PAYMENT_STATUS_SUCCEEDED
                now s4 = (g, s5)" by fastforce
            with None clk fnd False rnd lucky upd Inr assms charged[OF dr lucky, of u s4 g]
            show ?thesis
              by (cases g) (simp_all add: PayWithCard_def charged_reply_def charged_job_def)
          qed
        qed
      qed
    qed
  qed
qed

section \<open>What the stages do\<close>

definition payment_service_over ::
  "int \<Rightarrow> 's clock_port \<Rightarrow> 's invoice_repo \<Rightarrow> 's receipt_repo \<Rightarrow> 's mq_producer \<Rightarrow>
     's payment_service" where
  "payment_service_over chance clk repo rrepo prd = \<lparr>
     PM_failChance = chance, PM_clock = clk, PM_invoiceRepo = repo, PM_receiptRepo = rrepo,
     PM_paymentProducer = prd\<rparr>"

lemma payment_service_over_simps [simp]:
  "PM_failChance (payment_service_over chance clk repo rrepo prd) = chance"
  "PM_clock (payment_service_over chance clk repo rrepo prd) = clk"
  "PM_invoiceRepo (payment_service_over chance clk repo rrepo prd) = repo"
  "PM_receiptRepo (payment_service_over chance clk repo rrepo prd) = rrepo"
  "PM_paymentProducer (payment_service_over chance clk repo rrepo prd) = prd"
  by (simp_all add: payment_service_over_def)

text \<open>A reply to a request, with the status it reports.\<close>

definition reply_to ::
  "pb_PayWithCardRequest option \<Rightarrow> 32 word \<Rightarrow> go_time \<Rightarrow> pb_PayWithCardResponse \<Rightarrow> bool" where
  "reply_to req st now resp \<longleftrightarrow>
     PayWithCardResponse_InvoiceNumber resp = PayWithCardRequest_GetInvoiceNumber req \<and>
     PayWithCardResponse_Status resp = st \<and>
     friendly_id ''RCPT'' now (PayWithCardResponse_ReceiptNumber resp) \<and>
     (\<exists>pre last4 t. Card_GetNumber (PayWithCardRequest_GetCard req) = pre @ last4 \<and> length last4 = 4 \<and>
       PayWithCardResponse_Card resp = Some \<lparr>
         CardSummary_Brand = Card_GetBrand (PayWithCardRequest_GetCard req),
         CardSummary_Last4 = last4\<rparr> \<and>
       PayWithCardResponse_ProcessedAt resp = Some t)"

definition short_card :: "pb_PayWithCardRequest option \<Rightarrow> bool" where
  "short_card req \<longleftrightarrow> length (Card_GetNumber (PayWithCardRequest_GetCard req)) < 4"

lemma buildResponse_short:
  "short_card req \<Longrightarrow>
     buildResponse rt req st now s = (Panicked ''runtime error: slice bounds out of range'', s)"
  by (simp add: buildResponse_def short_card_def last_bytes_def)

context app_ports
begin

lemma buildResponse_cases:
  assumes "buildResponse rt req st now s = (g, s')"
  obtains (short) m where "short_card req" "g = Panicked m" "s' = s"
  | (failed) e where "\<not> short_card req" "g = Failed e"
  | (replied) resp where "\<not> short_card req" "g = Returned resp" "reply_to req st now resp"
proof (cases "last_bytes 4 (Card_GetNumber (PayWithCardRequest_GetCard req))")
  case None
  then have "short_card req" by (auto simp: last_bytes_def short_card_def split: if_splits)
  with assms short show ?thesis by (auto simp: buildResponse_short)
next
  case (Some last4)
  then have long: "\<not> short_card req" by (auto simp: last_bytes_def short_card_def split: if_splits)
  obtain h s1 where h: "GenerateHumanFriendlyId rt ''RCPT'' now s = (h, s1)" by fastforce
  from h show ?thesis
  proof (cases rule: ids.GenerateHumanFriendlyId_cases)
    case (id i)
    obtain t s2 where t: "TimestampNow rt s1 = (t, s2)" by fastforce
    let ?resp = "\<lparr>PayWithCardResponse_ReceiptNumber = i,
        PayWithCardResponse_InvoiceNumber = PayWithCardRequest_GetInvoiceNumber req,
        PayWithCardResponse_Status = st,
        PayWithCardResponse_Card = Some \<lparr>
          CardSummary_Brand = Card_GetBrand (PayWithCardRequest_GetCard req),
          CardSummary_Last4 = last4\<rparr>,
        PayWithCardResponse_ProcessedAt = Some t\<rparr>"
    have "g = Returned ?resp" using Some id h t assms by (simp add: buildResponse_def)
    moreover have "reply_to req st now ?resp"
      using last_bytes_Some[OF Some] id(2) by (auto simp: reply_to_def)
    ultimately show ?thesis using replied[OF long] by blast
  next
    case (failed m e)
    with Some h assms have "\<exists>x. g = Failed x" by (auto simp: buildResponse_def)
    then show ?thesis using that(2)[OF long] by blast
  qed
qed

lemma reply_id_quiet:
  "GenerateHumanFriendlyId rt pre now s = (r, s') \<Longrightarrow>
     docs s' = docs s \<and> rcpts s' = rcpts s \<and> sent s' = sent s \<and> settled s' = settled s"
  using ids.GenerateHumanFriendlyId_rest by fastforce

lemma buildResponse_quiet [port_quiet]:
  assumes "buildResponse rt req st now s = (g, s')"
  shows "docs s' = docs s \<and> rcpts s' = rcpts s \<and> sent s' = sent s \<and> settled s' = settled s"
proof (cases "last_bytes 4 (Card_GetNumber (PayWithCardRequest_GetCard req))")
  case None
  with assms show ?thesis by (simp add: buildResponse_def)
next
  case (Some last4)
  obtain h s1 where h: "GenerateHumanFriendlyId rt ''RCPT'' now s = (h, s1)" by fastforce
  obtain t s2 where t: "TimestampNow rt s1 = (t, s2)" by fastforce
  show ?thesis
    using assms Some h t reply_id_quiet[OF h] timestamp_quiet[OF t]
    by (cases h) (auto simp: buildResponse_def)
qed

lemma drawn_quiet:
  assumes "drawn rt (payment_service_over chance clk repo rrepo prod) req s now d n s3"
  shows "docs s3 = docs s \<and> rcpts s3 = rcpts s \<and> sent s3 = sent s \<and> settled s3 = settled s"
    and "d \<in> set (docs s)" and "Invoice_InvoiceNumber d = PayWithCardRequest_GetInvoiceNumber req"
    and "\<not> equal_fold (Invoice_Status d) InvoiceStatusPaid" and "valid_pay_request req"
    and "0 \<le> n \<and> n < 2 ^ 63"
proof -
  from assms obtain s1 s2 where st: "Now clk s = (Inr now, s1)"
    "FindByInvoiceNumber repo (PayWithCardRequest_GetInvoiceNumber req) s1 = (Inr d, s2)"
    "RandInt rt s2 = (n, s3)" and np: "\<not> equal_fold (Invoice_Status d) InvoiceStatusPaid"
    and ok: "valid_pay_request req"
    by (auto simp: drawn_def)
  note q = now_quiet[OF st(1)] find_all_quiet[OF st(2)] rand_quiet[OF st(3)]
  show "docs s3 = docs s \<and> rcpts s3 = rcpts s \<and> sent s3 = sent s \<and> settled s3 = settled s"
    using q by simp
  show "d \<in> set (docs s)" "Invoice_InvoiceNumber d = PayWithCardRequest_GetInvoiceNumber req"
    using invs.find_found[OF st(2)] q by simp_all
  show "\<not> equal_fold (Invoice_Status d) InvoiceStatusPaid" by (rule np)
  show "valid_pay_request req" by (rule ok)
  show "0 \<le> n \<and> n < 2 ^ 63" using rts.rand_range[OF st(3)] .
qed

end

section \<open>What a payment does to the stored data\<close>

text \<open>No invoice with the number can be paid any more.\<close>

definition all_paid :: "string \<Rightarrow> doc_Invoice list \<Rightarrow> bool" where
  "all_paid n ds \<longleftrightarrow>
     (\<forall>d\<in>set ds. Invoice_InvoiceNumber d = n \<longrightarrow> equal_fold (Invoice_Status d) InvoiceStatusPaid)"

definition times_stored :: "string \<Rightarrow> doc_Invoice list \<Rightarrow> nat" where
  "times_stored n ds = count_if (\<lambda>d. Invoice_InvoiceNumber d = n) ds"

lemma status_set_numbers:
  "status_set n st ds ds' \<Longrightarrow> map Invoice_InvoiceNumber ds' = map Invoice_InvoiceNumber ds"
  by (auto simp: status_set_def map_update same_record_fields(1) intro!: list_update_same_conv[THEN iffD2])

lemma count_if_number: "times_stored n ds = count_if (\<lambda>m. m = n) (map Invoice_InvoiceNumber ds)"
  by (induction ds) (auto simp: times_stored_def)

lemma status_set_times: "status_set m st ds ds' \<Longrightarrow> times_stored n ds' = times_stored n ds"
  by (simp add: count_if_number status_set_numbers)

text \<open>Marking an invoice paid keeps the paid ones paid.\<close>

lemma paid_stays:
  assumes "status_set m InvoiceStatusPaid ds ds'" and "all_paid n ds"
  shows "all_paid n ds'"
proof -
  from assms(1) obtain i d' where i: "i < length ds" "Invoice_InvoiceNumber (ds ! i) = m"
    "same_record ((ds ! i)\<lparr>Invoice_Status := InvoiceStatusPaid\<rparr>) d'" "ds' = ds[i := d']"
    by (auto simp: status_set_def)
  have "Invoice_Status d' = InvoiceStatusPaid" using same_record_fields(2)[OF i(3)] by simp
  then show ?thesis
    using assms(2) i(4) set_update_subset_insert[of ds i d'] by (auto simp: all_paid_def)
qed

text \<open>When the number is stored once, marking it paid leaves nothing to pay.\<close>

lemma paid_once:
  assumes "status_set n InvoiceStatusPaid ds ds'" and "times_stored n ds \<le> 1"
  shows "all_paid n ds'"
proof -
  from assms(1) obtain i d' where i: "i < length ds" "Invoice_InvoiceNumber (ds ! i) = n"
    "same_record ((ds ! i)\<lparr>Invoice_Status := InvoiceStatusPaid\<rparr>) d'" "ds' = ds[i := d']"
    by (auto simp: status_set_def)
  have d': "Invoice_Status d' = InvoiceStatusPaid" using same_record_fields(2)[OF i(3)] by simp
  let ?P = "\<lambda>d. Invoice_InvoiceNumber d = n \<and> \<not> equal_fold (Invoice_Status d) InvoiceStatusPaid"
  let ?Q = "\<lambda>d. Invoice_InvoiceNumber d = n"
  have ds: "ds = take i ds @ ds ! i # drop (Suc i) ds" using i(1) by (rule id_take_nth_drop)
  have "count_if ?Q (take i ds @ ds ! i # drop (Suc i) ds) \<le> 1"
    using assms(2) ds by (simp add: times_stored_def)
  then have "count_if ?Q (take i ds) = 0" "count_if ?Q (drop (Suc i) ds) = 0"
    using i(2) by simp_all
  then have "\<forall>d\<in>set (take i ds) \<union> set (drop (Suc i) ds). Invoice_InvoiceNumber d \<noteq> n"
    by (auto simp: count_if_zero_iff)
  moreover have "ds' = take i ds @ d' # drop (Suc i) ds"
    using i(1,4) by (simp add: upd_conv_take_nth_drop)
  ultimately show ?thesis using d' by (auto simp: all_paid_def)
qed

definition confirmation_for ::
  "timestamp_lib \<Rightarrow> string \<Rightarrow> go_time \<Rightarrow> pb_PayWithCardResponse \<Rightarrow> doc_Invoice \<Rightarrow>
     proto_message \<times> string" where
  "confirmation_for tsl i now resp d = (PaymentConfirmationMsg \<lparr>
     PaymentConfirmation_Id = i,
     PaymentConfirmation_BookingId = Invoice_BookingId d,
     PaymentConfirmation_PayerId = Invoice_PayerId d,
     PaymentConfirmation_InvoiceNumber = Invoice_InvoiceNumber d,
     PaymentConfirmation_ReceiptNumber = PayWithCardResponse_ReceiptNumber resp,
     PaymentConfirmation_ConfirmedAt = Some (TimestampNew tsl now)\<rparr>, confirmation_key d)"

context app_ports
begin

abbreviation pay_service :: "int \<Rightarrow> 's payment_service" where
  "pay_service chance \<equiv> payment_service_over chance clk repo rrepo prod"

lemma pay_effect:
  assumes "PayWithCard rt (pay_service chance) req s = (r, job, s')"
  shows "rcpts s' = rcpts s" "sent s' = sent s" "settled s' = settled s"
    "docs s' = docs s \<or> valid_pay_request req \<and>
       \<not> all_paid (PayWithCardRequest_GetInvoiceNumber req) (docs s) \<and>
       status_set (PayWithCardRequest_GetInvoiceNumber req) InvoiceStatusPaid (docs s) (docs s')"
proof -
  let ?n = "PayWithCardRequest_GetInvoiceNumber req"
  have "rcpts s' = rcpts s \<and> sent s' = sent s \<and> settled s' = settled s \<and>
    (docs s' = docs s \<or> valid_pay_request req \<and> \<not> all_paid ?n (docs s) \<and>
       status_set ?n InvoiceStatusPaid (docs s) (docs s'))"
    using assms
  proof (cases rule: pay_cases)
    case (clock_error e)
    then show ?thesis using now_quiet by simp
  next
    case (find_error now s1 e)
    then show ?thesis using now_quiet[of s] find_all_quiet[of _ s1] by simp
  next
    case (paid now s1 d)
    then show ?thesis using now_quiet[of s] find_all_quiet[of _ s1] by simp
  next
    case (unlucky now d n s3 g)
    then show ?thesis using drawn_quiet(1)[OF unlucky(1)] buildResponse_quiet[OF unlucky(3)] by simp
  next
    case (update_error now d n s3 e)
    note upd = update_error(3)[simplified]
    show ?thesis
      using drawn_quiet[OF update_error(1)] update_frame[OF upd] invs.update_failed[OF upd]
      by (auto simp: all_paid_def)
  next
    case (charged now d n s3 u s4 g)
    note upd = charged(3)[simplified]
    show ?thesis
      using drawn_quiet[OF charged(1)] update_frame[OF upd] invs.update_done[OF upd]
        buildResponse_quiet[OF charged(4)]
      by (auto simp: all_paid_def)
  qed simp
  then show "rcpts s' = rcpts s" "sent s' = sent s" "settled s' = settled s"
    "docs s' = docs s \<or> valid_pay_request req \<and> \<not> all_paid ?n (docs s) \<and>
       status_set ?n InvoiceStatusPaid (docs s) (docs s')" by simp_all
qed

lemma pay_replied:
  assumes "PayWithCard rt (pay_service chance) req s = (Returned resp, job, s')"
  obtains (failed) now where "reply_to req PaymentStatus_PAYMENT_STATUS_FAILED now resp"
      "job = None" "docs s' = docs s"
  | (succeeded) now where "reply_to req PaymentStatus_PAYMENT_STATUS_SUCCEEDED now resp"
      "job = Some (now, resp)" "\<not> all_paid (PayWithCardRequest_GetInvoiceNumber req) (docs s)"
      "status_set (PayWithCardRequest_GetInvoiceNumber req) InvoiceStatusPaid (docs s) (docs s')"
  using assms
proof (cases rule: pay_cases)
  case (unlucky now d n s3 g)
  then have "g = Returned resp" by (auto simp: failed_reply_def split: outcome.splits)
  with unlucky(3) have "reply_to req PaymentStatus_PAYMENT_STATUS_FAILED now resp"
    by (auto elim!: buildResponse_cases)
  moreover have "docs s' = docs s"
    using drawn_quiet(1)[OF unlucky(1)] buildResponse_quiet[OF unlucky(3)] by simp
  ultimately show ?thesis using that(1) unlucky(5) by blast
next
  case (charged now d n s3 u s4 g)
  then have g: "g = Returned resp" by (auto simp: charged_reply_def split: outcome.splits)
  with charged(4) have "reply_to req PaymentStatus_PAYMENT_STATUS_SUCCEEDED now resp"
    by (auto elim!: buildResponse_cases)
  moreover have "job = Some (now, resp)" using charged(6) g by (simp add: charged_job_def)
  moreover have "\<not> all_paid (PayWithCardRequest_GetInvoiceNumber req) (docs s)"
    using drawn_quiet[OF charged(1)] by (auto simp: all_paid_def)
  moreover have "status_set (PayWithCardRequest_GetInvoiceNumber req) InvoiceStatusPaid
      (docs s) (docs s')"
    using invs.update_done[OF charged(3)[simplified]] drawn_quiet(1)[OF charged(1)]
      buildResponse_quiet[OF charged(4)] by simp
  ultimately show ?thesis using that(2) by blast
qed simp_all

lemma pay_job_replied:
  assumes "PayWithCard rt (pay_service chance) req s = (r, Some (now, resp), s')"
  shows "r = Returned resp"
  using assms
  by (cases rule: pay_cases) (auto simp: charged_job_def charged_reply_def split: outcome.splits)

lemma save_receipt_effect:
  assumes "saveReceipt rt tsl (pay_service chance) resp s = (r, s')"
  shows "docs s' = docs s" "sent s' = sent s" "settled s' = settled s"
    "r = Inr d \<Longrightarrow> valid_receipt_response (Some resp) \<and>
       (\<exists>i. receipt_inserted (receipt_of tsl i (Some resp)) (rcpts s) (rcpts s'))"
    "rcpts s' = rcpts s \<or> valid_receipt_response (Some resp) \<and>
       (\<exists>i. receipt_inserted (receipt_of tsl i (Some resp)) (rcpts s) (rcpts s'))"
proof -
  obtain i s1 where i: "NewObjectID rt s = (i, s1)" by fastforce
  note q = object_id_quiet[OF i]
  have "docs s' = docs s \<and> sent s' = sent s \<and> settled s' = settled s \<and>
    (r = Inr d \<longrightarrow> valid_receipt_response (Some resp) \<and>
       (\<exists>i. receipt_inserted (receipt_of tsl i (Some resp)) (rcpts s) (rcpts s'))) \<and>
    (rcpts s' = rcpts s \<or> valid_receipt_response (Some resp) \<and>
       (\<exists>i. receipt_inserted (receipt_of tsl i (Some resp)) (rcpts s) (rcpts s')))"
  proof (cases "valid_receipt_response (Some resp)")
    case False
    then obtain e where "NewReceiptFromProtMessage tsl i (Some resp) = Inl e"
      using NewReceipt_invalid by blast
    with i assms show ?thesis by (auto simp: saveReceipt_def)
  next
    case True
    obtain a s2 where a: "AddReceipt rrepo (receipt_of tsl i (Some resp)) s1 = (a, s2)" by fastforce
    then have "s' = s2"
      using True i assms by (auto simp: saveReceipt_def NewReceipt_valid split: sum.splits if_splits)
    note a = a[folded this]
    have "r = Inr d \<Longrightarrow> \<exists>k. a = Inr k"
      using True i assms a by (auto simp: saveReceipt_def NewReceipt_valid split: sum.splits if_splits)
    then show ?thesis
      using True q radd_frame[OF a] recs.radd_done recs.radd_cases[OF a] a by auto metis+
  qed
  then show "docs s' = docs s" "sent s' = sent s" "settled s' = settled s"
    "r = Inr d \<Longrightarrow> valid_receipt_response (Some resp) \<and>
       (\<exists>i. receipt_inserted (receipt_of tsl i (Some resp)) (rcpts s) (rcpts s'))"
    "rcpts s' = rcpts s \<or> valid_receipt_response (Some resp) \<and>
       (\<exists>i. receipt_inserted (receipt_of tsl i (Some resp)) (rcpts s) (rcpts s'))"
    by simp_all
qed

lemma send_confirmation_effect:
  assumes "sendConfirmationMessage rt tsl (pay_service chance) now resp s = (r, s')"
  shows "docs s' = docs s" "rcpts s' = rcpts s" "settled s' = settled s"
    "sent s' = sent s \<or> (\<exists>d\<in>set (docs s).
       Invoice_InvoiceNumber d = PayWithCardResponse_InvoiceNumber resp \<and>
       (\<exists>i. sent s' = sent s @ [confirmation_for tsl i now resp d]))"
    "r = Returned () \<Longrightarrow> (\<exists>d\<in>set (docs s).
       Invoice_InvoiceNumber d = PayWithCardResponse_InvoiceNumber resp \<and>
       (\<exists>i. sent s' = sent s @ [confirmation_for tsl i now resp d]))"
proof -
  let ?n = "PayWithCardResponse_InvoiceNumber resp"
  let ?E = "\<exists>d\<in>set (docs s). Invoice_InvoiceNumber d = ?n \<and>
       (\<exists>i. sent s' = sent s @ [confirmation_for tsl i now resp d])"
  obtain f s1 where f: "FindByInvoiceNumber repo ?n s = (f, s1)" by fastforce
  note qf = find_all_quiet[OF f]
  have "docs s' = docs s \<and> rcpts s' = rcpts s \<and> settled s' = settled s \<and>
    (sent s' = sent s \<or> ?E) \<and> (r = Returned () \<longrightarrow> ?E)"
  proof (cases f)
    case (Inl e)
    with f qf assms show ?thesis by (auto simp: sendConfirmationMessage_def split: if_splits)
  next
    case (Inr d)
    obtain v s2 where v: "UuidNew rt s1 = (v, s2)" by fastforce
    note qv = uuid_new_quiet[OF v]
    show ?thesis
    proof (cases v)
      case None
      with f v qf qv Inr assms show ?thesis by (auto simp: sendConfirmationMessage_def)
    next
      case (Some i)
      obtain m k where mk: "confirmation_for tsl i now resp d = (m, k)" by fastforce
      obtain p s3 where p: "Publish prod m k s2 = (p, s3)" by fastforce
      have s3: "s' = s3" "r = Returned () \<Longrightarrow> \<exists>u. p = Inr u"
        using f v p mk Inr Some assms
        by (auto simp: sendConfirmationMessage_def confirmation_for_def split: sum.splits)
      have d: "d \<in> set (docs s)" "Invoice_InvoiceNumber d = ?n"
        using invs.find_found[OF f[unfolded Inr]] by simp_all
      have "sent s3 = sent s2 \<or> sent s3 = sent s2 @ [confirmation_for tsl i now resp d]"
        "p = Inr u \<Longrightarrow> sent s3 = sent s2 @ [confirmation_for tsl i now resp d]" for u
        using prods.publish_cases[OF p] prods.publish_done[of m k s2 u s3] p mk by auto
      with d s3 qf qv publish_frame[OF p] show ?thesis by auto
    qed
  qed
  then show "docs s' = docs s" "rcpts s' = rcpts s" "settled s' = settled s"
    "sent s' = sent s \<or> ?E" "r = Returned () \<Longrightarrow> ?E" by simp_all
qed

end

section \<open>The specification of the work after a payment\<close>

text \<open>
  Receipts and messages, before and after: nothing, or the receipt of the payment alone, or the
  receipt and after it the confirmation of an invoice with the payment's number.
\<close>

inductive post_step ::
  "timestamp_lib \<Rightarrow> doc_Invoice list \<Rightarrow> pay_job \<Rightarrow>
     doc_Receipt list \<times> (proto_message \<times> string) list \<Rightarrow>
     doc_Receipt list \<times> (proto_message \<times> string) list \<Rightarrow> bool"
  for tsl ds where
  nothing: "post_step tsl ds (now, resp) (rs, ms) (rs, ms)"
| receipt_only: "valid_receipt_response (Some resp) \<Longrightarrow>
    receipt_inserted (receipt_of tsl i (Some resp)) rs rs' \<Longrightarrow>
    post_step tsl ds (now, resp) (rs, ms) (rs', ms)"
| confirmed: "valid_receipt_response (Some resp) \<Longrightarrow>
    receipt_inserted (receipt_of tsl i (Some resp)) rs rs' \<Longrightarrow> d \<in> set ds \<Longrightarrow>
    Invoice_InvoiceNumber d = PayWithCardResponse_InvoiceNumber resp \<Longrightarrow>
    post_step tsl ds (now, resp) (rs, ms) (rs', ms @ [confirmation_for tsl k now resp d])"

inductive_cases post_stepE: "post_step tsl ds (now, resp) (rs, ms) (rs', ms')"

inductive_simps post_step_simps: "post_step tsl ds (now, resp) (rs, ms) (rs', ms')"

context app_ports
begin

lemma post_work_refines:
  assumes "post_payment_work rt tsl (pay_service chance) (now, resp) s = (r, s')"
  shows "docs s' = docs s" "settled s' = settled s"
    "post_step tsl (docs s) (now, resp) (rcpts s, sent s) (rcpts s', sent s')"
    "r = Returned () \<Longrightarrow> rcpts s' \<noteq> rcpts s \<and> sent s' \<noteq> sent s"
proof -
  obtain a s1 where a: "saveReceipt rt tsl (pay_service chance) resp s = (a, s1)" by fastforce
  note sv = save_receipt_effect[OF a]
  have "docs s' = docs s \<and> settled s' = settled s \<and>
    post_step tsl (docs s) (now, resp) (rcpts s, sent s) (rcpts s', sent s') \<and>
    (r = Returned () \<longrightarrow> rcpts s' \<noteq> rcpts s \<and> sent s' \<noteq> sent s)"
  proof (cases a)
    case (Inl e)
    with a assms have r: "r = Failed e" "s' = s1" by (auto simp: post_payment_work_def)
    with sv(1-3,5) show ?thesis by (auto intro: post_step.intros)
  next
    case (Inr d)
    then have c: "sendConfirmationMessage rt tsl (pay_service chance) now resp s1 = (r, s')"
      using a assms by (simp add: post_payment_work_def)
    note sc = send_confirmation_effect[OF c]
    obtain i where i: "valid_receipt_response (Some resp)"
      "receipt_inserted (receipt_of tsl i (Some resp)) (rcpts s) (rcpts s1)"
      using sv(4)[OF Inr] by blast
    have "post_step tsl (docs s) (now, resp) (rcpts s, sent s) (rcpts s', sent s')"
      using sc(4) sc(2) sv(1,2) i by (auto intro: post_step.intros)
    moreover have "rcpts s' \<noteq> rcpts s" using i sc(2) by (auto simp: receipt_inserted_def)
    moreover have "r = Returned () \<Longrightarrow> sent s' \<noteq> sent s" using sc(5) sv(2) by auto
    ultimately show ?thesis using sc(1,3) sv(1,3) by simp
  qed
  then show "docs s' = docs s" "settled s' = settled s"
    "post_step tsl (docs s) (now, resp) (rcpts s, sent s) (rcpts s', sent s')"
    "r = Returned () \<Longrightarrow> rcpts s' \<noteq> rcpts s \<and> sent s' \<noteq> sent s" by simp_all
qed

end

section \<open>Payments one after the other\<close>

definition succeeded :: "pay_result \<Rightarrow> bool" where
  "succeeded r \<longleftrightarrow> (\<exists>resp. r = Returned resp \<and>
     PayWithCardResponse_Status resp = PaymentStatus_PAYMENT_STATUS_SUCCEEDED)"

text \<open>Each call is followed by the work it leaves, before the next call.\<close>

fun pay_in_turn ::
  "'s runtime \<Rightarrow> timestamp_lib \<Rightarrow> 's payment_service \<Rightarrow> pb_PayWithCardRequest option list \<Rightarrow> 's \<Rightarrow>
     pay_result list \<times> 's" where
  "pay_in_turn rt tsl svc [] s = ([], s)"
| "pay_in_turn rt tsl svc (req # reqs) s =
    (let (r, job, s1) = PayWithCard rt svc req s;
         s2 = (case job of None \<Rightarrow> s1 | Some j \<Rightarrow> snd (post_payment_work rt tsl svc j s1));
         (rs, s3) = pay_in_turn rt tsl svc reqs s2
     in (r # rs, s3))"

definition successes ::
  "string \<Rightarrow> pb_PayWithCardRequest option list \<Rightarrow> pay_result list \<Rightarrow> nat" where
  "successes n reqs rs =
     count_if (\<lambda>(req, r). PayWithCardRequest_GetInvoiceNumber req = n \<and> succeeded r) (zip reqs rs)"

lemma statuses_differ:
  "PaymentStatus_PAYMENT_STATUS_FAILED \<noteq> PaymentStatus_PAYMENT_STATUS_SUCCEEDED"
  by (simp add: PaymentStatus_PAYMENT_STATUS_FAILED_def PaymentStatus_PAYMENT_STATUS_SUCCEEDED_def)

context app_ports
begin

lemma pay_paid_stays:
  assumes "PayWithCard rt (pay_service chance) req s = (r, job, s')" and "all_paid n (docs s)"
  shows "all_paid n (docs s')"
  using pay_effect(4)[OF assms(1)] assms(2) paid_stays by auto

lemma pay_times_stored:
  assumes "PayWithCard rt (pay_service chance) req s = (r, job, s')"
  shows "times_stored n (docs s') = times_stored n (docs s)"
  using pay_effect(4)[OF assms] status_set_times by auto

lemma pay_success:
  assumes "PayWithCard rt (pay_service chance) req s = (r, job, s')" and "succeeded r"
    and "PayWithCardRequest_GetInvoiceNumber req = n"
  shows "\<not> all_paid n (docs s)" and "times_stored n (docs s) \<le> 1 \<Longrightarrow> all_paid n (docs s')"
proof -
  from assms(2) obtain resp where r: "r = Returned resp"
    "PayWithCardResponse_Status resp = PaymentStatus_PAYMENT_STATUS_SUCCEEDED"
    by (auto simp: succeeded_def)
  from assms(1)[unfolded r(1)] have "\<not> all_paid n (docs s) \<and>
      status_set n InvoiceStatusPaid (docs s) (docs s')"
  proof (cases rule: pay_replied)
    case (failed now)
    then show ?thesis using r(2) statuses_differ by (auto simp: reply_to_def)
  next
    case (succeeded now)
    then show ?thesis using assms(3) by simp
  qed
  then show "\<not> all_paid n (docs s)" "times_stored n (docs s) \<le> 1 \<Longrightarrow> all_paid n (docs s')"
    using paid_once[of n "docs s" "docs s'"] by simp_all
qed

lemma job_docs:
  "docs (case job of None \<Rightarrow> s | Some j \<Rightarrow> snd (post_payment_work rt tsl (pay_service chance) j s)) =
     docs s"
proof (cases job)
  case (Some j)
  obtain now resp where j: "j = (now, resp)" by fastforce
  obtain r s' where "post_payment_work rt tsl (pay_service chance) (now, resp) s = (r, s')"
    by fastforce
  from post_work_refines(1)[OF this] this Some j show ?thesis by simp
qed simp

lemma paid_no_more:
  assumes "pay_in_turn rt tsl (pay_service chance) reqs s = (rs, s')" and "all_paid n (docs s)"
  shows "successes n reqs rs = 0"
  using assms
proof (induction reqs arbitrary: s rs s')
  case Nil
  then show ?case by (simp add: successes_def)
next
  case (Cons req reqs)
  obtain r job s1 where p: "PayWithCard rt (pay_service chance) req s = (r, job, s1)"
    by (metis prod_cases3)
  define s2 where "s2 = (case job of None \<Rightarrow> s1
    | Some j \<Rightarrow> snd (post_payment_work rt tsl (pay_service chance) j s1))"
  obtain rs2 s3 where rest: "pay_in_turn rt tsl (pay_service chance) reqs s2 = (rs2, s3)" by fastforce
  have rs: "rs = r # rs2" using Cons.prems(1) p rest by (simp add: s2_def)
  have "all_paid n (docs s2)"
    using pay_paid_stays[OF p Cons.prems(2)] by (simp add: s2_def job_docs)
  from Cons.IH[OF rest this] show ?case
    using pay_success(1)[OF p] Cons.prems(2) by (auto simp: rs successes_def)
qed

lemma paid_at_most_once:
  assumes "pay_in_turn rt tsl (pay_service chance) reqs s = (rs, s')"
    and "times_stored n (docs s) \<le> 1"
  shows "successes n reqs rs \<le> 1"
  using assms
proof (induction reqs arbitrary: s rs s')
  case Nil
  then show ?case by (simp add: successes_def)
next
  case (Cons req reqs)
  obtain r job s1 where p: "PayWithCard rt (pay_service chance) req s = (r, job, s1)"
    by (metis prod_cases3)
  define s2 where "s2 = (case job of None \<Rightarrow> s1
    | Some j \<Rightarrow> snd (post_payment_work rt tsl (pay_service chance) j s1))"
  obtain rs2 s3 where rest: "pay_in_turn rt tsl (pay_service chance) reqs s2 = (rs2, s3)" by fastforce
  have rs: "rs = r # rs2" using Cons.prems(1) p rest by (simp add: s2_def)
  have docs2: "docs s2 = docs s1" by (simp add: s2_def job_docs)
  show ?case
  proof (cases "PayWithCardRequest_GetInvoiceNumber req = n \<and> succeeded r")
    case True
    then have "all_paid n (docs s2)" using pay_success(2)[OF p] Cons.prems(2) docs2 by simp
    from paid_no_more[OF rest this] True show ?thesis by (simp add: rs successes_def)
  next
    case False
    have "times_stored n (docs s2) \<le> 1" using pay_times_stored[OF p] Cons.prems(2) docs2 by simp
    from Cons.IH[OF rest this] False show ?thesis by (auto simp: rs successes_def)
  qed
qed

end

end
