(* ===== verification/PaymentInterleaving.thy ===== *)
theory PaymentInterleaving
  imports PaymentMaking
begin

text \<open>
  Payments served at the same time. Every call runs in its own goroutine and the store is shared,
  so calls interleave at their uses of the ports: the clock, the database, the random source and
  the broker. A thread is a call with its program counter, one transition is one stage of it,
  and a schedule may pick the threads in any order. Run alone, a thread is
  \<^const>\<open>PayWithCard\<close> followed by \<^const>\<open>post_payment_work\<close>.
\<close>

section \<open>Threads\<close>

text \<open>What is left of the goroutine that follows a reply.\<close>

datatype work_pc =
    Save go_time pb_PayWithCardResponse
  | Send go_time pb_PayWithCardResponse
  | Stopped

datatype pay_pc =
    Start
  | Load go_time
  | Draw go_time
  | Mark go_time
  | Respond go_time "32 word"
  | Replied pay_result work_pc

definition work_of :: "pay_job option \<Rightarrow> work_pc" where
  "work_of job = (case job of None \<Rightarrow> Stopped | Some (now, resp) \<Rightarrow> Save now resp)"

fun pay_step ::
  "'s runtime \<Rightarrow> 's payment_service \<Rightarrow> pb_PayWithCardRequest option \<Rightarrow> pay_pc \<Rightarrow> 's \<Rightarrow> pay_pc \<times> 's" where
  "pay_step rt svc req Start s =
     (case Validate (pay_request_checks req) of
        Some err \<Rightarrow> (Replied (Failed (Status InvalidArgument (error_text err))) Stopped, s)
      | None \<Rightarrow>
       (case Now (PM_clock svc) s of
          (Inl err, s1) \<Rightarrow> (Replied (Failed (Status Internal (error_text err))) Stopped, s1)
        | (Inr now, s1) \<Rightarrow> (Load now, s1)))"
| "pay_step rt svc req (Load now) s =
     (case FindByInvoiceNumber (PM_invoiceRepo svc) (PayWithCardRequest_GetInvoiceNumber req) s of
        (Inl err, s1) \<Rightarrow> (Replied (Failed (mapError err)) Stopped, s1)
      | (Inr invoice, s1) \<Rightarrow>
          if equal_fold (Invoice_Status invoice) InvoiceStatusPaid
          then (Replied (Failed (Status FailedPrecondition ''invoice is already paid'')) Stopped, s1)
          else (Draw now, s1))"
| "pay_step rt svc req (Draw now) s =
     (let (n, s1) = RandInt rt s in
      if draw_fails (PM_failChance svc) n
      then (Respond now PaymentStatus_PAYMENT_STATUS_FAILED, s1)
      else (Mark now, s1))"
| "pay_step rt svc req (Mark now) s =
     (case UpdateStatus (PM_invoiceRepo svc) (PayWithCardRequest_GetInvoiceNumber req)
             InvoiceStatusPaid now s of
        (Inl err, s1) \<Rightarrow> (Replied (Failed (mapError err)) Stopped, s1)
      | (Inr _, s1) \<Rightarrow> (Respond now PaymentStatus_PAYMENT_STATUS_SUCCEEDED, s1))"
| "pay_step rt svc req (Respond now st) s =
     (let (g, s1) = buildResponse rt req st now s in
      if st = PaymentStatus_PAYMENT_STATUS_SUCCEEDED
      then (Replied (charged_reply g) (work_of (charged_job now g)), s1)
      else (Replied (failed_reply g) Stopped, s1))"
| "pay_step rt svc req (Replied r w) s = (Replied r w, s)"

fun work_step ::
  "'s runtime \<Rightarrow> timestamp_lib \<Rightarrow> 's payment_service \<Rightarrow> work_pc \<Rightarrow> 's \<Rightarrow> work_pc \<times> 's" where
  "work_step rt tsl svc (Save now resp) s =
     (case saveReceipt rt tsl svc resp s of
        (Inl _, s1) \<Rightarrow> (Stopped, s1)
      | (Inr _, s1) \<Rightarrow> (Send now resp, s1))"
| "work_step rt tsl svc (Send now resp) s =
     (Stopped, snd (sendConfirmationMessage rt tsl svc now resp s))"
| "work_step rt tsl svc Stopped s = (Stopped, s)"

definition thread_step ::
  "'s runtime \<Rightarrow> timestamp_lib \<Rightarrow> 's payment_service \<Rightarrow> pb_PayWithCardRequest option \<Rightarrow> pay_pc \<Rightarrow>
     's \<Rightarrow> pay_pc \<times> 's" where
  "thread_step rt tsl svc req pc s =
     (case pc of
        Replied r w \<Rightarrow> (let (w', s') = work_step rt tsl svc w s in (Replied r w', s'))
      | _ \<Rightarrow> pay_step rt svc req pc s)"

section \<open>A thread alone is a call\<close>

definition pay_steps ::
  "'s runtime \<Rightarrow> 's payment_service \<Rightarrow> pb_PayWithCardRequest option \<Rightarrow> nat \<Rightarrow> pay_pc \<times> 's \<Rightarrow>
     pay_pc \<times> 's" where
  "pay_steps rt svc req k c = ((\<lambda>(pc, s). pay_step rt svc req pc s) ^^ k) c"

lemma pay_steps_Suc:
  "pay_steps rt svc req 0 c = c"
  "pay_steps rt svc req (Suc k) (pc, s) = pay_steps rt svc req k (pay_step rt svc req pc s)"
  by (simp_all add: pay_steps_def funpow_Suc_right del: funpow.simps(2))

lemma pay_steps_replied: "pay_steps rt svc req k (Replied r w, s) = (Replied r w, s)"
  by (induction k) (simp_all add: pay_steps_Suc)

lemma pay_steps_call:
  assumes "PayWithCard rt svc req s = (r, job, s')"
  shows "pay_steps rt svc req 5 (Start, s) = (Replied r (work_of job), s')"
proof -
  have five: "(5::nat) = Suc (Suc (Suc (Suc (Suc 0))))" by simp
  note [simp] = pay_steps_Suc pay_steps_replied
  obtain a s1 where clk: "Now (PM_clock svc) s = (a, s1)" by fastforce
  obtain f s2 where fnd: "FindByInvoiceNumber (PM_invoiceRepo svc)
      (PayWithCardRequest_GetInvoiceNumber req) s1 = (f, s2)" by fastforce
  obtain n s3 where rnd: "RandInt rt s2 = (n, s3)" by fastforce
  show ?thesis
  proof (cases "Validate (pay_request_checks req)")
    case (Some e)
    with assms show ?thesis unfolding five by (auto simp: PayWithCard_def work_of_def)
  next
    case None
    note v = None
    show ?thesis
    proof (cases a)
      case (Inl e)
      with v clk assms show ?thesis unfolding five by (auto simp: PayWithCard_def work_of_def)
    next
      case (Inr now)
      note clk = clk[unfolded Inr]
      obtain w s4 where upd: "UpdateStatus (PM_invoiceRepo svc)
          (PayWithCardRequest_GetInvoiceNumber req) InvoiceStatusPaid now s3 = (w, s4)" by fastforce
      obtain g s5 where bf: "buildResponse rt req PaymentStatus_PAYMENT_STATUS_FAILED now s3 =
          (g, s5)" by fastforce
      obtain h s6 where bs: "buildResponse rt req PaymentStatus_PAYMENT_STATUS_SUCCEEDED now s4 =
          (h, s6)" by fastforce
      show ?thesis
        using v clk fnd rnd upd bf bs assms statuses_differ unfolding five
        by (cases f; cases w; cases g; cases h)
          (auto simp: PayWithCard_def work_of_def failed_reply_def charged_reply_def
            charged_job_def split: if_splits)
    qed
  qed
qed

section \<open>Every thread ends\<close>

text \<open>A thread that has not ended gets closer to its end with every transition.\<close>

fun pay_rank :: "pay_pc \<Rightarrow> nat" where
  "pay_rank Start = 7"
| "pay_rank (Load _) = 6"
| "pay_rank (Draw _) = 5"
| "pay_rank (Mark _) = 4"
| "pay_rank (Respond _ _) = 3"
| "pay_rank (Replied _ (Save _ _)) = 2"
| "pay_rank (Replied _ (Send _ _)) = 1"
| "pay_rank (Replied _ Stopped) = 0"

lemma rank_Replied: "pay_rank (Replied r w) \<le> 2"
  by (cases w) simp_all

lemma thread_step_rank:
  assumes "thread_step rt tsl svc req pc s = (pc', s')" and "pay_rank pc \<noteq> 0"
  shows "pay_rank pc' < pay_rank pc"
proof (cases pc)
  case (Replied r w)
  with assms show ?thesis
    by (cases w) (auto simp: thread_step_def split: prod.splits sum.splits)
next
  case (Respond now st)
  with assms(1) obtain r w where "pc' = Replied r w"
    by (auto simp: thread_step_def Let_def split: prod.splits if_splits)
  with Respond show ?thesis using rank_Replied[of r w] by simp
qed (use assms in \<open>auto simp: thread_step_def Let_def split: prod.splits sum.splits option.splits if_splits\<close>)

section \<open>The system\<close>

type_synonym pay_thread = "pb_PayWithCardRequest option \<times> pay_pc"

inductive sys_step ::
  "'s runtime \<Rightarrow> timestamp_lib \<Rightarrow> 's payment_service \<Rightarrow> pay_thread list \<times> 's \<Rightarrow>
     pay_thread list \<times> 's \<Rightarrow> bool"
  for rt tsl svc where
  step: "i < length ts \<Longrightarrow> ts ! i = (req, pc) \<Longrightarrow> pay_rank pc \<noteq> 0 \<Longrightarrow>
    thread_step rt tsl svc req pc s = (pc', s') \<Longrightarrow>
    sys_step rt tsl svc (ts, s) (ts[i := (req, pc')], s')"

inductive_cases sys_stepE: "sys_step rt tsl svc (ts, s) (ts', s')"

abbreviation sys_steps ::
  "'s runtime \<Rightarrow> timestamp_lib \<Rightarrow> 's payment_service \<Rightarrow> pay_thread list \<times> 's \<Rightarrow>
     pay_thread list \<times> 's \<Rightarrow> bool" where
  "sys_steps rt tsl svc \<equiv> (sys_step rt tsl svc)\<^sup>*\<^sup>*"

definition started :: "pb_PayWithCardRequest option list \<Rightarrow> pay_thread list" where
  "started reqs = map (\<lambda>req. (req, Start)) reqs"

text \<open>A schedule names the thread of each transition; names of ended or missing threads are idle.\<close>

fun run_schedule ::
  "'s runtime \<Rightarrow> timestamp_lib \<Rightarrow> 's payment_service \<Rightarrow> nat list \<Rightarrow> pay_thread list \<times> 's \<Rightarrow>
     pay_thread list \<times> 's" where
  "run_schedule rt tsl svc [] c = c"
| "run_schedule rt tsl svc (i # is) (ts, s) =
     (if i < length ts then
        (let (req, pc) = ts ! i; (pc', s') = thread_step rt tsl svc req pc s
         in run_schedule rt tsl svc is (ts[i := (req, pc')], s'))
      else run_schedule rt tsl svc is (ts, s))"

lemma thread_step_ended:
  assumes "pay_rank pc = 0"
  shows "thread_step rt tsl svc req pc s = (pc, s)"
proof (cases pc)
  case (Replied r w)
  with assms show ?thesis by (cases w) (simp_all add: thread_step_def)
qed (use assms in simp_all)

lemma run_schedule_reachable: "sys_steps rt tsl svc c (run_schedule rt tsl svc is c)"
proof (induction "is" arbitrary: c)
  case Nil
  then show ?case by simp
next
  case (Cons i "is")
  obtain ts s where c: "c = (ts, s)" by fastforce
  show ?case
  proof (cases "i < length ts")
    case True
    obtain req pc where t: "ts ! i = (req, pc)" by fastforce
    obtain pc' s' where st: "thread_step rt tsl svc req pc s = (pc', s')" by fastforce
    have run: "run_schedule rt tsl svc (i # is) c =
        run_schedule rt tsl svc is (ts[i := (req, pc')], s')"
      using True t st c by simp
    show ?thesis
    proof (cases "pay_rank pc = 0")
      case True
      then have "(ts[i := (req, pc')], s') = c"
        using st t c thread_step_ended[OF True, of rt tsl svc req s] list_update_id[of ts i]
        by auto
      with run Cons.IH show ?thesis by simp
    next
      case False
      have "sys_step rt tsl svc c (ts[i := (req, pc')], s')"
        unfolding c by (rule sys_step.step[OF True t False st])
      then show ?thesis using Cons.IH run by (simp add: converse_rtranclp_into_rtranclp)
    qed
  next
    case False
    with c Cons.IH show ?thesis by simp
  qed
qed

text \<open>No schedule takes more than seven transitions for each thread.\<close>

definition total_rank :: "pay_thread list \<times> 's \<Rightarrow> nat" where
  "total_rank c = sum_list (map (\<lambda>t. pay_rank (snd t)) (fst c))"

lemma sum_list_update_less:
  "i < length xs \<Longrightarrow> f y < f (xs ! i) \<Longrightarrow> sum_list (map f (xs[i := y])) < (sum_list (map f xs) :: nat)"
proof (induction xs arbitrary: i)
  case (Cons x xs)
  then show ?case by (cases i) auto
qed simp

lemma sys_step_rank: "sys_step rt tsl svc c c' \<Longrightarrow> total_rank c' < total_rank c"
proof (induction rule: sys_step.induct)
  case (step i ts req pc s pc' s')
  then show ?case
    using thread_step_rank[OF step(4,3)]
    by (auto simp: total_rank_def intro!: sum_list_update_less)
qed

lemma sys_steps_bounded: "(sys_step rt tsl svc ^^ k) c c' \<Longrightarrow> k + total_rank c' \<le> total_rank c"
proof (induction k arbitrary: c')
  case 0
  then show ?case by simp
next
  case (Suc k)
  then obtain d where "(sys_step rt tsl svc ^^ k) c d" "sys_step rt tsl svc d c'" by auto
  with Suc.IH[of d] sys_step_rank[of rt tsl svc d c'] show ?case by simp
qed

lemma started_rank: "total_rank (started reqs, s) = 7 * length reqs"
  by (induction reqs) (simp_all add: total_rank_def started_def)

section \<open>What holds whatever the schedule\<close>

text \<open>A paid invoice with the number is stored.\<close>

definition paid_number :: "string \<Rightarrow> doc_Invoice list \<Rightarrow> bool" where
  "paid_number n ds \<longleftrightarrow>
     (\<exists>d\<in>set ds. Invoice_InvoiceNumber d = n \<and> equal_fold (Invoice_Status d) InvoiceStatusPaid)"

text \<open>Every receipt is for a paid invoice, and every confirmation has its receipt.\<close>

definition receipts_backed :: "doc_Invoice list \<Rightarrow> doc_Receipt list \<Rightarrow> bool" where
  "receipts_backed ds rs \<longleftrightarrow> (\<forall>rc\<in>set rs. paid_number (Receipt_InvoiceNumber rc) ds)"

definition has_receipt :: "string \<Rightarrow> string \<Rightarrow> doc_Receipt list \<Rightarrow> bool" where
  "has_receipt k n rs \<longleftrightarrow>
     (\<exists>rc\<in>set rs. Receipt_ReceiptNumber rc = k \<and> Receipt_InvoiceNumber rc = n)"

definition confirmations_backed ::
  "doc_Receipt list \<Rightarrow> (proto_message \<times> string) list \<Rightarrow> bool" where
  "confirmations_backed rs ms \<longleftrightarrow> (\<forall>c k. (PaymentConfirmationMsg c, k) \<in> set ms \<longrightarrow>
     has_receipt (PaymentConfirmation_ReceiptNumber c) (PaymentConfirmation_InvoiceNumber c) rs)"

text \<open>What a thread knows at its place: past its update, its invoice is paid; past its receipt,
  the receipt is stored.\<close>

fun knows :: "doc_Invoice list \<Rightarrow> doc_Receipt list \<Rightarrow> pb_PayWithCardRequest option \<Rightarrow> pay_pc \<Rightarrow> bool" where
  "knows ds rs req (Respond now st) =
     (st = PaymentStatus_PAYMENT_STATUS_SUCCEEDED \<longrightarrow>
        paid_number (PayWithCardRequest_GetInvoiceNumber req) ds)"
| "knows ds rs req (Replied r (Save now resp)) =
     paid_number (PayWithCardResponse_InvoiceNumber resp) ds"
| "knows ds rs req (Replied r (Send now resp)) =
     has_receipt (PayWithCardResponse_ReceiptNumber resp) (PayWithCardResponse_InvoiceNumber resp) rs"
| "knows ds rs req _ = True"

definition sys_ok ::
  "pay_thread list \<Rightarrow> doc_Invoice list \<Rightarrow> doc_Receipt list \<Rightarrow> (proto_message \<times> string) list \<Rightarrow> bool" where
  "sys_ok ts ds rs ms \<longleftrightarrow> receipts_backed ds rs \<and> confirmations_backed rs ms \<and>
     (\<forall>(req, pc)\<in>set ts. knows ds rs req pc)"

text \<open>One world extends another: paid numbers stay paid and receipts stay.\<close>

definition extends ::
  "doc_Invoice list \<Rightarrow> doc_Receipt list \<Rightarrow> doc_Invoice list \<Rightarrow> doc_Receipt list \<Rightarrow> bool" where
  "extends ds rs ds' rs' \<longleftrightarrow> (\<forall>n. paid_number n ds \<longrightarrow> paid_number n ds') \<and> set rs \<subseteq> set rs'"

lemma extends_refl: "extends ds rs ds rs"
  by (simp add: extends_def)

lemma knows_extends: "knows ds rs req pc \<Longrightarrow> extends ds rs ds' rs' \<Longrightarrow> knows ds' rs' req pc"
  by (induction ds rs req pc rule: knows.induct) (auto simp: extends_def has_receipt_def)

lemma status_set_paid_number:
  assumes "status_set m InvoiceStatusPaid ds ds'"
  shows "paid_number m ds'" and "paid_number n ds \<Longrightarrow> paid_number n ds'"
proof -
  from assms obtain i d' where i: "i < length ds" "Invoice_InvoiceNumber (ds ! i) = m"
    "same_record ((ds ! i)\<lparr>Invoice_Status := InvoiceStatusPaid\<rparr>) d'" "ds' = ds[i := d']"
    by (auto simp: status_set_def)
  have d': "Invoice_Status d' = InvoiceStatusPaid" "Invoice_InvoiceNumber d' = m"
    using same_record_fields(1,2)[OF i(3)] i(2) by simp_all
  then show m: "paid_number m ds'"
    using i(1,4) set_update_memI[of i ds d'] by (auto simp: paid_number_def)
  assume "paid_number n ds"
  then obtain d where d: "d \<in> set ds" "Invoice_InvoiceNumber d = n"
    "equal_fold (Invoice_Status d) InvoiceStatusPaid" by (auto simp: paid_number_def)
  then obtain j where j: "j < length ds" "ds ! j = d" by (auto simp: in_set_conv_nth)
  show "paid_number n ds'"
  proof (cases "j = i")
    case True
    with j d(2) i(2) m show ?thesis by simp
  next
    case False
    then have "d \<in> set ds'" using j i(4) by (metis length_list_update nth_list_update_neq nth_mem)
    with d show ?thesis by (auto simp: paid_number_def)
  qed
qed

lemma sys_ok_update:
  assumes "sys_ok ts ds rs ms" and "extends ds rs ds' rs'" and "receipts_backed ds' rs'"
    and "confirmations_backed rs' ms'" and "knows ds' rs' req pc'"
  shows "sys_ok (ts[i := (req, pc')]) ds' rs' ms'"
proof -
  have "\<forall>t\<in>set ts. case t of (req, pc) \<Rightarrow> knows ds' rs' req pc"
    using assms(1,2) by (auto simp: sys_ok_def dest: knows_extends)
  then have "\<forall>t\<in>set (ts[i := (req, pc')]). case t of (req, pc) \<Rightarrow> knows ds' rs' req pc"
    using assms(5) set_update_subset_insert[of ts i "(req, pc')"] by fastforce
  with assms(3,4) show ?thesis by (simp add: sys_ok_def)
qed

lemma backed_extends:
  "receipts_backed ds rs \<Longrightarrow> extends ds rs ds' rs \<Longrightarrow> receipts_backed ds' rs"
  by (auto simp: receipts_backed_def extends_def)

lemma receipt_inserted_backed:
  assumes "receipt_inserted (receipt_of tsl i (Some resp)) rs rs'" and "receipts_backed ds rs"
    and "paid_number (PayWithCardResponse_InvoiceNumber resp) ds"
  shows "receipts_backed ds rs'" "extends ds rs ds rs'"
    "has_receipt (PayWithCardResponse_ReceiptNumber resp) (PayWithCardResponse_InvoiceNumber resp) rs'"
proof -
  from assms(1) obtain rc where rc: "same_receipt (receipt_of tsl i (Some resp)) rc" "rs' = rs @ [rc]"
    by (auto simp: receipt_inserted_def)
  have "Receipt_InvoiceNumber rc = PayWithCardResponse_InvoiceNumber resp"
    "Receipt_ReceiptNumber rc = PayWithCardResponse_ReceiptNumber resp"
    using same_receipt_fields[OF rc(1)] by (simp_all add: receipt_of_def)
  with rc assms(2,3) show "receipts_backed ds rs'" "extends ds rs ds rs'"
    "has_receipt (PayWithCardResponse_ReceiptNumber resp) (PayWithCardResponse_InvoiceNumber resp) rs'"
    by (auto simp: receipts_backed_def extends_def has_receipt_def)
qed

lemma confirmations_extend:
  "confirmations_backed rs ms \<Longrightarrow> set rs \<subseteq> set rs' \<Longrightarrow> confirmations_backed rs' ms"
  by (fastforce simp: confirmations_backed_def has_receipt_def)

lemma confirmation_sent_backed:
  assumes "confirmations_backed rs ms"
    and "has_receipt (PayWithCardResponse_ReceiptNumber resp) (Invoice_InvoiceNumber d) rs"
  shows "confirmations_backed rs (ms @ [confirmation_for tsl i now resp d])"
  using assms by (auto simp: confirmations_backed_def confirmation_for_def)

context app_ports
begin

text \<open>One transition of a thread, seen from the store.\<close>

lemma thread_step_ok:
  assumes "thread_step rt tsl (pay_service chance) req pc s = (pc', s')"
    and "sys_ok ts (docs s) (rcpts s) (sent s)" and "knows (docs s) (rcpts s) req pc"
  shows "extends (docs s) (rcpts s) (docs s') (rcpts s') \<and> receipts_backed (docs s') (rcpts s') \<and>
    confirmations_backed (rcpts s') (sent s') \<and> knows (docs s') (rcpts s') req pc'"
proof (cases pc)
  case Start
  show ?thesis
  proof (cases "Now clk s")
    case (Pair a s1)
    then show ?thesis
      using Start assms(1,2) now_quiet[OF Pair]
      by (auto simp: thread_step_def sys_ok_def extends_refl split: option.splits sum.splits)
  qed
next
  case (Load now)
  show ?thesis
  proof (cases "FindByInvoiceNumber repo (PayWithCardRequest_GetInvoiceNumber req) s")
    case (Pair a s1)
    then show ?thesis
      using Load assms(1,2) find_all_quiet[OF Pair]
      by (auto simp: thread_step_def sys_ok_def extends_refl split: sum.splits if_splits)
  qed
next
  case (Draw now)
  show ?thesis
  proof (cases "RandInt rt s")
    case (Pair n s1)
    then show ?thesis
      using Draw assms(1,2) rand_quiet[OF Pair] statuses_differ
      by (auto simp: thread_step_def sys_ok_def extends_refl split: if_splits)
  qed
next
  case (Mark now)
  let ?n = "PayWithCardRequest_GetInvoiceNumber req"
  obtain a where a: "UpdateStatus repo ?n InvoiceStatusPaid now s = (a, s')"
    using Mark assms(1) by (auto simp: thread_step_def split: prod.splits sum.splits)
  note fr = update_frame[OF a]
  have ext: "extends (docs s) (rcpts s) (docs s') (rcpts s')"
    using invs.update_cases[OF a] fr status_set_paid_number(2) by (auto simp: extends_def)
  moreover have "knows (docs s') (rcpts s') req pc'"
  proof (cases a)
    case (Inl e)
    with Mark assms(1) a show ?thesis by (auto simp: thread_step_def)
  next
    case (Inr u)
    then have "paid_number ?n (docs s')"
      using invs.update_done a status_set_paid_number(1) by blast
    with Inr Mark assms(1) a show ?thesis by (auto simp: thread_step_def)
  qed
  moreover have "receipts_backed (docs s') (rcpts s')"
    using backed_extends ext fr assms(2) by (auto simp: sys_ok_def)
  ultimately show ?thesis using fr assms(2) by (simp add: sys_ok_def)
next
  case (Respond now st)
  obtain g where g: "buildResponse rt req st now s = (g, s')"
    using Respond assms(1) by (auto simp: thread_step_def split: prod.splits if_splits)
  note q = buildResponse_quiet[OF g]
  have "knows (docs s') (rcpts s') req pc'"
  proof (cases "st = PaymentStatus_PAYMENT_STATUS_SUCCEEDED")
    case False
    with Respond assms(1) g show ?thesis by (auto simp: thread_step_def)
  next
    case True
    with Respond assms(1) g have pc': "pc' = Replied (charged_reply g) (work_of (charged_job now g))"
      by (auto simp: thread_step_def)
    have "paid_number (PayWithCardRequest_GetInvoiceNumber req) (docs s')"
      using True Respond assms(3) q by simp
    with g pc' show ?thesis
      by (auto simp: charged_job_def work_of_def reply_to_def split: outcome.splits
          elim: buildResponse_cases)
  qed
  with q assms(2) show ?thesis by (auto simp: sys_ok_def extends_refl)
next
  case (Replied r w)
  show ?thesis
  proof (cases w)
    case (Save now resp)
    obtain a where a: "saveReceipt rt tsl (pay_service chance) resp s = (a, s')"
      using Save Replied assms(1) by (auto simp: thread_step_def split: prod.splits sum.splits)
    note sv = save_receipt_effect[OF a]
    have paid: "paid_number (PayWithCardResponse_InvoiceNumber resp) (docs s)"
      using Save Replied assms(3) by simp
    have keep: "receipts_backed (docs s) (rcpts s')" "extends (docs s) (rcpts s) (docs s) (rcpts s')"
      using sv(5) receipt_inserted_backed[OF _ _ paid] assms(2) extends_refl
      by (auto simp: sys_ok_def)
    have "knows (docs s') (rcpts s') req pc'"
    proof (cases a)
      case (Inl e)
      with Save Replied assms(1) a show ?thesis by (auto simp: thread_step_def)
    next
      case (Inr d)
      then have "has_receipt (PayWithCardResponse_ReceiptNumber resp)
          (PayWithCardResponse_InvoiceNumber resp) (rcpts s')"
        using sv(4)[OF Inr] receipt_inserted_backed(3)[OF _ _ paid] assms(2)
        by (auto simp: sys_ok_def)
      with Inr Save Replied assms(1) a show ?thesis by (auto simp: thread_step_def)
    qed
    then show ?thesis
      using keep sv(1,2) assms(2) confirmations_extend by (auto simp: sys_ok_def extends_def)
  next
    case (Send now resp)
    obtain x where c: "sendConfirmationMessage rt tsl (pay_service chance) now resp s = (x, s')"
      using Send Replied assms(1)
      by (cases "sendConfirmationMessage rt tsl (pay_service chance) now resp s")
        (auto simp: thread_step_def)
    note sc = send_confirmation_effect[OF c]
    have "has_receipt (PayWithCardResponse_ReceiptNumber resp)
        (PayWithCardResponse_InvoiceNumber resp) (rcpts s)"
      using Send Replied assms(3) by simp
    then have "confirmations_backed (rcpts s') (sent s')"
      using sc(2,4) confirmation_sent_backed assms(2) by (fastforce simp: sys_ok_def)
    moreover have "pc' = Replied r Stopped" using Send Replied assms(1) by (auto simp: thread_step_def)
    ultimately show ?thesis using sc(1,2) assms(2) by (simp add: sys_ok_def extends_refl)
  next
    case Stopped
    with Replied assms show ?thesis by (auto simp: thread_step_def sys_ok_def extends_refl)
  qed
qed

lemma sys_step_ok:
  assumes "sys_step rt tsl (pay_service chance) (ts, s) (ts', s')"
    and "sys_ok ts (docs s) (rcpts s) (sent s)"
  shows "sys_ok ts' (docs s') (rcpts s') (sent s') \<and>
    extends (docs s) (rcpts s) (docs s') (rcpts s')"
proof -
  from assms(1) obtain i req pc pc' where i: "i < length ts" "ts ! i = (req, pc)"
    "thread_step rt tsl (pay_service chance) req pc s = (pc', s')" "ts' = ts[i := (req, pc')]"
    by (rule sys_stepE)
  then have "(req, pc) \<in> set ts" by (metis nth_mem)
  then have "knows (docs s) (rcpts s) req pc" using assms(2) by (auto simp: sys_ok_def)
  from thread_step_ok[OF i(3) assms(2) this] i(4) show ?thesis
    using sys_ok_update[OF assms(2)] by blast
qed

lemma sys_steps_ok:
  assumes "sys_steps rt tsl (pay_service chance) (ts, s) (ts', s')"
    and "sys_ok ts (docs s) (rcpts s) (sent s)"
  shows "sys_ok ts' (docs s') (rcpts s') (sent s') \<and>
    extends (docs s) (rcpts s) (docs s') (rcpts s')"
  using assms
proof (induction rule: rtranclp_induct2)
  case refl
  then show ?case by (simp add: extends_refl)
next
  case (step ts1 s1 ts2 s2)
  then show ?case using sys_step_ok[OF step.hyps(2)] by (auto simp: extends_def)
qed

end

end
