(* ===== verification/PaymentClaims.thy ===== *)
theory PaymentClaims
  imports PaymentInterleaving
begin

text \<open>
  The properties of card payments, of one call and of calls in turn, each with a run of the model that meets its hypotheses.
\<close>

section \<open>A payment to run the model on\<close>

definition sample_invoice :: doc_Invoice where
  "sample_invoice = \<lparr>
     Invoice_Id = 1, Invoice_InvoiceNumber = ''INV-1'', Invoice_Status = ''pending'',
     Invoice_IssuedAt = 0, Invoice_DueAt = 1, Invoice_IdempotencyId = ''idem-1'',
     Invoice_BookingId = ''booking-1'', Invoice_PayerId = ''payer-1'',
     Invoice_Payer = \<lparr>doc_Name = ''Ana'', doc_Email = ''ana@mail'', doc_DocumentNumber = ''doc-1'',
       doc_BillingAddress = ''street 1''\<rparr>,
     Invoice_Booking = \<lparr>doc_CottageName = ''Lake'', doc_Nights = 2, doc_NumberOfGuests = 3,
       doc_ValuePerNight = \<lparr>doc_Amount = 10000, doc_Currency = ''BRL''\<rparr>\<rparr>,
     Invoice_Total = \<lparr>doc_Amount = 20000, doc_Currency = ''BRL''\<rparr>,
     Invoice_TaxTotal = \<lparr>doc_Amount = 0, doc_Currency = ''BRL''\<rparr>,
     Invoice_DiscountTotal = \<lparr>doc_Amount = 0, doc_Currency = ''BRL''\<rparr>,
     Invoice_CreatedAt = 0, Invoice_UpdatedAt = 0\<rparr>"

definition pay_world :: world where
  "pay_world = empty_world\<lparr>world_invoices := [sample_invoice], world_draws := [50, 60, 70]\<rparr>"

definition paid_world :: world where
  "paid_world = pay_world\<lparr>world_invoices := [sample_invoice\<lparr>Invoice_Status := ''PAID''\<rparr>]\<rparr>"

definition card_of :: "string \<Rightarrow> string \<Rightarrow> pb_Card" where
  "card_of brand number = \<lparr>Card_Brand = brand, Card_Number = number, Card_ExpMonth = 12,
     Card_ExpYear = 2030, Card_Cvv = ''123'', Card_HolderName = ''Ana''\<rparr>"

definition sample_pay :: "pb_PayWithCardRequest option" where
  "sample_pay = Some \<lparr>PayWithCardRequest_Card = Some (card_of ''VISA'' ''4111111111111111''),
     PayWithCardRequest_InvoiceNumber = ''INV-1''\<rparr>"

definition short_pay :: "pb_PayWithCardRequest option" where
  "short_pay = Some \<lparr>PayWithCardRequest_Card = Some (card_of ''VISA'' ''411''),
     PayWithCardRequest_InvoiceNumber = ''INV-1''\<rparr>"

definition brandless_pay :: "pb_PayWithCardRequest option" where
  "brandless_pay = Some \<lparr>PayWithCardRequest_Card = Some (card_of [] ''4111111111111111''),
     PayWithCardRequest_InvoiceNumber = ''INV-1''\<rparr>"

abbreviation ref_pay_service :: "world payment_service" where
  "ref_pay_service \<equiv> payment_service_over 10 ref_clock (mongo_invoice_repo ref_invoices)
     (mongo_receipt_repo ref_receipts) ref_producer"

abbreviation pay_now :: "pb_PayWithCardRequest option \<Rightarrow> pay_result \<times> pay_job option \<times> world" where
  "pay_now req \<equiv> PayWithCard ref_runtime ref_pay_service req pay_world"

lemma triple_collapse: "p = (fst p, fst (snd p), snd (snd p))"
  by simp

lemma run_of: "(case p of (r, job, s') \<Rightarrow> r = x \<and> job = y) \<Longrightarrow> fst p = x \<and> fst (snd p) = y"
  by (simp add: case_prod_beta)

text \<open>The run of the sample payment.\<close>

definition sample_reply :: pb_PayWithCardResponse where
  "sample_reply = \<lparr>
     PayWithCardResponse_ReceiptNumber = ''RCPT-20260115-0f8fad'',
     PayWithCardResponse_InvoiceNumber = ''INV-1'',
     PayWithCardResponse_Status = PaymentStatus_PAYMENT_STATUS_SUCCEEDED,
     PayWithCardResponse_Card = Some \<lparr>CardSummary_Brand = ''VISA'', CardSummary_Last4 = ''1111''\<rparr>,
     PayWithCardResponse_ProcessedAt = Some \<lparr>Timestamp_Seconds = 1768478400, Timestamp_Nanos = 0\<rparr>\<rparr>"

lemma sample_paid: "pay_now sample_pay =
  (Returned sample_reply, Some (world_now pay_world, sample_reply), snd (snd (pay_now sample_pay)))"
proof -
  have "fst (pay_now sample_pay) = Returned sample_reply \<and>
      fst (snd (pay_now sample_pay)) = Some (world_now pay_world, sample_reply)"
    by (rule run_of) code_simp
  then show ?thesis by (metis triple_collapse)
qed

section \<open>One call\<close>

text \<open>C20: a payment call leaves the receipts, the messages and the broker alone, and changes the
  stored invoices only by marking an invoice with the requested number as paid; that takes a
  valid request and an invoice with this number that is not paid yet.\<close>

theorem payment_changes_only_its_invoice:
  assumes "app_ports repo rrepo prd ackn clk rt docs rcpts sent settled"
    and "PayWithCard rt (payment_service_over chance clk repo rrepo prd) req s = (r, job, s')"
  shows "rcpts s' = rcpts s \<and> sent s' = sent s \<and> settled s' = settled s \<and>
    (docs s' = docs s \<or> valid_pay_request req \<and>
      \<not> all_paid (PayWithCardRequest_GetInvoiceNumber req) (docs s) \<and>
      status_set (PayWithCardRequest_GetInvoiceNumber req) InvoiceStatusPaid (docs s) (docs s'))"
  using app_ports.pay_effect[OF assms] by blast

theorem payment_changes_only_its_invoice_witness:
  "valid_pay_request sample_pay \<and> \<not> all_paid ''INV-1'' (world_invoices pay_world) \<and>
   status_set ''INV-1'' InvoiceStatusPaid (world_invoices pay_world)
     (world_invoices (snd (snd (pay_now sample_pay))))"
proof -
  have "map Invoice_Status (world_invoices (snd (snd (pay_now sample_pay)))) \<noteq>
      map Invoice_Status (world_invoices pay_world)" by code_simp
  then have "world_invoices (snd (snd (pay_now sample_pay))) \<noteq> world_invoices pay_world" by metis
  with payment_changes_only_its_invoice[OF ref_app_ports sample_paid] show ?thesis
    by (auto simp: sample_pay_def)
qed

text \<open>C21: a call that replies either reports a failed payment, changed nothing and leaves no work,
  or reports success after marking the invoice paid and leaves the receipt and the confirmation
  to do; the reply names the invoice, a fresh receipt number and the last four characters of the
  card number.\<close>

theorem payment_reply:
  assumes "app_ports repo rrepo prd ackn clk rt docs rcpts sent settled"
    and "PayWithCard rt (payment_service_over chance clk repo rrepo prd) req s =
      (Returned resp, job, s')"
  shows "\<exists>now.
    (reply_to req PaymentStatus_PAYMENT_STATUS_FAILED now resp \<and> job = None \<and> docs s' = docs s) \<or>
    (reply_to req PaymentStatus_PAYMENT_STATUS_SUCCEEDED now resp \<and> job = Some (now, resp) \<and>
      status_set (PayWithCardRequest_GetInvoiceNumber req) InvoiceStatusPaid (docs s) (docs s'))"
  using assms(2) by (cases rule: app_ports.pay_replied[OF assms(1), consumes 1]) blast+

theorem payment_reply_witness:
  "\<exists>now. reply_to sample_pay PaymentStatus_PAYMENT_STATUS_SUCCEEDED now sample_reply"
  using payment_reply[OF ref_app_ports sample_paid] by auto

text \<open>When every stored invoice with the number is paid, a payment for it is refused with an
  error: it neither replies nor panics, changes nothing and leaves no work.\<close>

theorem paid_invoice_refused:
  assumes "app_ports repo rrepo prd ackn clk rt docs rcpts sent settled"
    and "PayWithCard rt (payment_service_over chance clk repo rrepo prd) req s = (r, job, s')"
    and "all_paid (PayWithCardRequest_GetInvoiceNumber req) (docs s)"
  shows "(\<exists>e. r = Failed e) \<and> job = None \<and> docs s' = docs s"
proof -
  have no: "\<not> drawn rt (payment_service_over chance clk repo rrepo prd) req s now d n s3" for now d n s3
    using app_ports.drawn_quiet(2-4)[OF assms(1)] assms(3) by (metis all_paid_def)
  have "docs s' = docs s" using app_ports.pay_effect(4)[OF assms(1,2)] assms(3) by blast
  with assms(2) show ?thesis by (cases rule: pay_cases) (simp_all add: no)
qed

theorem paid_invoice_refused_witness:
  "(case PayWithCard ref_runtime ref_pay_service sample_pay paid_world of
    (r, job, s') \<Rightarrow> (\<exists>e. r = Failed e) \<and> job = None)"
proof (cases "PayWithCard ref_runtime ref_pay_service sample_pay paid_world")
  case (fields r job s')
  have "all_paid (PayWithCardRequest_GetInvoiceNumber sample_pay) (world_invoices paid_world)"
    by code_simp
  from paid_invoice_refused[OF ref_app_ports fields this] fields show ?thesis by simp
qed

text \<open>C22: the code of an error tells what happened: \<^const>\<open>InvalidArgument\<close> means exactly that the
  request is not valid, \<^const>\<open>NotFound\<close> that no invoice with the number was stored,
  \<^const>\<open>FailedPrecondition\<close> that a paid one was; and an error without a status code comes
  only from a payment that was drawn to fail.\<close>

theorem payment_error_codes:
  assumes "app_ports repo rrepo prd ackn clk rt docs rcpts sent settled"
    and "PayWithCard rt (payment_service_over chance clk repo rrepo prd) req s = (Failed err, job, s')"
  shows "case err of
      RawErr e \<Rightarrow> docs s' = docs s \<and>
        (\<exists>now d n s3. drawn rt (payment_service_over chance clk repo rrepo prd) req s now d n s3 \<and>
          n < chance)
    | Status c m \<Rightarrow> (c = InvalidArgument \<longleftrightarrow> \<not> valid_pay_request req) \<and>
        (c = NotFound \<longrightarrow> PayWithCardRequest_GetInvoiceNumber req \<notin>
          Invoice_InvoiceNumber ` set (docs s)) \<and>
        (c = FailedPrecondition \<longrightarrow>
          paid_number (PayWithCardRequest_GetInvoiceNumber req) (docs s))"
proof -
  note pq = app_ports.drawn_quiet[OF assms(1)] app_ports.now_quiet[OF assms(1)]
  have ip: "invoice_repo_port repo docs (\<lambda>s. (rcpts s, sent s, settled s))"
    using assms(1) by (simp add: app_ports_def)
  have absent: "n \<notin> Invoice_InvoiceNumber ` set ds"
    if "\<And>d. d \<in> set ds \<Longrightarrow> Invoice_InvoiceNumber d \<noteq> n" for n ds
    using that by blast
  show ?thesis
    using assms(2)
  proof (cases rule: pay_cases)
    case (find_error now s1 e)
    have "PayWithCardRequest_GetInvoiceNumber req \<notin> Invoice_InvoiceNumber ` set (docs s)"
      if "is_a TDbInvoiceNotFound e"
      using absent[OF invoice_repo_port.find_missing[OF ip find_error(3)[simplified] that]]
        pq(7)[OF find_error(2)[simplified]] by simp
    with find_error show ?thesis by (auto simp: mapError_def)
  next
    case (paid now s1 d)
    have "d \<in> set (docs s)" "Invoice_InvoiceNumber d = PayWithCardRequest_GetInvoiceNumber req"
      using invoice_repo_port.find_found[OF ip, of _ s1] paid(2,3) pq(7)[of s] by auto
    with paid show ?thesis by (auto simp: paid_number_def)
  next
    case (unlucky now d n s3 g)
    have "docs s' = docs s"
      using pq(1)[OF unlucky(1)] app_ports.buildResponse_quiet[OF assms(1) unlucky(3)] by simp
    moreover obtain e where "err = RawErr e"
      using unlucky(4) by (auto simp: failed_reply_def split: outcome.splits)
    ultimately show ?thesis using unlucky(1,2) by (auto simp: draw_fails_def)
  next
    case (update_error now d n s3 e)
    have "PayWithCardRequest_GetInvoiceNumber req \<notin> Invoice_InvoiceNumber ` set (docs s)"
      if "is_a TDbInvoiceNotFound e"
      using invoice_repo_port.update_missing[OF ip update_error(3)[simplified] that]
        pq(1)[OF update_error(1)] by auto
    with update_error pq(5)[OF update_error(1)] show ?thesis by (auto simp: mapError_def)
  next
    case (charged now d n s3 u s4 g)
    then show ?thesis
      using pq(5)[OF charged(1)] by (auto simp: charged_reply_def split: outcome.splits)
  qed auto
qed

theorem payment_error_codes_witness:
  "(case PayWithCard ref_runtime ref_pay_service sample_pay empty_world of
     (r, job, s') \<Rightarrow> \<exists>m. r = Failed (Status NotFound m)) \<and>
   ''INV-1'' \<notin> Invoice_InvoiceNumber ` set (world_invoices empty_world)"
proof -
  let ?p = "PayWithCard ref_runtime ref_pay_service sample_pay empty_world"
  have "(case fst ?p of Failed (Status NotFound m) \<Rightarrow> True | _ \<Rightarrow> False)" by code_simp
  then obtain m where m: "fst ?p = Failed (Status NotFound m)"
    by (auto split: outcome.splits rpc_error.splits grpc_code.splits)
  then have "?p = (Failed (Status NotFound m), fst (snd ?p), snd (snd ?p))" by (metis triple_collapse)
  from payment_error_codes[OF ref_app_ports this] m show ?thesis
    by (simp add: case_prod_beta sample_pay_def)
qed

text \<open>C35: a valid payment with a card number of fewer than four characters panics in the reply,
  and does so after the invoice was marked paid: the caller gets no reply, and no receipt and no
  confirmation will follow.\<close>

theorem short_card_panics_after_charge:
  assumes "drawn rt svc req s now d n s3" and "\<not> draw_fails (PM_failChance svc) n"
    and "UpdateStatus (PM_invoiceRepo svc) (PayWithCardRequest_GetInvoiceNumber req)
      InvoiceStatusPaid now s3 = (Inr u, s4)"
    and "length (Card_GetNumber (PayWithCardRequest_GetCard req)) < 4"
  shows "PayWithCard rt svc req s =
    (Panicked ''runtime error: slice bounds out of range'', None, s4)"
proof (cases "PayWithCard rt svc req s")
  case (fields r job s')
  have short: "short_card req" using assms(4) by (simp add: short_card_def)
  have v: "Validate (pay_request_checks req) = None"
    using assms(1) by (simp add: drawn_def valid_pay_request_None)
  from assms(1) show ?thesis
    using v assms(2,3)
      buildResponse_short[OF short, of rt PaymentStatus_PAYMENT_STATUS_SUCCEEDED now s4]
    by (auto simp: drawn_def PayWithCard_def)
qed

lemma short_run: "drawn ref_runtime ref_pay_service short_pay pay_world (world_now pay_world)
    sample_invoice 50 (pay_world\<lparr>world_draws := [60, 70]\<rparr>)"
proof -
  have v: "valid_pay_request short_pay" by code_simp
  have f: "FindByInvoiceNumber (mongo_invoice_repo ref_invoices)
      (PayWithCardRequest_GetInvoiceNumber short_pay) pay_world = (Inr sample_invoice, pay_world)"
    by code_simp
  have p: "\<not> equal_fold (Invoice_Status sample_invoice) InvoiceStatusPaid" by code_simp
  have c: "Now ref_clock pay_world = (Inr (world_now pay_world), pay_world)"
    by (simp add: ref_clock_def pay_world_def empty_world_def down_def)
  have r: "RandInt ref_runtime pay_world = (50, pay_world\<lparr>world_draws := [60, 70]\<rparr>)"
    by (simp add: ref_runtime_def pay_world_def)
  show ?thesis unfolding drawn_def using v f p c r by auto
qed

theorem short_card_panics_after_charge_witness:
  "\<exists>s4. PayWithCard ref_runtime ref_pay_service short_pay pay_world =
      (Panicked ''runtime error: slice bounds out of range'', None, s4) \<and>
    map Invoice_Status (world_invoices s4) = [''paid'']"
proof -
  let ?s3 = "pay_world\<lparr>world_draws := [60, 70]\<rparr>"
  let ?u = "UpdateStatus (mongo_invoice_repo ref_invoices) ''INV-1'' InvoiceStatusPaid
    (world_now pay_world) ?s3"
  have 1: "fst ?u = Inr ()" by code_simp
  have 2: "map Invoice_Status (world_invoices (snd ?u)) = [''paid'']" by code_simp
  have u: "UpdateStatus (PM_invoiceRepo ref_pay_service)
      (PayWithCardRequest_GetInvoiceNumber short_pay) InvoiceStatusPaid (world_now pay_world) ?s3 =
      (Inr (), snd ?u)"
    using 1 by (simp add: short_pay_def prod_eq_iff)
  have "\<not> draw_fails (PM_failChance ref_pay_service) 50" by (simp add: draw_fails_def)
  from short_card_panics_after_charge[OF short_run this u] 2 show ?thesis
    by (auto simp: short_pay_def card_of_def)
qed

text \<open>The chance of a simulated failure is not a percentage: of the \<open>2\<^sup>63\<close> equally likely draws
  exactly as many fail as the configured number says, so a \<open>FAIL_CHANCE\<close> of 10 makes ten draws
  out of \<open>2\<^sup>63\<close> fail.\<close>

theorem failing_draws:
  assumes "0 \<le> chance" and "chance \<le> 2 ^ 63"
  shows "int (card {n. 0 \<le> n \<and> n < (2::int) ^ 63 \<and> draw_fails chance n}) = chance"
proof -
  have "{n. 0 \<le> n \<and> n < (2::int) ^ 63 \<and> draw_fails chance n} = {0..<chance}"
    using assms by (auto simp: draw_fails_def)
  then show ?thesis using assms(1) by simp
qed

theorem failing_draws_witness:
  "int (card {n. 0 \<le> n \<and> n < (2::int) ^ 63 \<and> draw_fails 10 n}) = 10"
  by (rule failing_draws) simp_all

section \<open>The work after a payment\<close>

text \<open>C10: the work after a payment does nothing, or stores the receipt of the reply, or stores it
  and then confirms the payment for a stored invoice with the same number; it changes no
  invoice, and when it ends without an error it has done both.\<close>

theorem receipt_before_confirmation:
  assumes "app_ports repo rrepo prd ackn clk rt docs rcpts sent settled"
    and "post_payment_work rt tsl (payment_service_over chance clk repo rrepo prd) (now, resp) s =
      (r, s')"
  shows "docs s' = docs s \<and>
    post_step tsl (docs s) (now, resp) (rcpts s, sent s) (rcpts s', sent s') \<and>
    (r = Returned () \<longrightarrow> rcpts s' \<noteq> rcpts s \<and> sent s' \<noteq> sent s)"
  using app_ports.post_work_refines[OF assms] by blast

theorem receipt_before_confirmation_witness:
  "(case post_payment_work ref_runtime ref_timestamps ref_pay_service (0, sample_reply) pay_world of
    (r, s') \<Rightarrow> r = Returned () \<and> world_receipts s' \<noteq> [] \<and> world_sent s' \<noteq> [])"
proof (cases "post_payment_work ref_runtime ref_timestamps ref_pay_service (0, sample_reply) pay_world")
  case (Pair r s')
  have "fst (post_payment_work ref_runtime ref_timestamps ref_pay_service (0, sample_reply)
      pay_world) = Returned ()" by code_simp
  with Pair have "r = Returned ()" by simp
  with receipt_before_confirmation[OF ref_app_ports Pair] Pair show ?thesis
    by (simp add: pay_world_def empty_world_def)
qed

text \<open>C36: a successful payment whose card has a blank brand, which the request checks let through,
  never gets a receipt or a confirmation, whatever the state in which its work runs: the
  invoice is paid and the work ends with a validation error.\<close>

theorem brandless_payment_has_no_receipt:
  assumes "app_ports repo rrepo prd ackn clk rt docs rcpts sent settled"
    and "PayWithCard rt (payment_service_over chance clk repo rrepo prd) req s = (r, Some job, s')"
    and "is_blank (Card_GetBrand (PayWithCardRequest_GetCard req))"
  shows "status_set (PayWithCardRequest_GetInvoiceNumber req) InvoiceStatusPaid (docs s) (docs s') \<and>
    (\<exists>e. refused e \<and> post_payment_work rt tsl (payment_service_over chance clk repo rrepo prd) job w =
      (Failed e, w))"
proof -
  obtain now resp where job: "job = (now, resp)" by fastforce
  note r = app_ports.pay_job_replied[OF assms(1) assms(2)[unfolded job]]
  have "PayWithCard rt (payment_service_over chance clk repo rrepo prd) req s =
      (Returned resp, Some (now, resp), s')" using assms(2) r job by simp
  then obtain t where t: "reply_to req PaymentStatus_PAYMENT_STATUS_SUCCEEDED t resp"
    "status_set (PayWithCardRequest_GetInvoiceNumber req) InvoiceStatusPaid (docs s) (docs s')"
    by (cases rule: app_ports.pay_replied[OF assms(1), consumes 1]) auto
  have "\<not> valid_receipt_response (Some resp)"
    using t(1) assms(3) by (auto simp: valid_receipt_response_def reply_to_def)
  then obtain e where e: "NewReceiptFromProtMessage tsl (fst (NewObjectID rt w)) (Some resp) = Inl e"
    "\<forall>T. is_a T e \<longleftrightarrow> T = TValidation"
    using NewReceipt_invalid by blast
  then show ?thesis using t(2) job
    by (intro conjI exI[of _ e]) (simp_all add: post_payment_work_def saveReceipt_def refused_def)
qed

theorem brandless_payment_has_no_receipt_witness:
  "\<exists>job. fst (snd (pay_now brandless_pay)) = Some job \<and> (\<exists>e. refused e \<and>
     post_payment_work ref_runtime ref_timestamps ref_pay_service job pay_world = (Failed e, pay_world))"
proof (cases "pay_now brandless_pay")
  case (fields r job s')
  have "fst (snd (pay_now brandless_pay)) \<noteq> None" by code_simp
  then obtain j where j: "job = Some j" using fields by auto
  have b: "is_blank (Card_GetBrand (PayWithCardRequest_GetCard brandless_pay))"
    by (simp add: brandless_pay_def card_of_def)
  from brandless_payment_has_no_receipt[OF ref_app_ports fields[unfolded j] b] fields j
  show ?thesis by auto
qed

section \<open>Calls in turn\<close>

text \<open>C5: when the number of an invoice is stored once, any sequence of payment calls made one
  after the other reports success for it at most once.\<close>

theorem paid_at_most_once_in_turn:
  assumes "app_ports repo rrepo prd ackn clk rt docs rcpts sent settled"
    and "pay_in_turn rt tsl (payment_service_over chance clk repo rrepo prd) reqs s = (rs, s')"
    and "times_stored n (docs s) \<le> 1"
  shows "successes n reqs rs \<le> 1"
  by (rule app_ports.paid_at_most_once[OF assms])

theorem paid_at_most_once_in_turn_witness:
  "(case pay_in_turn ref_runtime ref_timestamps ref_pay_service [sample_pay, sample_pay] pay_world of
     (rs, s') \<Rightarrow> successes ''INV-1'' [sample_pay, sample_pay] rs \<le> 1)"
proof (cases "pay_in_turn ref_runtime ref_timestamps ref_pay_service [sample_pay, sample_pay] pay_world")
  case (Pair rs s')
  have "times_stored ''INV-1'' (world_invoices pay_world) \<le> 1" by code_simp
  from paid_at_most_once_in_turn[OF ref_app_ports Pair this] Pair show ?thesis by simp
qed

end
