(* ===== verification/InterleavingClaims.thy ===== *)
theory InterleavingClaims
  imports PaymentClaims
begin

text \<open>
  The properties of card payments served at the same time, each with a run of the model that
  meets its hypotheses, and a schedule that pays one invoice twice.
\<close>

section \<open>Calls served at the same time\<close>



text \<open>The thread reported success and its work is over.\<close>

definition thread_succeeded :: "pay_thread \<Rightarrow> bool" where
  "thread_succeeded t \<longleftrightarrow> (case snd t of
     Replied r w \<Rightarrow> w = Stopped \<and> (case r of
         Returned resp \<Rightarrow> PayWithCardResponse_Status resp = PaymentStatus_PAYMENT_STATUS_SUCCEEDED
       | _ \<Rightarrow> False)
   | _ \<Rightarrow> False)"

text \<open>C3: whatever the order in which concurrent payments advance, paid numbers stay paid, every
  stored receipt is for a paid invoice and every confirmation sent has its receipt stored.\<close>

theorem concurrent_payments_keep_backed:
  assumes "app_ports repo rrepo prd ackn clk rt docs rcpts sent settled"
    and "sys_steps rt tsl (payment_service_over chance clk repo rrepo prd) (started reqs, s) (ts, s')"
    and "receipts_backed (docs s) (rcpts s)" and "confirmations_backed (rcpts s) (sent s)"
  shows "receipts_backed (docs s') (rcpts s') \<and> confirmations_backed (rcpts s') (sent s') \<and>
    extends (docs s) (rcpts s) (docs s') (rcpts s')"
proof -
  have "sys_ok (started reqs) (docs s) (rcpts s) (sent s)"
    using assms(3,4) by (auto simp: sys_ok_def started_def)
  from app_ports.sys_steps_ok[OF assms(1,2) this] show ?thesis by (simp add: sys_ok_def)
qed

abbreviation two_payments :: "pay_thread list \<times> world" where
  "two_payments \<equiv> run_schedule ref_runtime ref_timestamps ref_pay_service
     [0, 0, 1, 1, 0, 1, 0, 1, 0, 1, 0, 0, 1, 1] (started [sample_pay, sample_pay], pay_world)"

theorem concurrent_payments_keep_backed_witness:
  "receipts_backed (world_invoices (snd two_payments)) (world_receipts (snd two_payments)) \<and>
   confirmations_backed (world_receipts (snd two_payments)) (world_sent (snd two_payments))"
proof -
  have r: "sys_steps ref_runtime ref_timestamps ref_pay_service
      (started [sample_pay, sample_pay], pay_world) (fst two_payments, snd two_payments)"
    unfolding prod.collapse by (rule run_schedule_reachable)
  have i: "receipts_backed (world_invoices pay_world) (world_receipts pay_world)"
    "confirmations_backed (world_receipts pay_world) (world_sent pay_world)"
    by (simp_all add: receipts_backed_def confirmations_backed_def pay_world_def empty_world_def)
  from concurrent_payments_keep_backed[OF ref_app_ports r i] show ?thesis by blast
qed



lemma two_payments_run:
  "(case two_payments of (ts, s') \<Rightarrow>
     list_all thread_succeeded ts \<and> length ts = 2 \<and>
     map Receipt_InvoiceNumber (world_receipts s') = [''INV-1'', ''INV-1''] \<and>
     length (world_sent s') = 2)"
  by code_simp

text \<open>C25: the check that an invoice is not paid and its marking as paid are two separate uses of
  the database: two calls for one invoice that both load it before either marks it both report
  success, and two receipts are stored for the one invoice and two confirmations sent.\<close>

theorem double_payment_reachable:
  "\<exists>ts s'. sys_steps ref_runtime ref_timestamps ref_pay_service
      (started [sample_pay, sample_pay], pay_world) (ts, s') \<and>
    times_stored ''INV-1'' (world_invoices pay_world) = 1 \<and>
    list_all thread_succeeded ts \<and> length ts = 2 \<and>
    map Receipt_InvoiceNumber (world_receipts s') = [''INV-1'', ''INV-1''] \<and>
    length (world_sent s') = 2"
proof (cases two_payments)
  case (Pair ts s')
  have "sys_steps ref_runtime ref_timestamps ref_pay_service
      (started [sample_pay, sample_pay], pay_world) (ts, s')"
    unfolding Pair[symmetric] by (rule run_schedule_reachable)
  moreover have "times_stored ''INV-1'' (world_invoices pay_world) = 1" by code_simp
  moreover note two_payments_run[unfolded Pair prod.case]
  ultimately show ?thesis by (intro exI[of _ ts] exI[of _ s']) simp
qed

end
