(* ===== verification/PaymentReissue.thy ===== *)
theory PaymentReissue
  imports InvoiceClaims
begin

text \<open>
  internal/app/payment_reissue_service.go: sending the payment request of an unpaid invoice
  again, found by its booking and the payer's document.
\<close>

section \<open>The service\<close>

record 's reissue_service =
  PR_invoiceRepo :: "'s invoice_repo"
  PR_paymentHost :: string

definition NewPaymentReissueService ::
  "'s invoice_repo option \<Rightarrow> string \<Rightarrow> go_err + 's reissue_service" where
  "NewPaymentReissueService invoiceRepo paymentHost =
    (case Validate (chain
       [NotNil ''invoice_repo'' (ptr invoiceRepo),
        NotBlank ''payment_host'' paymentHost]) of
       Some err \<Rightarrow> Inl err
     | None \<Rightarrow> Inr \<lparr>PR_invoiceRepo = the invoiceRepo, PR_paymentHost = paymentHost\<rparr>)"

definition reissue_checks :: "pb_ReissuePaymentRequest option \<Rightarrow> validator" where
  "reissue_checks r = chain
    [NotBlank ''booking_number'' (ReissuePaymentRequest_GetBookingNumber r),
     NotBlank ''document_number'' (ReissuePaymentRequest_GetDocumentNumber r)]"

definition Reissue ::
  "timestamp_lib \<Rightarrow> 's reissue_service \<Rightarrow> pb_ReissuePaymentRequest option \<Rightarrow> 's \<Rightarrow>
     (rpc_error + pb_PaymentRequest) \<times> 's" where
  "Reissue tsl svc r s =
    (case Validate (reissue_checks r) of
       Some err \<Rightarrow> (Inl (Status InvalidArgument (error_text err)), s)
     | None \<Rightarrow>
      (case FindByBookingNumberAndDocumentNumber (PR_invoiceRepo svc)
              (ReissuePaymentRequest_GetBookingNumber r)
              (ReissuePaymentRequest_GetDocumentNumber r) s of
         (Inl err, s1) \<Rightarrow>
           if is_a TDbInvoiceNotFound err then (Inl (Status NotFound (error_text err)), s1)
           else if is_a TDbCorrupted err
           then (Inl (Status Internal ''database returned corrupted invoice data''), s1)
           else (Inl (Status Internal (error_text err)), s1)
       | (Inr invoice, s1) \<Rightarrow>
           if equal_fold (Invoice_Status invoice) InvoiceStatusPaid
           then (Inl (Status FailedPrecondition ''invoice is already paid''), s1)
           else (Inr (buildPaymentRequest tsl invoice (PR_paymentHost svc)), s1)))"

section \<open>Properties\<close>

lemma reissue_checks_pass:
  "Validate (reissue_checks r) = None \<longleftrightarrow>
     \<not> is_blank (ReissuePaymentRequest_GetBookingNumber r) \<and>
     \<not> is_blank (ReissuePaymentRequest_GetDocumentNumber r)"
  by (simp add: reissue_checks_def validator_simps)

lemma reissue_checks_constraints: "only_constraints (reissue_checks r)"
  by (simp add: reissue_checks_def validator_simps)

text \<open>An invoice of the booking and of the payer's document.\<close>

definition invoice_for :: "pb_ReissuePaymentRequest option \<Rightarrow> doc_Invoice \<Rightarrow> bool" where
  "invoice_for r d \<longleftrightarrow> Invoice_BookingId d = ReissuePaymentRequest_GetBookingNumber r \<and>
     doc_DocumentNumber (Invoice_Payer d) = ReissuePaymentRequest_GetDocumentNumber r"

definition reissue_service_over :: "'s invoice_repo \<Rightarrow> string \<Rightarrow> 's reissue_service" where
  "reissue_service_over repo host = \<lparr>PR_invoiceRepo = repo, PR_paymentHost = host\<rparr>"

text \<open>C30: reissuing changes nothing in the stores and sends nothing. A reply is the payment request
  of a stored, unpaid invoice of that booking and payer. \<^const>\<open>InvalidArgument\<close> means exactly
  that a field is blank, \<^const>\<open>NotFound\<close> that no such invoice is stored, and
  \<^const>\<open>FailedPrecondition\<close> that a paid one is.\<close>

theorem reissue_outcomes:
  assumes "app_ports repo rrepo prd ackn clk rt docs rcpts sent settled"
    and "Reissue tsl (reissue_service_over repo host) r s = (x, s')"
  shows "docs s' = docs s \<and> rcpts s' = rcpts s \<and> sent s' = sent s \<and> settled s' = settled s \<and>
    (case x of
       Inr p \<Rightarrow> \<exists>d\<in>set (docs s). invoice_for r d \<and>
         \<not> equal_fold (Invoice_Status d) InvoiceStatusPaid \<and> p = buildPaymentRequest tsl d host
     | Inl (RawErr e) \<Rightarrow> False
     | Inl (Status c m) \<Rightarrow>
         (c = InvalidArgument \<longleftrightarrow> is_blank (ReissuePaymentRequest_GetBookingNumber r) \<or>
            is_blank (ReissuePaymentRequest_GetDocumentNumber r)) \<and>
         (c = NotFound \<longrightarrow> (\<forall>d\<in>set (docs s). \<not> invoice_for r d)) \<and>
         (c = FailedPrecondition \<longrightarrow> (\<exists>d\<in>set (docs s). invoice_for r d \<and>
            equal_fold (Invoice_Status d) InvoiceStatusPaid)))"
proof (cases "Validate (reissue_checks r)")
  case (Some e)
  then have "is_blank (ReissuePaymentRequest_GetBookingNumber r) \<or>
      is_blank (ReissuePaymentRequest_GetDocumentNumber r)"
    using reissue_checks_pass[of r] by auto
  with Some assms(2) show ?thesis by (auto simp: Reissue_def)
next
  case None
  let ?b = "ReissuePaymentRequest_GetBookingNumber r"
  let ?p = "ReissuePaymentRequest_GetDocumentNumber r"
  have nb: "\<not> is_blank ?b" "\<not> is_blank ?p" using None reissue_checks_pass by simp_all
  have ip: "invoice_repo_port repo docs (\<lambda>s. (rcpts s, sent s, settled s))"
    using assms(1) by (simp add: app_ports_def)
  obtain f s1 where f: "FindByBookingNumberAndDocumentNumber repo ?b ?p s = (f, s1)" by fastforce
  note q = app_ports.find_booking_all_quiet[OF assms(1) f]
  show ?thesis
  proof (cases f)
    case (Inl e)
    have "\<not> invoice_for r d" if "is_a TDbInvoiceNotFound e" "d \<in> set (docs s)" for d
      using invoice_repo_port.find_booking_missing[OF ip f[unfolded Inl] that]
      by (auto simp: invoice_for_def)
    with None f q Inl assms(2) nb show ?thesis
      by (auto simp: Reissue_def reissue_service_over_def split: if_splits)
  next
    case (Inr d)
    have "d \<in> set (docs s)" "invoice_for r d"
      using invoice_repo_port.find_booking_found[OF ip f[unfolded Inr]] by (simp_all add: invoice_for_def)
    with None f q Inr assms(2) nb show ?thesis
      by (auto simp: Reissue_def reissue_service_over_def split: if_splits)
  qed
qed

definition sample_reissue :: "pb_ReissuePaymentRequest option" where
  "sample_reissue = Some \<lparr>ReissuePaymentRequest_BookingNumber = ''booking-1'',
     ReissuePaymentRequest_DocumentNumber = ''doc-1''\<rparr>"

abbreviation ref_reissue_service :: "world reissue_service" where
  "ref_reissue_service \<equiv> reissue_service_over (mongo_invoice_repo ref_invoices) ''https://pay''"

text \<open>The store after the consumer took the sample request.\<close>

definition issued_invoice :: doc_Invoice where
  "issued_invoice = invoice_of ref_timestamps (Some sample_request) ''INV-20260115-0f8fad''
     (world_now empty_world)"

definition stored_invoice :: doc_Invoice where
  "stored_invoice = issued_invoice\<lparr>Invoice_Id := 2\<rparr>"

definition reissue_world :: world where
  "reissue_world = empty_world\<lparr>world_invoices := [stored_invoice]\<rparr>"

lemma reissue_found:
  "FindByBookingNumberAndDocumentNumber (mongo_invoice_repo ref_invoices)
     (ReissuePaymentRequest_GetBookingNumber sample_reissue)
     (ReissuePaymentRequest_GetDocumentNumber sample_reissue) reissue_world =
   (Inr stored_invoice, reissue_world)"
proof -
  have v: "Validate (chain [NotBlank ''bookingNumber'' ''booking-1'', NotBlank ''documentNumber'' ''doc-1'']) = None"
    by code_simp
  show ?thesis
    by (simp add: mongo_invoice_repo_def FindByBookingNumberAndDocumentNumber_impl_def sample_reissue_def
        v find_invoice_def ref_invoices_def ref_find_def reissue_world_def down_def empty_world_def
        stored_invoice_def issued_invoice_def invoice_of_def sample_request_def)
qed

lemma stored_unpaid: "\<not> equal_fold (Invoice_Status stored_invoice) InvoiceStatusPaid"
  by (simp add: stored_invoice_def issued_invoice_def invoice_of_def InvoiceStatusPaid_def
      equal_fold_def)

lemma sample_reissue_valid: "Validate (reissue_checks sample_reissue) = None"
  by code_simp

theorem reissue_outcomes_witness:
  "(case Reissue ref_timestamps ref_reissue_service sample_reissue reissue_world of
     (x, s') \<Rightarrow> (\<exists>d\<in>set (world_invoices reissue_world). invoice_for sample_reissue d \<and>
       x = Inr (buildPaymentRequest ref_timestamps d ''https://pay'')) \<and>
       world_sent s' = world_sent reissue_world)"
proof (cases "Reissue ref_timestamps ref_reissue_service sample_reissue reissue_world")
  case (Pair x s')
  then obtain p where "x = Inr p"
    using reissue_found stored_unpaid sample_reissue_valid
    by (auto simp: Reissue_def reissue_service_over_def)
  with reissue_outcomes[OF ref_app_ports Pair] Pair show ?thesis by auto
qed



end
