(* ===== verification/RabbitMq.thy ===== *)
theory RabbitMq
  imports RefWorld
begin

text \<open>
  internal/infra/mq: the connection to RabbitMQ with its bounded reconnection, the channel over
  it, and the producer and consumer that implement the ports. The amqp091 client is a parameter.
  The Go objects are records passed and returned; the connection is shared, and its mutex makes
  each of its operations one step.
\<close>

section \<open>The client library\<close>

record amqp_uri =
  URI_Scheme :: string
  URI_Username :: string
  URI_Password :: string
  URI_Host :: string
  URI_Port :: "64 word"

record publishing =
  PB_ContentType :: string
  PB_Body :: "8 word list"
  PB_DeliveryMode :: "8 word"
  PB_Headers :: "string \<Rightarrow> string option"
  PB_Timestamp :: go_time

text \<open>
  Connections and channels are handles. \<open>IsClosed\<close> reads the state of the world, which other
  goroutines move on between two uses. \<open>Dial\<close> takes the text of the URI's parts; \<open>SleepFor\<close> is
  \<open>time.Sleep\<close>, \<open>WallClock\<close> is \<open>time.Now\<close>, \<open>Marshal\<close> is \<open>proto.Marshal\<close>, and \<open>TraceHeaders\<close>
  what the trace propagator injects, \<^term>\<open>None\<close> when the context has no trace.
\<close>

record 's amqp_lib =
  Dial :: "amqp_uri \<Rightarrow> ('s, nat) call"
  ConnIsClosed :: "nat \<Rightarrow> 's \<Rightarrow> bool \<times> 's"
  ConnChannel :: "nat \<Rightarrow> ('s, nat) call"
  ConnClose :: "nat \<Rightarrow> 's \<Rightarrow> go_err option \<times> 's"
  ChanIsClosed :: "nat \<Rightarrow> 's \<Rightarrow> bool \<times> 's"
  ChanClose :: "nat \<Rightarrow> 's \<Rightarrow> go_err option \<times> 's"
  ExchangeDeclare :: "nat \<Rightarrow> string \<Rightarrow> string \<Rightarrow> ExchangeConfig \<Rightarrow> 's \<Rightarrow> go_err option \<times> 's"
  QueueDeclare :: "nat \<Rightarrow> QueueConfig \<Rightarrow> ('s, string) call"
  QueueBind :: "nat \<Rightarrow> string \<Rightarrow> string \<Rightarrow> string \<Rightarrow> bool \<Rightarrow> 's \<Rightarrow> go_err option \<times> 's"
  PublishWithContext ::
    "nat \<Rightarrow> string \<Rightarrow> string \<Rightarrow> bool \<Rightarrow> bool \<Rightarrow> publishing \<Rightarrow> 's \<Rightarrow> go_err option \<times> 's"
  ConsumeWithContext :: "nat \<Rightarrow> string \<Rightarrow> ConsumeConfig \<Rightarrow> ('s, delivery list) call"
  SleepFor :: "int \<Rightarrow> 's \<Rightarrow> 's"
  WallClock :: "'s \<Rightarrow> go_time \<times> 's"
  Marshal :: "proto_message \<Rightarrow> go_err + 8 word list"
  TraceHeaders :: "'s \<Rightarrow> (string \<times> string) list option"

section \<open>rabbitmq_connection.go\<close>

definition rabbitDialAttempts :: nat where
  "rabbitDialAttempts = 5"

definition rabbitDialBackoff :: int where
  "rabbitDialBackoff = 2 * 1000000000"

record rabbit_conn =
  RC_conn :: "nat option"
  RC_cfg :: RabbitMqConfig
  RC_closed :: bool

text \<open>The attempts that are left, and the last error; there is no pause after the last attempt.\<close>

fun dial_attempts ::
  "'s amqp_lib \<Rightarrow> amqp_uri \<Rightarrow> nat \<Rightarrow> go_err option \<Rightarrow> 's \<Rightarrow> (go_err option + nat) \<times> 's" where
  "dial_attempts lib uri 0 lastErr s = (Inl lastErr, s)"
| "dial_attempts lib uri (Suc left) lastErr s =
     (case Dial lib uri s of
        (Inr conn, s1) \<Rightarrow> (Inr conn, s1)
      | (Inl err, s1) \<Rightarrow>
          dial_attempts lib uri left (Some err)
            (if left > 0 then SleepFor lib rabbitDialBackoff s1 else s1))"

definition rabbit_uri :: "RabbitMqConfig \<Rightarrow> amqp_uri" where
  "rabbit_uri cfg = \<lparr>
     URI_Scheme = ''amqp'',
     URI_Username = Rabbit_Username cfg,
     URI_Password = Rabbit_Password cfg,
     URI_Host = Rabbit_Host cfg,
     URI_Port = Rabbit_Port cfg\<rparr>"

definition connection_closed_err :: go_err where
  "connection_closed_err = PlainErr ''rabbitmq connection closed''"

text \<open>\<open>%w\<close> of a nil error prints \<open>%!w(<nil>)\<close>; it needs zero attempts.\<close>

definition dial_failed_err :: "go_err option \<Rightarrow> go_err" where
  "dial_failed_err lastErr =
    (let pre = ''dial rabbitmq after '' @ itoa rabbitDialAttempts @ '' attempts: '' in
     case lastErr of None \<Rightarrow> PlainErr (pre @ ''%!w(<nil>)'') | Some e \<Rightarrow> WrapErr pre e)"

definition reconnectLocked ::
  "'s amqp_lib \<Rightarrow> rabbit_conn \<Rightarrow> 's \<Rightarrow> (go_err option \<times> rabbit_conn) \<times> 's" where
  "reconnectLocked lib c s =
    (if RC_closed c then ((Some connection_closed_err, c), s)
     else
      (case dial_attempts lib (rabbit_uri (RC_cfg c)) rabbitDialAttempts None s of
         (Inr conn, s1) \<Rightarrow> ((None, c\<lparr>RC_conn := Some conn\<rparr>), s1)
       | (Inl lastErr, s1) \<Rightarrow> ((Some (dial_failed_err lastErr), c), s1)))"

definition rabbit_config_checks :: "RabbitMqConfig \<Rightarrow> validator" where
  "rabbit_config_checks cfg = chain
    [NotBlank ''rabbitmq.username'' (Rabbit_Username cfg),
     NotBlank ''rabbitmq.password'' (Rabbit_Password cfg),
     NotBlank ''rabbitmq.host'' (Rabbit_Host cfg),
     PositiveValue ''rabbitmq.port'' (int64 (Rabbit_Port cfg))]"

definition NewRabbitMqConnection :: "'s amqp_lib \<Rightarrow> RabbitMqConfig \<Rightarrow> ('s, rabbit_conn) call" where
  "NewRabbitMqConnection lib cfg s =
    (case Validate (rabbit_config_checks cfg) of
       Some err \<Rightarrow> (Inl err, s)
     | None \<Rightarrow>
      (case reconnectLocked lib \<lparr>RC_conn = None, RC_cfg = cfg, RC_closed = False\<rparr> s of
         ((Some err, c), s1) \<Rightarrow> (Inl err, s1)
       | ((None, c), s1) \<Rightarrow> (Inr c, s1)))"

definition IsConnectionOpen :: "'s amqp_lib \<Rightarrow> rabbit_conn \<Rightarrow> 's \<Rightarrow> bool \<times> 's" where
  "IsConnectionOpen lib c s =
    (case RC_conn c of
       None \<Rightarrow> (False, s)
     | Some h \<Rightarrow> (let (cl, s1) = ConnIsClosed lib h s in (\<not> cl, s1)))"

definition CloseConnection ::
  "'s amqp_lib \<Rightarrow> rabbit_conn \<Rightarrow> 's \<Rightarrow> (go_err option \<times> rabbit_conn) \<times> 's" where
  "CloseConnection lib c s =
    (let c1 = c\<lparr>RC_closed := True\<rparr> in
     case RC_conn c of
       None \<Rightarrow> ((None, c1), s)
     | Some h \<Rightarrow>
        (let (cl, s1) = ConnIsClosed lib h s in
         if cl then ((None, c1), s1)
         else (let (e, s2) = ConnClose lib h s1 in ((e, c1), s2))))"

text \<open>The handle that is returned is never nil: it is read after it was checked or set.\<close>

definition openConnection ::
  "'s amqp_lib \<Rightarrow> rabbit_conn \<Rightarrow> 's \<Rightarrow> ((go_err + nat) \<times> rabbit_conn) \<times> 's" where
  "openConnection lib c s =
    (if RC_closed c then ((Inl connection_closed_err, c), s)
     else
      (let reconnect = (\<lambda>s1.
             case reconnectLocked lib c s1 of
               ((Some err, c1), s2) \<Rightarrow> ((Inl err, c1), s2)
             | ((None, c1), s2) \<Rightarrow> ((Inr (the (RC_conn c1)), c1), s2))
       in case RC_conn c of
            None \<Rightarrow> reconnect s
          | Some h \<Rightarrow>
             (let (cl, s1) = ConnIsClosed lib h s in
              if cl then reconnect s1 else ((Inr h, c), s1))))"

section \<open>rabbitmq_channel.go\<close>

text \<open>A channel object is the shared connection and the handle of the open channel, if any.\<close>

definition NewRabbitMqChannel ::
  "rabbit_conn option \<Rightarrow> go_err + (rabbit_conn \<times> nat option)" where
  "NewRabbitMqChannel conn =
    (case Validate (chain [NotNil ''rabbitmq_connection'' (ptr conn)]) of
       Some err \<Rightarrow> Inl err
     | None \<Rightarrow> Inr (the conn, None))"

definition openChannel ::
  "'s amqp_lib \<Rightarrow> rabbit_conn \<Rightarrow> 's \<Rightarrow> ((go_err + nat) \<times> rabbit_conn) \<times> 's" where
  "openChannel lib c s =
    (case openConnection lib c s of
       ((Inl err, c1), s1) \<Rightarrow> ((Inl err, c1), s1)
     | ((Inr conn, c1), s1) \<Rightarrow>
      (case ConnChannel lib conn s1 of
         (Inr ch, s2) \<Rightarrow> ((Inr ch, c1), s2)
       | (Inl err, s2) \<Rightarrow>
        (let (cl, s3) = ConnIsClosed lib conn s2 in
         if \<not> cl then ((Inl err, c1), s3)
         else
          (case openConnection lib c1 s3 of
             ((Inl openErr, c2), s4) \<Rightarrow> ((Inl openErr, c2), s4)
           | ((Inr conn2, c2), s4) \<Rightarrow>
            (case ConnChannel lib conn2 s4 of
               (Inl err2, s5) \<Rightarrow> ((Inl err2, c2), s5)
             | (Inr ch, s5) \<Rightarrow> ((Inr ch, c2), s5))))))"

definition reopenChannel ::
  "'s amqp_lib \<Rightarrow> rabbit_conn \<Rightarrow> 's \<Rightarrow> ((go_err + nat) \<times> rabbit_conn) \<times> 's" where
  "reopenChannel lib c s =
    (case openChannel lib c s of
       ((Inl err, c1), s1) \<Rightarrow>
         ((Inl (MqUnexpectedErr ''unexpected error when reopening channel'' (Some err)), c1), s1)
     | ((Inr ch, c1), s1) \<Rightarrow> ((Inr ch, c1), s1))"

definition CloseChannel_impl :: "'s amqp_lib \<Rightarrow> nat option \<Rightarrow> 's \<Rightarrow> go_err option \<times> 's" where
  "CloseChannel_impl lib channel s =
    (case channel of
       None \<Rightarrow> (None, s)
     | Some ch \<Rightarrow>
        (let (cl, s1) = ChanIsClosed lib ch s in
         if cl then (None, s1) else ChanClose lib ch s1))"

text \<open>
  The check the operations start with, \<open>channel == nil || channel.IsClosed()\<close>, and reopening: the
  handle to use, or the error.
\<close>

definition ensure_channel ::
  "'s amqp_lib \<Rightarrow> nat option \<Rightarrow> rabbit_conn \<Rightarrow> 's \<Rightarrow> ((go_err + nat) \<times> rabbit_conn) \<times> 's" where
  "ensure_channel lib channel c s =
    (case channel of
       None \<Rightarrow> reopenChannel lib c s
     | Some ch \<Rightarrow>
        (let (cl, s1) = ChanIsClosed lib ch s in
         if cl then reopenChannel lib c s1 else ((Inr ch, c), s1)))"

section \<open>rabbitmq_producer.go\<close>

record rabbit_producer =
  RP_channel :: "nat option"
  RP_exchangeName :: string
  RP_exchangeKind :: string
  RP_publishConfig :: PublishConfig

definition NewRabbitmqProducer ::
  "'s amqp_lib \<Rightarrow> rabbit_conn option \<Rightarrow> PublishConfig \<Rightarrow> 's \<Rightarrow>
     ((go_err + rabbit_producer) \<times> rabbit_conn option) \<times> 's" where
  "NewRabbitmqProducer lib conn publishConfig s =
    (case NewRabbitMqChannel conn of
       Inl err \<Rightarrow> ((Inl err, conn), s)
     | Inr (c, _) \<Rightarrow>
      (case openChannel lib c s of
         ((Inl err, c1), s1) \<Rightarrow> ((Inl err, Some c1), s1)
       | ((Inr ch, c1), s1) \<Rightarrow> ((Inr \<lparr>
           RP_channel = Some ch, RP_exchangeName = [], RP_exchangeKind = [],
           RP_publishConfig = publishConfig\<rparr>, Some c1), s1)))"

definition DeclareExchange_impl ::
  "'s amqp_lib \<Rightarrow> ExchangeConfig \<Rightarrow> (rabbit_conn \<times> rabbit_producer) \<times> 's \<Rightarrow>
     (go_err + unit) \<times> (rabbit_conn \<times> rabbit_producer) \<times> 's" where
  "DeclareExchange_impl lib cfg st =
    (case st of ((c, p), s) \<Rightarrow>
      (let p1 = p\<lparr>RP_exchangeName := Exchange_Name cfg,
             RP_exchangeKind := (if Exchange_Kind cfg = [] then ''direct'' else Exchange_Kind cfg)\<rparr> in
       case ensure_channel lib (RP_channel p1) c s of
         ((Inl err, c1), s1) \<Rightarrow> (Inl err, (c1, p1), s1)
       | ((Inr ch, c1), s1) \<Rightarrow>
        (let p2 = p1\<lparr>RP_channel := Some ch\<rparr> in
         case ExchangeDeclare lib ch (RP_exchangeName p2) (RP_exchangeKind p2) cfg s1 of
           (Some err, s2) \<Rightarrow> (Inl (WrapErr
               (''declare exchange '' @ go_quote (Exchange_Name cfg) @ '': '') err), (c1, p2), s2)
         | (None, s2) \<Rightarrow> (Inr (), (c1, p2), s2))))"

text \<open>The full name of a message's type.\<close>

fun full_name :: "proto_message \<Rightarrow> string" where
  "full_name (PaymentRequestMsg _) = ''paymentSimulator.payment.v1.PaymentRequest''"
| "full_name (PaymentConfirmationMsg _) = ''paymentSimulator.payment.v1.PaymentConfirmation''"

text \<open>\<open>amqp.Persistent\<close>.\<close>

definition Persistent :: "8 word" where
  "Persistent = 2"

definition Publish_impl ::
  "'s amqp_lib \<Rightarrow> proto_message \<Rightarrow> string \<Rightarrow> (rabbit_conn \<times> rabbit_producer) \<times> 's \<Rightarrow>
     (go_err + unit) \<times> (rabbit_conn \<times> rabbit_producer) \<times> 's" where
  "Publish_impl lib message routingKey st =
    (case st of ((c, p), s) \<Rightarrow>
      (case ensure_channel lib (RP_channel p) c s of
         ((Inl err, c1), s1) \<Rightarrow> (Inl err, (c1, p), s1)
       | ((Inr ch, c1), s1) \<Rightarrow>
        (let p1 = p\<lparr>RP_channel := Some ch\<rparr> in
         case Marshal lib message of
           Inl err \<Rightarrow>
             (Inl (MqUnexpectedErr ''failed to marshal protobuf message'' (Some err)), (c1, p1), s1)
         | Inr payload \<Rightarrow>
          (let headers = [''message_type'' \<mapsto> full_name message] ++
                 map_of (case TraceHeaders lib s1 of None \<Rightarrow> [] | Some carrier \<Rightarrow> carrier);
               (now, s2) = WallClock lib s1 in
           case PublishWithContext lib ch (RP_exchangeName p1) routingKey
                  (Publish_Mandatory (RP_publishConfig p1)) (Publish_Immediate (RP_publishConfig p1))
                  \<lparr>PB_ContentType = ''application/protobuf'', PB_Body = payload,
                   PB_DeliveryMode = Persistent, PB_Headers = headers, PB_Timestamp = now\<rparr> s2 of
             (Some err, s3) \<Rightarrow>
               (Inl (MqUnexpectedErr ''failed to publish protobuf message'' (Some err)), (c1, p1), s3)
           | (None, s3) \<Rightarrow> (Inr (), (c1, p1), s3)))))"

text \<open>The producer as a port: its state is the shared connection and the producer itself.\<close>

definition CloseProducer_impl ::
  "'s amqp_lib \<Rightarrow> (rabbit_conn \<times> rabbit_producer) \<times> 's \<Rightarrow>
     (go_err + unit) \<times> (rabbit_conn \<times> rabbit_producer) \<times> 's" where
  "CloseProducer_impl lib st =
    (case st of ((c, p), s) \<Rightarrow>
      (case CloseChannel_impl lib (RP_channel p) s of
         (Some err, s1) \<Rightarrow> (Inl err, (c, p), s1)
       | (None, s1) \<Rightarrow> (Inr (), (c, p), s1)))"

definition rabbit_mq_producer ::
  "'s amqp_lib \<Rightarrow> ((rabbit_conn \<times> rabbit_producer) \<times> 's) mq_producer" where
  "rabbit_mq_producer lib = \<lparr>
     DeclareExchange = DeclareExchange_impl lib,
     Publish = Publish_impl lib,
     CloseProducer = CloseProducer_impl lib\<rparr>"

section \<open>rabbitmq_consumer.go\<close>

record rabbit_consumer =
  CN_channel :: "nat option"
  CN_queue :: "string option"
  CN_consumeConfig :: ConsumeConfig

definition NewRabbitmqConsumer ::
  "'s amqp_lib \<Rightarrow> rabbit_conn option \<Rightarrow> ConsumeConfig \<Rightarrow> 's \<Rightarrow>
     ((go_err + rabbit_consumer) \<times> rabbit_conn option) \<times> 's" where
  "NewRabbitmqConsumer lib conn consumeConfig s =
    (case NewRabbitMqChannel conn of
       Inl err \<Rightarrow> ((Inl err, conn), s)
     | Inr (c, _) \<Rightarrow>
      (case openChannel lib c s of
         ((Inl err, c1), s1) \<Rightarrow> ((Inl err, Some c1), s1)
       | ((Inr ch, c1), s1) \<Rightarrow> ((Inr \<lparr>
           CN_channel = Some ch, CN_queue = None, CN_consumeConfig = consumeConfig\<rparr>, Some c1), s1)))"

definition DeclareQueue_impl ::
  "'s amqp_lib \<Rightarrow> QueueConfig \<Rightarrow> (rabbit_conn \<times> rabbit_consumer) \<times> 's \<Rightarrow>
     (go_err + unit) \<times> (rabbit_conn \<times> rabbit_consumer) \<times> 's" where
  "DeclareQueue_impl lib cfg st =
    (case st of ((c, n), s) \<Rightarrow>
      (case ensure_channel lib (CN_channel n) c s of
         ((Inl err, c1), s1) \<Rightarrow> (Inl err, (c1, n), s1)
       | ((Inr ch, c1), s1) \<Rightarrow>
        (let n1 = n\<lparr>CN_channel := Some ch\<rparr> in
         case QueueDeclare lib ch cfg s1 of
           (Inl err, s2) \<Rightarrow> (Inl (WrapErr
               (''declare queue '' @ go_quote (Queue_Name cfg) @ '': '') err), (c1, n1), s2)
         | (Inr q, s2) \<Rightarrow> (Inr (), (c1, n1\<lparr>CN_queue := Some q\<rparr>), s2))))"

definition BindQueue_impl ::
  "'s amqp_lib \<Rightarrow> BindingConfig \<Rightarrow> (rabbit_conn \<times> rabbit_consumer) \<times> 's \<Rightarrow>
     (go_err + unit) \<times> (rabbit_conn \<times> rabbit_consumer) \<times> 's" where
  "BindQueue_impl lib cfg st =
    (case st of ((c, n), s) \<Rightarrow>
      (case ensure_channel lib (CN_channel n) c s of
         ((Inl err, c1), s1) \<Rightarrow> (Inl err, (c1, n), s1)
       | ((Inr ch, c1), s1) \<Rightarrow>
        (let n1 = n\<lparr>CN_channel := Some ch\<rparr> in
         case CN_queue n1 of
           None \<Rightarrow> (Inl (PlainErr ''queue not declared''), (c1, n1), s1)
         | Some queueName \<Rightarrow>
          if Binding_ExchangeName cfg = []
          then (Inl (PlainErr ''exchange name is required''), (c1, n1), s1)
          else
           (case QueueBind lib ch queueName (Binding_RoutingKey cfg) (Binding_ExchangeName cfg)
                   (Binding_NoWait cfg) s1 of
              (Some err, s2) \<Rightarrow> (Inl (WrapErr
                  (''bind queue '' @ go_quote queueName @ '' to exchange '' @
                   go_quote (Binding_ExchangeName cfg) @ '' with routing key '' @
                   go_quote (Binding_RoutingKey cfg) @ '': '') err), (c1, n1), s2)
            | (None, s2) \<Rightarrow> (Inr (), (c1, n1), s2)))))"

text \<open>Only a nil channel is reopened here, and the queue's name is read without a nil check.\<close>

definition Consume_impl ::
  "'s amqp_lib \<Rightarrow> (rabbit_conn \<times> rabbit_consumer) \<times> 's \<Rightarrow>
     (go_err, delivery list) outcome \<times> (rabbit_conn \<times> rabbit_consumer) \<times> 's" where
  "Consume_impl lib st =
    (case st of ((c, n), s) \<Rightarrow>
      (case (case CN_channel n of
               None \<Rightarrow> reopenChannel lib c s
             | Some ch \<Rightarrow> ((Inr ch, c), s)) of
         ((Inl err, c1), s1) \<Rightarrow> (Failed err, (c1, n), s1)
       | ((Inr ch, c1), s1) \<Rightarrow>
        (let n1 = n\<lparr>CN_channel := Some ch\<rparr> in
         case CN_queue n1 of
           None \<Rightarrow> (Panicked ''runtime error: invalid memory address or nil pointer dereference'',
             (c1, n1), s1)
         | Some queueName \<Rightarrow>
          (case ConsumeWithContext lib ch queueName (CN_consumeConfig n1) s1 of
             (Inl err, s2) \<Rightarrow> (Failed (MqUnexpectedErr
                 (''start consuming queue '' @ go_quote queueName) (Some err)), (c1, n1), s2)
           | (Inr deliveries, s2) \<Rightarrow> (Returned deliveries, (c1, n1), s2)))))"

text \<open>The consumer as a port.\<close>

text \<open>
  The port's \<open>Consume\<close> has no panic; a program that started has its queue declared, so
  this branch is never taken.
\<close>

definition consume_call ::
  "'w amqp_lib \<Rightarrow> (rabbit_conn \<times> rabbit_consumer) \<times> 'w \<Rightarrow>
     (go_err + delivery list) \<times> (rabbit_conn \<times> rabbit_consumer) \<times> 'w" where
  "consume_call lib st =
    (case Consume_impl lib st of
       (Returned dlvs, st1) \<Rightarrow> (Inr dlvs, st1)
     | (Failed err, st1) \<Rightarrow> (Inl err, st1)
     | (Panicked m, st1) \<Rightarrow> (Inl (PlainErr m), st1))"

definition CloseConsumer_impl ::
  "'w amqp_lib \<Rightarrow> (rabbit_conn \<times> rabbit_consumer) \<times> 'w \<Rightarrow>
     (go_err + unit) \<times> (rabbit_conn \<times> rabbit_consumer) \<times> 'w" where
  "CloseConsumer_impl lib st =
    (case st of ((c, n), s) \<Rightarrow>
      (case CloseChannel_impl lib (CN_channel n) s of
         (Some err, s1) \<Rightarrow> (Inl err, (c, n), s1)
       | (None, s1) \<Rightarrow> (Inr (), (c, n), s1)))"

definition rabbit_mq_consumer ::
  "'s amqp_lib \<Rightarrow> ((rabbit_conn \<times> rabbit_consumer) \<times> 's) mq_consumer" where
  "rabbit_mq_consumer lib = \<lparr>
     DeclareQueue = DeclareQueue_impl lib,
     BindQueue = BindQueue_impl lib,
     Consume = consume_call lib,
     CloseConsumer = CloseConsumer_impl lib\<rparr>"

end
