(* ===== verification/Broker.thy ===== *)
theory Broker
  imports RabbitMq
begin

text \<open>
  What the amqp091 client promises to internal/infra/mq, as a log of what was asked of the broker,
  and what the connection, the channel and the producer make of it. \<open>ref_amqp\<close> is an executable
  client on which the promises hold.
\<close>

section \<open>The log of the client\<close>

datatype amqp_event =
    is_Dialled: Dialled amqp_uri
  | is_Slept: Slept int
  | is_ChannelAsked: ChannelAsked nat
  | is_PublishedTo: PublishedTo string string publishing

text \<open>The events of a stretch that opens connections and channels and publishes nothing.\<close>

definition effort :: "nat \<Rightarrow> nat \<Rightarrow> nat \<Rightarrow> amqp_event list \<Rightarrow> bool" where
  "effort d p c evs \<longleftrightarrow>
     length (filter is_Dialled evs) \<le> d \<and> length (filter is_Slept evs) \<le> p \<and>
     length (filter is_ChannelAsked evs) \<le> c \<and> filter is_PublishedTo evs = []"

lemma effort_Nil [simp]: "effort d p c []"
  by (simp add: effort_def)

lemma effort_mono: "effort d p c evs \<Longrightarrow> d \<le> d' \<Longrightarrow> p \<le> p' \<Longrightarrow> c \<le> c' \<Longrightarrow> effort d' p' c' evs"
  by (simp add: effort_def)

lemma effort_append:
  "effort d p c xs \<Longrightarrow> effort d' p' c' ys \<Longrightarrow> effort (d + d') (p + p') (c + c') (xs @ ys)"
  by (simp add: effort_def)

text \<open>\<open>n\<close> dials that fail, each with the pause after it.\<close>

definition failed_dials :: "amqp_uri \<Rightarrow> nat \<Rightarrow> amqp_event list" where
  "failed_dials uri n = concat (replicate n [Dialled uri, Slept rabbitDialBackoff])"

lemma failed_dials_0 [simp]: "failed_dials uri 0 = []"
  by (simp add: failed_dials_def)

lemma failed_dials_Suc [simp]:
  "failed_dials uri (Suc n) = Dialled uri # Slept rabbitDialBackoff # failed_dials uri n"
  by (simp add: failed_dials_def)

lemma effort_failed_dials: "effort (Suc n) n 0 (failed_dials uri n @ [Dialled uri])"
  by (induction n) (simp_all add: effort_def)

text \<open>The messages that were published, with their routing keys.\<close>

fun event_messages ::
  "(publishing \<Rightarrow> proto_message option) \<Rightarrow> amqp_event \<Rightarrow> (proto_message \<times> string) list" where
  "event_messages dec (PublishedTo ex key pub) =
     (case dec pub of None \<Rightarrow> [] | Some m \<Rightarrow> [(m, key)])"
| "event_messages dec _ = []"

definition messages ::
  "(publishing \<Rightarrow> proto_message option) \<Rightarrow> amqp_event list \<Rightarrow> (proto_message \<times> string) list" where
  "messages dec evs = concat (map (event_messages dec) evs)"

lemma messages_append [simp]: "messages dec (xs @ ys) = messages dec xs @ messages dec ys"
  by (simp add: messages_def)

lemma messages_effort:
  assumes "effort d p c evs"
  shows "messages dec evs = []"
proof -
  have "event_messages dec x = []" if "\<not> is_PublishedTo x" for x
    using that by (cases x) simp_all
  with assms show ?thesis by (simp add: effort_def messages_def filter_empty_conv)
qed

section \<open>What the client promises\<close>

locale amqp_client =
  fixes lib :: "'s amqp_lib"
    and events :: "'s \<Rightarrow> amqp_event list"
    and brest :: "'s \<Rightarrow> 'r"
    and decode :: "publishing \<Rightarrow> proto_message option"
  assumes dial_logged:
      "Dial lib uri s = (rd, s') \<Longrightarrow> events s' = events s @ [Dialled uri] \<and> brest s' = brest s"
    and dial_error: "Dial lib uri s = (Inl e, s') \<Longrightarrow> \<not> is_a T e"
    and sleep_logged:
      "events (SleepFor lib t s) = events s @ [Slept t] \<and> brest (SleepFor lib t s) = brest s"
    and conn_closed_quiet:
      "ConnIsClosed lib h s = (b, s') \<Longrightarrow> events s' = events s \<and> brest s' = brest s"
    and chan_closed_quiet:
      "ChanIsClosed lib h s = (b, s') \<Longrightarrow> events s' = events s \<and> brest s' = brest s"
    and channel_logged:
      "ConnChannel lib h s = (rd, s') \<Longrightarrow>
         events s' = events s @ [ChannelAsked h] \<and> brest s' = brest s"
    and channel_error: "ConnChannel lib h s = (Inl e, s') \<Longrightarrow> \<not> is_a T e"
    and clock_quiet: "WallClock lib s = (t, s') \<Longrightarrow> events s' = events s \<and> brest s' = brest s"
    and publish_rest:
      "PublishWithContext lib h ex key mand imm pub s = (re, s') \<Longrightarrow> brest s' = brest s"
    and publish_accepted:
      "PublishWithContext lib h ex key mand imm pub s = (None, s') \<Longrightarrow>
         events s' = events s @ [PublishedTo ex key pub]"
    and publish_refused:
      "PublishWithContext lib h ex key mand imm pub s = (Some e, s') \<Longrightarrow>
         events s' = events s \<or> events s' = events s @ [PublishedTo ex key pub]"
    and publish_error:
      "PublishWithContext lib h ex key mand imm pub s = (Some e, s') \<Longrightarrow> \<not> is_a T e"
    and consume_quiet:
      "ConsumeWithContext lib h q cfg s = (rc, s') \<Longrightarrow> events s' = events s \<and> brest s' = brest s"
    and marshal_error: "Marshal lib m = Inl e \<Longrightarrow> \<not> is_a T e"
    and carrier_keys:
      "TraceHeaders lib s = Some carrier \<Longrightarrow> ''message_type'' \<notin> fst ` set carrier"
    and decode_marshal:
      "Marshal lib m = Inr (PB_Body pub) \<Longrightarrow> PB_Headers pub ''message_type'' = Some (full_name m) \<Longrightarrow>
         decode pub = Some m"
begin

text \<open>A stretch of the log that opens connections and channels, within bounds.\<close>

definition spent :: "nat \<Rightarrow> nat \<Rightarrow> nat \<Rightarrow> 's \<Rightarrow> 's \<Rightarrow> bool" where
  "spent d p c s s' \<longleftrightarrow>
     brest s' = brest s \<and> (\<exists>evs. events s' = events s @ evs \<and> effort d p c evs)"

lemma spent_refl [simp]: "spent d p c s s"
  by (simp add: spent_def)

lemma spent_quiet: "events s' = events s \<and> brest s' = brest s \<Longrightarrow> spent d p c s s'"
  by (simp add: spent_def)

lemma spent_mono: "spent d p c s s' \<Longrightarrow> d \<le> d' \<Longrightarrow> p \<le> p' \<Longrightarrow> c \<le> c' \<Longrightarrow> spent d' p' c' s s'"
  unfolding spent_def using effort_mono by blast

lemma spent_trans:
  assumes "spent d p c s s1" and "spent d' p' c' s1 s2"
  shows "spent (d + d') (p + p') (c + c') s s2"
proof -
  from assms obtain xs ys where "events s1 = events s @ xs" "effort d p c xs"
    "events s2 = events s1 @ ys" "effort d' p' c' ys" "brest s2 = brest s"
    by (auto simp: spent_def)
  then show ?thesis using effort_append by (auto simp: spent_def)
qed

lemma spent_channel: "ConnChannel lib h s = (r, s') \<Longrightarrow> spent 0 0 1 s s'"
  using channel_logged[of h s r s'] by (auto simp: spent_def effort_def)

lemma spent_messages:
  "spent d p c s s' \<Longrightarrow> messages decode (events s') = messages decode (events s)"
  by (auto simp: spent_def messages_effort)

section \<open>Dialling\<close>

lemma dial_attempts_trace:
  assumes "dial_attempts lib uri left lastErr s = (r, s')" and "left > 0"
  shows "brest s' = brest s \<and>
    (case r of
       Inr h \<Rightarrow> \<exists>k<left. events s' = events s @ failed_dials uri k @ [Dialled uri]
     | Inl e \<Rightarrow> events s' = events s @ failed_dials uri (left - 1) @ [Dialled uri] \<and>
         (\<exists>x. e = Some x \<and> (\<forall>T. \<not> is_a T x)))"
  using assms
proof (induction left arbitrary: lastErr s)
  case (Suc left)
  obtain d s1 where d: "Dial lib uri s = (d, s1)" by (cases "Dial lib uri s")
  note logged = dial_logged[OF d]
  show ?case
  proof (cases d)
    case (Inr h)
    with d Suc.prems logged show ?thesis by (auto intro!: exI[of _ 0])
  next
    case (Inl e)
    have e: "\<forall>T. \<not> is_a T e" using d Inl dial_error by blast
    show ?thesis
    proof (cases "left = 0")
      case True
      with d Inl Suc.prems logged e show ?thesis by auto
    next
      case False
      then obtain left' where left: "left = Suc left'" by (cases left) auto
      have "dial_attempts lib uri left (Some e) (SleepFor lib rabbitDialBackoff s1) = (r, s')"
        using d Inl Suc.prems False by simp
      from Suc.IH[OF this] False have IH: "brest s' = brest s \<and>
        (case r of
           Inr h \<Rightarrow> \<exists>k<left. events s' = events s @ failed_dials uri (Suc k) @ [Dialled uri]
         | Inl e \<Rightarrow> events s' = events s @ failed_dials uri left @ [Dialled uri] \<and>
             (\<exists>x. e = Some x \<and> (\<forall>T. \<not> is_a T x)))"
        using logged sleep_logged[of rabbitDialBackoff s1] left
        by (cases r) (simp_all add: left)
      then show ?thesis
        by (cases r) (fastforce simp del: failed_dials_Suc)+
    qed
  qed
qed simp

lemma reconnectLocked_trace:
  assumes "reconnectLocked lib c s = ((r, c'), s')" and "\<not> RC_closed c"
  shows "brest s' = brest s \<and>
    (case r of
       None \<Rightarrow> (\<exists>k<rabbitDialAttempts. events s' =
           events s @ failed_dials (rabbit_uri (RC_cfg c)) k @ [Dialled (rabbit_uri (RC_cfg c))]) \<and>
         (\<exists>h. c' = c\<lparr>RC_conn := Some h\<rparr>)
     | Some e \<Rightarrow> events s' = events s @
           failed_dials (rabbit_uri (RC_cfg c)) (rabbitDialAttempts - 1) @
           [Dialled (rabbit_uri (RC_cfg c))] \<and> c' = c \<and> (\<forall>T. \<not> is_a T e))"
proof -
  have pos: "rabbitDialAttempts > 0" by (simp add: rabbitDialAttempts_def)
  obtain q s1 where q: "dial_attempts lib (rabbit_uri (RC_cfg c)) rabbitDialAttempts None s = (q, s1)"
    by (cases "dial_attempts lib (rabbit_uri (RC_cfg c)) rabbitDialAttempts None s")
  from dial_attempts_trace[OF q pos] assms q show ?thesis
    by (cases q) (auto simp: reconnectLocked_def dial_failed_err_def error_simps)
qed

lemma reconnectLocked_spent:
  assumes "reconnectLocked lib c s = ((r, c'), s')"
  shows "spent 5 4 0 s s'"
proof (cases "RC_closed c")
  case True
  with assms show ?thesis by (simp add: reconnectLocked_def)
next
  case False
  obtain k where "k < rabbitDialAttempts" "brest s' = brest s" "events s' =
      events s @ failed_dials (rabbit_uri (RC_cfg c)) k @ [Dialled (rabbit_uri (RC_cfg c))]"
  proof (cases r)
    case None
    with reconnectLocked_trace[OF assms False] that show thesis by auto
  next
    case (Some e)
    with reconnectLocked_trace[OF assms False] that[of "rabbitDialAttempts - 1"]
    show thesis by (simp add: rabbitDialAttempts_def)
  qed
  moreover from this(1) have "effort 5 4 0
      (failed_dials (rabbit_uri (RC_cfg c)) k @ [Dialled (rabbit_uri (RC_cfg c))])"
    by (intro effort_mono[OF effort_failed_dials]) (simp_all add: rabbitDialAttempts_def)
  ultimately show ?thesis by (auto simp: spent_def)
qed

lemma reconnectLocked_error:
  assumes "reconnectLocked lib c s = ((Some e, c'), s')"
  shows "\<not> is_a T e"
proof (cases "RC_closed c")
  case True
  with assms show ?thesis
    by (auto simp: reconnectLocked_def connection_closed_err_def error_simps)
next
  case False
  from reconnectLocked_trace[OF assms this] show ?thesis by simp
qed

text \<open>An open connection costs nothing; otherwise at most one round of dialling.\<close>

lemma openConnection_spent:
  assumes "openConnection lib c s = ((r, c'), s')"
  shows "spent 5 4 0 s s'"
proof -
  have quiet: "spent 0 0 0 s s1" if "ConnIsClosed lib h s = (b, s1)" for h b s1
    using conn_closed_quiet[OF that] by (rule spent_quiet)
  have re: "spent 5 4 0 s1 s2" if "reconnectLocked lib c s1 = (x, s2)" for x s1 s2
    using that reconnectLocked_spent by (cases x) auto
  have both: "spent 5 4 0 s s2" if "ConnIsClosed lib h s = (b, s1)"
    "reconnectLocked lib c s1 = (x, s2)" for h b x s1 s2
    using spent_trans[OF quiet[OF that(1)] re[OF that(2)]] by simp
  have small: "spent 5 4 0 s s1" if "ConnIsClosed lib h s = (b, s1)" for h b s1
    using spent_mono[OF quiet[OF that]] by simp
  show ?thesis using assms re both small
    by (auto simp: openConnection_def Let_def split: if_splits option.splits prod.splits)
qed

lemma openConnection_error:
  assumes "openConnection lib c s = ((Inl e, c'), s')"
  shows "\<not> is_a T e"
  using assms reconnectLocked_error
  by (auto simp: openConnection_def Let_def connection_closed_err_def error_simps
      split: if_splits option.splits prod.splits)

section \<open>Channels\<close>

lemma ConnIsClosed_spent: "ConnIsClosed lib h s = (b, s') \<Longrightarrow> spent 0 0 0 s s'"
  using conn_closed_quiet by (rule spent_quiet)

lemma ChanIsClosed_spent: "ChanIsClosed lib h s = (b, s') \<Longrightarrow> spent 0 0 0 s s'"
  using chan_closed_quiet by (rule spent_quiet)

lemma openChannel_spent:
  assumes "openChannel lib c s = ((r, c'), s')"
  shows "spent 10 8 2 s s'"
proof -
  obtain q c1 s1 where o1: "openConnection lib c s = ((q, c1), s1)"
    by (metis surj_pair)
  note p1 = openConnection_spent[OF o1]
  show ?thesis
  proof (cases q)
    case (Inl e)
    with o1 assms spent_mono[OF p1] show ?thesis by (auto simp: openChannel_def)
  next
    case (Inr conn)
    obtain x s2 where ch: "ConnChannel lib conn s1 = (x, s2)" by (cases "ConnChannel lib conn s1")
    note p2 = spent_trans[OF p1 spent_channel[OF ch], simplified]
    show ?thesis
    proof (cases x)
      case (Inr h)
      with o1 ch \<open>q = Inr conn\<close> assms spent_mono[OF p2] show ?thesis by (auto simp: openChannel_def)
    next
      case (Inl e)
      obtain b s3 where cl: "ConnIsClosed lib conn s2 = (b, s3)" by (cases "ConnIsClosed lib conn s2")
      note p3 = spent_trans[OF p2 ConnIsClosed_spent[OF cl], simplified]
      show ?thesis
      proof (cases b)
        case False
        with o1 ch cl Inl \<open>q = Inr conn\<close> assms spent_mono[OF p3] show ?thesis
          by (auto simp: openChannel_def)
      next
        case True
        obtain q2 c2 s4 where o2: "openConnection lib c1 s3 = ((q2, c2), s4)" by (metis surj_pair)
        note p4 = spent_trans[OF p3 openConnection_spent[OF o2], simplified]
        show ?thesis
        proof (cases q2)
          case e2: (Inl e2)
          with o1 ch cl o2 Inl True \<open>q = Inr conn\<close> assms spent_mono[OF p4] show ?thesis
            by (auto simp: openChannel_def)
        next
          case h2: (Inr conn2)
          obtain y s5 where ch2: "ConnChannel lib conn2 s4 = (y, s5)"
            by (cases "ConnChannel lib conn2 s4")
          note p5 = spent_trans[OF p4 spent_channel[OF ch2], simplified]
          from h2 o1 ch cl o2 ch2 Inl True \<open>q = Inr conn\<close> assms have "s' = s5"
            by (cases y) (auto simp: openChannel_def)
          with p5 show ?thesis unfolding numeral_2_eq_2 by blast
        qed
      qed
    qed
  qed
qed

lemma openChannel_error:
  assumes "openChannel lib c s = ((Inl e, c'), s')"
  shows "\<not> is_a T e"
  using assms openConnection_error channel_error
  by (auto simp: openChannel_def Let_def split: sum.splits prod.splits if_splits)

lemma reopenChannel_spent:
  assumes "reopenChannel lib c s = ((r, c'), s')"
  shows "spent 10 8 2 s s'"
  using assms openChannel_spent by (auto simp: reopenChannel_def split: sum.splits prod.splits)

lemma ensure_channel_spent:
  assumes "ensure_channel lib ch c s = ((r, c'), s')"
  shows "spent 10 8 2 s s'"
proof (cases ch)
  case None
  with assms reopenChannel_spent show ?thesis by (simp add: ensure_channel_def)
next
  case (Some h)
  obtain b s1 where cl: "ChanIsClosed lib h s = (b, s1)" by (cases "ChanIsClosed lib h s")
  note q = ChanIsClosed_spent[OF cl]
  show ?thesis
  proof (cases b)
    case True
    with assms Some cl have "reopenChannel lib c s1 = ((r, c'), s')" by (simp add: ensure_channel_def)
    from spent_trans[OF q reopenChannel_spent[OF this]] show ?thesis by (simp only: add_0)
  next
    case False
    with assms Some cl spent_mono[OF q] show ?thesis by (auto simp: ensure_channel_def)
  qed
qed

lemma ensure_channel_error:
  assumes "ensure_channel lib ch c s = ((Inl e, c'), s')"
  shows "is_a T e \<longleftrightarrow> T = TMqUnexpected"
  using assms openChannel_error
  by (auto simp: ensure_channel_def reopenChannel_def Let_def error_simps
      split: sum.splits prod.splits option.splits if_splits)

section \<open>Publishing\<close>

definition publishing_of :: "proto_message \<Rightarrow> publishing \<Rightarrow> bool" where
  "publishing_of m pub \<longleftrightarrow>
     Marshal lib m = Inr (PB_Body pub) \<and> PB_ContentType pub = ''application/protobuf'' \<and>
     PB_DeliveryMode pub = Persistent \<and> PB_Headers pub ''message_type'' = Some (full_name m)"

lemma publishing_of_decode: "publishing_of m pub \<Longrightarrow> decode pub = Some m"
  using decode_marshal by (simp add: publishing_of_def)

lemma Publish_trace:
  assumes "Publish_impl lib m k ((c, p), s) = (r, ((c', p'), s'))"
  shows "brest s' = brest s \<and> RP_exchangeName p' = RP_exchangeName p \<and>
    (\<exists>evs. effort 10 8 2 evs \<and>
      (case r of
         Inr u \<Rightarrow> \<exists>pub. publishing_of m pub \<and>
           events s' = events s @ evs @ [PublishedTo (RP_exchangeName p) k pub]
       | Inl e \<Rightarrow> (\<forall>T. is_a T e \<longleftrightarrow> T = TMqUnexpected) \<and>
           (events s' = events s @ evs \<or> (\<exists>pub. publishing_of m pub \<and>
              events s' = events s @ evs @ [PublishedTo (RP_exchangeName p) k pub]))))"
proof -
  obtain q c1 s1 where en: "ensure_channel lib (RP_channel p) c s = ((q, c1), s1)"
    by (metis surj_pair)
  from ensure_channel_spent[OF en] obtain evs where
    evs: "effort 10 8 2 evs" "events s1 = events s @ evs" "brest s1 = brest s"
    by (auto simp: spent_def)
  show ?thesis
  proof (cases q)
    case (Inl e)
    with assms en evs ensure_channel_error[of _ c s e c1 s1] show ?thesis
      by (auto simp: Publish_impl_def intro!: exI[of _ evs])
  next
    case (Inr h)
    show ?thesis
    proof (cases "Marshal lib m")
      case e: (Inl e)
      from assms en Inr e evs marshal_error[OF e] show ?thesis
        by (auto simp: Publish_impl_def error_simps intro!: exI[of _ evs])
    next
      case b: (Inr payload)
      obtain now s2 where cl: "WallClock lib s1 = (now, s2)" by (cases "WallClock lib s1")
      define pub where "pub = \<lparr>PB_ContentType = ''application/protobuf'', PB_Body = payload,
        PB_DeliveryMode = Persistent, PB_Headers = [''message_type'' \<mapsto> full_name m] ++
          map_of (case TraceHeaders lib s1 of None \<Rightarrow> [] | Some carrier \<Rightarrow> carrier),
        PB_Timestamp = now\<rparr>"
      obtain x s3 where pw: "PublishWithContext lib h (RP_exchangeName p) k
          (Publish_Mandatory (RP_publishConfig p)) (Publish_Immediate (RP_publishConfig p)) pub s2 =
          (x, s3)" by (metis surj_pair)
      have "map_of (case TraceHeaders lib s1 of None \<Rightarrow> [] | Some carrier \<Rightarrow> carrier)
          ''message_type'' = None"
        by (cases "TraceHeaders lib s1") (simp_all add: map_of_eq_None_iff carrier_keys)
      then have pub: "publishing_of m pub"
        by (simp add: publishing_of_def pub_def b map_add_def)
      have ev2: "events s2 = events s @ evs" "brest s2 = brest s" using clock_quiet[OF cl] evs by auto
      from pw assms en Inr b cl have res: "s' = s3" "c' = c1"
        "p' = p\<lparr>RP_channel := Some h\<rparr>"
        "r = (case x of None \<Rightarrow> Inr () | Some err \<Rightarrow>
           Inl (MqUnexpectedErr ''failed to publish protobuf message'' (Some err)))"
        by (cases x; auto simp: Publish_impl_def pub_def Let_def)+
      show ?thesis
      proof (cases x)
        case None
        with publish_accepted publish_rest[OF pw] pw ev2 res pub evs(1) show ?thesis by auto
      next
        case (Some err)
        with publish_refused publish_error publish_rest[OF pw] pw ev2 res pub evs(1) show ?thesis
          by (fastforce simp: error_simps)
      qed
    qed
  qed
qed

end

text \<open>
  The producer on such a client is a producer as the services rely on it: the log of messages is
  read off the client's log.
\<close>

sublocale amqp_client \<subseteq> rabbit: producer_port "rabbit_mq_producer lib"
  "\<lambda>st. messages decode (events (snd st))" "\<lambda>st. brest (snd st)"
proof
  fix m k r u e and s s' :: "(rabbit_conn \<times> rabbit_producer) \<times> 's"
  have one: "messages decode [PublishedTo ex k pub] = [(m, k)]" if "publishing_of m pub" for ex pub
    using publishing_of_decode[OF that] by (simp add: messages_def)
  obtain c p w c' p' w' where st: "s = ((c, p), w)" "s' = ((c', p'), w')" by (metis surj_pair)
  have eq: "Publish (rabbit_mq_producer lib) = Publish_impl lib"
    by (simp add: rabbit_mq_producer_def)
  note trace = Publish_trace[of m k c p w _ c' p' w']
  show "brest (snd s') = brest (snd s)" if "Publish (rabbit_mq_producer lib) m k s = (r, s')"
    using trace that st eq by simp
  show "messages decode (events (snd s')) = messages decode (events (snd s)) @ [(m, k)]"
    if "Publish (rabbit_mq_producer lib) m k s = (Inr u, s')"
    using trace[of "Inr u"] that st eq one messages_effort by fastforce
  show "messages decode (events (snd s')) = messages decode (events (snd s)) \<or>
      messages decode (events (snd s')) = messages decode (events (snd s)) @ [(m, k)]"
    if "Publish (rabbit_mq_producer lib) m k s = (Inl e, s')"
    using trace[of "Inl e"] that st eq one messages_effort by fastforce
  show "\<not> is_a TValidation e" if "Publish (rabbit_mq_producer lib) m k s = (Inl e, s')"
    using trace[of "Inl e"] that st eq by auto
qed

text \<open>The consumer on such a client starts consuming without sending anything.\<close>

sublocale amqp_client \<subseteq> rabbit_in: consumer_quiet "rabbit_mq_consumer lib"
  "\<lambda>st. (messages decode (events (snd st)), brest (snd st))"
proof
  fix r and s s' :: "(rabbit_conn \<times> rabbit_consumer) \<times> 's"
  assume run: "Consume (rabbit_mq_consumer lib) s = (r, s')"
  obtain c n w where st: "s = ((c, n), w)" by (metis surj_pair)
  obtain q c1 w1 where q: "(case CN_channel n of
      None \<Rightarrow> reopenChannel lib c w | Some ch \<Rightarrow> ((Inr ch, c), w)) = ((q, c1), w1)"
    by (metis surj_pair)
  have "spent 10 8 2 w w1"
    using q reopenChannel_spent by (cases "CN_channel n") auto
  then have same: "messages decode (events w1) = messages decode (events w)" "brest w1 = brest w"
    using messages_effort by (auto simp: spent_def)
  show "(messages decode (events (snd s')), brest (snd s')) =
      (messages decode (events (snd s)), brest (snd s))"
    using run st q same
    by (auto simp: rabbit_mq_consumer_def consume_call_def Consume_impl_def Let_def
        split: sum.splits prod.splits option.splits dest!: consume_quiet)
qed

context amqp_client
begin

text \<open>The promises of the producer, written out over the functions of the code.\<close>

lemma consume_same:
  "Consume (rabbit_mq_consumer lib) st = (r, st') \<Longrightarrow>
     messages decode (events (snd st')) = messages decode (events (snd st)) \<and>
     brest (snd st') = brest (snd st)"
  using rabbit_in.consume_rest by blast

lemma producer_promises:
  assumes "Publish_impl lib m k st = (r, st')"
  shows "brest (snd st') = brest (snd st)"
    "r = Inr u \<Longrightarrow>
       messages decode (events (snd st')) = messages decode (events (snd st)) @ [(m, k)]"
    "r = Inl e \<Longrightarrow>
       messages decode (events (snd st')) = messages decode (events (snd st)) \<or>
       messages decode (events (snd st')) = messages decode (events (snd st)) @ [(m, k)]"
    "r = Inl e \<Longrightarrow> \<not> is_a TValidation e"
proof -
  have pub: "Publish (rabbit_mq_producer lib) m k st = (r, st')"
    using assms by (simp add: rabbit_mq_producer_def)
  show "brest (snd st') = brest (snd st)" by (rule rabbit.publish_rest[OF pub])
  show "messages decode (events (snd st')) = messages decode (events (snd st)) @ [(m, k)]"
    if "r = Inr u" using rabbit.publish_done pub that by blast
  show "messages decode (events (snd st')) = messages decode (events (snd st)) \<or>
      messages decode (events (snd st')) = messages decode (events (snd st)) @ [(m, k)]"
    if "r = Inl e" using rabbit.publish_failed pub that by blast
  show "\<not> is_a TValidation e" if "r = Inl e" using rabbit.publish_no_constraint pub that by blast
qed

end

section \<open>A reference client\<close>

text \<open>
  It logs what it is asked, fails as its list of faults says, and reports connections closed as
  \<open>rb_cut\<close> says. A message is encoded by its place in a book of messages; one that is not in the
  book cannot be marshalled.
\<close>

record ref_broker =
  rb_events :: "amqp_event list"
  rb_faults :: "bool list"
  rb_cut :: bool

definition rb_log :: "amqp_event \<Rightarrow> ref_broker \<Rightarrow> ref_broker" where
  "rb_log ev s = s\<lparr>rb_events := rb_events s @ [ev]\<rparr>"

definition rb_fault :: "ref_broker \<Rightarrow> bool" where
  "rb_fault s = (case rb_faults s of [] \<Rightarrow> False | b # _ \<Rightarrow> b)"

definition rb_next :: "ref_broker \<Rightarrow> ref_broker" where
  "rb_next s = s\<lparr>rb_faults := List.tl (rb_faults s)\<rparr>"

lemma rb_simps [simp]:
  "rb_events (rb_log ev s) = rb_events s @ [ev]" "rb_events (rb_next s) = rb_events s"
  "rb_cut (rb_log ev s) = rb_cut s" "rb_cut (rb_next s) = rb_cut s"
  "rb_faults (rb_log ev s) = rb_faults s" "rb_faults (rb_next s) = List.tl (rb_faults s)"
  by (simp_all add: rb_log_def rb_next_def)

definition rb_ask :: "string \<Rightarrow> amqp_event \<Rightarrow> (ref_broker, nat) call" where
  "rb_ask op ev s = (if rb_fault s then Inl (lost op) else Inr (length (rb_events s)),
     rb_next (rb_log ev s))"

fun place :: "'a \<Rightarrow> 'a list \<Rightarrow> nat option" where
  "place x [] = None"
| "place x (y # ys) = (if x = y then Some 0 else map_option Suc (place x ys))"

lemma place_nth: "place x ys = Some i \<Longrightarrow> i < length ys \<and> ys ! i = x"
  by (induction ys arbitrary: i) (auto split: if_splits)

definition ref_amqp :: "proto_message list \<Rightarrow> ref_broker amqp_lib" where
  "ref_amqp book = \<lparr>
     Dial = (\<lambda>uri. rb_ask ''dial'' (Dialled uri)),
     ConnIsClosed = (\<lambda>h s. (rb_cut s, s)),
     ConnChannel = (\<lambda>h. rb_ask ''channel'' (ChannelAsked h)),
     ConnClose = (\<lambda>h s. (None, s\<lparr>rb_cut := True\<rparr>)),
     ChanIsClosed = (\<lambda>h s. (rb_cut s, s)),
     ChanClose = (\<lambda>h s. (None, s)),
     ExchangeDeclare = (\<lambda>h n k cfg s. (None, s)),
     QueueDeclare = (\<lambda>h cfg s. (Inr (Queue_Name cfg), s)),
     QueueBind = (\<lambda>h q k ex nw s. (None, s)),
     PublishWithContext = (\<lambda>h ex key mand imm pub s.
       if rb_fault s then (Some (lost ''publish''), rb_next s)
       else (None, rb_next (rb_log (PublishedTo ex key pub) s))),
     ConsumeWithContext = (\<lambda>h q cfg s. (Inr [], s)),
     SleepFor = (\<lambda>t s. rb_log (Slept t) s),
     WallClock = (\<lambda>s. (1768478400 * 1000000000, s)),
     Marshal = (\<lambda>m. case place m book of
         None \<Rightarrow> Inl (LibErr OtherLib ''string field contains invalid UTF-8'')
       | Some i \<Rightarrow> Inr (replicate i 0)),
     TraceHeaders = (\<lambda>s. None)\<rparr>"

definition ref_decode :: "proto_message list \<Rightarrow> publishing \<Rightarrow> proto_message option" where
  "ref_decode book pub =
    (let i = length (PB_Body pub) in if i < length book then Some (book ! i) else None)"

interpretation ref_client: amqp_client "ref_amqp book" rb_events "\<lambda>s. ()" "ref_decode book" for book
proof
  note [simp] = ref_amqp_def rb_ask_def lost_def error_simps
  fix m and pub :: publishing
  show "ref_decode book pub = Some m" if "Marshal (ref_amqp book) m = Inr (PB_Body pub)"
  proof -
    from that obtain i where "place m book = Some i" "PB_Body pub = replicate i 0"
      by (auto split: option.splits)
    with place_nth[of m book i] show ?thesis by (simp add: ref_decode_def)
  qed
qed (auto simp: ref_amqp_def rb_ask_def lost_def error_simps split: if_splits option.splits)

lemma ref_amqp_client: "amqp_client (ref_amqp book) rb_events (\<lambda>s. ()) (ref_decode book)"
  by (rule ref_client.amqp_client_axioms)

end
