(* ===== verification/RabbitClaims.thy ===== *)
theory RabbitClaims
  imports Broker
begin

text \<open>
  The properties of internal/infra/mq, over any client library that keeps the promises of
  \<open>amqp_client\<close>, with their witnesses on \<open>ref_amqp\<close>.
\<close>

section \<open>Connections\<close>

definition sample_rabbit :: RabbitMqConfig where
  "sample_rabbit = \<lparr>Rabbit_Username = ''guest'', Rabbit_Password = ''guest'',
     Rabbit_Host = ''localhost'', Rabbit_Port = 5672\<rparr>"

definition sample_conn :: rabbit_conn where
  "sample_conn = \<lparr>RC_conn = Some 0, RC_cfg = sample_rabbit, RC_closed = False\<rparr>"

definition sample_confirmation :: proto_message where
  "sample_confirmation = PaymentConfirmationMsg \<lparr>
     PaymentConfirmation_Id = ''c1'', PaymentConfirmation_BookingId = ''b1'',
     PaymentConfirmation_PayerId = ''g1'', PaymentConfirmation_InvoiceNumber = ''i1'',
     PaymentConfirmation_ReceiptNumber = ''r1'', PaymentConfirmation_ConfirmedAt = None\<rparr>"

definition broker_with :: "bool list \<Rightarrow> bool \<Rightarrow> ref_broker" where
  "broker_with faults gone = \<lparr>rb_events = [], rb_faults = faults, rb_cut = gone\<rparr>"

text \<open>C12: reconnecting always comes to an end, after at most five dials with a pause of two seconds
  between two of them: it succeeds with the first dial that does and keeps the new connection, or
  fails after exactly five dials and four pauses and leaves the object as it was.\<close>

theorem reconnection_is_bounded:
  assumes "amqp_client lib events brest decode"
    and "reconnectLocked lib c s = ((r, c'), s')" and "\<not> RC_closed c"
    and "uri = rabbit_uri (RC_cfg c)"
  shows "case r of
       None \<Rightarrow> (\<exists>h. c' = c\<lparr>RC_conn := Some h\<rparr>) \<and>
         (\<exists>k<5. events s' = events s @ failed_dials uri k @ [Dialled uri])
     | Some e \<Rightarrow> c' = c \<and> \<not> is_a TValidation e \<and>
         events s' = events s @ failed_dials uri 4 @ [Dialled uri]"
  using amqp_client.reconnectLocked_trace[OF assms(1-3)] assms(4)
  by (cases r) (auto simp: rabbitDialAttempts_def)

theorem reconnection_is_bounded_witness:
  "\<exists>r c' s'. reconnectLocked (ref_amqp []) sample_conn (broker_with [True, True, False] True) =
     ((r, c'), s') \<and>
   (case r of
       None \<Rightarrow> (\<exists>h. c' = sample_conn\<lparr>RC_conn := Some h\<rparr>) \<and>
         (\<exists>k<5. rb_events s' = failed_dials (rabbit_uri sample_rabbit) k @
           [Dialled (rabbit_uri sample_rabbit)])
     | Some e \<Rightarrow> c' = sample_conn \<and> \<not> is_a TValidation e \<and>
         rb_events s' = failed_dials (rabbit_uri sample_rabbit) 4 @
           [Dialled (rabbit_uri sample_rabbit)])"
proof -
  obtain r c' s' where r: "reconnectLocked (ref_amqp []) sample_conn
      (broker_with [True, True, False] True) = ((r, c'), s')" by (metis surj_pair)
  have "\<not> RC_closed sample_conn" by (simp add: sample_conn_def)
  note fin = reconnection_is_bounded[OF ref_amqp_client r this refl]
  have "RC_cfg sample_conn = sample_rabbit" "rb_events (broker_with [True, True, False] True) = []"
    by (simp_all add: sample_conn_def broker_with_def)
  with fin r show ?thesis by (cases r) simp_all
qed

text \<open>Opening a channel never retries without end: at most ten dials, eight pauses and two
  requests for a channel, nothing is published meanwhile, and a failure is never mistaken for one
  of the program's own errors.\<close>

theorem channel_effort_is_bounded:
  assumes "amqp_client lib events brest decode"
    and "openChannel lib c s = ((r, c'), s')"
  shows "(\<exists>evs. events s' = events s @ evs \<and> effort 10 8 2 evs) \<and>
    (case r of Inl e \<Rightarrow> \<forall>T. \<not> is_a T e | Inr h \<Rightarrow> True)"
proof -
  have "\<not> is_a T e" if "r = Inl e" for T e
    using amqp_client.openChannel_error[OF assms(1)] assms(2) that by blast
  with amqp_client.openChannel_spent[OF assms] amqp_client.spent_def[OF assms(1)]
  show ?thesis by (cases r) auto
qed

theorem channel_effort_is_bounded_witness:
  "effort 10 8 2 (rb_events (snd (openChannel (ref_amqp []) sample_conn
      (broker_with (replicate 4 True @ [False, True, False]) True))))"
proof -
  obtain r c' s' where r: "openChannel (ref_amqp []) sample_conn
      (broker_with (replicate 4 True @ [False, True, False]) True) = ((r, c'), s')"
    by (metis surj_pair)
  from channel_effort_is_bounded[OF ref_amqp_client r] r show ?thesis
    by (auto simp: broker_with_def)
qed

text \<open>The channel of a producer or consumer is missing or no longer open.\<close>

definition channel_gone :: "'s amqp_lib \<Rightarrow> nat option \<Rightarrow> 's \<Rightarrow> 's \<Rightarrow> bool" where
  "channel_gone lib ch s s' \<longleftrightarrow>
     (case ch of None \<Rightarrow> s' = s | Some h \<Rightarrow> ChanIsClosed lib h s = (True, s'))"

lemma closed_open:
  assumes "RC_closed c"
  shows "openChannel lib c s = ((Inl connection_closed_err, c), s)"
    and "openConnection lib c s = ((Inl connection_closed_err, c), s)"
  using assms by (simp_all add: openChannel_def openConnection_def)

lemma closed_ensure:
  assumes "RC_closed c" and "channel_gone lib ch s s'"
  shows "ensure_channel lib ch c s = ((Inl (MqUnexpectedErr
    ''unexpected error when reopening channel'' (Some connection_closed_err)), c), s')"
  using assms closed_open[OF assms(1), of lib]
  by (cases ch) (simp_all add: ensure_channel_def channel_gone_def reopenChannel_def)

lemma CloseConnection_closed: "CloseConnection lib c s = ((e, c1), s1) \<Longrightarrow> RC_closed c1"
  by (auto simp: CloseConnection_def Let_def split: option.splits if_splits prod.splits)

text \<open>A connection that was closed stays closed. Whatever the close itself answered, opening the
  connection or a channel afterwards fails at once with the closed error and asks nothing of the
  world, and a producer whose channel is gone reports the error and publishes nothing.\<close>

theorem closed_connection_is_final:
  assumes "CloseConnection lib c s = ((e, c1), s1)"
    and "channel_gone lib (RP_channel p) s2 s3"
  shows "openConnection lib c1 s2 = ((Inl connection_closed_err, c1), s2) \<and>
    openChannel lib c1 s2 = ((Inl connection_closed_err, c1), s2) \<and>
    Publish_impl lib m k ((c1, p), s2) = (Inl (MqUnexpectedErr
      ''unexpected error when reopening channel'' (Some connection_closed_err)), (c1, p), s3)"
  using closed_open[OF CloseConnection_closed[OF assms(1)], of lib s2]
    closed_ensure[OF CloseConnection_closed[OF assms(1)] assms(2)]
  by (simp add: Publish_impl_def)

definition sample_producer :: rabbit_producer where
  "sample_producer = \<lparr>RP_channel = Some 1, RP_exchangeName = ''payment.exchange'',
     RP_exchangeKind = ''topic'',
     RP_publishConfig = \<lparr>Publish_Mandatory = False, Publish_Immediate = False\<rparr>\<rparr>"

theorem closed_connection_is_final_witness:
  "\<exists>c1 s1. CloseConnection (ref_amqp []) sample_conn (broker_with [] False) = ((None, c1), s1) \<and>
    fst (Publish_impl (ref_amqp []) sample_confirmation ''guest.1.payment'' ((c1, sample_producer), s1)) = Inl (MqUnexpectedErr
      ''unexpected error when reopening channel'' (Some connection_closed_err))"
proof -
  let ?b = "broker_with [] False"
  have c: "CloseConnection (ref_amqp []) sample_conn ?b =
      ((None, sample_conn\<lparr>RC_closed := True\<rparr>), ?b\<lparr>rb_cut := True\<rparr>)"
    by (simp add: CloseConnection_def sample_conn_def ref_amqp_def broker_with_def)
  have "channel_gone (ref_amqp []) (RP_channel sample_producer) (?b\<lparr>rb_cut := True\<rparr>)
      (?b\<lparr>rb_cut := True\<rparr>)"
    by (simp add: channel_gone_def sample_producer_def ref_amqp_def)
  from closed_connection_is_final[OF c this] c show ?thesis by auto
qed

section \<open>Publishing\<close>

text \<open>C33: a publish that returns no error put exactly one message on the producer's exchange, under
  the key it was given, as a persistent protobuf publishing that carries the encoded message and the
  message's full name in its headers, whatever else the trace propagator adds; before it came at
  most the events of reopening the channel.\<close>

theorem published_message_on_the_wire:
  assumes "amqp_client lib events brest decode"
    and "Publish_impl lib m k ((c, p), s) = (Inr u, ((c', p'), s'))"
  shows "\<exists>evs pub. events s' = events s @ evs @ [PublishedTo (RP_exchangeName p) k pub] \<and>
    effort 10 8 2 evs \<and> Marshal lib m = Inr (PB_Body pub) \<and>
    PB_ContentType pub = ''application/protobuf'' \<and> PB_DeliveryMode pub = Persistent \<and>
    PB_Headers pub ''message_type'' = Some (full_name m)"
  using amqp_client.Publish_trace[OF assms] amqp_client.publishing_of_def[OF assms(1)]
  by fastforce

lemma sample_publish:
  "\<exists>s'. Publish_impl (ref_amqp [sample_confirmation]) sample_confirmation ''guest.1.payment''
     ((sample_conn, sample_producer), broker_with [] False) =
     (Inr (), ((sample_conn, sample_producer), s'))"
  by (simp add: Publish_impl_def ensure_channel_def sample_producer_def ref_amqp_def
      broker_with_def rb_fault_def)

theorem published_message_on_the_wire_witness:
  "\<exists>s' evs pub. Publish_impl (ref_amqp [sample_confirmation]) sample_confirmation
     ''guest.1.payment'' ((sample_conn, sample_producer), broker_with [] False) =
     (Inr (), ((sample_conn, sample_producer), s')) \<and>
   rb_events s' = evs @ [PublishedTo ''payment.exchange'' ''guest.1.payment'' pub] \<and>
   PB_DeliveryMode pub = Persistent"
proof -
  from sample_publish obtain s' where s: "Publish_impl (ref_amqp [sample_confirmation])
     sample_confirmation ''guest.1.payment'' ((sample_conn, sample_producer), broker_with [] False) =
     (Inr (), ((sample_conn, sample_producer), s'))" by blast
  from published_message_on_the_wire[OF ref_amqp_client this] s show ?thesis
    by (auto simp: broker_with_def sample_producer_def)
qed

text \<open>C6: the RabbitMQ producer keeps the contract the services are proved against: it changes
  nothing but the log of messages; a publish that returns no error added its message with its key,
  one that returns an error added it at most once and never reports a validation error.\<close>

theorem rabbit_producer_keeps_contract:
  assumes "amqp_client lib events brest decode"
    and "Publish_impl lib m k st = (r, st')"
  shows "brest (snd st') = brest (snd st) \<and>
    (case r of
       Inr u \<Rightarrow> messages decode (events (snd st')) = messages decode (events (snd st)) @ [(m, k)]
     | Inl e \<Rightarrow> \<not> is_a TValidation e \<and>
        (messages decode (events (snd st')) = messages decode (events (snd st)) \<or>
         messages decode (events (snd st')) = messages decode (events (snd st)) @ [(m, k)]))"
  using amqp_client.producer_promises[OF assms] by (cases r) auto

theorem rabbit_producer_keeps_contract_witness:
  "\<exists>st'. Publish_impl (ref_amqp [sample_confirmation]) sample_confirmation ''guest.1.payment''
     ((sample_conn, sample_producer), broker_with [] False) = (Inr (), st') \<and>
   messages (ref_decode [sample_confirmation]) (rb_events (snd st')) =
     [(sample_confirmation, ''guest.1.payment'')]"
proof -
  from sample_publish obtain s' where s: "Publish_impl (ref_amqp [sample_confirmation])
     sample_confirmation ''guest.1.payment'' ((sample_conn, sample_producer), broker_with [] False) =
     (Inr (), ((sample_conn, sample_producer), s'))" by blast
  from rabbit_producer_keeps_contract[OF ref_amqp_client this] s show ?thesis
    by (auto simp: broker_with_def messages_def)
qed

section \<open>Consuming\<close>

text \<open>Consuming panics exactly when no queue was declared and a channel could be had: the code
  reads the queue's name without the nil check that binding makes.\<close>

theorem consume_panics_without_queue:
  "(\<exists>msg. fst (Consume_impl lib ((c, n), s)) = Panicked msg) \<longleftrightarrow>
     CN_queue n = None \<and>
     (case CN_channel n of
        Some h \<Rightarrow> True
      | None \<Rightarrow> (\<exists>h. fst (fst (openChannel lib c s)) = Inr h))"
proof -
  obtain r c1 s1 where o: "openChannel lib c s = ((r, c1), s1)" by (metis surj_pair)
  show ?thesis
    by (cases "CN_channel n"; cases r; cases "CN_queue n")
      (auto simp: Consume_impl_def reopenChannel_def Let_def o split: sum.splits prod.splits)
qed

text \<open>The queue is declared first: binding without it fails and declares nothing, while after a
  declaration that succeeded neither binding, whatever its outcome, nor consuming can panic, and
  the consumer reads the queue the broker named.\<close>

theorem declared_queue_is_consumed:
  assumes "DeclareQueue_impl lib cfg ((c, n), s) = (Inr u, st1)"
    and "BindQueue_impl lib b st1 = (rb, st2)"
    and "Consume_impl lib st2 = (rc, st3)"
  shows "\<exists>q. CN_queue (snd (fst st1)) = Some q \<and> CN_queue (snd (fst st3)) = Some q \<and>
    CN_channel (snd (fst st3)) \<noteq> None \<and> (\<forall>msg. rc \<noteq> Panicked msg)"
proof -
  obtain c1 n1 s1 where st1: "st1 = ((c1, n1), s1)" by (metis surj_pair)
  obtain c2 n2 s2 where st2: "st2 = ((c2, n2), s2)" by (metis surj_pair)
  obtain c3 n3 s3 where st3: "st3 = ((c3, n3), s3)" by (metis surj_pair)
  from assms(1) st1 obtain q h where q: "CN_queue n1 = Some q" "CN_channel n1 = Some h"
    by (auto simp: DeclareQueue_impl_def Let_def split: sum.splits prod.splits)
  from assms(2) st1 st2 q obtain h2 where q2: "CN_queue n2 = Some q" "CN_channel n2 = Some h2"
    by (auto simp: BindQueue_impl_def Let_def split: sum.splits prod.splits option.splits if_splits)
  from assms(3) st2 st3 q2 have "CN_queue n3 = Some q" "CN_channel n3 = Some h2"
    "\<forall>msg. rc \<noteq> Panicked msg"
    by (auto simp: Consume_impl_def Let_def split: sum.splits prod.splits)
  with q st1 st3 show ?thesis by simp
qed

definition sample_consumer :: rabbit_consumer where
  "sample_consumer = \<lparr>CN_channel = Some 1, CN_queue = None,
     CN_consumeConfig = \<lparr>Consume_Consumer = [], Consume_AutoAck = False, Consume_Exclusive = False,
       Consume_NoLocal = False, Consume_NoWait = False\<rparr>\<rparr>"

definition sample_queue :: QueueConfig where
  "sample_queue = \<lparr>Queue_Name = ''invoices'', Queue_Durable = True, Queue_AutoDelete = False,
     Queue_Exclusive = False, Queue_NoWait = False\<rparr>"

definition sample_binding :: BindingConfig where
  "sample_binding = \<lparr>Binding_ExchangeName = ''payment.exchange'', Binding_RoutingKey = ''invoice.*'',
     Binding_NoWait = False\<rparr>"

theorem declared_queue_is_consumed_witness:
  "let st0 = ((sample_conn, sample_consumer), broker_with [] False);
       st1 = snd (DeclareQueue_impl (ref_amqp []) sample_queue st0);
       st2 = snd (BindQueue_impl (ref_amqp []) sample_binding st1)
   in \<exists>q. CN_queue (snd (fst st1)) = Some q \<and>
        (\<forall>msg. fst (Consume_impl (ref_amqp []) st2) \<noteq> Panicked msg)"
proof -
  let ?st0 = "((sample_conn, sample_consumer), broker_with [] False)"
  obtain r st1 where d: "DeclareQueue_impl (ref_amqp []) sample_queue ?st0 = (r, st1)" "r = Inr ()"
    by (simp add: DeclareQueue_impl_def ensure_channel_def sample_consumer_def ref_amqp_def
        broker_with_def)
  obtain rb st2 where b: "BindQueue_impl (ref_amqp []) sample_binding st1 = (rb, st2)"
    by (metis surj_pair)
  obtain rc st3 where c: "Consume_impl (ref_amqp []) st2 = (rc, st3)" by (metis surj_pair)
  from declared_queue_is_consumed[OF d(1)[unfolded d(2)] b c] d b c show ?thesis by auto
qed

end
