(* ===== verification/Logging.thy ===== *)
theory Logging
  imports GoErrors
begin

text \<open>
  internal/infra/logging/log.go: the handler that adds the identifiers of the current span to the
  records of the log, and the logger of the program. \<open>log/slog\<close>'s own handlers are a parameter.
\<close>

section \<open>Handlers\<close>

text \<open>The span a context carries, as far as the handler reads it, and a record of the log.\<close>

record span_context =
  SC_IsValid :: bool
  SC_TraceID :: string
  SC_SpanID :: string

record log_record =
  LR_Level :: int
  LR_Message :: string
  LR_Attrs :: "(string \<times> string) list"

text \<open>
  The methods of the interface \<open>slog.Handler\<close> on the library's handlers, and its handler that
  writes JSON to standard output from a level up.
\<close>

record ('h, 's) slog_lib =
  SL_NewJSONHandler :: "int \<Rightarrow> 'h"
  SL_Enabled :: "'h \<Rightarrow> int \<Rightarrow> bool"
  SL_Handle :: "'h \<Rightarrow> span_context \<Rightarrow> log_record \<Rightarrow> 's \<Rightarrow> go_err option \<times> 's"
  SL_WithAttrs :: "'h \<Rightarrow> (string \<times> string) list \<Rightarrow> 'h"
  SL_WithGroup :: "'h \<Rightarrow> string \<Rightarrow> 'h"

record 'h trace_handler =
  TH_base :: 'h

definition Handler_Enabled :: "('h, 's) slog_lib \<Rightarrow> 'h trace_handler \<Rightarrow> int \<Rightarrow> bool" where
  "Handler_Enabled lib h level = SL_Enabled lib (TH_base h) level"

definition Handler_Handle ::
  "('h, 's) slog_lib \<Rightarrow> 'h trace_handler \<Rightarrow> span_context \<Rightarrow> log_record \<Rightarrow> 's \<Rightarrow>
     go_err option \<times> 's" where
  "Handler_Handle lib h sc r =
    (let r1 = (if SC_IsValid sc
       then r\<lparr>LR_Attrs := LR_Attrs r @ [(''trace_id'', SC_TraceID sc), (''span_id'', SC_SpanID sc)]\<rparr>
       else r)
     in SL_Handle lib (TH_base h) sc r1)"

definition Handler_WithAttrs ::
  "('h, 's) slog_lib \<Rightarrow> 'h trace_handler \<Rightarrow> (string \<times> string) list \<Rightarrow> 'h trace_handler" where
  "Handler_WithAttrs lib h attrs = \<lparr>TH_base = SL_WithAttrs lib (TH_base h) attrs\<rparr>"

definition Handler_WithGroup ::
  "('h, 's) slog_lib \<Rightarrow> 'h trace_handler \<Rightarrow> string \<Rightarrow> 'h trace_handler" where
  "Handler_WithGroup lib h name = \<lparr>TH_base = SL_WithGroup lib (TH_base h) name\<rparr>"

text \<open>
  \<open>slog.New(h).With("app", hostname)\<close> is the logger over \<open>h.WithAttrs\<close>; \<open>hostname\<close> is what
  \<open>os.Hostname\<close> gave.
\<close>

definition NewLogger ::
  "('h, 's) slog_lib \<Rightarrow> go_err + string \<Rightarrow> 64 word \<Rightarrow> 'h trace_handler" where
  "NewLogger lib hostname level =
    (let base = SL_NewJSONHandler lib (sint level);
         traceHandler = \<lparr>TH_base = base\<rparr>;
         name = (case hostname of Inl err \<Rightarrow> ''unknown'' | Inr h \<Rightarrow> h)
     in Handler_WithAttrs lib traceHandler [(''app'', name)])"

text \<open>Logging a record: the handler is asked first whether the level is of interest.\<close>

definition log_with ::
  "('h, 's) slog_lib \<Rightarrow> 'h trace_handler \<Rightarrow> span_context \<Rightarrow> log_record \<Rightarrow> 's \<Rightarrow> 's" where
  "log_with lib h sc r s =
    (if Handler_Enabled lib h (LR_Level r) then snd (Handler_Handle lib h sc r s) else s)"

section \<open>What the library promises\<close>

text \<open>
  A handler writes a line with the attributes it was given before those of the record, and is
  interested in the levels from its own up; what it was given does not change that.
\<close>

locale slog_handlers =
  fixes lib :: "('h, 's) slog_lib"
    and lines :: "'s \<Rightarrow> log_record list"
    and given :: "'h \<Rightarrow> (string \<times> string) list"
    and threshold :: "'h \<Rightarrow> int"
  assumes json_new: "given (SL_NewJSONHandler lib l) = [] \<and> threshold (SL_NewJSONHandler lib l) = l"
    and enabled_iff: "SL_Enabled lib h l \<longleftrightarrow> threshold h \<le> l"
    and handle_writes: "SL_Handle lib h sc r s = (None, s') \<Longrightarrow>
      lines s' = lines s @ [r\<lparr>LR_Attrs := given h @ LR_Attrs r\<rparr>]"
    and handle_failed: "SL_Handle lib h sc r s = (Some e, s') \<Longrightarrow> lines s' = lines s"
    and with_attrs: "given (SL_WithAttrs lib h as) = given h @ as \<and>
      threshold (SL_WithAttrs lib h as) = threshold h"
begin

text \<open>What a record becomes in the log of the program's logger.\<close>

lemma logger_handler:
  "given (TH_base (NewLogger lib hostname level)) =
     [(''app'', case hostname of Inl err \<Rightarrow> ''unknown'' | Inr h \<Rightarrow> h)]"
  "threshold (TH_base (NewLogger lib hostname level)) = sint level"
  using json_new with_attrs by (simp_all add: NewLogger_def Handler_WithAttrs_def)

lemma log_quiet:
  "LR_Level r < sint level \<Longrightarrow> log_with lib (NewLogger lib hostname level) sc r s = s"
  by (simp add: log_with_def Handler_Enabled_def enabled_iff logger_handler)

lemma log_line:
  assumes "sint level \<le> LR_Level r"
    and "fst (Handler_Handle lib (NewLogger lib hostname level) sc r s) = None"
  shows "lines (log_with lib (NewLogger lib hostname level) sc r s) = lines s @
    [r\<lparr>LR_Attrs := (''app'', case hostname of Inl err \<Rightarrow> ''unknown'' | Inr h \<Rightarrow> h) # LR_Attrs r @
      (if SC_IsValid sc then [(''trace_id'', SC_TraceID sc), (''span_id'', SC_SpanID sc)] else [])\<rparr>]"
proof -
  let ?l = "NewLogger lib hostname level"
  obtain s' where s': "Handler_Handle lib ?l sc r s = (None, s')"
    using assms(2) by (metis prod.collapse)
  from handle_writes[OF s'[unfolded Handler_Handle_def Let_def]] s' assms(1) show ?thesis
    by (simp add: log_with_def Handler_Enabled_def enabled_iff logger_handler)
qed

end

section \<open>A log held in a list\<close>

record list_handler =
  LH_threshold :: int
  LH_attrs :: "(string \<times> string) list"

definition list_slog :: "(list_handler, log_record list) slog_lib" where
  "list_slog = \<lparr>
     SL_NewJSONHandler = (\<lambda>l. \<lparr>LH_threshold = l, LH_attrs = []\<rparr>),
     SL_Enabled = (\<lambda>h l. LH_threshold h \<le> l),
     SL_Handle = (\<lambda>h sc r ls. (None, ls @ [r\<lparr>LR_Attrs := LH_attrs h @ LR_Attrs r\<rparr>])),
     SL_WithAttrs = (\<lambda>h as. h\<lparr>LH_attrs := LH_attrs h @ as\<rparr>),
     SL_WithGroup = (\<lambda>h name. h)\<rparr>"

interpretation list_slog: slog_handlers list_slog "\<lambda>ls. ls" LH_attrs LH_threshold
  by unfold_locales (auto simp: list_slog_def)

end
