(* ===== verification/Fakes.thy ===== *)
theory Fakes
  imports RefWorld
begin

text \<open>
  The test doubles of the ports and services: internal/infra/clock/fakes, internal/infra/db/fakes,
  internal/infra/mq/fakes and internal/app/fakes. A fake counts its calls, keeps the arguments of
  the last one, and answers by the function a test gave it or by an empty value. The contexts of
  the calls are left out, as everywhere. A fake whose functions keep a port's contract keeps it too,
  so what is proved of the services for every implementation of the ports holds in such a test.
\<close>

section \<open>What the fakes remember\<close>

text \<open>The empty values of the documents, \<open>document.Invoice{}\<close> and \<open>document.Receipt{}\<close>.\<close>

definition empty_money :: doc_Money where
  "empty_money = \<lparr>doc_Amount = 0, doc_Currency = []\<rparr>"

definition empty_invoice :: doc_Invoice where
  "empty_invoice = \<lparr>Invoice_Id = 0, Invoice_InvoiceNumber = [], Invoice_Status = [],
     Invoice_IssuedAt = zero_time, Invoice_DueAt = zero_time, Invoice_IdempotencyId = [],
     Invoice_BookingId = [], Invoice_PayerId = [],
     Invoice_Payer = \<lparr>doc_Name = [], doc_Email = [], doc_DocumentNumber = [],
       doc_BillingAddress = []\<rparr>,
     Invoice_Booking = \<lparr>doc_CottageName = [], doc_Nights = 0, doc_NumberOfGuests = 0,
       doc_ValuePerNight = empty_money\<rparr>,
     Invoice_Total = empty_money, Invoice_TaxTotal = empty_money,
     Invoice_DiscountTotal = empty_money,
     Invoice_CreatedAt = zero_time, Invoice_UpdatedAt = zero_time\<rparr>"

definition empty_receipt :: doc_Receipt where
  "empty_receipt = \<lparr>Receipt_Id = 0, Receipt_ReceiptNumber = [], Receipt_InvoiceNumber = [],
     Receipt_Card = \<lparr>doc_Brand = [], doc_Last4 = []\<rparr>,
     Receipt_ProcessedAt = zero_time\<rparr>"

record FakeInvoiceRepo =
  IF_GetCallCount :: int
  IF_AddCallCount :: int
  IF_FindCallCount :: int
  IF_UpdateStatusCallCount :: int
  IF_LastGetInvoiceNumber :: string
  IF_LastAddedInvoice :: doc_Invoice
  IF_LastFindBookingNumber :: string
  IF_LastFindDocumentNumber :: string
  IF_LastUpdatedInvoice :: string
  IF_LastUpdatedStatus :: string
  IF_LastUpdatedAt :: go_time

record FakeReceiptRepo =
  RF_GetCallCount :: int
  RF_AddCallCount :: int
  RF_LastGetID :: object_id
  RF_LastAddReceipt :: doc_Receipt

record FakeMqProducer =
  PF_DeclareExchangeCallCount :: int
  PF_PublishCallCount :: int
  PF_CloseChannelCallCount :: int
  PF_LastDeclaredExchange :: "ExchangeConfig option"
  PF_LastPublishedMessage :: "proto_message option"
  PF_LastPublishedRoutingKey :: string

record FakeMqConsumer =
  CF_DeclareQueueCallCount :: int
  CF_BindQueueCallCount :: int
  CF_ConsumeCallCount :: int
  CF_CloseChannelCallCount :: int
  CF_LastDeclaredQueue :: "QueueConfig option"
  CF_LastBoundQueue :: "BindingConfig option"

record FakeAcknowledger =
  AF_AckCalls :: int
  AF_NackCalls :: int
  AF_RejectCalls :: int
  AF_LastAckTag :: "64 word"
  AF_LastAckMultiple :: bool
  AF_LastNackTag :: "64 word"
  AF_LastNackMultiple :: bool
  AF_LastNackRequeue :: bool
  AF_LastRejectTag :: "64 word"
  AF_LastRejectRequeue :: bool

text \<open>A bench: the fakes of a test and the world its functions work on.\<close>

record 's bench =
  BN_invoices :: FakeInvoiceRepo
  BN_receipts :: FakeReceiptRepo
  BN_producer :: FakeMqProducer
  BN_consumer :: FakeMqConsumer
  BN_acks :: FakeAcknowledger
  BN_world :: 's

text \<open>A function of a fake works on the world; without one, the fake answers by itself.\<close>

definition by_stub :: "('s, 'a) call option \<Rightarrow> 'a \<Rightarrow> ('s bench, 'a) call" where
  "by_stub stub zero b =
    (case stub of
       Some f \<Rightarrow> (case f (BN_world b) of (r, w) \<Rightarrow> (r, b\<lparr>BN_world := w\<rparr>))
     | None \<Rightarrow> (Inr zero, b))"

section \<open>internal/infra/db/fakes\<close>

record 's invoice_stubs =
  GetFn :: "(string \<Rightarrow> ('s, doc_Invoice) call) option"
  AddFn :: "(doc_Invoice \<Rightarrow> ('s, object_id) call) option"
  FindByBookingNumberAndDocumentNumberFn ::
    "(string \<Rightarrow> string \<Rightarrow> ('s, doc_Invoice) call) option"
  UpdateStatusFn :: "(string \<Rightarrow> string \<Rightarrow> go_time \<Rightarrow> ('s, unit) call) option"

definition FakeInvoiceRepo_FindByInvoiceNumber ::
  "'s invoice_stubs \<Rightarrow> string \<Rightarrow> ('s bench, doc_Invoice) call" where
  "FakeInvoiceRepo_FindByInvoiceNumber fns invoiceNumber b =
    (let f = BN_invoices b in
     by_stub (map_option (\<lambda>fn. fn invoiceNumber) (GetFn fns)) empty_invoice
       (b\<lparr>BN_invoices := f\<lparr>IF_GetCallCount := IF_GetCallCount f + 1,
          IF_LastGetInvoiceNumber := invoiceNumber\<rparr>\<rparr>))"

definition FakeInvoiceRepo_Add ::
  "'s invoice_stubs \<Rightarrow> doc_Invoice \<Rightarrow> ('s bench, object_id) call" where
  "FakeInvoiceRepo_Add fns invoice b =
    (let f = BN_invoices b in
     by_stub (map_option (\<lambda>fn. fn invoice) (AddFn fns)) 0
       (b\<lparr>BN_invoices := f\<lparr>IF_AddCallCount := IF_AddCallCount f + 1,
          IF_LastAddedInvoice := invoice\<rparr>\<rparr>))"

definition FakeInvoiceRepo_FindByBooking ::
  "'s invoice_stubs \<Rightarrow> string \<Rightarrow> string \<Rightarrow> ('s bench, doc_Invoice) call" where
  "FakeInvoiceRepo_FindByBooking fns bookingNumber documentNumber b =
    (let f = BN_invoices b in
     by_stub (map_option (\<lambda>fn. fn bookingNumber documentNumber)
         (FindByBookingNumberAndDocumentNumberFn fns)) empty_invoice
       (b\<lparr>BN_invoices := f\<lparr>IF_FindCallCount := IF_FindCallCount f + 1,
          IF_LastFindBookingNumber := bookingNumber,
          IF_LastFindDocumentNumber := documentNumber\<rparr>\<rparr>))"

definition FakeInvoiceRepo_UpdateStatus ::
  "'s invoice_stubs \<Rightarrow> string \<Rightarrow> string \<Rightarrow> go_time \<Rightarrow> ('s bench, unit) call" where
  "FakeInvoiceRepo_UpdateStatus fns invoiceNumber st updatedAt b =
    (let f = BN_invoices b in
     by_stub (map_option (\<lambda>fn. fn invoiceNumber st updatedAt) (UpdateStatusFn fns)) ()
       (b\<lparr>BN_invoices := f\<lparr>IF_UpdateStatusCallCount := IF_UpdateStatusCallCount f + 1,
          IF_LastUpdatedInvoice := invoiceNumber, IF_LastUpdatedStatus := st,
          IF_LastUpdatedAt := updatedAt\<rparr>\<rparr>))"

definition fake_invoice_repo :: "'s invoice_stubs \<Rightarrow> 's bench invoice_repo" where
  "fake_invoice_repo fns = \<lparr>
     FindByInvoiceNumber = FakeInvoiceRepo_FindByInvoiceNumber fns,
     FindByBookingNumberAndDocumentNumber = FakeInvoiceRepo_FindByBooking fns,
     UpdateStatus = FakeInvoiceRepo_UpdateStatus fns,
     AddInvoice = FakeInvoiceRepo_Add fns\<rparr>"

record 's receipt_stubs =
  RGetFn :: "(object_id \<Rightarrow> ('s, doc_Receipt) call) option"
  RAddFn :: "(doc_Receipt \<Rightarrow> ('s, object_id) call) option"

definition FakeReceiptRepo_GetById ::
  "'s receipt_stubs \<Rightarrow> object_id \<Rightarrow> ('s bench, doc_Receipt) call" where
  "FakeReceiptRepo_GetById fns i b =
    (let f = BN_receipts b in
     by_stub (map_option (\<lambda>fn. fn i) (RGetFn fns)) empty_receipt
       (b\<lparr>BN_receipts := f\<lparr>RF_GetCallCount := RF_GetCallCount f + 1, RF_LastGetID := i\<rparr>\<rparr>))"

definition FakeReceiptRepo_Add ::
  "'s receipt_stubs \<Rightarrow> doc_Receipt \<Rightarrow> ('s bench, object_id) call" where
  "FakeReceiptRepo_Add fns receipt b =
    (let f = BN_receipts b in
     by_stub (map_option (\<lambda>fn. fn receipt) (RAddFn fns)) 0
       (b\<lparr>BN_receipts := f\<lparr>RF_AddCallCount := RF_AddCallCount f + 1,
          RF_LastAddReceipt := receipt\<rparr>\<rparr>))"

definition fake_receipt_repo :: "'s receipt_stubs \<Rightarrow> 's bench receipt_repo" where
  "fake_receipt_repo fns = \<lparr>
     GetById = FakeReceiptRepo_GetById fns,
     AddReceipt = FakeReceiptRepo_Add fns\<rparr>"

section \<open>internal/infra/mq/fakes\<close>

record 's producer_stubs =
  DeclareExchangeFn :: "(ExchangeConfig \<Rightarrow> ('s, unit) call) option"
  PublishFn :: "(proto_message \<Rightarrow> string \<Rightarrow> ('s, unit) call) option"
  PCloseChannelFn :: "('s, unit) call option"

definition FakeMqProducer_DeclareExchange ::
  "'s producer_stubs \<Rightarrow> ExchangeConfig \<Rightarrow> ('s bench, unit) call" where
  "FakeMqProducer_DeclareExchange fns cfg b =
    (let f = BN_producer b in
     by_stub (map_option (\<lambda>fn. fn cfg) (DeclareExchangeFn fns)) ()
       (b\<lparr>BN_producer := f\<lparr>PF_DeclareExchangeCallCount := PF_DeclareExchangeCallCount f + 1,
          PF_LastDeclaredExchange := Some cfg\<rparr>\<rparr>))"

definition FakeMqProducer_Publish ::
  "'s producer_stubs \<Rightarrow> proto_message \<Rightarrow> string \<Rightarrow> ('s bench, unit) call" where
  "FakeMqProducer_Publish fns message routingKey b =
    (let f = BN_producer b in
     by_stub (map_option (\<lambda>fn. fn message routingKey) (PublishFn fns)) ()
       (b\<lparr>BN_producer := f\<lparr>PF_PublishCallCount := PF_PublishCallCount f + 1,
          PF_LastPublishedMessage := Some message, PF_LastPublishedRoutingKey := routingKey\<rparr>\<rparr>))"

definition FakeMqProducer_CloseChannel :: "'s producer_stubs \<Rightarrow> ('s bench, unit) call" where
  "FakeMqProducer_CloseChannel fns b =
    (let f = BN_producer b in
     by_stub (PCloseChannelFn fns) ()
       (b\<lparr>BN_producer := f\<lparr>PF_CloseChannelCallCount := PF_CloseChannelCallCount f + 1\<rparr>\<rparr>))"

definition fake_mq_producer :: "'s producer_stubs \<Rightarrow> 's bench mq_producer" where
  "fake_mq_producer fns = \<lparr>
     DeclareExchange = FakeMqProducer_DeclareExchange fns,
     Publish = FakeMqProducer_Publish fns,
     CloseProducer = FakeMqProducer_CloseChannel fns\<rparr>"

text \<open>A nil channel of deliveries yields nothing.\<close>

record 's consumer_stubs =
  DeclareQueueFn :: "(QueueConfig \<Rightarrow> ('s, unit) call) option"
  BindQueueFn :: "(BindingConfig \<Rightarrow> ('s, unit) call) option"
  ConsumeFn :: "('s, delivery list) call option"
  CCloseChannelFn :: "('s, unit) call option"

definition FakeMqConsumer_DeclareQueue ::
  "'s consumer_stubs \<Rightarrow> QueueConfig \<Rightarrow> ('s bench, unit) call" where
  "FakeMqConsumer_DeclareQueue fns cfg b =
    (let f = BN_consumer b in
     by_stub (map_option (\<lambda>fn. fn cfg) (DeclareQueueFn fns)) ()
       (b\<lparr>BN_consumer := f\<lparr>CF_DeclareQueueCallCount := CF_DeclareQueueCallCount f + 1,
          CF_LastDeclaredQueue := Some cfg\<rparr>\<rparr>))"

definition FakeMqConsumer_BindQueue ::
  "'s consumer_stubs \<Rightarrow> BindingConfig \<Rightarrow> ('s bench, unit) call" where
  "FakeMqConsumer_BindQueue fns cfg b =
    (let f = BN_consumer b in
     by_stub (map_option (\<lambda>fn. fn cfg) (BindQueueFn fns)) ()
       (b\<lparr>BN_consumer := f\<lparr>CF_BindQueueCallCount := CF_BindQueueCallCount f + 1,
          CF_LastBoundQueue := Some cfg\<rparr>\<rparr>))"

definition FakeMqConsumer_Consume :: "'s consumer_stubs \<Rightarrow> ('s bench, delivery list) call" where
  "FakeMqConsumer_Consume fns b =
    (let f = BN_consumer b in
     by_stub (ConsumeFn fns) []
       (b\<lparr>BN_consumer := f\<lparr>CF_ConsumeCallCount := CF_ConsumeCallCount f + 1\<rparr>\<rparr>))"

definition FakeMqConsumer_CloseChannel :: "'s consumer_stubs \<Rightarrow> ('s bench, unit) call" where
  "FakeMqConsumer_CloseChannel fns b =
    (let f = BN_consumer b in
     by_stub (CCloseChannelFn fns) ()
       (b\<lparr>BN_consumer := f\<lparr>CF_CloseChannelCallCount := CF_CloseChannelCallCount f + 1\<rparr>\<rparr>))"

definition fake_mq_consumer :: "'s consumer_stubs \<Rightarrow> 's bench mq_consumer" where
  "fake_mq_consumer fns = \<lparr>
     DeclareQueue = FakeMqConsumer_DeclareQueue fns,
     BindQueue = FakeMqConsumer_BindQueue fns,
     Consume = FakeMqConsumer_Consume fns,
     CloseConsumer = FakeMqConsumer_CloseChannel fns\<rparr>"

text \<open>The acknowledger answers the errors the test set.\<close>

definition FakeAcknowledger_Ack ::
  "go_err option \<Rightarrow> 64 word \<Rightarrow> bool \<Rightarrow> 's bench \<Rightarrow> go_err option \<times> 's bench" where
  "FakeAcknowledger_Ack AckErr tag multiple b =
    (let f = BN_acks b in
     (AckErr, b\<lparr>BN_acks := f\<lparr>AF_AckCalls := AF_AckCalls f + 1, AF_LastAckTag := tag,
        AF_LastAckMultiple := multiple\<rparr>\<rparr>))"

definition FakeAcknowledger_Nack ::
  "go_err option \<Rightarrow> 64 word \<Rightarrow> bool \<Rightarrow> bool \<Rightarrow> 's bench \<Rightarrow> go_err option \<times> 's bench" where
  "FakeAcknowledger_Nack NackErr tag multiple requeue b =
    (let f = BN_acks b in
     (NackErr, b\<lparr>BN_acks := f\<lparr>AF_NackCalls := AF_NackCalls f + 1, AF_LastNackTag := tag,
        AF_LastNackMultiple := multiple, AF_LastNackRequeue := requeue\<rparr>\<rparr>))"

definition FakeAcknowledger_Reject ::
  "go_err option \<Rightarrow> 64 word \<Rightarrow> bool \<Rightarrow> 's bench \<Rightarrow> go_err option \<times> 's bench" where
  "FakeAcknowledger_Reject RejectErr tag requeue b =
    (let f = BN_acks b in
     (RejectErr, b\<lparr>BN_acks := f\<lparr>AF_RejectCalls := AF_RejectCalls f + 1, AF_LastRejectTag := tag,
        AF_LastRejectRequeue := requeue\<rparr>\<rparr>))"

definition fake_acknowledger ::
  "go_err option \<Rightarrow> go_err option \<Rightarrow> 's bench acknowledger" where
  "fake_acknowledger AckErr NackErr = \<lparr>
     Ack = FakeAcknowledger_Ack AckErr,
     Nack = FakeAcknowledger_Nack NackErr\<rparr>"

section \<open>internal/infra/clock/fakes\<close>

text \<open>Without a function the clock tells the machine's own time.\<close>

definition fake_clock :: "('s, go_time) call option \<Rightarrow> go_time \<Rightarrow> 's bench clock_port" where
  "fake_clock NowFn wall = \<lparr>
     Now = by_stub NowFn wall,
     CloseClock = (\<lambda>b. (Inr (), b))\<rparr>"


section \<open>internal/app/fakes\<close>

record 'q FakeService =
  SF_CallCount :: int
  SF_LastReq :: 'q

definition empty_pay_response :: pb_PayWithCardResponse where
  "empty_pay_response = \<lparr>PayWithCardResponse_ReceiptNumber = [],
     PayWithCardResponse_InvoiceNumber = [], PayWithCardResponse_Status = 0,
     PayWithCardResponse_Card = None, PayWithCardResponse_ProcessedAt = None\<rparr>"

definition empty_payment_request :: pb_PaymentRequest where
  "empty_payment_request = \<lparr>PaymentRequest_InvoiceNumber = [], PaymentRequest_Description = [],
     PaymentRequest_Total = None, PaymentRequest_IssuedAt = None, PaymentRequest_ExpiresAt = None,
     PaymentRequest_Booking = None, PaymentRequest_Payer = None, PaymentRequest_Options = []\<rparr>"

definition FakeInvoiceService_StartInvoiceProcessing ::
  "('s \<Rightarrow> 's) option \<Rightarrow> unit FakeService \<times> 's \<Rightarrow> unit FakeService \<times> 's" where
  "FakeInvoiceService_StartInvoiceProcessing fn b =
    (case b of (f, s) \<Rightarrow>
      (f\<lparr>SF_CallCount := SF_CallCount f + 1\<rparr>, case fn of Some g \<Rightarrow> g s | None \<Rightarrow> s))"

definition FakePaymentMakingService_PayWithCard ::
  "(pb_PayWithCardRequest option \<Rightarrow> 's \<Rightarrow> (rpc_error + pb_PayWithCardResponse) \<times> 's) option \<Rightarrow>
     pb_PayWithCardRequest option \<Rightarrow> pb_PayWithCardRequest option FakeService \<times> 's \<Rightarrow>
     (rpc_error + pb_PayWithCardResponse) \<times> pb_PayWithCardRequest option FakeService \<times> 's" where
  "FakePaymentMakingService_PayWithCard fn req b =
    (case b of (f, s) \<Rightarrow>
      (let f1 = f\<lparr>SF_CallCount := SF_CallCount f + 1, SF_LastReq := req\<rparr> in
       case fn of
         Some g \<Rightarrow> (case g req s of (r, s1) \<Rightarrow> (r, f1, s1))
       | None \<Rightarrow> (Inr empty_pay_response, f1, s)))"

definition FakePaymentReissueService_Reissue ::
  "(pb_ReissuePaymentRequest option \<Rightarrow> 's \<Rightarrow> (rpc_error + pb_PaymentRequest) \<times> 's) option \<Rightarrow>
     pb_ReissuePaymentRequest option \<Rightarrow> pb_ReissuePaymentRequest option FakeService \<times> 's \<Rightarrow>
     (rpc_error + pb_PaymentRequest) \<times> pb_ReissuePaymentRequest option FakeService \<times> 's" where
  "FakePaymentReissueService_Reissue fn req b =
    (case b of (f, s) \<Rightarrow>
      (let f1 = f\<lparr>SF_CallCount := SF_CallCount f + 1, SF_LastReq := req\<rparr> in
       case fn of
         Some g \<Rightarrow> (case g req s of (r, s1) \<Rightarrow> (r, f1, s1))
       | None \<Rightarrow> (Inr empty_payment_request, f1, s)))"

section \<open>Fakes with functions that keep the contracts\<close>

lemma by_stub_D: "by_stub (Some f) z b = (r, b') \<Longrightarrow> f (BN_world b) = (r, BN_world b')"
  by (auto simp: by_stub_def split: prod.splits)

definition invoice_stubs_of :: "'s invoice_repo \<Rightarrow> 's invoice_stubs" where
  "invoice_stubs_of repo = \<lparr>
     GetFn = Some (FindByInvoiceNumber repo),
     AddFn = Some (AddInvoice repo),
     FindByBookingNumberAndDocumentNumberFn = Some (FindByBookingNumberAndDocumentNumber repo),
     UpdateStatusFn = Some (UpdateStatus repo)\<rparr>"

definition receipt_stubs_of :: "'s receipt_repo \<Rightarrow> 's receipt_stubs" where
  "receipt_stubs_of repo = \<lparr>RGetFn = Some (GetById repo), RAddFn = Some (AddReceipt repo)\<rparr>"

definition producer_stubs_of :: "'s mq_producer \<Rightarrow> 's producer_stubs" where
  "producer_stubs_of prd = \<lparr>
     DeclareExchangeFn = Some (DeclareExchange prd),
     PublishFn = Some (Publish prd),
     PCloseChannelFn = Some (CloseProducer prd)\<rparr>"

text \<open>What a call of a fake is: the call of its function, with the arguments and the count kept.\<close>

lemma fake_invoice_calls:
  "FindByInvoiceNumber (fake_invoice_repo (invoice_stubs_of repo)) n b = (r, b') \<Longrightarrow>
     FindByInvoiceNumber repo n (BN_world b) = (r, BN_world b')"
  "FindByBookingNumberAndDocumentNumber (fake_invoice_repo (invoice_stubs_of repo)) k d b = (r, b') \<Longrightarrow>
     FindByBookingNumberAndDocumentNumber repo k d (BN_world b) = (r, BN_world b')"
  "UpdateStatus (fake_invoice_repo (invoice_stubs_of repo)) n st t b = (u, b') \<Longrightarrow>
     UpdateStatus repo n st t (BN_world b) = (u, BN_world b')"
  "AddInvoice (fake_invoice_repo (invoice_stubs_of repo)) d' b = (a, b') \<Longrightarrow>
     AddInvoice repo d' (BN_world b) = (a, BN_world b')"
  by (auto simp: fake_invoice_repo_def invoice_stubs_of_def FakeInvoiceRepo_FindByInvoiceNumber_def
      FakeInvoiceRepo_FindByBooking_def FakeInvoiceRepo_UpdateStatus_def FakeInvoiceRepo_Add_def
      Let_def dest!: by_stub_D)

lemma fake_receipt_calls:
  "GetById (fake_receipt_repo (receipt_stubs_of rrepo)) i b = (r, b') \<Longrightarrow>
     GetById rrepo i (BN_world b) = (r, BN_world b')"
  "AddReceipt (fake_receipt_repo (receipt_stubs_of rrepo)) d b = (a, b') \<Longrightarrow>
     AddReceipt rrepo d (BN_world b) = (a, BN_world b')"
  by (auto simp: fake_receipt_repo_def receipt_stubs_of_def FakeReceiptRepo_GetById_def
      FakeReceiptRepo_Add_def Let_def dest!: by_stub_D)

lemma fake_publish_call:
  "Publish (fake_mq_producer (producer_stubs_of prd)) m k b = (r, b') \<Longrightarrow>
     Publish prd m k (BN_world b) = (r, BN_world b')"
  by (auto simp: fake_mq_producer_def producer_stubs_of_def FakeMqProducer_Publish_def Let_def
      dest!: by_stub_D)

lemma fake_invoice_port:
  assumes "invoice_repo_port repo docs rest"
  shows "invoice_repo_port (fake_invoice_repo (invoice_stubs_of repo)) (\<lambda>b. docs (BN_world b))
    (\<lambda>b. rest (BN_world b))"
  by unfold_locales
    (use assms in \<open>auto dest!: fake_invoice_calls
  dest: invoice_repo_port.find_quiet invoice_repo_port.find_found
    invoice_repo_port.find_missing invoice_repo_port.find_booking_quiet
    invoice_repo_port.find_booking_found invoice_repo_port.find_booking_missing
    invoice_repo_port.update_rest invoice_repo_port.update_done
    invoice_repo_port.update_failed invoice_repo_port.update_missing
    invoice_repo_port.add_rest invoice_repo_port.add_done
    invoice_repo_port.add_failed invoice_repo_port.add_duplicate invoice_repo_port.add_no_app\<close>)

lemma fake_receipt_port:
  assumes "receipt_repo_port rrepo rcpts rest"
  shows "receipt_repo_port (fake_receipt_repo (receipt_stubs_of rrepo)) (\<lambda>b. rcpts (BN_world b))
    (\<lambda>b. rest (BN_world b))"
  by unfold_locales
    (use assms in \<open>auto dest!: fake_receipt_calls
      dest: receipt_repo_port.get_quiet receipt_repo_port.get_found receipt_repo_port.radd_rest
        receipt_repo_port.radd_done receipt_repo_port.radd_failed\<close>)

lemma fake_producer_port:
  assumes "producer_port prd sent rest"
  shows "producer_port (fake_mq_producer (producer_stubs_of prd)) (\<lambda>b. sent (BN_world b))
    (\<lambda>b. rest (BN_world b))"
  by unfold_locales
    (use assms in \<open>auto dest!: fake_publish_call dest: producer_port.publish_rest
      producer_port.publish_done producer_port.publish_failed
      producer_port.publish_no_constraint\<close>)

lemma fake_clock_quiet:
  assumes "clock_quiet clk rest"
  shows "clock_quiet (fake_clock (Some (Now clk)) wall) (\<lambda>b. rest (BN_world b))"
  by unfold_locales (use assms in \<open>auto simp: fake_clock_def dest!: by_stub_D dest: clock_quiet.now_rest\<close>)

text \<open>
  The default answers do not keep the contract: without its function the invoice fake finds an
  invoice with no number for every number.
\<close>

lemma default_finds_nothing_asked:
  fixes n :: string and fns :: "'s invoice_stubs"
  assumes "n \<noteq> []" and "GetFn fns = None"
  shows "\<not> invoice_repo_port (fake_invoice_repo fns) docs rest"
proof
  assume port: "invoice_repo_port (fake_invoice_repo fns) docs rest"
  obtain b b' :: "'s bench" where "FindByInvoiceNumber (fake_invoice_repo fns) n b = (Inr empty_invoice, b')"
    using assms(2)
    by (simp add: fake_invoice_repo_def FakeInvoiceRepo_FindByInvoiceNumber_def by_stub_def Let_def)
  from invoice_repo_port.find_found[OF port this] assms(1) show False
    by (simp add: empty_invoice_def)
qed

end
