(* ===== verification/FoundationClaims.thy ===== *)
theory FoundationClaims
  imports Logging Fakes PaymentMaking
begin

text \<open>
  The properties of what the services are built on: the validator, the identifiers, the making of
  invoices from requests, the repositories over their collections, the payment service's
  constructor, the lines of the log, and the test doubles of the ports.
\<close>

section \<open>Validation\<close>

text \<open>A validation runs every check: it passes exactly when all of them pass, and otherwise reports
  the failures of all of them, in the order the checks were written, as one error that is a
  validation error and nothing else.\<close>

theorem validation_reports_every_failure:
  assumes "only_constraints v"
  shows "case Validate v of
       None \<Rightarrow> failures (steps v) = []
     | Some e \<Rightarrow> failures (steps v) \<noteq> [] \<and> join_leaves e = failures (steps v) \<and>
         (\<forall>T. is_a T e \<longleftrightarrow> T = TValidation)"
proof (cases "Validate v")
  case None
  moreover from this have "failures (steps v) = []" by (simp only: Validate_None_iff)
  ultimately show ?thesis by simp
next
  case (Some e)
  have "leaf_err x" if "s \<in> set (steps v)" "s () = Some x" for s x
    using assms that by (fastforce simp: only_constraints_def leaf_err_def)
  then have "join_leaves e = failures (steps v)"
    using validate_steps_leaves[of "steps v" None] Some by (simp add: Validate_def)
  with Some Validate_None_iff[of v] Validate_is_a[OF Some assms] show ?thesis by simp
qed

definition two_wrong :: validator where
  "two_wrong = chain [NotBlank ''payer_id'' '' '', NotBlank ''booking_id'' ''b1'',
     PositiveValue ''total.amount'' (int64 0)]"

theorem validation_reports_every_failure_witness:
  "\<exists>e. Validate two_wrong = Some e \<and> length (join_leaves e) = 2 \<and> is_a TValidation e"
proof -
  have two: "length (failures (steps two_wrong)) = 2" by code_simp
  have "only_constraints two_wrong" by (simp add: two_wrong_def validator_simps)
  from validation_reports_every_failure[OF this] two show ?thesis
    by (cases "Validate two_wrong") auto
qed

section \<open>Invoices from requests\<close>

text \<open>A request becomes an invoice exactly when every field the program relies on is there: ids,
  payer, booking, amounts positive where they must be, and due after issued. Then the invoice is
  pending and carries the request's data unchanged; otherwise the error is a validation error.\<close>

theorem invoice_made_from_valid_requests:
  "case NewInvoiceFromProtoMessage tsl r n now of
     Inr d \<Rightarrow> valid_create_request tsl r \<and> d = invoice_of tsl r n now \<and>
       Invoice_Status d = InvoiceStatusPending \<and> Invoice_IssuedAt d < Invoice_DueAt d
   | Inl e \<Rightarrow> \<not> valid_create_request tsl r \<and> (\<forall>T. is_a T e \<longleftrightarrow> T = TValidation)"
proof (cases "valid_create_request tsl r")
  case True
  then have "AsTime tsl (CreateInvoicePaymentRequest_GetIssuedAt r) <
      AsTime tsl (CreateInvoicePaymentRequest_GetDueAt r)"
    by (simp add: valid_create_request_def)
  then have "Invoice_IssuedAt (invoice_of tsl r n now) < Invoice_DueAt (invoice_of tsl r n now)"
    "Invoice_Status (invoice_of tsl r n now) = InvoiceStatusPending"
    by (simp_all add: invoice_of_def InvoiceStatusPending_def)
  with True show ?thesis unfolding NewInvoice_valid[OF True] sum.case by blast
next
  case False
  obtain e where e: "NewInvoiceFromProtoMessage tsl r n now = Inl e"
    "\<forall>T. is_a T e \<longleftrightarrow> T = TValidation"
    using NewInvoice_invalid[OF False, of n now] by blast
  show ?thesis unfolding e(1) sum.case using False e(2) by (rule conjI)
qed

section \<open>Identifiers\<close>

text \<open>C39: an identifier is never the result of a panic: it is the prefix, the day and six hexadecimal
  digits, sixteen characters after the prefix, and the day can be read back from it; or the
  generation failed with the application's unexpected error.\<close>

theorem identifiers_show_their_day:
  assumes "runtime_port rt rtrest"
    and "GenerateHumanFriendlyId rt pre now s = (r, s')"
    and "civil_from_days (now div nanos_per_day) = (y, m, d)" and "0 \<le> y" and "y \<le> 9999"
  shows "case r of
       Returned i \<Rightarrow> friendly_id pre now i \<and> length i = length pre + 16 \<and>
         parse_date (take 8 (drop (Suc (length pre)) i)) = (y, m, d)
     | Failed e \<Rightarrow> is_a TAppUnexpected e
     | Panicked msg \<Rightarrow> False"
proof -
  have src: "id_source rt rtrest" using assms(1) by (simp add: id_source_def)
  from id_source.GenerateHumanFriendlyId_cases[OF src assms(2)] show ?thesis
  proof cases
    case (1 i)
    with friendly_id_length[OF 1(2) assms(3-5)] friendly_id_date[OF 1(2) assms(3-5)]
    show ?thesis by simp
  next
    case (2 m e)
    then show ?thesis by (simp add: error_simps)
  qed
qed

theorem identifiers_show_their_day_witness:
  "case fst (GenerateHumanFriendlyId ref_runtime ''INV'' (world_now empty_world) empty_world) of
     Returned i \<Rightarrow> length i = 19 \<and> parse_date (take 8 (drop 4 i)) = (2026, 1, 15)
   | Failed e \<Rightarrow> is_a TAppUnexpected e
   | Panicked msg \<Rightarrow> False"
proof -
  obtain r s' where r: "GenerateHumanFriendlyId ref_runtime ''INV'' (world_now empty_world)
    empty_world = (r, s')" by (metis surj_pair)
  have day: "civil_from_days (world_now empty_world div nanos_per_day) = (2026, 1, 15)"
    by code_simp
  from identifiers_show_their_day[OF ref.rts.runtime_port_axioms r day] r show ?thesis
    by (cases r) (simp_all add: eval_nat_numeral)
qed

section \<open>The repositories\<close>

context invoice_collection
begin

lemma update_promise:
  assumes "UpdateStatus_impl coll n st t s = (r, s')"
  shows "rest s' = rest s \<and> (docs s' = docs s \<or> status_set n st (docs s) (docs s')) \<and>
    (case r of
       Inr u \<Rightarrow> IsValidInvoiceStatus st \<and> status_set n st (docs s) (docs s')
     | Inl e \<Rightarrow> is_a TDbInvoiceNotFound e \<longrightarrow>
         docs s' = docs s \<and> (\<forall>d\<in>set (docs s). Invoice_InvoiceNumber d \<noteq> n))"
proof -
  have u: "UpdateStatus (mongo_invoice_repo coll) n st t s = (r, s')"
    using assms by (simp add: mongo_invoice_repo_def)
  show ?thesis
    using u mongo_invoices.update_cases[OF u] mongo_invoices.update_rest[OF u]
      mongo_invoices.update_done mongo_invoices.update_missing
    by (cases r) (fastforce+)
qed

lemma writes_keep_wf:
  assumes "\<forall>d\<in>set (docs s). wf_invoice d"
  shows "AddInvoice_impl coll d s = (ra, s1) \<Longrightarrow> \<forall>d\<in>set (docs s1). wf_invoice d"
    and "UpdateStatus_impl coll n st t s = (ru, s2) \<Longrightarrow> \<forall>d\<in>set (docs s2). wf_invoice d"
  using mongo_invoices.add_wf[of d s ra s1] mongo_invoices.update_wf[of n st t s ru s2] assms
  by (simp_all add: mongo_invoice_repo_def)

lemma found_or_not:
  assumes "FindByInvoiceNumber_impl coll n s = (r, s')"
  shows "docs s' = docs s \<and> rest s' = rest s \<and>
    (case r of
       Inr d \<Rightarrow> d \<in> set (docs s) \<and> Invoice_InvoiceNumber d = n
     | Inl e \<Rightarrow> is_a TDbInvoiceNotFound e \<longrightarrow> (\<forall>d\<in>set (docs s). Invoice_InvoiceNumber d \<noteq> n))"
proof -
  have f: "FindByInvoiceNumber (mongo_invoice_repo coll) n s = (r, s')"
    using assms by (simp add: mongo_invoice_repo_def)
  show ?thesis
    using f mongo_invoices.find_quiet[OF f] mongo_invoices.find_found mongo_invoices.find_missing
    by (cases r) (fastforce+)
qed

end

text \<open>Updating a status touches one invoice at most, the first with the number, and of it the status
  and the times only: success means that exactly that happened and the status is a known one, and
  a report that the invoice was not found means that there is none and nothing changed.\<close>

theorem status_update_touches_one:
  assumes "invoice_collection coll docs rest stored"
    and "UpdateStatus_impl coll n st t s = (r, s')"
  shows "rest s' = rest s \<and> (docs s' = docs s \<or> status_set n st (docs s) (docs s')) \<and>
    (case r of
       Inr u \<Rightarrow> IsValidInvoiceStatus st \<and> status_set n st (docs s) (docs s')
     | Inl e \<Rightarrow> is_a TDbInvoiceNotFound e \<longrightarrow>
         docs s' = docs s \<and> (\<forall>d\<in>set (docs s). Invoice_InvoiceNumber d \<noteq> n))"
  by (rule invoice_collection.update_promise[OF assms])

theorem status_update_touches_one_witness:
  "world_invoices (snd (UpdateStatus_impl ref_invoices ''n1'' ''paid'' 1 empty_world)) = []"
proof -
  obtain r s' where r: "UpdateStatus_impl ref_invoices ''n1'' ''paid'' 1 empty_world = (r, s')"
    by (metis surj_pair)
  from status_update_touches_one[OF ref_inv.invoice_collection_axioms r] r show ?thesis
    by (auto simp: status_set_def empty_world_def)
qed

text \<open>The invoice repository admits no malformed invoice: if every stored invoice has its numbers,
  ids, a known status and a positive total, then so it is after any insert and any update,
  whatever they are given and whatever they return.\<close>

theorem stored_invoices_stay_well_formed:
  assumes "invoice_collection coll docs rest stored"
    and "\<forall>d\<in>set (docs s). wf_invoice d"
    and "AddInvoice_impl coll d s = (ra, s1)" and "UpdateStatus_impl coll n st t s1 = (ru, s2)"
  shows "(\<forall>d\<in>set (docs s1). wf_invoice d) \<and> (\<forall>d\<in>set (docs s2). wf_invoice d)"
  using invoice_collection.writes_keep_wf[OF assms(1)] assms(2-4) by meson

definition blank_invoice :: doc_Invoice where
  "blank_invoice = invoice_of ref_timestamps None [] 0"

theorem stored_invoices_stay_well_formed_witness:
  "filter (\<lambda>d. \<not> wf_invoice d)
     (world_invoices (snd (AddInvoice_impl ref_invoices blank_invoice empty_world))) = []"
proof -
  obtain ra s1 where a: "AddInvoice_impl ref_invoices blank_invoice empty_world = (ra, s1)"
    by (metis surj_pair)
  obtain ru s2 where u: "UpdateStatus_impl ref_invoices ''n'' ''paid'' 1 s1 = (ru, s2)"
    by (metis surj_pair)
  have "\<forall>d\<in>set (world_invoices empty_world). wf_invoice d" by (simp add: empty_world_def)
  from stored_invoices_stay_well_formed[OF ref_inv.invoice_collection_axioms this a u] a
  show ?thesis by (simp add: filter_empty_conv)
qed

text \<open>Looking an invoice up changes nothing and does not invent: what is found is stored and has
  the number asked for, and a report that it was not found means that no stored invoice has it.\<close>

theorem invoice_lookup_is_exact:
  assumes "invoice_collection coll docs rest stored"
    and "FindByInvoiceNumber_impl coll n s = (r, s')"
  shows "docs s' = docs s \<and> rest s' = rest s \<and>
    (case r of
       Inr d \<Rightarrow> d \<in> set (docs s) \<and> Invoice_InvoiceNumber d = n
     | Inl e \<Rightarrow> is_a TDbInvoiceNotFound e \<longrightarrow> (\<forall>d\<in>set (docs s). Invoice_InvoiceNumber d \<noteq> n))"
  by (rule invoice_collection.found_or_not[OF assms])

theorem invoice_lookup_is_exact_witness:
  "case fst (FindByInvoiceNumber_impl ref_invoices ''n1'' empty_world) of
     Inr d \<Rightarrow> False | Inl e \<Rightarrow> True"
proof -
  obtain r s' where r: "FindByInvoiceNumber_impl ref_invoices ''n1'' empty_world = (r, s')"
    by (metis surj_pair)
  from invoice_lookup_is_exact[OF ref_inv.invoice_collection_axioms r] r show ?thesis
    by (cases r) (auto simp: empty_world_def)
qed

context receipt_collection
begin

lemma receipt_promise:
  assumes "AddReceipt_impl coll d s = (r, s')"
  shows "rest s' = rest s \<and>
    (case r of
       Inr i \<Rightarrow> receipt_inserted d (docs s) (docs s')
     | Inl e \<Rightarrow> docs s' = docs s \<or> receipt_inserted d (docs s) (docs s'))"
proof -
  have a: "AddReceipt (mongo_receipt_repo coll) d s = (r, s')"
    using assms by (simp add: mongo_receipt_repo_def)
  show ?thesis
    using a mongo_receipts.radd_rest[OF a] mongo_receipts.radd_done mongo_receipts.radd_failed
    by (cases r) (fastforce+)
qed

end

text \<open>Adding a receipt adds that receipt at most once and never changes another; success means that
  it was added, and a receipt without its number, invoice, card or time is refused untouched.\<close>

theorem receipt_added_at_most_once:
  assumes "receipt_collection coll docs rest stored"
    and "AddReceipt_impl coll d s = (r, s')"
  shows "rest s' = rest s \<and>
    (case r of
       Inr i \<Rightarrow> passes (add_receipt_checks d) \<and> receipt_inserted d (docs s) (docs s')
     | Inl e \<Rightarrow> docs s' = docs s \<or>
         passes (add_receipt_checks d) \<and> receipt_inserted d (docs s) (docs s'))"
proof (cases "passes (add_receipt_checks d)")
  case True
  with receipt_collection.receipt_promise[OF assms] show ?thesis by (cases r) auto
next
  case False
  then obtain e where "Validate (add_receipt_checks d) = Some e"
    by (cases "Validate (add_receipt_checks d)") (simp_all add: passes_def)
  with assms(2) show ?thesis by (auto simp: AddReceipt_impl_def)
qed

definition blank_receipt :: doc_Receipt where
  "blank_receipt = receipt_of ref_timestamps 0 None"

theorem receipt_added_at_most_once_witness:
  "length (world_receipts (snd (AddReceipt_impl ref_receipts blank_receipt empty_world))) \<le> 1"
proof -
  obtain r s' where r: "AddReceipt_impl ref_receipts blank_receipt empty_world = (r, s')"
    by (metis surj_pair)
  from receipt_added_at_most_once[OF ref_rec.receipt_collection_axioms r] r show ?thesis
    by (cases r) (auto simp: receipt_inserted_def empty_world_def)
qed

section \<open>Making the payment service\<close>

text \<open>The payment service is made exactly when all its ports are given and the chance of failure is
  not negative; it then uses those ports and that chance, and otherwise the error is a validation
  error.\<close>

theorem payment_service_made_iff:
  "case NewPaymentMakingServer chance clock repo rrepo prd of
     Inr svc \<Rightarrow> chance \<ge> 0 \<and> clock = Some (PM_clock svc) \<and> repo = Some (PM_invoiceRepo svc) \<and>
       rrepo = Some (PM_receiptRepo svc) \<and> prd = Some (PM_paymentProducer svc) \<and>
       PM_failChance svc = chance
   | Inl e \<Rightarrow> (chance < 0 \<or> clock = None \<or> repo = None \<or> rrepo = None \<or> prd = None) \<and>
       (\<forall>T. is_a T e \<longleftrightarrow> T = TValidation)"
proof -
  let ?v = "chain [NotNil ''clock'' (ptr clock), NotNil ''invoice_repo'' (ptr repo),
    NotNil ''receipt_repo'' (ptr rrepo), NotNil ''payment_producer'' (ptr prd)]"
  have p: "passes ?v \<longleftrightarrow> clock \<noteq> None \<and> repo \<noteq> None \<and> rrepo \<noteq> None \<and> prd \<noteq> None"
    by (auto simp: validator_simps)
  show ?thesis
  proof (cases "Validate ?v")
    case None
    with p show ?thesis by (auto simp: NewPaymentMakingServer_def passes_def error_simps)
  next
    case (Some e)
    with p have "clock = None \<or> repo = None \<or> rrepo = None \<or> prd = None"
      by (auto simp: passes_def)
    with Some Validate_is_a[OF Some] show ?thesis
      by (simp add: NewPaymentMakingServer_def validator_simps)
  qed
qed

section \<open>The log and the test doubles\<close>

text \<open>A record the program logs, from the level of its logger up, becomes one line of the log with
  the name of the host, the record's own attributes and, when it is logged within a valid span and
  only then, the identifiers of the trace and of the span; below that level nothing is written.\<close>

theorem log_lines_carry_their_span:
  assumes "slog_handlers lib lines given threshold"
    and "fst (Handler_Handle lib (NewLogger lib hostname level) sc r s) = None"
  shows "lines (log_with lib (NewLogger lib hostname level) sc r s) = lines s @
    (if sint level \<le> LR_Level r then
       [r\<lparr>LR_Attrs := (''app'', case hostname of Inl err \<Rightarrow> ''unknown'' | Inr h \<Rightarrow> h) # LR_Attrs r @
         (if SC_IsValid sc then [(''trace_id'', SC_TraceID sc), (''span_id'', SC_SpanID sc)]
          else [])\<rparr>]
     else [])"
  using slog_handlers.log_line[OF assms(1)] slog_handlers.log_quiet[OF assms(1)] assms(2)
  by (cases "sint level \<le> LR_Level r") simp_all

theorem log_lines_carry_their_span_witness:
  "log_with list_slog (NewLogger list_slog (Inr ''pod'') 0)
     \<lparr>SC_IsValid = True, SC_TraceID = ''t1'', SC_SpanID = ''s1''\<rparr>
     \<lparr>LR_Level = 4, LR_Message = ''nack delivery'', LR_Attrs = []\<rparr> [] =
   [\<lparr>LR_Level = 4, LR_Message = ''nack delivery'',
      LR_Attrs = [(''app'', ''pod''), (''trace_id'', ''t1''), (''span_id'', ''s1'')]\<rparr>]"
proof -
  have "fst (Handler_Handle list_slog (NewLogger list_slog (Inr ''pod'') 0)
      \<lparr>SC_IsValid = True, SC_TraceID = ''t1'', SC_SpanID = ''s1''\<rparr>
      \<lparr>LR_Level = 4, LR_Message = ''nack delivery'', LR_Attrs = []\<rparr> []) = None"
    by (simp add: Handler_Handle_def list_slog_def Let_def)
  from log_lines_carry_their_span[OF list_slog.slog_handlers_axioms this] show ?thesis by simp
qed

text \<open>A test double with functions that keep the contract of its port keeps the contract too, so
  the services behave in such a test as they are proved to behave on every port; without its
  function the fake of the invoice repository keeps no contract, since it finds an invoice under
  every number.\<close>

theorem fakes_keep_contracts:
  assumes "invoice_repo_port repo docs rest" and "receipt_repo_port rrepo rcpts rrest"
    and "producer_port prd sent prest" and "clock_quiet clk crest"
  shows "invoice_repo_port (fake_invoice_repo (invoice_stubs_of repo)) (\<lambda>b. docs (BN_world b))
      (\<lambda>b. rest (BN_world b)) \<and>
    receipt_repo_port (fake_receipt_repo (receipt_stubs_of rrepo)) (\<lambda>b. rcpts (BN_world b))
      (\<lambda>b. rrest (BN_world b)) \<and>
    producer_port (fake_mq_producer (producer_stubs_of prd)) (\<lambda>b. sent (BN_world b))
      (\<lambda>b. prest (BN_world b)) \<and>
    clock_quiet (fake_clock (Some (Now clk)) wall) (\<lambda>b. crest (BN_world b)) \<and>
    \<not> invoice_repo_port (fake_invoice_repo ((invoice_stubs_of repo)\<lparr>GetFn := None\<rparr>))
      (\<lambda>b. docs (BN_world b)) (\<lambda>b. rest (BN_world b))"
  using fake_invoice_port[OF assms(1)] fake_receipt_port[OF assms(2)] fake_producer_port[OF assms(3)]
    fake_clock_quiet[OF assms(4)]
    default_finds_nothing_asked[of "''INV-1''" "(invoice_stubs_of repo)\<lparr>GetFn := None\<rparr>"]
  by simp

theorem fakes_keep_contracts_witness:
  "invoice_repo_port (fake_invoice_repo (invoice_stubs_of (mongo_invoice_repo ref_invoices)))
     (\<lambda>b. world_invoices (BN_world b))
     (\<lambda>b. (world_receipts (BN_world b), world_sent (BN_world b), world_settled (BN_world b)))"
proof -
  have "receipt_repo_port (mongo_receipt_repo ref_receipts) world_receipts
      (\<lambda>s. (world_invoices s, world_sent s, world_settled s))"
    and "producer_port ref_producer world_sent
      (\<lambda>s. (world_invoices s, world_receipts s, world_settled s))"
    and "clock_quiet ref_clock
      (\<lambda>s. (world_invoices s, world_receipts s, world_sent s, world_settled s))"
    using ref_app_ports by (simp_all add: app_ports_def)
  note others = this
  have "invoice_repo_port (mongo_invoice_repo ref_invoices) world_invoices
      (\<lambda>s. (world_receipts s, world_sent s, world_settled s))"
    using ref_app_ports by (simp add: app_ports_def)
  from fakes_keep_contracts[OF this others] show ?thesis by (rule conjunct1)
qed

end
