(* ===== verification/MongoDb.thy ===== *)
theory MongoDb
  imports RefWorld
begin

text \<open>
  internal/infra/db/mongo_db.go: connecting to MongoDB, with a ping before the database is used.
  The driver is a parameter; a client is a handle.
\<close>

section \<open>The driver\<close>

text \<open>The client options, durations in nanoseconds.\<close>

record mongo_options =
  MO_URI :: string
  MO_ConnectTimeout :: int
  MO_ServerSelectionTimeout :: int
  MO_MaxConnIdleTime :: int
  MO_MaxPoolSize :: "64 word"
  MO_MinPoolSize :: "64 word"
  MO_RetryWrites :: bool
  MO_ReplicaSet :: "string option"

text \<open>\<open>MD_Ping\<close> takes the timeouts of the contexts the ping runs under, from the outermost.\<close>

record 's mongo_driver =
  MD_Connect :: "mongo_options \<Rightarrow> ('s, nat) call"
  MD_Ping :: "int list \<Rightarrow> nat \<Rightarrow> 's \<Rightarrow> go_err option \<times> 's"
  MD_Disconnect :: "nat \<Rightarrow> 's \<Rightarrow> go_err option \<times> 's"

section \<open>mongo_db.go\<close>

record mongo_handle =
  DB_Client :: nat
  DB_Database :: string

definition mongo_checks :: "MongoConfig \<Rightarrow> validator" where
  "mongo_checks cfg = chain
    [NotBlank ''mongo.username'' (Mongo_Username cfg),
     NotBlank ''mongo.password'' (Mongo_Password cfg),
     NotBlank ''mongo.host'' (Mongo_Host cfg),
     NotBlank ''mongo.database'' (Mongo_Database cfg),
     PositiveValue ''mongo.connection_timeout_in_seconds''
       (int64 (Mongo_ConnectionTimeoutInSeconds cfg)),
     PositiveValue ''mongo.server_selection_timeout_in_seconds''
       (int64 (Mongo_ServerSelectionTimeoutInSeconds cfg)),
     PositiveValue ''mongo.ping_timeout_in_seconds'' (int64 (Mongo_PingTimeoutInSeconds cfg)),
     PositiveValue ''mongo.startup_timeout_in_seconds'' (int64 (Mongo_StartupTimeoutInSeconds cfg)),
     PositiveValue ''mongo.max_conn_idle_time_in_seconds''
       (int64 (Mongo_MaxConnIdleTimeInSeconds cfg)),
     PositiveValue ''mongo.max_pool_size'' (Some (VUint (unat (Mongo_MaxPoolSize cfg))))]"

definition mongo_uri :: "MongoConfig \<Rightarrow> string" where
  "mongo_uri cfg =
     ''mongodb://'' @ Mongo_Username cfg @ '':'' @ Mongo_Password cfg @ ''@'' @ Mongo_Host cfg"

definition mongo_client_options :: "MongoConfig \<Rightarrow> mongo_options" where
  "mongo_client_options cfg = \<lparr>
     MO_URI = mongo_uri cfg,
     MO_ConnectTimeout = seconds (Mongo_ConnectionTimeoutInSeconds cfg),
     MO_ServerSelectionTimeout = seconds (Mongo_ServerSelectionTimeoutInSeconds cfg),
     MO_MaxConnIdleTime = seconds (Mongo_MaxConnIdleTimeInSeconds cfg),
     MO_MaxPoolSize = Mongo_MaxPoolSize cfg,
     MO_MinPoolSize = Mongo_MinPoolSize cfg,
     MO_RetryWrites = Mongo_RetryWrites cfg,
     MO_ReplicaSet = (if Mongo_ReplicaSet cfg = [] then None else Some (Mongo_ReplicaSet cfg))\<rparr>"

text \<open>The error of the disconnect after a failed ping is dropped.\<close>

definition NewMongoDb :: "'s mongo_driver \<Rightarrow> MongoConfig \<Rightarrow> ('s, mongo_handle) call" where
  "NewMongoDb drv cfg s =
    (case Validate (mongo_checks cfg) of
       Some err \<Rightarrow> (Inl err, s)
     | None \<Rightarrow>
      (case MD_Connect drv (mongo_client_options cfg) s of
         (Inl err, s1) \<Rightarrow> (Inl err, s1)
       | (Inr client, s1) \<Rightarrow>
        (case MD_Ping drv [seconds (Mongo_StartupTimeoutInSeconds cfg),
                seconds (Mongo_PingTimeoutInSeconds cfg)] client s1 of
           (Some err, s2) \<Rightarrow>
             (Inl (WrapErr (''mongo ping failed for URI: '' @ mongo_uri cfg @ '', error: '') err),
              snd (MD_Disconnect drv client s2))
         | (None, s2) \<Rightarrow>
             (Inr \<lparr>DB_Client = client, DB_Database = Mongo_Database cfg\<rparr>, s2))))"

definition MongoClose :: "'s mongo_driver \<Rightarrow> mongo_handle \<Rightarrow> 's \<Rightarrow> go_err option \<times> 's" where
  "MongoClose drv d s = MD_Disconnect drv (DB_Client d) s"

text \<open>\<open>Ping\<close> runs under the background context, which has no timeout.\<close>

definition MongoPing :: "'s mongo_driver \<Rightarrow> mongo_handle \<Rightarrow> 's \<Rightarrow> go_err option \<times> 's" where
  "MongoPing drv d s = MD_Ping drv [] (DB_Client d) s"

section \<open>What the driver promises\<close>

text \<open>
  \<open>clients\<close> are the clients that are connected. A failed disconnect may leave its client, a
  failed connect leaves none.
\<close>

locale mongo_clients =
  fixes drv :: "'s mongo_driver"
    and clients :: "'s \<Rightarrow> nat set"
  assumes connect_fresh: "MD_Connect drv opts s = (Inr h, s') \<Longrightarrow>
      h \<notin> clients s \<and> clients s' = insert h (clients s)"
    and connect_failed: "MD_Connect drv opts s = (Inl e, s') \<Longrightarrow> clients s' = clients s"
    and ping_keeps: "MD_Ping drv ts h s = (re, s') \<Longrightarrow> clients s' = clients s"
    and disconnect_done: "MD_Disconnect drv h s = (None, s') \<Longrightarrow> clients s' = clients s - {h}"
    and disconnect_failed: "MD_Disconnect drv h s = (Some e, s') \<Longrightarrow>
      clients s' = clients s \<or> clients s' = clients s - {h}"
    and connect_error: "MD_Connect drv opts s = (Inl e, s') \<Longrightarrow> \<not> is_a T e"
begin

text \<open>
  Connecting leaves one client more when it succeeds, and none when it fails, as long as
  disconnecting works.
\<close>

lemma NewMongoDb_clients:
  assumes "NewMongoDb drv cfg s = (r, s')"
  shows "case r of
       Inr d \<Rightarrow> DB_Client d \<notin> clients s \<and> clients s' = insert (DB_Client d) (clients s)
     | Inl e \<Rightarrow> clients s' = clients s \<or>
         (\<exists>h s2. h \<notin> clients s \<and> fst (MD_Disconnect drv h s2) \<noteq> None \<and>
            clients s' = insert h (clients s))"
proof (cases "Validate (mongo_checks cfg)")
  case (Some e)
  with assms show ?thesis by (auto simp: NewMongoDb_def)
next
  case None
  obtain q s1 where q: "MD_Connect drv (mongo_client_options cfg) s = (q, s1)"
    by (metis surj_pair)
  show ?thesis
  proof (cases q)
    case (Inl e)
    with None q assms connect_failed show ?thesis by (auto simp: NewMongoDb_def)
  next
    case (Inr h)
    note new = connect_fresh[OF q[unfolded Inr]]
    obtain p s2 where p: "MD_Ping drv [seconds (Mongo_StartupTimeoutInSeconds cfg),
        seconds (Mongo_PingTimeoutInSeconds cfg)] h s1 = (p, s2)" by (metis surj_pair)
    note same = ping_keeps[OF p]
    show ?thesis
    proof (cases p)
      case None
      with p q Inr \<open>Validate (mongo_checks cfg) = None\<close> assms new same show ?thesis
        by (auto simp: NewMongoDb_def)
    next
      case (Some e)
      obtain x s3 where d: "MD_Disconnect drv h s2 = (x, s3)" by (metis surj_pair)
      from p q Inr Some d \<open>Validate (mongo_checks cfg) = None\<close> assms
      have r: "r = Inl (WrapErr (''mongo ping failed for URI: '' @ mongo_uri cfg @ '', error: '') e)"
        "s' = s3" by (auto simp: NewMongoDb_def)
      show ?thesis
      proof (cases x)
        case None
        with d disconnect_done new same r show ?thesis by auto
      next
        case x: (Some y)
        have "fst (MD_Disconnect drv h s2) \<noteq> None" using d x by simp
        moreover have "clients s' = clients s \<or> clients s' = insert h (clients s)"
          using disconnect_failed[OF d[unfolded x]] new same r(2) by auto
        ultimately show ?thesis unfolding r(1) sum.case using new by blast
      qed
    qed
  qed
qed

end

text \<open>The password is in the text of the error of a failed ping.\<close>

definition shows_text :: "string \<Rightarrow> go_err \<Rightarrow> bool" where
  "shows_text t e \<longleftrightarrow> (\<exists>pre post. error_text e = pre @ t @ post)"

lemma ping_failure_text:
  "shows_text (Mongo_Password cfg)
     (WrapErr (''mongo ping failed for URI: '' @ mongo_uri cfg @ '', error: '') e)"
  unfolding shows_text_def
  by (intro exI[of _ "''mongo ping failed for URI: mongodb://'' @ Mongo_Username cfg @ '':''"]
      exI[of _ "''@'' @ Mongo_Host cfg @ '', error: '' @ error_text e"])
    (simp add: mongo_uri_def)

section \<open>A reference driver\<close>

record ref_mongo =
  rm_clients :: "nat list"
  rm_next :: nat
  rm_down :: "string list"

definition rm_fails :: "string \<Rightarrow> ref_mongo \<Rightarrow> bool" where
  "rm_fails op s \<longleftrightarrow> op \<in> set (rm_down s)"

definition ref_driver :: "ref_mongo mongo_driver" where
  "ref_driver = \<lparr>
     MD_Connect = (\<lambda>opts s.
       if rm_fails ''connect'' s \<or> rm_next s \<in> set (rm_clients s) then (Inl (lost ''connect''), s)
       else (Inr (rm_next s),
         s\<lparr>rm_clients := rm_next s # rm_clients s, rm_next := Suc (rm_next s)\<rparr>)),
     MD_Ping = (\<lambda>ts h s. (if rm_fails ''ping'' s then Some (lost ''ping'') else None, s)),
     MD_Disconnect = (\<lambda>h s.
       if rm_fails ''disconnect'' s then (Some (lost ''disconnect''), s)
       else (None, s\<lparr>rm_clients := filter (\<lambda>k. k \<noteq> h) (rm_clients s)\<rparr>))\<rparr>"

interpretation ref_mongo_clients: mongo_clients ref_driver "\<lambda>s. set (rm_clients s)"
  by unfold_locales (auto simp: ref_driver_def lost_def error_simps split: if_splits)

text \<open>A driver without a state, that connects and answers pings as it is told.\<close>

definition told_driver :: "go_err option \<Rightarrow> 's mongo_driver" where
  "told_driver ping = \<lparr>
     MD_Connect = (\<lambda>opts s. (Inr 0, s)),
     MD_Ping = (\<lambda>ts h s. (ping, s)),
     MD_Disconnect = (\<lambda>h s. (None, s))\<rparr>"

end
