(* ===== verification/HttpServer.thy ===== *)
theory HttpServer
  imports Broker MongoDb
begin

text \<open>
  internal/transport/server.go and internal/transport/http/probe: the HTTP server in front of the
  gateway, its routes and time limits, and the probes that report health and readiness.
\<close>

section \<open>probe.go\<close>

record http_response =
  RS_Code :: nat
  RS_Body :: string

definition http_Error :: "string \<Rightarrow> nat \<Rightarrow> http_response" where
  "http_Error msg code = \<lparr>RS_Code = code, RS_Body = msg @ [CHR 0x0A]\<rparr>"

definition HealthHandler :: http_response where
  "HealthHandler = \<lparr>RS_Code = 200, RS_Body = []\<rparr>"

definition ReadinessHandler ::
  "'s amqp_lib \<Rightarrow> 's mongo_driver \<Rightarrow> rabbit_conn \<Rightarrow> mongo_handle \<Rightarrow> 's \<Rightarrow> http_response \<times> 's" where
  "ReadinessHandler lib drv rabbitMqClient client s =
    (let (is_open, s1) = IsConnectionOpen lib rabbitMqClient s in
     if \<not> is_open then (http_Error ''rabbitmq connection closed'' 503, s1)
     else
      (case MongoPing drv client s1 of
         (Some err, s2) \<Rightarrow> (http_Error ''db ping failed'' 503, s2)
       | (None, s2) \<Rightarrow> (\<lparr>RS_Code = 200, RS_Body = []\<rparr>, s2)))"

section \<open>server.go\<close>

record httpServerConfig =
  SC_host :: string
  SC_port :: "64 word"
  SC_readHeaderTimeoutInSeconds :: "64 word"
  SC_readTimeoutInSeconds :: "64 word"
  SC_writeTimeoutInSeconds :: "64 word"
  SC_idleTimeoutInSeconds :: "64 word"

datatype route =
    HealthRoute
  | ReadinessRoute
  | GatewayRoute

text \<open>The fields of \<open>http.Server\<close> the program sets; the handler is its table of routes.\<close>

record go_http_server =
  HS_Addr :: string
  HS_Handler :: "(string \<times> route) list"
  HS_ReadHeaderTimeout :: int
  HS_ReadTimeout :: int
  HS_WriteTimeout :: int
  HS_IdleTimeout :: int

text \<open>
  The server keeps the gateway's mux; the connections it probes are shared with the rest of the
  program and are passed to the probes.
\<close>

record 'm server =
  SV_server :: "go_http_server option"
  SV_paymentServerMux :: 'm
  SV_serverConfig :: httpServerConfig
  SV_telemetryConfig :: TelemetryConfig

definition http_server_checks ::
  "string \<Rightarrow> 64 word \<Rightarrow> 64 word \<Rightarrow> 64 word \<Rightarrow> 64 word \<Rightarrow> 64 word \<Rightarrow> 'm option \<Rightarrow> validator" where
  "http_server_checks host port readHeader read write idle mux = chain
    [NotBlank ''http.host'' host,
     PositiveValue ''http.port'' (int64 port),
     PositiveValue ''http.read_header_timeout_in_seconds'' (int64 readHeader),
     PositiveValue ''http.read_timeout_in_seconds'' (int64 read),
     PositiveValue ''http.write_timeout_in_seconds'' (int64 write),
     PositiveValue ''http.idle_timeout_in_seconds'' (int64 idle),
     NotNil ''payment_server_mux'' (ptr mux)]"

definition NewHttpServer ::
  "string \<Rightarrow> 64 word \<Rightarrow> 64 word \<Rightarrow> 64 word \<Rightarrow> 64 word \<Rightarrow> 64 word \<Rightarrow> TelemetryConfig \<Rightarrow> 'm option \<Rightarrow>
     go_err + 'm server" where
  "NewHttpServer host port readHeader read write idle telemetryConfig mux =
    (case Validate (http_server_checks host port readHeader read write idle mux) of
       Some err \<Rightarrow> Inl err
     | None \<Rightarrow> Inr \<lparr>
         SV_server = None,
         SV_paymentServerMux = the mux,
         SV_serverConfig = \<lparr>
           SC_host = host, SC_port = port,
           SC_readHeaderTimeoutInSeconds = readHeader,
           SC_readTimeoutInSeconds = read,
           SC_writeTimeoutInSeconds = write,
           SC_idleTimeoutInSeconds = idle\<rparr>,
         SV_telemetryConfig = telemetryConfig\<rparr>)"

definition SetServer :: "'m server \<Rightarrow> 'm server" where
  "SetServer s =
    (let rootMux = [(''/healthz'', HealthRoute), (''/readyz'', ReadinessRoute), (''/'', GatewayRoute)];
         cfg = SV_serverConfig s
     in s\<lparr>SV_server := Some \<lparr>
          HS_Addr = SC_host cfg @ '':'' @ itoa_int (sint (SC_port cfg)),
          HS_Handler = rootMux,
          HS_ReadHeaderTimeout = seconds (SC_readHeaderTimeoutInSeconds cfg),
          HS_ReadTimeout = seconds (SC_readTimeoutInSeconds cfg),
          HS_WriteTimeout = seconds (SC_writeTimeoutInSeconds cfg),
          HS_IdleTimeout = seconds (SC_idleTimeoutInSeconds cfg)\<rparr>\<rparr>)"

text \<open>
  \<open>http.ServeMux\<close>: a pattern that ends in a slash matches every path below it, any other only
  itself; the longest pattern that matches wins.
\<close>

definition pattern_matches :: "string \<Rightarrow> string \<Rightarrow> bool" where
  "pattern_matches pat path \<longleftrightarrow>
     (if pat \<noteq> [] \<and> last pat = CHR ''/'' then take (length pat) path = pat else path = pat)"

fun mux_route :: "(string \<times> 'h) list \<Rightarrow> string \<Rightarrow> (string \<times> 'h) option" where
  "mux_route [] path = None"
| "mux_route ((pat, h) # rest) path =
     (if pattern_matches pat path
      then (case mux_route rest path of
              None \<Rightarrow> Some (pat, h)
            | Some (pat', h') \<Rightarrow>
                if length pat' > length pat then Some (pat', h') else Some (pat, h))
      else mux_route rest path)"

text \<open>
  The middleware in front of the gateway: the request goes on with the context the propagator
  takes from its headers.
\<close>

record 'c traced_request =
  TQ_Context :: 'c
  TQ_Header :: "string \<Rightarrow> string list"

definition traceContextMiddleware ::
  "('c \<Rightarrow> (string \<Rightarrow> string list) \<Rightarrow> 'c) \<Rightarrow> ('c traced_request \<Rightarrow> 'r) \<Rightarrow> 'c traced_request \<Rightarrow> 'r" where
  "traceContextMiddleware extract next_handler r =
     next_handler (r\<lparr>TQ_Context := extract (TQ_Context r) (TQ_Header r)\<rparr>)"

text \<open>
  \<open>ListenAndServe\<close> and \<open>Shutdown\<close> of the wrapped server, and whether an error is
  \<open>http.ErrServerClosed\<close>, are the library's.
\<close>

record 's http_lib =
  HL_ListenAndServe :: "go_http_server \<Rightarrow> 's \<Rightarrow> go_err option \<times> 's"
  HL_Shutdown :: "go_http_server \<Rightarrow> 's \<Rightarrow> go_err option \<times> 's"
  HL_is_server_closed :: "go_err \<Rightarrow> bool"

text \<open>A server that was never set is a nil pointer.\<close>

definition ServerShutdown :: "'s http_lib \<Rightarrow> 'm server \<Rightarrow> 's \<Rightarrow> (go_err, unit) outcome \<times> 's" where
  "ServerShutdown hl svr s =
    (case SV_server svr of
       None \<Rightarrow> (Panicked ''runtime error: invalid memory address or nil pointer dereference'', s)
     | Some srv \<Rightarrow>
      (case HL_Shutdown hl srv s of
         (Some err, s1) \<Rightarrow>
           if HL_is_server_closed hl err then (Returned (), s1) else (Failed err, s1)
       | (None, s1) \<Rightarrow> (Returned (), s1)))"

text \<open>
  \<open>Run\<close> serves until the server is closed; any other end is an error that is only logged. The
  result is what it logs.
\<close>

definition ServerRun ::
  "'s http_lib \<Rightarrow> 'm server \<Rightarrow> 's \<Rightarrow> (go_err, (string \<times> go_err) list) outcome \<times> 's" where
  "ServerRun hl svr s =
    (case SV_server svr of
       None \<Rightarrow> (Panicked ''runtime error: invalid memory address or nil pointer dereference'', s)
     | Some srv \<Rightarrow>
      (case HL_ListenAndServe hl srv s of
         (Some err, s1) \<Rightarrow>
           if HL_is_server_closed hl err then (Returned [], s1)
           else (Returned [(''server error'', err)], s1)
       | (None, s1) \<Rightarrow> (Returned [], s1)))"

section \<open>Lemmas\<close>

text \<open>
  A server that cannot listen, on an address in use for one, ends like one that was closed: the
  goroutine returns, and nothing of its failure reaches the program but a line of the log.
\<close>

lemma ServerRun_never_fails:
  assumes "SV_server svr = Some srv" and "HL_ListenAndServe hl srv s = (e, s')"
  shows "\<exists>logs. ServerRun hl svr s = (Returned logs, s') \<and>
    (logs = [] \<longleftrightarrow> (case e of None \<Rightarrow> True | Some err \<Rightarrow> HL_is_server_closed hl err))"
  using assms by (auto simp: ServerRun_def split: option.splits)

lemma http_server_checks_pass [validator_simps]:
  "passes (http_server_checks host port readHeader read write idle mux) \<longleftrightarrow>
     \<not> is_blank host \<and> 0 < sint port \<and> 0 < sint readHeader \<and> 0 < sint read \<and>
     0 < sint write \<and> 0 < sint idle \<and> mux \<noteq> None"
  by (auto simp: http_server_checks_def validator_simps)

lemma NewHttpServer_made:
  assumes "NewHttpServer host port readHeader read write idle tel mux = Inr svr"
  shows "passes (http_server_checks host port readHeader read write idle mux)"
    and "SV_serverConfig svr = \<lparr>
           SC_host = host, SC_port = port,
           SC_readHeaderTimeoutInSeconds = readHeader,
           SC_readTimeoutInSeconds = read,
           SC_writeTimeoutInSeconds = write,
           SC_idleTimeoutInSeconds = idle\<rparr>"
    and "mux = Some (SV_paymentServerMux svr)"
proof -
  from assms have n: "Validate (http_server_checks host port readHeader read write idle mux) = None"
    by (auto simp: NewHttpServer_def split: option.splits)
  then show p: "passes (http_server_checks host port readHeader read write idle mux)"
    by (simp add: passes_def)
  from assms n show "SV_serverConfig svr = \<lparr>
           SC_host = host, SC_port = port,
           SC_readHeaderTimeoutInSeconds = readHeader,
           SC_readTimeoutInSeconds = read,
           SC_writeTimeoutInSeconds = write,
           SC_idleTimeoutInSeconds = idle\<rparr>" by (auto simp: NewHttpServer_def)
  from p have "mux \<noteq> None" by (simp add: http_server_checks_pass)
  with assms n show "mux = Some (SV_paymentServerMux svr)" by (auto simp: NewHttpServer_def)
qed

lemma root_routes:
  "mux_route [(''/healthz'', HealthRoute), (''/readyz'', ReadinessRoute), (''/'', GatewayRoute)]
     (CHR ''/'' # path) = Some
     (if path = ''healthz'' then (''/healthz'', HealthRoute)
      else if path = ''readyz'' then (''/readyz'', ReadinessRoute)
      else (''/'', GatewayRoute))"
  by (simp add: pattern_matches_def)

end
