(* ===== verification/Telemetry.thy ===== *)
theory Telemetry
  imports RefWorld
begin

text \<open>
  internal/infra/telemetry: setting up the OpenTelemetry providers and shutting them down
  (telemetry.go, metrics.go), and starting spans and recording errors on them (tracing.go). The SDK
  is a parameter; providers, contexts and spans are handles. The services' own use of spans has no
  effect the program sees and is left out of their models.
\<close>

section \<open>The SDK\<close>

record otlp_options =
  OO_Endpoint :: string
  OO_Insecure :: bool

text \<open>
  \<open>OT_Globals\<close> sets the global providers and the composite propagator of b3, trace context and
  baggage. The shutdowns take the timeout of their context.
\<close>

record 's otel_lib =
  OT_Resource :: "string \<Rightarrow> ('s, nat) call"
  OT_TraceExporter :: "otlp_options \<Rightarrow> ('s, nat) call"
  OT_MetricExporter :: "otlp_options \<Rightarrow> ('s, nat) call"
  OT_TracerProvider :: "nat \<Rightarrow> nat \<Rightarrow> 's \<Rightarrow> nat \<times> 's"
  OT_MeterProvider :: "nat \<Rightarrow> nat \<Rightarrow> 's \<Rightarrow> nat \<times> 's"
  OT_Globals :: "nat \<Rightarrow> nat \<Rightarrow> 's \<Rightarrow> 's"
  OT_Instrument :: "string \<Rightarrow> ('s, nat) call"
  OT_TracerShutdown :: "int \<Rightarrow> nat \<Rightarrow> 's \<Rightarrow> go_err option \<times> 's"
  OT_MeterShutdown :: "int \<Rightarrow> nat \<Rightarrow> 's \<Rightarrow> go_err option \<times> 's"

section \<open>metrics.go\<close>

text \<open>The instruments are made in this order; the first failure ends it.\<close>

fun make_instruments :: "'s otel_lib \<Rightarrow> string list \<Rightarrow> 's \<Rightarrow> go_err option \<times> 's" where
  "make_instruments lib [] s = (None, s)"
| "make_instruments lib (name # names) s =
     (case OT_Instrument lib name s of
        (Inl err, s1) \<Rightarrow> (Some err, s1)
      | (Inr _, s1) \<Rightarrow> make_instruments lib names s1)"

definition initMetrics :: "'s otel_lib \<Rightarrow> 's \<Rightarrow> go_err option \<times> 's" where
  "initMetrics lib =
     make_instruments lib [''app.startup.duration'', ''mq.publish'', ''mq.publish.duration_ms'']"

section \<open>telemetry.go\<close>

definition otelTraceOptions :: "TelemetryConfig \<Rightarrow> otlp_options" where
  "otelTraceOptions cfg = \<lparr>
     OO_Endpoint = OTLP_Endpoint cfg @ '':'' @ itoa_int (sint (OTLP_GrpcPort cfg)),
     OO_Insecure = OTLP_Insecure cfg\<rparr>"

definition otelMetricOptions :: "TelemetryConfig \<Rightarrow> otlp_options" where
  "otelMetricOptions cfg = \<lparr>
     OO_Endpoint = OTLP_Endpoint cfg @ '':'' @ itoa_int (sint (OTLP_GrpcPort cfg)),
     OO_Insecure = OTLP_Insecure cfg\<rparr>"

definition newTraceProvider :: "'s otel_lib \<Rightarrow> nat \<Rightarrow> TelemetryConfig \<Rightarrow> ('s, nat) call" where
  "newTraceProvider lib otelResource cfg s =
    (case OT_TraceExporter lib (otelTraceOptions cfg) s of
       (Inl err, s1) \<Rightarrow> (Inl err, s1)
     | (Inr exporter, s1) \<Rightarrow>
        (let (p, s2) = OT_TracerProvider lib exporter otelResource s1 in (Inr p, s2)))"

definition newMeterProvider :: "'s otel_lib \<Rightarrow> nat \<Rightarrow> TelemetryConfig \<Rightarrow> ('s, nat) call" where
  "newMeterProvider lib otelResource cfg s =
    (case OT_MetricExporter lib (otelMetricOptions cfg) s of
       (Inl err, s1) \<Rightarrow> (Inl err, s1)
     | (Inr exporter, s1) \<Rightarrow>
        (let (p, s2) = OT_MeterProvider lib exporter otelResource s1 in (Inr p, s2)))"

text \<open>What the returned shutdown function closes over.\<close>

record telemetry_handle =
  TH_trace :: nat
  TH_meter :: nat
  TH_timeout :: int

definition telemetry_Init ::
  "'s otel_lib \<Rightarrow> TelemetryConfig \<Rightarrow> AppConfig \<Rightarrow> ('s, telemetry_handle) call" where
  "telemetry_Init lib cfg appCfg s =
    (case OT_Resource lib (App_ServiceName appCfg @ '':'' @ App_Version appCfg) s of
       (Inl err, s1) \<Rightarrow> (Inl err, s1)
     | (Inr otelResource, s1) \<Rightarrow>
      (case newTraceProvider lib otelResource cfg s1 of
         (Inl err, s2) \<Rightarrow> (Inl err, s2)
       | (Inr traceProvider, s2) \<Rightarrow>
        (case newMeterProvider lib otelResource cfg s2 of
           (Inl err, s3) \<Rightarrow> (Inl err, s3)
         | (Inr meterProvider, s3) \<Rightarrow>
          (case initMetrics lib (OT_Globals lib traceProvider meterProvider s3) of
             (Some err, s4) \<Rightarrow> (Inl err, s4)
           | (None, s4) \<Rightarrow> (Inr \<lparr>
               TH_trace = traceProvider, TH_meter = meterProvider,
               TH_timeout = seconds (OTLP_ShutdownTimeoutInSeconds cfg)\<rparr>, s4)))))"

text \<open>\<open>errors.Join(nil, err)\<close> and \<open>errors.Join(shutdownErr, err)\<close>, one for each failure.\<close>

definition join_failure :: "go_err option \<Rightarrow> go_err option \<Rightarrow> go_err option" where
  "join_failure sofar e = (case e of None \<Rightarrow> sofar | Some err \<Rightarrow> errors_Join [sofar, Some err])"

definition ShutdownTelemetry ::
  "'s otel_lib \<Rightarrow> telemetry_handle \<Rightarrow> 's \<Rightarrow> go_err option \<times> 's" where
  "ShutdownTelemetry lib h s =
    (let (e1, s1) = OT_TracerShutdown lib (TH_timeout h) (TH_trace h) s;
         shutdownErr1 = join_failure None e1;
         (e2, s2) = OT_MeterShutdown lib (TH_timeout h) (TH_meter h) s1
     in (join_failure shutdownErr1 e2, s2))"

text \<open>Both providers are shut down, whatever the first answers, and every failure is reported.\<close>

lemma ShutdownTelemetry_both:
  assumes "OT_TracerShutdown lib (TH_timeout h) (TH_trace h) s = (e1, s1)"
    and "OT_MeterShutdown lib (TH_timeout h) (TH_meter h) s1 = (e2, s2)"
  shows "snd (ShutdownTelemetry lib h s) = s2"
    and "fst (ShutdownTelemetry lib h s) = None \<longleftrightarrow> e1 = None \<and> e2 = None"
  using assms
  by (auto simp: ShutdownTelemetry_def join_failure_def errors_Join_def Let_def split: option.splits)

section \<open>tracing.go\<close>

text \<open>The further fields of a delivery a span shows; a header is given as its printed value.\<close>

record traced_delivery = delivery +
  D_Exchange :: string
  D_MessageId :: string
  D_CorrelationId :: string
  D_Headers :: "string \<Rightarrow> string option"

datatype attribute =
    StringAttr string string
  | Int64Attr string int

text \<open>\<open>int64(delivery.DeliveryTag)\<close> reads the unsigned tag as signed.\<close>

definition consumer_attributes :: "traced_delivery \<Rightarrow> string \<Rightarrow> attribute list" where
  "consumer_attributes dlv queueName =
    [StringAttr ''messaging.system'' ''rabbitmq'',
     StringAttr ''messaging.operation'' ''process'',
     StringAttr ''messaging.destination.name'' queueName,
     StringAttr ''messaging.rabbitmq.routing_key'' (RoutingKey dlv),
     Int64Attr ''messaging.message.body.size'' (int (length (Body dlv))),
     Int64Attr ''messaging.rabbitmq.delivery_tag'' (sint (DeliveryTag dlv))] @
    (if D_Exchange dlv \<noteq> [] then [StringAttr ''messaging.rabbitmq.exchange'' (D_Exchange dlv)]
     else []) @
    (if D_MessageId dlv \<noteq> [] then [StringAttr ''messaging.message.id'' (D_MessageId dlv)]
     else []) @
    (if D_CorrelationId dlv \<noteq> []
     then [StringAttr ''messaging.message.conversation_id'' (D_CorrelationId dlv)] else []) @
    (let messageType = nil_text (D_Headers dlv ''message_type'') in
     if messageType \<noteq> [] \<and> messageType \<noteq> ''<nil>''
     then [StringAttr ''messaging.message.type'' messageType] else [])"

definition consumerSpanName :: "string \<Rightarrow> traced_delivery \<Rightarrow> string" where
  "consumerSpanName queueName dlv =
    (if RoutingKey dlv \<noteq> [] then queueName @ '' receive '' @ RoutingKey dlv
     else queueName @ '' receive'')"

text \<open>
  Contexts and spans are handles of the SDK. \<open>TR_Start\<close> starts a span of the tracer with the given
  name as a child of the context, with its kind and attributes; \<open>TR_Extract\<close> is the propagator's,
  over a carrier.
\<close>

datatype span_kind = InternalSpan | ConsumerSpan

datatype span_event =
    RecordError go_err
  | SetErrorStatus string

record 's trace_lib =
  TR_Start :: "string \<Rightarrow> nat \<Rightarrow> string \<Rightarrow> span_kind \<Rightarrow> attribute list \<Rightarrow> 's \<Rightarrow> (nat \<times> nat) \<times> 's"
  TR_Extract :: "nat \<Rightarrow> (string \<Rightarrow> string option) \<Rightarrow> nat"
  TR_Event :: "nat \<Rightarrow> span_event \<Rightarrow> 's \<Rightarrow> 's"

definition appTracerName :: string where
  "appTracerName = ''github.com/Kenji-Uema/paymentSimulator/internal/app''"

definition consumerTracerName :: string where
  "consumerTracerName = ''github.com/Kenji-Uema/paymentSimulator/internal/infra/mq''"

definition StartAppSpan ::
  "'s trace_lib \<Rightarrow> nat \<Rightarrow> string \<Rightarrow> attribute list \<Rightarrow> 's \<Rightarrow> (nat \<times> nat) \<times> 's" where
  "StartAppSpan tr ctx name attrs = TR_Start tr appTracerName ctx name InternalSpan attrs"

text \<open>A nil span or a nil error is left alone.\<close>

definition RecordSpanError ::
  "'s trace_lib \<Rightarrow> nat option \<Rightarrow> go_err option \<Rightarrow> 's \<Rightarrow> 's" where
  "RecordSpanError tr span err s =
    (case (span, err) of
       (Some h, Some e) \<Rightarrow>
         TR_Event tr h (SetErrorStatus (error_text e)) (TR_Event tr h (RecordError e) s)
     | _ \<Rightarrow> s)"

definition StartConsumerSpan ::
  "'s trace_lib \<Rightarrow> nat \<Rightarrow> traced_delivery \<Rightarrow> string \<Rightarrow> 's \<Rightarrow> (nat \<times> nat) \<times> 's" where
  "StartConsumerSpan tr ctx dlv queueName =
    (let ctx' = TR_Extract tr ctx (D_Headers dlv)
     in TR_Start tr consumerTracerName ctx' (consumerSpanName queueName dlv) ConsumerSpan
          (consumer_attributes dlv queueName))"

definition RecordDeliveryError ::
  "'s trace_lib \<Rightarrow> nat option \<Rightarrow> go_err option \<Rightarrow> 's \<Rightarrow> 's" where
  "RecordDeliveryError tr span err = RecordSpanError tr span err"

text \<open>The headers as a carrier of the propagator.\<close>

definition carrier_Get :: "(string \<Rightarrow> string option) \<Rightarrow> string \<Rightarrow> string" where
  "carrier_Get c key = (case c key of None \<Rightarrow> [] | Some v \<Rightarrow> v)"

definition carrier_Set ::
  "(string \<Rightarrow> string option) \<Rightarrow> string \<Rightarrow> string \<Rightarrow> (string \<Rightarrow> string option)" where
  "carrier_Set c key v = c(key \<mapsto> v)"

definition carrier_Keys :: "(string \<Rightarrow> string option) \<Rightarrow> string set" where
  "carrier_Keys c = dom c"

end
