(* ===== verification/Gateway.thy ===== *)
theory Gateway
  imports PaymentInterleaving PaymentReissue
begin

text \<open>
  internal/transport/grpc/payment: the handlers the grpc-gateway generator wrote for the two
  services. They decode the HTTP body, take the invoice number from the path, call the service in
  this process and forward its reply or error. The gateway runtime (decoding by content type,
  path matching, encoding of replies and errors) is a parameter.
\<close>

section \<open>The gateway runtime\<close>

text \<open>What decoding a body yields: a value, the end of an empty body, or an error.\<close>

datatype 'a decoded =
    Decoded 'a
  | EndOfBody
  | BadBody go_err

text \<open>
  \<open>GW_Annotate\<close> is \<open>AnnotateIncomingContext\<close> for the name of a method, \<open>GW_String\<close> is
  \<open>runtime.String\<close>, \<open>GW_Match\<close> matches a path against a compiled pattern and gives its parameters;
  a request is its method, path parameters and body.
\<close>

record http_request =
  HR_Method :: string
  HR_PathParams :: "string \<Rightarrow> string option"
  HR_Body :: "8 word list"

record gateway_lib =
  GW_Annotate :: "string \<Rightarrow> http_request \<Rightarrow> go_err option"
  GW_DecodeCard :: "http_request \<Rightarrow> pb_Card option decoded"
  GW_DecodeReissue :: "http_request \<Rightarrow> pb_ReissuePaymentRequest decoded"
  GW_String :: "string \<Rightarrow> go_err + string"
  GW_Match :: "nat list \<times> string list \<Rightarrow> string \<Rightarrow> (string \<Rightarrow> string option) option"

section \<open>paymentMakingService.pb.gw.go\<close>

text \<open>
  \<open>protoReq.Card\<close> is nil until a body is decoded into it; an empty body is not an error.
\<close>

definition local_request_PayWithCard ::
  "gateway_lib \<Rightarrow> (pb_PayWithCardRequest option \<Rightarrow> 's \<Rightarrow> pay_result \<times> pay_job option \<times> 's) \<Rightarrow>
     http_request \<Rightarrow> 's \<Rightarrow> pay_result \<times> pay_job option \<times> 's" where
  "local_request_PayWithCard gw server req s =
    (let decoded = GW_DecodeCard gw req in
     case decoded of
       BadBody err \<Rightarrow> (Failed (Status InvalidArgument (error_text err)), None, s)
     | _ \<Rightarrow>
      (let card = (case decoded of Decoded c \<Rightarrow> c | _ \<Rightarrow> None) in
       case HR_PathParams req ''invoice_number'' of
         None \<Rightarrow> (Failed (Status InvalidArgument ''missing parameter invoice_number''), None, s)
       | Some val \<Rightarrow>
        (case GW_String gw val of
           Inl err \<Rightarrow> (Failed (Status InvalidArgument
               (''type mismatch, parameter: invoice_number, error: '' @ error_text err)), None, s)
         | Inr invoiceNumber \<Rightarrow> server (Some \<lparr>
             PayWithCardRequest_Card = card,
             PayWithCardRequest_InvoiceNumber = invoiceNumber\<rparr>) s)))"

definition PayWithCard_method :: string where
  "PayWithCard_method = ''/paymentSimulator.payment.v1.PaymentMakingService/PayWithCard''"

text \<open>
  The handler the server registers for \<open>POST /v1/payments/invoice/{invoice_number}\<close>. An error of
  \<open>AnnotateIncomingContext\<close> goes to the HTTP error writer as it is.
\<close>

definition handle_PayWithCard ::
  "gateway_lib \<Rightarrow> (pb_PayWithCardRequest option \<Rightarrow> 's \<Rightarrow> pay_result \<times> pay_job option \<times> 's) \<Rightarrow>
     http_request \<Rightarrow> 's \<Rightarrow> pay_result \<times> pay_job option \<times> 's" where
  "handle_PayWithCard gw server req s =
    (case GW_Annotate gw PayWithCard_method req of
       Some err \<Rightarrow> (Failed (RawErr err), None, s)
     | None \<Rightarrow> local_request_PayWithCard gw server req s)"

text \<open>The pattern of \<open>/v1/payments/invoice/{invoice_number}\<close>, as the generator compiled it.\<close>

definition pattern_PayWithCard :: "nat list \<times> string list" where
  "pattern_PayWithCard = ([2, 0, 2, 1, 2, 2, 1, 0, 4, 1, 5, 3],
     [''v1'', ''payments'', ''invoice'', ''invoice_number''])"

text \<open>What the mux does with a request for the pattern; other requests are not its business.\<close>

definition serve_PayWithCard ::
  "gateway_lib \<Rightarrow> (pb_PayWithCardRequest option \<Rightarrow> 's \<Rightarrow> pay_result \<times> pay_job option \<times> 's) \<Rightarrow>
     string \<Rightarrow> string \<Rightarrow> 8 word list \<Rightarrow> 's \<Rightarrow> (pay_result \<times> pay_job option \<times> 's) option" where
  "serve_PayWithCard gw server meth path body s =
    (if meth \<noteq> ''POST'' then None
     else case GW_Match gw pattern_PayWithCard path of
       None \<Rightarrow> None
     | Some params \<Rightarrow> Some (handle_PayWithCard gw server
         \<lparr>HR_Method = meth, HR_PathParams = params, HR_Body = body\<rparr> s))"

section \<open>paymentRequestReissueService.pb.gw.go\<close>

text \<open>An empty body leaves the request as it was made, with every field empty.\<close>

definition empty_reissue :: pb_ReissuePaymentRequest where
  "empty_reissue = \<lparr>ReissuePaymentRequest_BookingNumber = [],
     ReissuePaymentRequest_DocumentNumber = []\<rparr>"

definition local_request_Reissue ::
  "gateway_lib \<Rightarrow>
     (pb_ReissuePaymentRequest option \<Rightarrow> 's \<Rightarrow> (rpc_error + pb_PaymentRequest) \<times> 's) \<Rightarrow>
     http_request \<Rightarrow> 's \<Rightarrow> (rpc_error + pb_PaymentRequest) \<times> 's" where
  "local_request_Reissue gw server req s =
    (case GW_DecodeReissue gw req of
       BadBody err \<Rightarrow> (Inl (Status InvalidArgument (error_text err)), s)
     | EndOfBody \<Rightarrow> server (Some empty_reissue) s
     | Decoded protoReq \<Rightarrow> server (Some protoReq) s)"

definition Reissue_method :: string where
  "Reissue_method = ''/paymentSimulator.payment.v1.PaymentReissueService/Reissue''"

definition handle_Reissue ::
  "gateway_lib \<Rightarrow>
     (pb_ReissuePaymentRequest option \<Rightarrow> 's \<Rightarrow> (rpc_error + pb_PaymentRequest) \<times> 's) \<Rightarrow>
     http_request \<Rightarrow> 's \<Rightarrow> (rpc_error + pb_PaymentRequest) \<times> 's" where
  "handle_Reissue gw server req s =
    (case GW_Annotate gw Reissue_method req of
       Some err \<Rightarrow> (Inl (RawErr err), s)
     | None \<Rightarrow> local_request_Reissue gw server req s)"

definition pattern_Reissue :: "nat list \<times> string list" where
  "pattern_Reissue = ([2, 0, 2, 1, 2, 2, 2, 3],
     [''v1'', ''payments'', ''payment_request'', ''reissue''])"

definition serve_Reissue ::
  "gateway_lib \<Rightarrow>
     (pb_ReissuePaymentRequest option \<Rightarrow> 's \<Rightarrow> (rpc_error + pb_PaymentRequest) \<times> 's) \<Rightarrow>
     string \<Rightarrow> string \<Rightarrow> 8 word list \<Rightarrow> 's \<Rightarrow> ((rpc_error + pb_PaymentRequest) \<times> 's) option" where
  "serve_Reissue gw server meth path body s =
    (if meth \<noteq> ''POST'' then None
     else case GW_Match gw pattern_Reissue path of
       None \<Rightarrow> None
     | Some params \<Rightarrow> Some (handle_Reissue gw server
         \<lparr>HR_Method = meth, HR_PathParams = params, HR_Body = body\<rparr> s))"

section \<open>What the runtime promises\<close>

text \<open>
  A path segment that needs no escaping is captured as it is, and a string parameter is its text.
\<close>

definition plain_segment :: "string \<Rightarrow> bool" where
  "plain_segment seg \<longleftrightarrow> seg \<noteq> [] \<and> CHR ''/'' \<notin> set seg \<and> CHR ''%'' \<notin> set seg"

locale gateway_paths =
  fixes gw :: gateway_lib
  assumes invoice_captured: "plain_segment seg \<Longrightarrow>
      GW_Match gw pattern_PayWithCard (''/v1/payments/invoice/'' @ seg) =
        Some [''invoice_number'' \<mapsto> seg]"
    and string_as_is: "GW_String gw v = Inr v"
begin

lemma serve_captured:
  assumes "plain_segment n"
    and "req = \<lparr>HR_Method = ''POST'', HR_PathParams = [''invoice_number'' \<mapsto> n], HR_Body = body\<rparr>"
    and "GW_Annotate gw PayWithCard_method req = None" and "GW_DecodeCard gw req = Decoded (Some c)"
  shows "serve_PayWithCard gw server ''POST'' (''/v1/payments/invoice/'' @ n) body s =
    Some (server (Some \<lparr>PayWithCardRequest_Card = Some c, PayWithCardRequest_InvoiceNumber = n\<rparr>) s)"
  using invoice_captured[OF assms(1)] assms(2-4)
  by (simp add: serve_PayWithCard_def handle_PayWithCard_def local_request_PayWithCard_def
      string_as_is)

end

section \<open>Identifiers are plain\<close>

lemma itoa_plain: "CHR ''/'' \<notin> set (itoa n) \<and> CHR ''%'' \<notin> set (itoa n)"
proof (induction n rule: itoa.induct)
  case (1 n)
  have dig: "CHR ''/'' \<noteq> digit_char k \<and> CHR ''%'' \<noteq> digit_char k" if "k < 10" for k
  proof -
    have "list_all (\<lambda>k. CHR ''/'' \<noteq> digit_char k \<and> CHR ''%'' \<noteq> digit_char k) [0..<10]"
      by code_simp
    with that show ?thesis by (simp only: list_all_iff) (auto simp del: upt_conv_Cons)
  qed
  show ?case
  proof (cases "n < 10")
    case True
    with dig[of n] show ?thesis by (subst (1 2) itoa.simps) simp
  next
    case False
    with 1 dig[of "n mod 10"] show ?thesis by (subst (1 2) itoa.simps) simp
  qed
qed

lemma format_date_plain: "CHR ''/'' \<notin> set (format_date t) \<and> CHR ''%'' \<notin> set (format_date t)"
  using itoa_plain by (simp add: format_date_def format_year_def zero_pad_def split: prod.splits)

lemma friendly_id_plain:
  assumes "friendly_id ''INV'' now n"
  shows "plain_segment n"
proof -
  from assms obtain suffix where n: "n = ''INV-'' @ format_date now @ ''-'' @ suffix"
    "set suffix \<subseteq> set hex_digits" by (auto simp: friendly_id_def)
  then have "CHR ''/'' \<notin> set suffix" "CHR ''%'' \<notin> set suffix" by (auto simp: hex_digits_def)
  with n(1) format_date_plain show ?thesis by (simp add: plain_segment_def)
qed

end
