(* ===== verification/InfraClaims.thy ===== *)
theory InfraClaims
  imports RabbitClaims PaymentClaims InvoiceClaims HttpServer Telemetry Gateway
begin

text \<open>
  The properties of the database connection, the probes, the HTTP server and the gateway handlers,
  each with a run of the model that meets its hypotheses.
\<close>

section \<open>The database connection\<close>

text \<open>Connecting to the database leaves exactly one client more when it succeeds, the one the
  result holds, and none when it fails: after a ping that failed the client is disconnected again,
  so one is left behind only if that disconnect fails as well.\<close>

theorem mongo_connection_keeps_no_client:
  assumes "mongo_clients drv clients" and "NewMongoDb drv cfg s = (r, s')"
  shows "case r of
       Inr d \<Rightarrow> DB_Client d \<notin> clients s \<and> clients s' = insert (DB_Client d) (clients s)
     | Inl e \<Rightarrow> clients s' = clients s \<or>
         (\<exists>h s2. h \<notin> clients s \<and> fst (MD_Disconnect drv h s2) \<noteq> None \<and>
            clients s' = insert h (clients s))"
  by (rule mongo_clients.NewMongoDb_clients[OF assms])

definition sample_mongo :: MongoConfig where
  "sample_mongo = \<lparr>Mongo_Username = ''root'', Mongo_Password = ''s3cr3t'',
     Mongo_Host = ''db:27017'', Mongo_Database = ''payments'', Mongo_ReplicaSet = [],
     Mongo_ConnectionTimeoutInSeconds = 10, Mongo_ServerSelectionTimeoutInSeconds = 10,
     Mongo_PingTimeoutInSeconds = 5, Mongo_StartupTimeoutInSeconds = 10,
     Mongo_MaxConnIdleTimeInSeconds = 60, Mongo_MaxPoolSize = 100, Mongo_MinPoolSize = 0,
     Mongo_RetryWrites = True, Mongo_InvoiceCollection = ''Invoice'',
     Mongo_ReceiptCollection = ''Receipt''\<rparr>"

definition silent_mongo :: ref_mongo where
  "silent_mongo = \<lparr>rm_clients = [3], rm_next = 4, rm_down = [''ping'']\<rparr>"

lemma sample_mongo_checked: "Validate (mongo_checks sample_mongo) = None"
  by code_simp

lemma silent_run:
  "NewMongoDb ref_driver sample_mongo silent_mongo =
     (Inl (WrapErr (''mongo ping failed for URI: '' @ mongo_uri sample_mongo @ '', error: '')
        (lost ''ping'')), silent_mongo\<lparr>rm_next := 5\<rparr>)"
  by (simp add: NewMongoDb_def sample_mongo_checked)
    (simp add: ref_driver_def silent_mongo_def rm_fails_def)

theorem mongo_connection_keeps_no_client_witness:
  "\<exists>e s'. NewMongoDb ref_driver sample_mongo silent_mongo = (Inl e, s') \<and>
     set (rm_clients s') = {3}"
proof -
  have "fst (MD_Disconnect ref_driver h s2) = None" if "set (rm_clients (snd (NewMongoDb ref_driver
      sample_mongo silent_mongo))) = insert h {3}" "h \<noteq> 3" for h s2
    using that silent_run by (auto simp: silent_mongo_def)
  with mongo_connection_keeps_no_client[OF ref_mongo_clients.mongo_clients_axioms silent_run]
    silent_run show ?thesis by (auto simp: silent_mongo_def)
qed

text \<open>C34: when the ping at startup fails, the error that is returned, and that startup logs, has the
  database password in its text, although a secret prints as REDACTED.\<close>

theorem failed_ping_shows_password:
  assumes "Validate (mongo_checks cfg) = None"
    and "MD_Connect drv (mongo_client_options cfg) s = (Inr client, s1)"
    and "MD_Ping drv [seconds (Mongo_StartupTimeoutInSeconds cfg),
      seconds (Mongo_PingTimeoutInSeconds cfg)] client s1 = (Some err, s2)"
    and "NewMongoDb drv cfg s = (r, s')"
  shows "\<exists>e. r = Inl e \<and> shows_text (Mongo_Password cfg) e \<and>
    shows_text (Mongo_Password cfg) (WrapErr ''failed to connect to MongoDB: '' e)"
proof -
  from assms have r: "r = Inl (WrapErr
      (''mongo ping failed for URI: '' @ mongo_uri cfg @ '', error: '') err)" (is "_ = Inl ?e")
    by (simp add: NewMongoDb_def)
  from ping_failure_text obtain pre post where "error_text ?e = pre @ Mongo_Password cfg @ post"
    unfolding shows_text_def by blast
  then have "error_text (WrapErr ''failed to connect to MongoDB: '' ?e) =
      (''failed to connect to MongoDB: '' @ pre) @ Mongo_Password cfg @ post" by simp
  then have "shows_text (Mongo_Password cfg) (WrapErr ''failed to connect to MongoDB: '' ?e)"
    unfolding shows_text_def by blast
  with r ping_failure_text show ?thesis by blast
qed

theorem failed_ping_shows_password_witness:
  "\<exists>e s'. NewMongoDb ref_driver sample_mongo silent_mongo = (Inl e, s') \<and>
     shows_text ''s3cr3t'' e \<and> Secret_String (Mongo_Password sample_mongo) = ''REDACTED''"
proof -
  have c: "MD_Connect ref_driver (mongo_client_options sample_mongo) silent_mongo =
      (Inr 4, \<lparr>rm_clients = [4, 3], rm_next = 5, rm_down = [''ping'']\<rparr>)"
    and p: "MD_Ping ref_driver [seconds (Mongo_StartupTimeoutInSeconds sample_mongo),
      seconds (Mongo_PingTimeoutInSeconds sample_mongo)] 4
      \<lparr>rm_clients = [4, 3], rm_next = 5, rm_down = [''ping'']\<rparr> =
      (Some (lost ''ping''), \<lparr>rm_clients = [4, 3], rm_next = 5, rm_down = [''ping'']\<rparr>)"
    by (simp_all add: ref_driver_def silent_mongo_def rm_fails_def)
  from failed_ping_shows_password[OF sample_mongo_checked c p silent_run] silent_run show ?thesis
    by (auto simp: sample_mongo_def Secret_String_def)
qed

section \<open>The probes\<close>

text \<open>The readiness probe answers 200 exactly when the broker connection is open and the database
  answers a ping, and 503 otherwise, naming the part that is down; the database is not asked when
  the broker is gone, and asking the broker sends it nothing. The health probe always answers
  200.\<close>

theorem ready_iff_usable:
  assumes "amqp_client lib events brest decode"
    and "IsConnectionOpen lib c s = (is_open, s1)" and "MongoPing drv d s1 = (perr, s2)"
    and "ReadinessHandler lib drv c d s = (resp, s')"
  shows "(RS_Code resp = 200 \<longleftrightarrow> is_open \<and> perr = None) \<and>
    RS_Code resp \<in> {200, 503} \<and> events s1 = events s \<and>
    (if is_open then s' = s2 \<and> (perr = None \<or> RS_Body resp = ''db ping failed'' @ [CHR 0x0A])
     else s' = s1 \<and> RS_Body resp = ''rabbitmq connection closed'' @ [CHR 0x0A]) \<and>
    RS_Code HealthHandler = 200"
proof -
  have "events s1 = events s"
    using assms(2) amqp_client.conn_closed_quiet[OF assms(1)]
    by (auto simp: IsConnectionOpen_def Let_def split: option.splits prod.splits)
  with assms(2-) show ?thesis
    by (cases is_open; cases perr)
      (auto simp: ReadinessHandler_def Let_def http_Error_def HealthHandler_def)
qed


definition sample_db :: mongo_handle where
  "sample_db = \<lparr>DB_Client = 0, DB_Database = ''payments''\<rparr>"

theorem ready_iff_usable_witness:
  "RS_Code (fst (ReadinessHandler (ref_amqp []) (told_driver None) sample_conn sample_db
      (broker_with [] False))) = 200 \<and>
   RS_Code (fst (ReadinessHandler (ref_amqp []) (told_driver None) sample_conn sample_db
      (broker_with [] True))) = 503"
proof -
  let ?h = "\<lambda>gone. ReadinessHandler (ref_amqp []) (told_driver None) sample_conn sample_db
    (broker_with [] gone)"
  have o: "IsConnectionOpen (ref_amqp []) sample_conn (broker_with [] gone) =
      (\<not> gone, broker_with [] gone)" for gone
    by (simp add: IsConnectionOpen_def sample_conn_def ref_amqp_def broker_with_def)
  have p: "MongoPing (told_driver None) sample_db b = (None, b)" for b :: ref_broker
    by (simp add: MongoPing_def told_driver_def)
  have h: "?h gone = (fst (?h gone), snd (?h gone))" for gone by simp
  from ready_iff_usable[OF ref_amqp_client o p h, of False]
    ready_iff_usable[OF ref_amqp_client o p h, of True] show ?thesis by auto
qed

section \<open>The server\<close>

text \<open>A server that can be made listens on the configured address and sends every path to one
  handler: the two probe paths to the probes and every other one to the gateway; its four time
  limits are positive and the configured seconds, with no wrap-around for limits below 292
  years.\<close>

theorem server_as_configured:
  assumes "NewHttpServer host port readHeader read write idle tel mux = Inr svr"
    and "list_all (\<lambda>n. sint n \<le> 9223372036) [readHeader, read, write, idle]"
  shows "\<exists>srv. SV_server (SetServer svr) = Some srv \<and>
    HS_Addr srv = host @ '':'' @ itoa_int (sint port) \<and>
    mux_route (HS_Handler srv) (CHR ''/'' # path) = Some
      (if path = ''healthz'' then (''/healthz'', HealthRoute)
       else if path = ''readyz'' then (''/readyz'', ReadinessRoute)
       else (''/'', GatewayRoute)) \<and>
    map ((*) 1000000000 \<circ> sint) [readHeader, read, write, idle] =
      [HS_ReadHeaderTimeout srv, HS_ReadTimeout srv, HS_WriteTimeout srv, HS_IdleTimeout srv] \<and>
    list_all (\<lambda>t. 0 < t)
      [HS_ReadHeaderTimeout srv, HS_ReadTimeout srv, HS_WriteTimeout srv, HS_IdleTimeout srv]"
proof -
  have pos: "0 < sint readHeader" "0 < sint read" "0 < sint write" "0 < sint idle"
    using NewHttpServer_made(1)[OF assms(1)] by (simp_all add: http_server_checks_pass)
  with assms(2) have "seconds readHeader = sint readHeader * 1000000000"
    "seconds read = sint read * 1000000000" "seconds write = sint write * 1000000000"
    "seconds idle = sint idle * 1000000000"
    by (auto intro!: seconds_exact)
  with pos show ?thesis using root_routes[of path] NewHttpServer_made(2)[OF assms(1)]
    by (simp add: SetServer_def Let_def mult.commute)
qed

definition sample_telemetry :: TelemetryConfig where
  "sample_telemetry = \<lparr>OTLP_Endpoint = ''otel'', OTLP_GrpcPort = 4317, OTLP_HealthPort = 13133,
     OTLP_Insecure = True, OTLP_ShutdownTimeoutInSeconds = 15\<rparr>"

theorem server_as_configured_witness:
  "\<exists>svr srv. NewHttpServer ''0.0.0.0'' 8080 5 10 15 60 sample_telemetry (Some ()) = Inr svr \<and>
     SV_server (SetServer svr) = Some srv \<and> HS_WriteTimeout srv = 15000000000 \<and>
     mux_route (HS_Handler srv) ''/v1/payments/invoice/7'' = Some (''/'', GatewayRoute)"
proof -
  have "isl (NewHttpServer ''0.0.0.0'' 8080 5 10 15 60 sample_telemetry (Some ())) = False"
    by code_simp
  then obtain svr where m: "NewHttpServer ''0.0.0.0'' 8080 5 10 15 60 sample_telemetry (Some ()) =
      Inr svr" by (metis isl_def sum.exhaust)
  have l: "list_all (\<lambda>n::64 word. sint n \<le> 9223372036) [5, 10, 15, 60]" by code_simp
  have "sint (15 :: 64 word) = 15" by code_simp
  with server_as_configured[OF m l, of "''v1/payments/invoice/7''"] m show ?thesis by auto
qed

section \<open>The gateway\<close>

text \<open>C19: a payment over HTTP is the payment of the card in the body for the invoice the path names;
  a request without a card, without the parameter, or that
  cannot be decoded is refused as an invalid argument, or with the error of reading its metadata,
  before the clock, the database or the broker is asked for anything.\<close>

theorem gateway_pays_for_the_path:
  assumes "handle_PayWithCard gw (PayWithCard rt svc) req s = (r, job, s')"
  shows "(\<exists>c val n. GW_DecodeCard gw req = Decoded (Some c) \<and>
      HR_PathParams req ''invoice_number'' = Some val \<and> GW_String gw val = Inr n \<and>
      PayWithCard rt svc (Some \<lparr>PayWithCardRequest_Card = Some c,
        PayWithCardRequest_InvoiceNumber = n\<rparr>) s = (r, job, s')) \<or>
    s' = s \<and> job = None \<and>
      (case GW_Annotate gw PayWithCard_method req of
         Some e \<Rightarrow> r = Failed (RawErr e)
       | None \<Rightarrow> \<exists>msg. r = Failed (Status InvalidArgument msg))"
proof (cases "GW_Annotate gw PayWithCard_method req")
  case (Some e)
  with assms show ?thesis by (simp add: handle_PayWithCard_def)
next
  case None
  note local = assms[unfolded handle_PayWithCard_def None option.case]
  have blank: "\<exists>msg. PayWithCard rt svc (Some \<lparr>PayWithCardRequest_Card = None,
      PayWithCardRequest_InvoiceNumber = n\<rparr>) s = (Failed (Status InvalidArgument msg), None, s)" for n
  proof -
    have "\<not> valid_pay_request (Some \<lparr>PayWithCardRequest_Card = None,
        PayWithCardRequest_InvoiceNumber = n\<rparr>)"
      by (simp add: valid_pay_request_def is_blank_def)
    then obtain e where "Validate (pay_request_checks (Some \<lparr>PayWithCardRequest_Card = None,
        PayWithCardRequest_InvoiceNumber = n\<rparr>)) = Some e"
      using valid_pay_request_None by blast
    then show ?thesis by (simp add: PayWithCard_def)
  qed
  then obtain f where f [simp]: "PayWithCard rt svc (Some \<lparr>PayWithCardRequest_Card = None,
      PayWithCardRequest_InvoiceNumber = n\<rparr>) s = (Failed (Status InvalidArgument (f n)), None, s)"
    for n by metis
  show ?thesis
  proof (cases "GW_DecodeCard gw req")
    case (BadBody e)
    with local None show ?thesis by (auto simp: local_request_PayWithCard_def)
  next
    case EndOfBody
    with local None show ?thesis
      by (auto simp: local_request_PayWithCard_def split: option.splits sum.splits)
  next
    case (Decoded c)
    with local None show ?thesis
      by (cases c) (auto simp: local_request_PayWithCard_def split: option.splits sum.splits)
  qed
qed

text \<open>A gateway that decodes any body of one byte as the sample card.\<close>

definition sample_gateway :: gateway_lib where
  "sample_gateway = \<lparr>
     GW_Annotate = (\<lambda>m req. None),
     GW_DecodeCard = (\<lambda>req. if HR_Body req = [] then EndOfBody
       else Decoded (Some (card_of ''VISA'' ''4111111111111111''))),
     GW_DecodeReissue = (\<lambda>req. EndOfBody),
     GW_String = Inr,
     GW_Match = (\<lambda>pat path. let prefix = ''/v1/payments/invoice/'' in
       if pat = pattern_PayWithCard \<and> take (length prefix) path = prefix
       then Some [''invoice_number'' \<mapsto> drop (length prefix) path] else None)\<rparr>"


definition sample_post :: "8 word list \<Rightarrow> http_request" where
  "sample_post body = \<lparr>HR_Method = ''POST'', HR_PathParams = [''invoice_number'' \<mapsto> ''INV-1''],
     HR_Body = body\<rparr>"

theorem gateway_pays_for_the_path_witness:
  "fst (handle_PayWithCard sample_gateway (PayWithCard ref_runtime ref_pay_service)
      (sample_post [1]) pay_world) = Returned sample_reply \<and>
   snd (snd (handle_PayWithCard sample_gateway (PayWithCard ref_runtime ref_pay_service)
      (sample_post []) pay_world)) = pay_world"
proof -
  let ?h = "\<lambda>body. handle_PayWithCard sample_gateway (PayWithCard ref_runtime ref_pay_service)
    (sample_post body) pay_world"
  have h: "?h body = (fst (?h body), fst (snd (?h body)), snd (snd (?h body)))" for body by simp
  have "\<not> (\<exists>msg. fst (?h [1]) = Failed (Status InvalidArgument msg))"
  proof -
    have "(case fst (?h [1]) of Returned x \<Rightarrow> True | _ \<Rightarrow> False)" by code_simp
    then show ?thesis by auto
  qed
  with gateway_pays_for_the_path[OF h, of "[1]"] have "pay_now sample_pay = ?h [1]"
    by (simp add: sample_gateway_def sample_post_def sample_pay_def split: if_splits)
  then have "fst (?h [1]) = Returned sample_reply" using sample_paid by (metis fst_conv)
  moreover from gateway_pays_for_the_path[OF h, of "[]"] have "snd (snd (?h [])) = pay_world"
    by (auto simp: sample_gateway_def sample_post_def)
  ultimately show ?thesis by blast
qed



end
