(* ===== verification/ClockClient.thy ===== *)
theory ClockClient
  imports RefWorld
begin

text \<open>
  internal/infra/clock: the clock of the services is the clock simulator, asked over gRPC. The
  grpc client library is a parameter: making a connection, invoking a method on it and closing it.
\<close>

section \<open>The client library\<close>

record 's grpc_lib =
  GrpcNewClient :: "string \<Rightarrow> ('s, nat) call"
  GrpcInvokeNow :: "nat \<Rightarrow> ('s, pb_TimeEvent) call"
  GrpcClose :: "nat \<Rightarrow> ('s, unit) call"

section \<open>clock.go\<close>

record clock_client =
  CK_conn :: nat

definition clock_checks :: "ServicesConfig \<Rightarrow> validator" where
  "clock_checks cfg = chain
    [NotBlank ''clock.grpc_host'' (Clock_GrpcHost cfg),
     PositiveValue ''clock.grpc_port'' (int64 (Clock_GrpcPort cfg))]"

definition clock_target :: "ServicesConfig \<Rightarrow> string" where
  "clock_target cfg = Clock_GrpcHost cfg @ '':'' @ itoa_int (sint (Clock_GrpcPort cfg))"

definition NewClock :: "'s grpc_lib \<Rightarrow> ServicesConfig \<Rightarrow> ('s, clock_client) call" where
  "NewClock lib cfg s =
    (case Validate (clock_checks cfg) of
       Some err \<Rightarrow> (Inl err, s)
     | None \<Rightarrow>
      (case GrpcNewClient lib (clock_target cfg) s of
         (Inl err, s1) \<Rightarrow> (Inl err, s1)
       | (Inr conn, s1) \<Rightarrow> (Inr \<lparr>CK_conn = conn\<rparr>, s1)))"

text \<open>The generated client returns the message it decoded, or the error of the invocation.\<close>

definition clockServiceClient_Now :: "'s grpc_lib \<Rightarrow> nat \<Rightarrow> ('s, pb_TimeEvent) call" where
  "clockServiceClient_Now lib cc s =
    (case GrpcInvokeNow lib cc s of
       (Inl err, s1) \<Rightarrow> (Inl err, s1)
     | (Inr out, s1) \<Rightarrow> (Inr out, s1))"

definition Clock_Now ::
  "'s grpc_lib \<Rightarrow> timestamp_lib \<Rightarrow> clock_client \<Rightarrow> ('s, go_time) call" where
  "Clock_Now lib tsl e s =
    (case clockServiceClient_Now lib (CK_conn e) s of
       (Inl err, s1) \<Rightarrow> (Inl err, s1)
     | (Inr createTime, s1) \<Rightarrow> (Inr (AsTime tsl (TimeEvent_Time createTime)), s1))"

definition Clock_Close :: "'s grpc_lib \<Rightarrow> clock_client \<Rightarrow> ('s, unit) call" where
  "Clock_Close lib e s = GrpcClose lib (CK_conn e) s"

definition grpc_clock :: "'s grpc_lib \<Rightarrow> timestamp_lib \<Rightarrow> clock_client \<Rightarrow> 's clock_port" where
  "grpc_clock lib tsl e = \<lparr>Now = Clock_Now lib tsl e, CloseClock = Clock_Close lib e\<rparr>"

section \<open>What the library promises\<close>

text \<open>Asking the time leaves the rest of the world alone.\<close>

locale clock_library =
  fixes lib :: "'s grpc_lib"
    and crest :: "'s \<Rightarrow> 'r"
  assumes invoke_quiet: "GrpcInvokeNow lib h s = (r, s') \<Longrightarrow> crest s' = crest s"

sublocale clock_library \<subseteq> simulator: clock_quiet "grpc_clock lib tsl e" crest for tsl e
  by unfold_locales
    (auto simp: grpc_clock_def Clock_Now_def clockServiceClient_Now_def
      split: sum.splits prod.splits dest: invoke_quiet)

lemma clock_checks_pass [validator_simps]:
  "passes (clock_checks cfg) \<longleftrightarrow> \<not> is_blank (Clock_GrpcHost cfg) \<and> 0 < sint (Clock_GrpcPort cfg)"
  by (auto simp: clock_checks_def validator_simps)

lemma clock_checks_constraints [validator_simps]: "only_constraints (clock_checks cfg)"
  by (simp add: clock_checks_def validator_simps)

section \<open>A reference library\<close>

text \<open>It answers with the time of the reference world, as whole seconds.\<close>

definition ref_grpc :: "world grpc_lib" where
  "ref_grpc = \<lparr>
     GrpcNewClient = (\<lambda>target s. if down ''dial'' s then (Inl (lost ''dial''), s) else (Inr 0, s)),
     GrpcInvokeNow = (\<lambda>h s. if down ''now'' s then (Inl (lost ''now''), s)
       else (Inr \<lparr>TimeEvent_Time = Some (TimestampNew ref_timestamps (world_now s))\<rparr>, s)),
     GrpcClose = (\<lambda>h s. (Inr (), s))\<rparr>"

interpretation ref_clock_lib: clock_library ref_grpc "\<lambda>s. s"
  by unfold_locales (auto simp: ref_grpc_def split: if_splits)

end
