(* ===== verification/Program.thy ===== *)
theory Program
  imports ClockClient HttpServer Telemetry Gateway
begin

text \<open>
  The program as a whole: internal/infra/init.go makes the components, internal/app/init.go the
  services over them, internal/transport/init.go the server, and main.go runs and stops them.
  The state of the running program is the RabbitMQ objects it shares and the world outside.
\<close>

section \<open>The running program\<close>

record 'w program =
  PG_conn :: rabbit_conn
  PG_payment :: rabbit_producer
  PG_guest :: rabbit_producer
  PG_consumer :: rabbit_consumer
  PG_world :: 'w

definition on_world :: "('w \<Rightarrow> 'a \<times> 'w) \<Rightarrow> 'w program \<Rightarrow> 'a \<times> 'w program" where
  "on_world f p = (case f (PG_world p) of (r, w) \<Rightarrow> (r, p\<lparr>PG_world := w\<rparr>))"

definition on_payment ::
  "((rabbit_conn \<times> rabbit_producer) \<times> 'w \<Rightarrow> 'a \<times> (rabbit_conn \<times> rabbit_producer) \<times> 'w) \<Rightarrow>
     'w program \<Rightarrow> 'a \<times> 'w program" where
  "on_payment f p = (case f ((PG_conn p, PG_payment p), PG_world p) of
     (r, ((c, x), w)) \<Rightarrow> (r, p\<lparr>PG_conn := c, PG_payment := x, PG_world := w\<rparr>))"

definition on_guest ::
  "((rabbit_conn \<times> rabbit_producer) \<times> 'w \<Rightarrow> 'a \<times> (rabbit_conn \<times> rabbit_producer) \<times> 'w) \<Rightarrow>
     'w program \<Rightarrow> 'a \<times> 'w program" where
  "on_guest f p = (case f ((PG_conn p, PG_guest p), PG_world p) of
     (r, ((c, x), w)) \<Rightarrow> (r, p\<lparr>PG_conn := c, PG_guest := x, PG_world := w\<rparr>))"

definition on_consumer ::
  "((rabbit_conn \<times> rabbit_consumer) \<times> 'w \<Rightarrow> 'a \<times> (rabbit_conn \<times> rabbit_consumer) \<times> 'w) \<Rightarrow>
     'w program \<Rightarrow> 'a \<times> 'w program" where
  "on_consumer f p = (case f ((PG_conn p, PG_consumer p), PG_world p) of
     (r, ((c, x), w)) \<Rightarrow> (r, p\<lparr>PG_conn := c, PG_consumer := x, PG_world := w\<rparr>))"

text \<open>The ports of the services, over the running program.\<close>

definition program_invoice_repo :: "'w invoice_repo \<Rightarrow> 'w program invoice_repo" where
  "program_invoice_repo repo = \<lparr>
     FindByInvoiceNumber = (\<lambda>n. on_world (FindByInvoiceNumber repo n)),
     FindByBookingNumberAndDocumentNumber =
       (\<lambda>b d. on_world (FindByBookingNumberAndDocumentNumber repo b d)),
     UpdateStatus = (\<lambda>n st t. on_world (UpdateStatus repo n st t)),
     AddInvoice = (\<lambda>d. on_world (AddInvoice repo d))\<rparr>"

definition program_receipt_repo :: "'w receipt_repo \<Rightarrow> 'w program receipt_repo" where
  "program_receipt_repo repo = \<lparr>
     GetById = (\<lambda>i. on_world (GetById repo i)),
     AddReceipt = (\<lambda>d. on_world (AddReceipt repo d))\<rparr>"

definition program_clock :: "'w clock_port \<Rightarrow> 'w program clock_port" where
  "program_clock clk = \<lparr>Now = on_world (Now clk), CloseClock = on_world (CloseClock clk)\<rparr>"

definition program_payment_producer :: "'w amqp_lib \<Rightarrow> 'w program mq_producer" where
  "program_payment_producer lib = \<lparr>
     DeclareExchange = (\<lambda>cfg. on_payment (DeclareExchange_impl lib cfg)),
     Publish = (\<lambda>m k. on_payment (Publish_impl lib m k)),
     CloseProducer = on_payment (CloseProducer_impl lib)\<rparr>"

definition program_guest_producer :: "'w amqp_lib \<Rightarrow> 'w program mq_producer" where
  "program_guest_producer lib = \<lparr>
     DeclareExchange = (\<lambda>cfg. on_guest (DeclareExchange_impl lib cfg)),
     Publish = (\<lambda>m k. on_guest (Publish_impl lib m k)),
     CloseProducer = on_guest (CloseProducer_impl lib)\<rparr>"

definition program_consumer :: "'w amqp_lib \<Rightarrow> 'w program mq_consumer" where
  "program_consumer lib = \<lparr>
     DeclareQueue = (\<lambda>cfg. on_consumer (DeclareQueue_impl lib cfg)),
     BindQueue = (\<lambda>cfg. on_consumer (BindQueue_impl lib cfg)),
     Consume = on_consumer (consume_call lib),
     CloseConsumer = on_consumer (CloseConsumer_impl lib)\<rparr>"

section \<open>internal/infra/init.go\<close>

text \<open>The libraries the program is built on; collections are those of the connected database.\<close>

record 'w libraries =
  LB_amqp :: "'w amqp_lib"
  LB_mongo :: "'w mongo_driver"
  LB_invoices :: "('w, doc_Invoice) mongo_collection"
  LB_receipts :: "('w, doc_Receipt) mongo_collection"
  LB_grpc :: "'w grpc_lib"
  LB_otel :: "'w otel_lib"
  LB_http :: "'w http_lib"
  LB_timestamps :: timestamp_lib

record 'w components =
  CM_telemetry :: telemetry_handle
  CM_mongo :: mongo_handle
  CM_invoiceRepo :: "'w invoice_repo"
  CM_receiptRepo :: "'w receipt_repo"
  CM_rabbitMQ :: rabbit_conn
  CM_paymentProducer :: rabbit_producer
  CM_guestCommProducer :: rabbit_producer
  CM_invoiceConsumer :: rabbit_consumer
  CM_clock :: clock_client

text \<open>Making a producer and declaring its exchange, with the texts of the two errors.\<close>

definition make_producer ::
  "'w amqp_lib \<Rightarrow> string \<Rightarrow> string \<Rightarrow> PublishConfig \<Rightarrow> ExchangeConfig \<Rightarrow> rabbit_conn \<Rightarrow> 'w \<Rightarrow>
     (go_err + rabbit_conn \<times> rabbit_producer) \<times> 'w" where
  "make_producer lib made declared pcfg xcfg conn s =
    (case NewRabbitmqProducer lib (Some conn) pcfg s of
       ((Inl err, _), s1) \<Rightarrow> (Inl (WrapErr made err), s1)
     | ((Inr p, c1), s1) \<Rightarrow>
      (case DeclareExchange_impl lib xcfg ((the c1, p), s1) of
         (Inl err, (_, s2)) \<Rightarrow> (Inl (WrapErr declared err), s2)
       | (Inr _, (cp, s2)) \<Rightarrow> (Inr cp, s2)))"

definition make_consumer ::
  "'w amqp_lib \<Rightarrow> ConsumersConfig \<Rightarrow> rabbit_conn \<Rightarrow> 'w \<Rightarrow>
     (go_err + rabbit_conn \<times> rabbit_consumer) \<times> 'w" where
  "make_consumer lib cfg conn s =
    (case NewRabbitmqConsumer lib (Some conn) (InvoiceConsume cfg) s of
       ((Inl err, _), s1) \<Rightarrow> (Inl (WrapErr ''failed to create invoice consumer: '' err), s1)
     | ((Inr n, c1), s1) \<Rightarrow>
      (case DeclareQueue_impl lib (InvoiceQueue cfg) ((the c1, n), s1) of
         (Inl err, (_, s2)) \<Rightarrow> (Inl (WrapErr ''failed to declare queue: '' err), s2)
       | (Inr _, st2) \<Rightarrow>
        (case BindQueue_impl lib (InvoiceBinding cfg) st2 of
           (Inl err, (_, s3)) \<Rightarrow> (Inl (WrapErr ''failed to bind invoice queue: '' err), s3)
         | (Inr _, (cn, s3)) \<Rightarrow> (Inr cn, s3))))"

definition infra_Init :: "'w libraries \<Rightarrow> Configs \<Rightarrow> ('w, 'w components) call" where
  "infra_Init libs cfg s =
    (case telemetry_Init (LB_otel libs) (Cfg_Telemetry cfg) (Cfg_App cfg) s of
       (Inl err, s1) \<Rightarrow> (Inl (WrapErr ''failed to setup telemetry: '' err), s1)
     | (Inr tel, s1) \<Rightarrow>
    (case NewMongoDb (LB_mongo libs) (Cfg_Mongo cfg) s1 of
       (Inl err, s2) \<Rightarrow> (Inl (WrapErr ''failed to connect to MongoDB: '' err), s2)
     | (Inr mongoDB, s2) \<Rightarrow>
    (case NewInvoiceRepo (Some (LB_invoices libs)) of
       Inl err \<Rightarrow> (Inl (WrapErr ''failed to create invoice repo: '' err), s2)
     | Inr invoiceRepo \<Rightarrow>
    (case NewReceiptRepo (Some (LB_receipts libs)) of
       Inl err \<Rightarrow> (Inl (WrapErr ''failed to create receipt repo: '' err), s2)
     | Inr receiptRepo \<Rightarrow>
    (case NewRabbitMqConnection (LB_amqp libs) (Cfg_RabbitMq cfg) s2 of
       (Inl err, s3) \<Rightarrow> (Inl (WrapErr ''failed to connect to RabbitMQ: '' err), s3)
     | (Inr c0, s3) \<Rightarrow>
    (case make_producer (LB_amqp libs) ''failed to create payment producer: ''
            ''failed to declare exchange: '' (PaymentPublish (Cfg_Publishers cfg))
            (PaymentExchange (Cfg_Publishers cfg)) c0 s3 of
       (Inl err, s4) \<Rightarrow> (Inl err, s4)
     | (Inr (c1, paymentProducer), s4) \<Rightarrow>
    (case make_producer (LB_amqp libs) ''failed to create guest communication producer: ''
            ''failed to declare guest communication exchange: ''
            (GuestCommunicationPublish (Cfg_Publishers cfg))
            (GuestCommunicationExchange (Cfg_Publishers cfg)) c1 s4 of
       (Inl err, s5) \<Rightarrow> (Inl err, s5)
     | (Inr (c2, guestCommProducer), s5) \<Rightarrow>
    (case make_consumer (LB_amqp libs) (Cfg_Consumers cfg) c2 s5 of
       (Inl err, s6) \<Rightarrow> (Inl err, s6)
     | (Inr (c3, invoiceConsumer), s6) \<Rightarrow>
    (case NewClock (LB_grpc libs) (Cfg_Services cfg) s6 of
       (Inl err, s7) \<Rightarrow> (Inl (WrapErr ''failed to create clock emu: '' err), s7)
     | (Inr clockClient, s7) \<Rightarrow> (Inr \<lparr>
         CM_telemetry = tel,
         CM_mongo = mongoDB,
         CM_invoiceRepo = invoiceRepo,
         CM_receiptRepo = receiptRepo,
         CM_rabbitMQ = c3,
         CM_paymentProducer = paymentProducer,
         CM_guestCommProducer = guestCommProducer,
         CM_invoiceConsumer = invoiceConsumer,
         CM_clock = clockClient\<rparr>, s7))))))))))"

section \<open>internal/app/init.go\<close>

record 's services =
  SS_PaymentMaking :: "'s payment_service"
  SS_PaymentReissue :: "'s reissue_service"
  SS_Invoice :: "'s invoice_service"

text \<open>The components as ports over the running program.\<close>

definition app_Init ::
  "'w libraries \<Rightarrow> Configs \<Rightarrow> 'w components \<Rightarrow> go_err + 'w program services" where
  "app_Init libs cfg cm =
    (let clk = program_clock (grpc_clock (LB_grpc libs) (LB_timestamps libs) (CM_clock cm));
         invoiceRepo = program_invoice_repo (CM_invoiceRepo cm);
         receiptRepo = program_receipt_repo (CM_receiptRepo cm)
     in
     case NewPaymentMakingServer (sint (Card_FailChance (Cfg_Services cfg))) (Some clk)
            (Some invoiceRepo) (Some receiptRepo) (Some (program_payment_producer (LB_amqp libs))) of
       Inl err \<Rightarrow> Inl err
     | Inr paymentMaking \<Rightarrow>
    (case NewPaymentReissueService (Some invoiceRepo) (Card_Host (Cfg_Services cfg)) of
       Inl err \<Rightarrow> Inl err
     | Inr paymentReissue \<Rightarrow>
    (case NewInvoiceService (Some invoiceRepo) (Some clk) (Some (program_consumer (LB_amqp libs)))
            (Some (program_guest_producer (LB_amqp libs))) (Card_Host (Cfg_Services cfg)) of
       Inl err \<Rightarrow> Inl err
     | Inr invc \<Rightarrow> Inr \<lparr>
         SS_PaymentMaking = paymentMaking,
         SS_PaymentReissue = paymentReissue,
         SS_Invoice = invc\<rparr>)))"

section \<open>internal/transport/init.go\<close>

text \<open>Registering the handlers never fails; the mux holds the services they call.\<close>

definition transport_Init :: "Configs \<Rightarrow> 's services \<Rightarrow> go_err + 's services server" where
  "transport_Init cfg svcs =
    (let sc = App_Server (Cfg_App cfg) in
     case NewHttpServer (Server_Host sc) (Server_Port sc) (Server_ReadHeaderTimeoutInSeconds sc)
            (Server_ReadTimeoutInSeconds sc) (Server_WriteTimeoutInSeconds sc)
            (Server_IdleTimeoutInSeconds sc) (Cfg_Telemetry cfg) (Some svcs) of
       Inl err \<Rightarrow> Inl (WrapErr ''create http server: '' err)
     | Inr httpServer \<Rightarrow> Inr (SetServer httpServer))"

section \<open>main.go\<close>

definition program_started :: "'w components \<Rightarrow> 'w \<Rightarrow> 'w program" where
  "program_started cm w = \<lparr>PG_conn = CM_rabbitMQ cm, PG_payment = CM_paymentProducer cm,
     PG_guest = CM_guestCommProducer cm, PG_consumer = CM_invoiceConsumer cm, PG_world = w\<rparr>"

text \<open>An error of shutting a part down is logged under its label, and the rest goes on.\<close>

definition logged :: "string \<Rightarrow> go_err option \<Rightarrow> (string \<times> go_err) list" where
  "logged label e = (case e of None \<Rightarrow> [] | Some err \<Rightarrow> [(label, err)])"

definition shutdown ::
  "'w libraries \<Rightarrow> 'w components \<Rightarrow> 'm server \<Rightarrow> 'w program \<Rightarrow>
     (go_err, (string \<times> go_err) list) outcome \<times> 'w program" where
  "shutdown libs cm httpServer p =
    (let lib = LB_amqp libs;
         (e1, w1) = ShutdownTelemetry (LB_otel libs) (CM_telemetry cm) (PG_world p);
         ((e2, c2), w2) = CloseConnection lib (PG_conn p) w1;
         (e3, w3) = CloseChannel_impl lib (RP_channel (PG_payment p)) w2;
         (e4, w4) = CloseChannel_impl lib (RP_channel (PG_guest p)) w3;
         (e5, w5) = CloseChannel_impl lib (CN_channel (PG_consumer p)) w4;
         logs = logged ''telemetry shutdown'' e1 @ logged ''close rabbitmq connection'' e2 @
           logged ''close payment producer'' e3 @ logged ''close guest communication producer'' e4 @
           logged ''close invoice consumer'' e5
     in case ServerShutdown (LB_http libs) httpServer w5 of
          (Panicked m, w6) \<Rightarrow> (Panicked m, p\<lparr>PG_conn := c2, PG_world := w6\<rparr>)
        | (r6, w6) \<Rightarrow>
           (let e6 = (case r6 of Failed err \<Rightarrow> Some err | _ \<Rightarrow> None);
                (r7, w7) = Clock_Close (LB_grpc libs) (CM_clock cm) w6;
                e7 = (case r7 of Inl err \<Rightarrow> Some err | Inr _ \<Rightarrow> None)
            in (Returned (logs @ logged ''server shutdown failed'' e6 @ logged ''close clock emu'' e7),
                p\<lparr>PG_conn := c2, PG_world := w7\<rparr>)))"

text \<open>
  \<open>run\<close>: \<open>parsed\<close> is what reading the environment gave. The services, started before the server
  is made, and the server work until the signal comes or the server cannot be made; \<open>served\<close> is
  what they make of the program until then.
\<close>

definition run ::
  "'w libraries \<Rightarrow> (go_err + Configs) \<Rightarrow> ('w program services \<Rightarrow> 'w program \<Rightarrow> 'w program) \<Rightarrow>
     'w \<Rightarrow> (go_err, (string \<times> go_err) list) outcome \<times> 'w" where
  "run libs parsed served s =
    (case parsed of
       Inl err \<Rightarrow> (Failed (WrapErr ''load configs: '' err), s)
     | Inr cfg \<Rightarrow>
    (case infra_Init libs cfg s of
       (Inl err, s1) \<Rightarrow> (Failed err, s1)
     | (Inr cm, s1) \<Rightarrow>
    (case app_Init libs cfg cm of
       Inl err \<Rightarrow> (Failed (WrapErr ''init app services: '' err), s1)
     | Inr svcs \<Rightarrow>
    (case transport_Init cfg svcs of
       Inl err \<Rightarrow> (Failed err, PG_world (served svcs (program_started cm s1)))
     | Inr httpServer \<Rightarrow>
        (let (r, p) = shutdown libs cm httpServer (served svcs (program_started cm s1))
         in (r, PG_world p))))))"

text \<open>
  \<open>main\<close>: the exit status of the process. A failed run is logged and exits with 1; a panic would
  end the process with 2.
\<close>

definition main_exit ::
  "'w libraries \<Rightarrow> (go_err + Configs) \<Rightarrow> ('w program services \<Rightarrow> 'w program \<Rightarrow> 'w program) \<Rightarrow>
     'w \<Rightarrow> nat \<times> 'w" where
  "main_exit libs parsed served s =
    (case run libs parsed served s of
       (Returned _, s1) \<Rightarrow> (0, s1)
     | (Failed _, s1) \<Rightarrow> (1, s1)
     | (Panicked _, s1) \<Rightarrow> (2, s1))"

end
