(* ===== verification/WholeProgram.thy ===== *)
theory WholeProgram
  imports PaymentReissue PaymentInterleaving
begin

text \<open>
  Everything the program does while it runs, at once: payment calls and the goroutines they leave
  behind, the consumer that turns deliveries into invoices, and reissues, interleaved at their
  uses of the ports. The consumer is one goroutine with a program counter of its own; run without
  interruption it is \<^const>\<open>processInvoiceDelivery\<close>.
\<close>

section \<open>The consumer's stages\<close>

datatype invoice_pc =
    Starting
  | Waiting
  | Received delivery
  | Storing delivery doc_Invoice
  | Announcing delivery doc_Invoice
  | Acking delivery
  | Nacking delivery bool
  | Ended
  | Crashed

fun invoice_stage ::
  "'s runtime \<Rightarrow> timestamp_lib \<Rightarrow> codec \<Rightarrow> 's acknowledger \<Rightarrow> 's invoice_service \<Rightarrow> invoice_pc \<Rightarrow>
     's \<Rightarrow> invoice_pc \<times> 's" where
  "invoice_stage rt tsl cdc ackn svc Starting s =
     (case Consume (IS_invoiceConsumer svc) s of
        (Inl err, s1) \<Rightarrow> (Ended, s1)
      | (Inr _, s1) \<Rightarrow> (Waiting, s1))"
| "invoice_stage rt tsl cdc ackn svc (Received dlv) s =
     (case unmarshalRequest cdc dlv of
        Inl err \<Rightarrow> (Nacking dlv False, s)
      | Inr req \<Rightarrow>
       (case generateInvoiceDoc rt tsl svc (Some req) s of
          (Panicked m, s1) \<Rightarrow> (Crashed, s1)
        | (Failed err, s1) \<Rightarrow> (Nacking dlv False, s1)
        | (Returned invoice, s1) \<Rightarrow> (Storing dlv invoice, s1)))"
| "invoice_stage rt tsl cdc ackn svc (Storing dlv invoice) s =
     (case saveInvoice svc invoice s of
        (Inl err, s1) \<Rightarrow> (Nacking dlv (\<not> is_a TAppAlreadyExists err), s1)
      | (Inr _, s1) \<Rightarrow> (Announcing dlv invoice, s1))"
| "invoice_stage rt tsl cdc ackn svc (Announcing dlv invoice) s =
     (case publishPaymentRequest tsl svc invoice s of
        (Inl err, s1) \<Rightarrow> (Nacking dlv (\<not> is_a TValidation err), s1)
      | (Inr _, s1) \<Rightarrow> (Acking dlv, s1))"
| "invoice_stage rt tsl cdc ackn svc (Acking dlv) s =
     (Waiting, snd (Ack ackn (DeliveryTag dlv) False s))"
| "invoice_stage rt tsl cdc ackn svc (Nacking dlv requeue) s =
     (Waiting, nack ackn dlv False requeue s)"
| "invoice_stage rt tsl cdc ackn svc Waiting s = (Waiting, s)"
| "invoice_stage rt tsl cdc ackn svc Ended s = (Ended, s)"
| "invoice_stage rt tsl cdc ackn svc Crashed s = (Crashed, s)"

definition invoice_stages ::
  "'s runtime \<Rightarrow> timestamp_lib \<Rightarrow> codec \<Rightarrow> 's acknowledger \<Rightarrow> 's invoice_service \<Rightarrow> nat \<Rightarrow>
     invoice_pc \<times> 's \<Rightarrow> invoice_pc \<times> 's" where
  "invoice_stages rt tsl cdc ackn svc k c =
     ((\<lambda>(pc, s). invoice_stage rt tsl cdc ackn svc pc s) ^^ k) c"

lemma invoice_stages_Suc:
  "invoice_stages rt tsl cdc ackn svc 0 c = c"
  "invoice_stages rt tsl cdc ackn svc (Suc k) (pc, s) =
     invoice_stages rt tsl cdc ackn svc k (invoice_stage rt tsl cdc ackn svc pc s)"
  by (simp_all add: invoice_stages_def funpow_Suc_right del: funpow.simps(2))

lemma invoice_stages_stay:
  "invoice_stages rt tsl cdc ackn svc k (Waiting, s) = (Waiting, s)"
  "invoice_stages rt tsl cdc ackn svc k (Crashed, s) = (Crashed, s)"
  by (induction k) (simp_all add: invoice_stages_Suc)

text \<open>The consumer alone: four stages process a delivery.\<close>

lemma invoice_stages_process:
  assumes "processInvoiceDelivery rt tsl cdc ackn svc dlv s = (r, s')"
  shows "invoice_stages rt tsl cdc ackn svc 4 (Received dlv, s) =
    (if is_panic r then Crashed else Waiting, s')"
proof -
  have four: "(4::nat) = Suc (Suc (Suc (Suc 0)))" by simp
  note [simp] = four invoice_stages_Suc invoice_stages_stay
  from assms show ?thesis
  proof (cases rule: process_cases)
    case (acknowledged req d s1 i s2 u s3 a)
    then show ?thesis by (cases a) simp_all
  qed simp_all
qed

section \<open>The program's transitions\<close>

text \<open>
  The threads of the payment calls, the consumer's place and the world. A request may arrive at any
  time, and a delivery when the consumer waits for one; the channel of deliveries may be closed
  then too, when the connection is lost, and that ends the loop over it.
\<close>

type_synonym 's program_state = "pay_thread list \<times> invoice_pc \<times> 's"

inductive program_step ::
  "'s runtime \<Rightarrow> timestamp_lib \<Rightarrow> codec \<Rightarrow> 's acknowledger \<Rightarrow> 's payment_service \<Rightarrow>
     's reissue_service \<Rightarrow> 's invoice_service \<Rightarrow> 's program_state \<Rightarrow> 's program_state \<Rightarrow> bool"
  for rt tsl cdc ackn pays reis invs where
  arrival: "program_step rt tsl cdc ackn pays reis invs (ts, pc, s) (ts @ [(req, Start)], pc, s)"
| payment: "sys_step rt tsl pays (ts, s) (ts', s') \<Longrightarrow>
    program_step rt tsl cdc ackn pays reis invs (ts, pc, s) (ts', pc, s')"
| delivered: "program_step rt tsl cdc ackn pays reis invs (ts, Waiting, s) (ts, Received dlv, s)"
| closed: "program_step rt tsl cdc ackn pays reis invs (ts, Waiting, s) (ts, Ended, s)"
| handled: "pc \<noteq> Waiting \<Longrightarrow> invoice_stage rt tsl cdc ackn invs pc s = (pc', s') \<Longrightarrow>
    program_step rt tsl cdc ackn pays reis invs (ts, pc, s) (ts, pc', s')"
| reissued: "Reissue tsl reis req s = (x, s') \<Longrightarrow>
    program_step rt tsl cdc ackn pays reis invs (ts, pc, s) (ts, pc, s')"

inductive_cases program_stepE:
  "program_step rt tsl cdc ackn pays reis invs (ts, pc, s) (ts', pc', s')"

abbreviation program_steps ::
  "'s runtime \<Rightarrow> timestamp_lib \<Rightarrow> codec \<Rightarrow> 's acknowledger \<Rightarrow> 's payment_service \<Rightarrow>
     's reissue_service \<Rightarrow> 's invoice_service \<Rightarrow> 's program_state \<Rightarrow> 's program_state \<Rightarrow> bool" where
  "program_steps rt tsl cdc ackn pays reis invs \<equiv>
     (program_step rt tsl cdc ackn pays reis invs)\<^sup>*\<^sup>*"

text \<open>The stages of a delivery are transitions of the program.\<close>

lemma invoice_stages_reachable:
  "program_steps rt tsl cdc ackn pays reis invs (ts, c)
     (ts, invoice_stages rt tsl cdc ackn invs k c)"
proof (induction k arbitrary: c)
  case 0
  then show ?case by (simp add: invoice_stages_Suc)
next
  case (Suc k)
  obtain pc s where c: "c = (pc, s)" by fastforce
  show ?case
  proof (cases "pc = Waiting")
    case True
    with c show ?thesis by (simp add: invoice_stages_stay)
  next
    case False
    obtain pc' s' where st: "invoice_stage rt tsl cdc ackn invs pc s = (pc', s')" by fastforce
    from program_step.handled[OF False st]
    have "program_steps rt tsl cdc ackn pays reis invs (ts, pc, s) (ts, pc', s')" by blast
    also note Suc[of "(pc', s')"]
    finally show ?thesis using st c by (simp add: invoice_stages_Suc)
  qed
qed

section \<open>What holds of the program\<close>

text \<open>What an announcement of an invoice says of it; payments and other deliveries keep it.\<close>

definition same_terms :: "doc_Invoice \<Rightarrow> doc_Invoice \<Rightarrow> bool" where
  "same_terms d d' \<longleftrightarrow> Invoice_InvoiceNumber d' = Invoice_InvoiceNumber d \<and>
     Invoice_IdempotencyId d' = Invoice_IdempotencyId d \<and>
     Invoice_BookingId d' = Invoice_BookingId d \<and> Invoice_PayerId d' = Invoice_PayerId d \<and>
     Invoice_Payer d' = Invoice_Payer d \<and> Invoice_Booking d' = Invoice_Booking d \<and>
     Invoice_Total d' = Invoice_Total d"

definition terms_kept :: "doc_Invoice list \<Rightarrow> doc_Invoice list \<Rightarrow> bool" where
  "terms_kept ds ds' \<longleftrightarrow> (\<forall>d\<in>set ds. \<exists>d'\<in>set ds'. same_terms d d')"

lemma same_terms_trans: "same_terms a b \<Longrightarrow> same_terms b c \<Longrightarrow> same_terms a c"
  by (simp add: same_terms_def)

lemma terms_kept_refl: "terms_kept ds ds"
  by (auto simp: terms_kept_def same_terms_def)

lemma terms_kept_inserted: "inserted d ds ds' \<Longrightarrow> terms_kept ds ds'"
  by (auto simp: inserted_def terms_kept_def same_terms_def)

lemma terms_kept_status:
  assumes "status_set n st ds ds'"
  shows "terms_kept ds ds'"
proof -
  from assms obtain i d' where i: "i < length ds"
    "same_record ((ds ! i)\<lparr>Invoice_Status := st\<rparr>) d'" "ds' = ds[i := d']"
    by (auto simp: status_set_def)
  have d': "same_terms (ds ! i) d'" using same_record_fields[OF i(2)] by (simp add: same_terms_def)
  show ?thesis unfolding terms_kept_def
  proof
    fix d
    assume "d \<in> set ds"
    then obtain j where j: "j < length ds" "d = ds ! j" by (auto simp: in_set_conv_nth)
    show "\<exists>d'\<in>set ds'. same_terms d d'"
    proof (cases "j = i")
      case True
      with d' j i show ?thesis using set_update_memI[of i ds d'] by auto
    next
      case False
      with j i have "d \<in> set ds'" by (metis length_list_update nth_list_update_neq nth_mem)
      then show ?thesis by (intro bexI[of _ d]) (simp_all add: same_terms_def)
    qed
  qed
qed

lemma backed_kept:
  assumes "requests_backed (ds, ms, xs)" and "terms_kept ds ds'"
  shows "requests_backed (ds', ms, xs')"
  unfolding requests_backed_def prod.case
proof (intro allI impI)
  fix p k
  assume "(PaymentRequestMsg p, k) \<in> set ms"
  with assms(1) obtain d where d: "d \<in> set ds" "announces p d" "k = guest_key d"
    by (auto simp: requests_backed_def)
  with assms(2) obtain d' where "d' \<in> set ds'" "same_terms d d'" by (auto simp: terms_kept_def)
  with d show "\<exists>d\<in>set ds'. announces p d \<and> k = guest_key d"
    by (intro bexI[of _ d']) (simp_all add: announces_def same_terms_def guest_key_def)
qed

lemma backed_confirmation:
  "requests_backed (ds, ms, xs) \<Longrightarrow>
     requests_backed (ds, ms @ [confirmation_for tsl i now resp d], xs')"
  by (simp add: requests_backed_def confirmation_for_def)

lemma backed_announced:
  assumes "requests_backed (ds, ms, xs)" and "d' \<in> set ds" and "same_terms d d'"
  shows "requests_backed (ds, ms @ [request_message tsl host d], xs')"
proof -
  have "announces (buildPaymentRequest tsl d host) d'" "guest_key d' = guest_key d"
    using assms(3)
    by (simp_all add: announces_def same_terms_def buildPaymentRequest_def guest_key_def)
  with assms(1,2) show ?thesis by (auto simp: requests_backed_def request_message_def)
qed

text \<open>What the consumer knows at its place, and that it has not crashed.\<close>

fun consumer_knows :: "doc_Invoice list \<Rightarrow> invoice_pc \<Rightarrow> bool" where
  "consumer_knows ds (Announcing dlv d) = (\<exists>d'\<in>set ds. same_terms d d')"
| "consumer_knows ds Crashed = False"
| "consumer_knows ds _ = True"

lemma consumer_knows_kept: "consumer_knows ds pc \<Longrightarrow> terms_kept ds ds' \<Longrightarrow> consumer_knows ds' pc"
  by (cases pc) (auto simp: terms_kept_def intro: same_terms_trans)

definition program_ok ::
  "pay_thread list \<Rightarrow> invoice_pc \<Rightarrow> doc_Invoice list \<Rightarrow> doc_Receipt list \<Rightarrow>
     (proto_message \<times> string) list \<Rightarrow> bool" where
  "program_ok ts pc ds rs ms \<longleftrightarrow> sys_ok ts ds rs ms \<and> consumer_knows ds pc \<and>
     (\<forall>d\<in>set ds. wf_invoice d) \<and> requests_backed (ds, ms, [])"

lemma extends_inserted: "inserted d ds ds' \<Longrightarrow> extends ds rs ds' rs"
  by (auto simp: inserted_def extends_def paid_number_def)

lemma sys_ok_inserted:
  assumes "sys_ok ts ds rs ms" and "inserted d ds ds'"
  shows "sys_ok ts ds' rs ms"
proof -
  note ext = extends_inserted[OF assms(2), of rs]
  with assms(1) show ?thesis
    using backed_extends[of ds rs ds'] knows_extends[OF _ ext] by (fastforce simp: sys_ok_def)
qed

lemma sys_ok_request: "sys_ok ts ds rs ms \<Longrightarrow> sys_ok ts ds rs (ms @ [request_message tsl host d])"
  by (simp add: sys_ok_def confirmations_backed_def request_message_def)

lemma sys_ok_arrival: "sys_ok ts ds rs ms \<Longrightarrow> sys_ok (ts @ [(req, Start)]) ds rs ms"
  by (auto simp: sys_ok_def)

context app_ports
begin

text \<open>What a transition of a payment does to the invoices and the messages.\<close>

lemma thread_step_effect:
  assumes "thread_step rt tsl (pay_service chance) req pc s = (pc', s')"
  shows "settled s' = settled s \<and> (docs s' = docs s \<or> (\<exists>n. status_set n InvoiceStatusPaid (docs s) (docs s'))) \<and>
    (sent s' = sent s \<or> (\<exists>i now resp d. sent s' = sent s @ [confirmation_for tsl i now resp d]))"
proof (cases pc)
  case Start
  with assms now_quiet[of s "fst (Now clk s)" "snd (Now clk s)"] show ?thesis
    by (auto simp: thread_step_def split: option.splits sum.splits prod.splits)
next
  case (Load now)
  let ?f = "FindByInvoiceNumber repo (PayWithCardRequest_GetInvoiceNumber req) s"
  show ?thesis using Load assms find_all_quiet[of _ s "fst ?f" "snd ?f"]
    by (auto simp: thread_step_def split: sum.splits prod.splits if_splits)
next
  case (Draw now)
  with assms rand_quiet[of s "fst (RandInt rt s)" "snd (RandInt rt s)"] show ?thesis
    by (auto simp: thread_step_def Let_def split: prod.splits if_splits)
next
  case (Mark now)
  then obtain a where a: "UpdateStatus repo (PayWithCardRequest_GetInvoiceNumber req)
      InvoiceStatusPaid now s = (a, s')"
    using assms by (auto simp: thread_step_def split: prod.splits sum.splits)
  with invs.update_cases[OF a] update_frame[OF a] show ?thesis by auto
next
  case (Respond now st)
  then obtain g where "buildResponse rt req st now s = (g, s')"
    using assms by (auto simp: thread_step_def split: prod.splits if_splits)
  from buildResponse_quiet[OF this] show ?thesis by simp
next
  case (Replied r w)
  show ?thesis
  proof (cases w)
    case (Save now resp)
    then obtain a where "saveReceipt rt tsl (pay_service chance) resp s = (a, s')"
      using Replied assms by (auto simp: thread_step_def split: prod.splits sum.splits)
    from save_receipt_effect[OF this] show ?thesis by simp
  next
    case (Send now resp)
    then obtain x where "sendConfirmationMessage rt tsl (pay_service chance) now resp s = (x, s')"
      using Replied assms
      by (cases "sendConfirmationMessage rt tsl (pay_service chance) now resp s")
        (auto simp: thread_step_def)
    from send_confirmation_effect[OF this] show ?thesis by blast
  next
    case Stopped
    with Replied assms show ?thesis by (simp add: thread_step_def)
  qed
qed

lemma payment_keeps_program:
  assumes "sys_step rt tsl (pay_service chance) (ts, s) (ts', s')"
    and "program_ok ts pc (docs s) (rcpts s) (sent s)"
  shows "program_ok ts' pc (docs s') (rcpts s') (sent s')"
proof -
  from assms(1) obtain req p p' where
    st: "thread_step rt tsl (pay_service chance) req p s = (p', s')" by (rule sys_stepE)
  note eff = thread_step_effect[OF st]
  then have kept: "terms_kept (docs s) (docs s')"
    using terms_kept_refl terms_kept_status by (metis (full_types))
  have "requests_backed (docs s', sent s, [])"
    using assms(2) kept backed_kept by (auto simp: program_ok_def)
  then have "requests_backed (docs s', sent s', [])"
    using eff backed_confirmation by fastforce
  moreover have "\<forall>d\<in>set (docs s'). wf_invoice d"
    using eff assms(2) invs.status_set_wf[of _ InvoiceStatusPaid "docs s" "docs s'"]
    by (auto simp: program_ok_def IsValidInvoiceStatus_def)
  ultimately show ?thesis
    using sys_step_ok[OF assms(1)] assms(2) consumer_knows_kept kept
    by (auto simp: program_ok_def)
qed

lemma stage_keeps_program:
  assumes "consumer_quiet cons (\<lambda>s. (docs s, rcpts s, sent s))"
    and "invoice_stage rt tsl cdc ackn (invoice_service_over clk repo cons prod host) pc s = (pc', s')"
    and "program_ok ts pc (docs s) (rcpts s) (sent s)"
  shows "program_ok ts pc' (docs s') (rcpts s') (sent s')"
proof (cases pc)
  case Starting
  obtain r where r: "Consume cons s = (r, s')"
    using Starting assms(2) by (auto split: prod.splits sum.splits)
  from consumer_quiet.consume_rest[OF assms(1) r] have "docs s' = docs s" "rcpts s' = rcpts s"
    "sent s' = sent s" by simp_all
  with r Starting assms(2,3) show ?thesis by (cases r) (auto simp: program_ok_def)
next
  case (Received dlv)
  let ?svc = "invoice_service_over clk repo cons prod host"
  show ?thesis
  proof (cases "unmarshalRequest cdc dlv")
    case (Inl e)
    with Received assms show ?thesis by (auto simp: program_ok_def)
  next
    case (Inr req)
    obtain g s1 where g: "generateInvoiceDoc rt tsl ?svc (Some req) s = (g, s1)" by fastforce
    have "\<not> is_panic g" using generate_no_panic g by (auto simp: is_panic_iff)
    with generate_quiet[OF g] Received Inr g assms show ?thesis
      by (cases g) (auto simp: program_ok_def)
  qed
next
  case (Storing dlv d)
  obtain r where r: "saveInvoice (invoice_service_over clk repo cons prod host) d s = (r, s')"
    using Storing assms(2) by (auto split: prod.splits sum.splits)
  note eff = save_effect[OF r]
  show ?thesis
  proof (cases "docs s' = docs s \<and> (\<exists>e. r = Inl e)")
    case True
    with r Storing assms eff show ?thesis by (auto simp: program_ok_def)
  next
    case False
    then have ins: "wf_invoice d" "inserted d (docs s) (docs s')" using eff by (cases r; blast)+
    then obtain d' where d': "same_record d d'" "docs s' = docs s @ [d']" by (auto simp: inserted_def)
    have "same_terms d d'" using same_record_fields[OF d'(1)] by (simp add: same_terms_def)
    then have "consumer_knows (docs s') pc'"
      using r Storing assms(2) d'(2) by (cases r) auto
    moreover have "requests_backed (docs s', sent s, [])"
      using assms(3) backed_kept terms_kept_inserted[OF ins(2)] by (auto simp: program_ok_def)
    moreover have "\<forall>d\<in>set (docs s'). wf_invoice d"
      using assms(3) d' ins(1) same_record_wf by (auto simp: program_ok_def)
    ultimately show ?thesis
      using sys_ok_inserted[OF _ ins(2)] assms(3) eff(1,2) by (auto simp: program_ok_def)
  qed
next
  case (Announcing dlv d)
  obtain r where r: "publishPaymentRequest tsl (invoice_service_over clk repo cons prod host) d s =
      (r, s')"
    using Announcing assms(2) by (auto split: prod.splits sum.splits)
  note eff = publish_effect[OF r]
  have sent: "sent s' = sent s \<or> sent s' = sent s @ [request_message tsl host d]"
    using eff(4,5) by (cases r) (auto simp: request_message_def)
  have "requests_backed (docs s, sent s', [])"
    using sent assms(3) Announcing backed_announced by (fastforce simp: program_ok_def)
  moreover have "sys_ok ts (docs s) (rcpts s) (sent s')"
    using sent assms(3) sys_ok_request by (auto simp: program_ok_def)
  moreover have "consumer_knows (docs s) pc'" using r Announcing assms(2) by (cases r) auto
  ultimately show ?thesis using eff(1,2) assms(3) by (simp add: program_ok_def)
next
  case (Acking dlv)
  with assms ack_frame[of "DeliveryTag dlv" False s "fst (Ack ackn (DeliveryTag dlv) False s)" s']
  show ?thesis by (cases "Ack ackn (DeliveryTag dlv) False s") (auto simp: program_ok_def)
next
  case (Nacking dlv q)
  with assms(2) have "nack ackn dlv False q s = s'" "pc' = Waiting" by simp_all
  with nack_effect assms(3) show ?thesis by (auto simp: program_ok_def)
qed (use assms(2,3) in \<open>auto simp: program_ok_def\<close>)

lemma reissue_quiet:
  "Reissue tsl (reissue_service_over repo host) req s = (x, s') \<Longrightarrow>
     docs s' = docs s \<and> rcpts s' = rcpts s \<and> sent s' = sent s \<and> settled s' = settled s"
  using find_booking_all_quiet
  by (fastforce simp: Reissue_def reissue_service_over_def split: option.splits prod.splits
      sum.splits if_splits)

end

text \<open>
  The two services use producers of their own on the same broker: the payment service's
  \<open>prd\<close> and the invoice service's \<open>gprd\<close>.
\<close>

lemma program_step_keeps:
  assumes pay: "app_ports repo rrepo prd ackn clk rt docs rcpts sent settled"
    and gst: "app_ports repo rrepo gprd ackn clk rt docs rcpts sent settled"
    and con: "consumer_quiet cons (\<lambda>s. (docs s, rcpts s, sent s))"
    and step: "program_step rt tsl cdc ackn (payment_service_over chance clk repo rrepo prd)
      (reissue_service_over repo host) (invoice_service_over clk repo cons gprd host)
      (ts, pc, s) (ts', pc', s')"
    and ok: "program_ok ts pc (docs s) (rcpts s) (sent s)"
  shows "program_ok ts' pc' (docs s') (rcpts s') (sent s')"
  using step
proof cases
  case arrival
  with ok sys_ok_arrival show ?thesis by (auto simp: program_ok_def)
next
  case payment
  with app_ports.payment_keeps_program[OF pay] ok show ?thesis by blast
next
  case delivered
  with ok show ?thesis by (simp add: program_ok_def)
next
  case closed
  with ok show ?thesis by (simp add: program_ok_def)
next
  case handled
  with app_ports.stage_keeps_program[OF gst con] ok show ?thesis by blast
next
  case reissued
  with app_ports.reissue_quiet[OF pay] ok show ?thesis by (metis (full_types))
qed

lemma program_steps_keep:
  assumes pay: "app_ports repo rrepo prd ackn clk rt docs rcpts sent settled"
    and gst: "app_ports repo rrepo gprd ackn clk rt docs rcpts sent settled"
    and con: "consumer_quiet cons (\<lambda>s. (docs s, rcpts s, sent s))"
    and steps: "program_steps rt tsl cdc ackn (payment_service_over chance clk repo rrepo prd)
      (reissue_service_over repo host) (invoice_service_over clk repo cons gprd host)
      (ts, pc, s) (ts', pc', s')"
    and ok: "program_ok ts pc (docs s) (rcpts s) (sent s)"
  shows "program_ok ts' pc' (docs s') (rcpts s') (sent s')"
  using steps
proof (induction "(ts', pc', s')" arbitrary: ts' pc' s' rule: rtranclp_induct)
  case base
  with ok show ?case by simp
next
  case (step c)
  obtain ts1 pc1 s1 where c: "c = (ts1, pc1, s1)" by (metis surj_pair)
  from program_step_keeps[OF pay gst con step(2)[unfolded c]] step(3)[OF c] show ?case by blast
qed

text \<open>A consumer whose loop has ended stays so, and answers no delivery.\<close>

lemma ended_step:
  assumes pay: "app_ports repo rrepo prd ackn clk rt docs rcpts sent settled"
    and step: "program_step rt tsl cdc ackn (payment_service_over chance clk repo rrepo prd)
      (reissue_service_over repo host) invs (ts, Ended, s) (ts', pc', s')"
  shows "pc' = Ended \<and> settled s' = settled s"
  using step
proof cases
  case payment
  from payment(2) obtain req p p' where "thread_step rt tsl
      (payment_service_over chance clk repo rrepo prd) req p s = (p', s')" by (rule sys_stepE)
  from app_ports.thread_step_effect[OF pay this] payment(1) show ?thesis by simp
next
  case reissued
  with app_ports.reissue_quiet[OF pay] show ?thesis by blast
qed auto

lemma ended_steps:
  assumes pay: "app_ports repo rrepo prd ackn clk rt docs rcpts sent settled"
    and steps: "program_steps rt tsl cdc ackn (payment_service_over chance clk repo rrepo prd)
      (reissue_service_over repo host) invs (ts, Ended, s) (ts', pc', s')"
  shows "pc' = Ended \<and> settled s' = settled s"
  using steps
proof (induction "(ts', pc', s')" arbitrary: ts' pc' s' rule: rtranclp_induct)
  case (step c)
  obtain ts1 pc1 s1 where c: "c = (ts1, pc1, s1)" by (metis surj_pair)
  with step(3)[OF c] step(2) ended_step[OF pay] show ?case by metis
qed simp

end
