(* ===== verification/Answers.thy ===== *)
theory Answers
  imports WholeProgram
begin

text \<open>
  What the broker is told about the requests it delivers. RabbitMQ forgets a message when it is
  acknowledged, and when it is rejected without being put back; it keeps every other. So a request
  is lost exactly when one of these answers is given for it too early. The relation here follows
  the program together with the deliveries it has taken, and its invariant says of every answer
  given which delivery it is for and what entitles the consumer to it.
\<close>

section \<open>Runs with the deliveries they take\<close>

definition taken_by :: "invoice_pc \<Rightarrow> invoice_pc \<Rightarrow> delivery list" where
  "taken_by pc pc' = (case (pc, pc') of (Waiting, Received dlv) \<Rightarrow> [dlv] | _ \<Rightarrow> [])"

inductive consumer_run ::
  "'s runtime \<Rightarrow> timestamp_lib \<Rightarrow> codec \<Rightarrow> 's acknowledger \<Rightarrow> 's payment_service \<Rightarrow>
     's reissue_service \<Rightarrow> 's invoice_service \<Rightarrow> 's program_state \<Rightarrow> delivery list \<Rightarrow>
     's program_state \<Rightarrow> bool"
  for rt tsl cdc ackn pays reis invs c where
  begun: "consumer_run rt tsl cdc ackn pays reis invs c [] c"
| stepped: "consumer_run rt tsl cdc ackn pays reis invs c taken (ts, pc, s) \<Longrightarrow>
    program_step rt tsl cdc ackn pays reis invs (ts, pc, s) (ts', pc', s') \<Longrightarrow>
    consumer_run rt tsl cdc ackn pays reis invs c (taken @ taken_by pc pc') (ts', pc', s')"

text \<open>Every run of the program is one with the deliveries it takes.\<close>

lemma steps_consumer_run:
  assumes "program_steps rt tsl cdc ackn pays reis invs c c'"
  shows "\<exists>taken. consumer_run rt tsl cdc ackn pays reis invs c taken c'"
  using assms
proof (induction rule: rtranclp_induct)
  case base
  then show ?case using consumer_run.begun by blast
next
  case (step c1 c2)
  obtain ts pc s where c1: "c1 = (ts, pc, s)" by (metis surj_pair)
  obtain ts' pc' s' where c2: "c2 = (ts', pc', s')" by (metis surj_pair)
  from step(3) obtain taken where
    "consumer_run rt tsl cdc ackn pays reis invs c taken (ts, pc, s)" unfolding c1 by blast
  from consumer_run.stepped[OF this step(2)[unfolded c1 c2]] show ?case unfolding c2 by blast
qed

lemma consumer_run_steps:
  "consumer_run rt tsl cdc ackn pays reis invs c taken c' \<Longrightarrow>
     program_steps rt tsl cdc ackn pays reis invs c c'"
  by (induction rule: consumer_run.induct) (auto intro: rtranclp.rtrancl_into_rtrancl)

text \<open>The stages of a delivery take no other.\<close>

lemma stages_consumer_run:
  assumes "consumer_run rt tsl cdc ackn pays reis invs c0 taken (ts, c)"
  shows "consumer_run rt tsl cdc ackn pays reis invs c0 taken
    (ts, invoice_stages rt tsl cdc ackn invs k c)"
  using assms
proof (induction k arbitrary: c)
  case 0
  then show ?case by (simp add: invoice_stages_Suc)
next
  case (Suc k)
  obtain pc s where c: "c = (pc, s)" by fastforce
  show ?case
  proof (cases "pc = Waiting")
    case True
    with c Suc(2) show ?thesis by (simp add: invoice_stages_stay)
  next
    case False
    obtain pc' s' where st: "invoice_stage rt tsl cdc ackn invs pc s = (pc', s')" by fastforce
    have "taken_by pc pc' = []" using False by (cases pc) (simp_all add: taken_by_def)
    with consumer_run.stepped[OF Suc(2)[unfolded c] program_step.handled[OF False st]]
    have "consumer_run rt tsl cdc ackn pays reis invs c0 taken (ts, pc', s')" by simp
    from Suc(1)[OF this] st c show ?thesis by (simp add: invoice_stages_Suc)
  qed
qed

section \<open>What entitles the consumer to an answer\<close>

text \<open>The document is the one the delivery's request becomes, with some number and time.\<close>

definition made_from :: "timestamp_lib \<Rightarrow> codec \<Rightarrow> delivery \<Rightarrow> doc_Invoice \<Rightarrow> bool" where
  "made_from tsl cdc dlv d \<longleftrightarrow> (\<exists>req now n. unmarshalRequest cdc dlv = Inr req \<and>
     valid_create_request tsl (Some req) \<and> friendly_id ''INV'' now n \<and>
     d = invoice_of tsl (Some req) n now)"

lemma made_from_fresh: "made_from tsl cdc dlv d \<Longrightarrow> fresh_invoice tsl d"
  by (auto simp: made_from_def intro: fresh_invoice_of)

text \<open>Its invoice is stored, and its payment request was sent.\<close>

definition carried_out ::
  "timestamp_lib \<Rightarrow> codec \<Rightarrow> string \<Rightarrow> doc_Invoice list \<Rightarrow> (proto_message \<times> string) list \<Rightarrow>
     delivery \<Rightarrow> bool" where
  "carried_out tsl cdc host ds ms dlv \<longleftrightarrow> (\<exists>d. made_from tsl cdc dlv d \<and>
     (\<exists>d'\<in>set ds. same_terms d d') \<and> request_message tsl host d \<in> set ms)"

text \<open>
  Why a delivery may be rejected for good: it says nothing, or what it says is invalid; or the
  clock or the source of identifiers did not answer; or the database has its number already; or
  the payment request of its invoice does not pass the service's own checks.
\<close>

inductive rejectable ::
  "'s runtime \<Rightarrow> timestamp_lib \<Rightarrow> codec \<Rightarrow> 's clock_port \<Rightarrow> 's invoice_repo \<Rightarrow> string \<Rightarrow>
     delivery \<Rightarrow> bool"
  for rt tsl cdc clk repo host dlv where
  undecodable: "unmarshalRequest cdc dlv = Inl e \<Longrightarrow> rejectable rt tsl cdc clk repo host dlv"
| invalid: "unmarshalRequest cdc dlv = Inr req \<Longrightarrow> \<not> valid_create_request tsl (Some req) \<Longrightarrow>
    rejectable rt tsl cdc clk repo host dlv"
| no_time: "Now clk s = (Inl e, s') \<Longrightarrow> rejectable rt tsl cdc clk repo host dlv"
| no_number: "GenerateHumanFriendlyId rt ''INV'' now s = (Failed e, s') \<Longrightarrow>
    rejectable rt tsl cdc clk repo host dlv"
| duplicate: "made_from tsl cdc dlv d \<Longrightarrow> AddInvoice repo d s = (Inl e, s') \<Longrightarrow>
    is_a TDbAlreadyExists e \<Longrightarrow> rejectable rt tsl cdc clk repo host dlv"
| unannounceable: "made_from tsl cdc dlv d \<Longrightarrow>
    \<not> valid_payment_request tsl (Some (buildPaymentRequest tsl d host)) \<Longrightarrow>
    rejectable rt tsl cdc clk repo host dlv"

text \<open>An answer for a delivery, with what entitles the consumer to it.\<close>

fun entitled ::
  "'s runtime \<Rightarrow> timestamp_lib \<Rightarrow> codec \<Rightarrow> 's clock_port \<Rightarrow> 's invoice_repo \<Rightarrow> string \<Rightarrow>
     doc_Invoice list \<Rightarrow> (proto_message \<times> string) list \<Rightarrow> delivery \<times> settlement \<Rightarrow> bool" where
  "entitled rt tsl cdc clk repo host ds ms (dlv, Acked tag m) \<longleftrightarrow>
     tag = DeliveryTag dlv \<and> \<not> m \<and> carried_out tsl cdc host ds ms dlv"
| "entitled rt tsl cdc clk repo host ds ms (dlv, Nacked tag m q) \<longleftrightarrow>
     tag = DeliveryTag dlv \<and> \<not> m \<and> (q \<or> rejectable rt tsl cdc clk repo host dlv)"

text \<open>The delivery the consumer has in hand, and what it knows of it at each of its places.\<close>

fun in_hand :: "invoice_pc \<Rightarrow> delivery list" where
  "in_hand (Received dlv) = [dlv]"
| "in_hand (Storing dlv d) = [dlv]"
| "in_hand (Announcing dlv d) = [dlv]"
| "in_hand (Acking dlv) = [dlv]"
| "in_hand (Nacking dlv q) = [dlv]"
| "in_hand _ = []"

fun place_ok ::
  "'s runtime \<Rightarrow> timestamp_lib \<Rightarrow> codec \<Rightarrow> 's clock_port \<Rightarrow> 's invoice_repo \<Rightarrow> string \<Rightarrow>
     doc_Invoice list \<Rightarrow> (proto_message \<times> string) list \<Rightarrow> invoice_pc \<Rightarrow> bool" where
  "place_ok rt tsl cdc clk repo host ds ms (Storing dlv d) \<longleftrightarrow> made_from tsl cdc dlv d"
| "place_ok rt tsl cdc clk repo host ds ms (Announcing dlv d) \<longleftrightarrow>
     made_from tsl cdc dlv d \<and> (\<exists>d'\<in>set ds. same_terms d d')"
| "place_ok rt tsl cdc clk repo host ds ms (Acking dlv) \<longleftrightarrow> carried_out tsl cdc host ds ms dlv"
| "place_ok rt tsl cdc clk repo host ds ms (Nacking dlv q) \<longleftrightarrow>
     q \<or> rejectable rt tsl cdc clk repo host dlv"
| "place_ok rt tsl cdc clk repo host ds ms _ \<longleftrightarrow> True"

section \<open>More stored and more sent\<close>

lemma carried_out_kept:
  "carried_out tsl cdc host ds ms dlv \<Longrightarrow> terms_kept ds ds' \<Longrightarrow> set ms \<subseteq> set ms' \<Longrightarrow>
     carried_out tsl cdc host ds' ms' dlv"
  unfolding carried_out_def terms_kept_def using same_terms_trans by blast

lemma entitled_kept:
  "entitled rt tsl cdc clk repo host ds ms x \<Longrightarrow> terms_kept ds ds' \<Longrightarrow> set ms \<subseteq> set ms' \<Longrightarrow>
     entitled rt tsl cdc clk repo host ds' ms' x"
  by (induction rt tsl cdc clk repo host ds ms x rule: entitled.induct)
    (auto intro: carried_out_kept)

lemma place_ok_kept:
  "place_ok rt tsl cdc clk repo host ds ms pc \<Longrightarrow> terms_kept ds ds' \<Longrightarrow> set ms \<subseteq> set ms' \<Longrightarrow>
     place_ok rt tsl cdc clk repo host ds' ms' pc"
  by (cases pc) (auto simp: terms_kept_def intro: carried_out_kept, blast intro: same_terms_trans)

section \<open>The invariant of a run\<close>

text \<open>
  \<open>xs\<close> are the answers given since the run began: each is for one of the deliveries taken, in
  their order, with the one in hand still to be answered.
\<close>

definition answers_ok ::
  "'s runtime \<Rightarrow> timestamp_lib \<Rightarrow> codec \<Rightarrow> 's clock_port \<Rightarrow> 's invoice_repo \<Rightarrow> string \<Rightarrow>
     delivery list \<Rightarrow> invoice_pc \<Rightarrow> doc_Invoice list \<Rightarrow> (proto_message \<times> string) list \<Rightarrow>
     settlement list \<Rightarrow> bool" where
  "answers_ok rt tsl cdc clk repo host taken pc ds ms xs \<longleftrightarrow>
     place_ok rt tsl cdc clk repo host ds ms pc \<and>
     (\<exists>book. map snd book = xs \<and> subseq (map fst book @ in_hand pc) taken \<and>
       list_all (entitled rt tsl cdc clk repo host ds ms) book)"

lemma answers_ok_begun: "in_hand pc = [] \<Longrightarrow> place_ok rt tsl cdc clk repo host ds ms pc \<Longrightarrow>
    answers_ok rt tsl cdc clk repo host [] pc ds ms []"
  by (simp add: answers_ok_def)

text \<open>A transition that answers nothing and keeps hold of what it has.\<close>

lemma answers_ok_moved:
  assumes "answers_ok rt tsl cdc clk repo host taken pc ds ms xs"
    and "terms_kept ds ds'" and "set ms \<subseteq> set ms'"
    and "in_hand pc' = in_hand pc" and "place_ok rt tsl cdc clk repo host ds' ms' pc'"
  shows "answers_ok rt tsl cdc clk repo host taken pc' ds' ms' xs"
  using assms entitled_kept[OF _ assms(2,3)]
  unfolding answers_ok_def by (metis (no_types, lifting) list.pred_mono_strong)

lemma answers_ok_delivered:
  assumes "answers_ok rt tsl cdc clk repo host taken Waiting ds ms xs"
  shows "answers_ok rt tsl cdc clk repo host (taken @ [dlv]) (Received dlv) ds ms xs"
  using assms by (auto simp: answers_ok_def intro: list_emb_append_mono)

text \<open>The answer for the delivery in hand, which may not reach the broker.\<close>

lemma answers_ok_answered:
  assumes "answers_ok rt tsl cdc clk repo host taken pc ds ms xs" and "in_hand pc = [dlv]"
    and "entitled rt tsl cdc clk repo host ds ms (dlv, a)" and "xs' = xs \<or> xs' = xs @ [a]"
  shows "answers_ok rt tsl cdc clk repo host taken Waiting ds ms xs'"
proof -
  from assms(1,2) obtain book where b: "map snd book = xs" "subseq (map fst book @ [dlv]) taken"
    "list_all (entitled rt tsl cdc clk repo host ds ms) book"
    by (auto simp: answers_ok_def)
  from b(2) have "subseq (map fst book) taken" by (rule subseq_order.trans[rotated]) (rule list_emb_prefix, simp)
  with b have "answers_ok rt tsl cdc clk repo host taken Waiting ds ms xs"
    by (auto simp: answers_ok_def)
  moreover from b assms(3) have
    "answers_ok rt tsl cdc clk repo host taken Waiting ds ms (xs @ [a])"
    by (auto simp: answers_ok_def intro!: exI[of _ "book @ [(dlv, a)]"])
  ultimately show ?thesis using assms(4) by blast
qed


section \<open>The transitions keep it\<close>

context app_ports
begin

text \<open>What a transition of the consumer does, at each place.\<close>

lemma stage_effect:
  assumes "consumer_quiet cons (\<lambda>s. (docs s, sent s, settled s))"
    and "invoice_stage rt tsl cdc ackn (invoice_service_over clk repo cons prod host) pc s = (pc', s')"
  shows "terms_kept (docs s) (docs s') \<and> set (sent s) \<subseteq> set (sent s')"
proof (cases pc)
  case Starting
  obtain r where r: "Consume cons s = (r, s')"
    using Starting assms(2) by (auto split: prod.splits sum.splits)
  from consumer_quiet.consume_rest[OF assms(1) r] show ?thesis by (simp add: terms_kept_refl)
next
  case (Received dlv)
  then show ?thesis
    using assms(2) generate_quiet
    by (fastforce simp: terms_kept_refl split: sum.splits prod.splits outcome.splits)
next
  case (Storing dlv d)
  obtain r where r: "saveInvoice (invoice_service_over clk repo cons prod host) d s = (r, s')"
    using Storing assms(2) by (auto split: prod.splits sum.splits)
  note eff = save_effect[OF r]
  then have "docs s' = docs s \<or> inserted d (docs s) (docs s')" by (cases r) blast+
  with eff(2) show ?thesis by (auto simp: terms_kept_refl intro: terms_kept_inserted)
next
  case (Announcing dlv d)
  obtain r where r: "publishPaymentRequest tsl (invoice_service_over clk repo cons prod host) d s =
      (r, s')"
    using Announcing assms(2) by (auto split: prod.splits sum.splits)
  note eff = publish_effect[OF r]
  then have "set (sent s) \<subseteq> set (sent s')" by (cases r) fastforce+
  with eff(1) show ?thesis by (simp add: terms_kept_refl)
next
  case (Acking dlv)
  with assms(2) ack_frame[of "DeliveryTag dlv" False s "fst (Ack ackn (DeliveryTag dlv) False s)" s']
  show ?thesis by (cases "Ack ackn (DeliveryTag dlv) False s") (auto simp: terms_kept_refl)
next
  case (Nacking dlv q)
  with assms(2) have "nack ackn dlv False q s = s'" by simp
  with nack_effect show ?thesis by (metis terms_kept_refl subset_refl)
qed (use assms(2) in \<open>auto simp: terms_kept_refl\<close>)

text \<open>A transition that does not answer.\<close>

lemma stage_place:
  assumes "invoice_stage rt tsl cdc ackn (invoice_service_over clk repo cons prod host) pc s = (pc', s')"
    and "place_ok rt tsl cdc clk repo host (docs s) (sent s) pc"
    and "in_hand pc' \<noteq> []"
  shows "settled s' = settled s \<and> in_hand pc' = in_hand pc \<and>
    place_ok rt tsl cdc clk repo host (docs s') (sent s') pc'"
proof (cases pc)
  case (Received dlv)
  let ?svc = "invoice_service_over clk repo cons prod host"
  show ?thesis
  proof (cases "unmarshalRequest cdc dlv")
    case (Inl e)
    with Received assms show ?thesis by (auto intro: rejectable.undecodable)
  next
    case (Inr req)
    obtain g s1 where g: "generateInvoiceDoc rt tsl ?svc (Some req) s = (g, s1)" by fastforce
    note q = generate_quiet[OF g]
    show ?thesis
    proof (cases g)
      case (Returned d)
      obtain now n where "valid_create_request tsl (Some req)" "friendly_id ''INV'' now n"
        "d = invoice_of tsl (Some req) n now"
        by (rule generate_returned[OF g[unfolded Returned]])
      with Inr have "made_from tsl cdc dlv d" by (auto simp: made_from_def)
      with Received Inr g Returned q assms show ?thesis by auto
    next
      case (Failed e)
      have "rejectable rt tsl cdc clk repo host dlv"
      proof (cases "valid_create_request tsl (Some req)")
        case True
        with g[unfolded Failed] show ?thesis
          by (auto simp: generateInvoiceDoc_def NewInvoice_valid intro: rejectable.no_time
              rejectable.no_number split: prod.splits sum.splits outcome.splits)
      next
        case False
        with Inr show ?thesis by (rule rejectable.invalid)
      qed
      with Received Inr g Failed q assms show ?thesis by auto
    next
      case (Panicked m)
      with g generate_no_panic show ?thesis by blast
    qed
  qed
next
  case (Storing dlv d)
  obtain r where r: "saveInvoice (invoice_service_over clk repo cons prod host) d s = (r, s')"
    using Storing assms(1) by (auto split: prod.splits sum.splits)
  note eff = save_effect[OF r]
  have d: "made_from tsl cdc dlv d" using Storing assms(2) by simp
  show ?thesis
  proof (cases r)
    case (Inl e)
    have "rejectable rt tsl cdc clk repo host dlv" if "is_a TAppAlreadyExists e"
      using r[unfolded Inl] that d invs.add_no_app
      by (auto simp: saveInvoice_def error_simps intro: rejectable.duplicate
          split: prod.splits sum.splits if_splits)
    with Inl r Storing assms(1) eff(3) show ?thesis by auto
  next
    case (Inr i)
    from eff(4)[OF Inr] obtain d' where d': "same_record d d'" "docs s' = docs s @ [d']"
      by (auto simp: inserted_def)
    then have "d' \<in> set (docs s')" by simp
    moreover from d'(1) have "same_terms d d'" by (simp add: same_terms_def same_record_fields)
    ultimately show ?thesis using Inr r Storing assms(1) eff(3) d by auto
  qed
next
  case (Announcing dlv d)
  obtain r where r: "publishPaymentRequest tsl (invoice_service_over clk repo cons prod host) d s =
      (r, s')"
    using Announcing assms(1) by (auto split: prod.splits sum.splits)
  note eff = publish_effect[OF r]
  have d: "made_from tsl cdc dlv d" "\<exists>d'\<in>set (docs s). same_terms d d'"
    using Announcing assms(2) by simp_all
  show ?thesis
  proof (cases r)
    case (Inl e)
    have "rejectable rt tsl cdc clk repo host dlv" if "is_a TValidation e"
      using eff(6)[OF Inl that] d(1) by (auto intro: rejectable.unannounceable)
    with Inl r Announcing assms(1) eff(3) show ?thesis by auto
  next
    case (Inr u)
    then have "request_message tsl host d \<in> set (sent s')"
      using eff(4) by (simp add: request_message_def)
    with d eff(1) have "carried_out tsl cdc host (docs s') (sent s') dlv"
      by (auto simp: carried_out_def)
    with Inr r Announcing assms(1) eff(3) show ?thesis by auto
  qed
qed (use assms in \<open>auto split: prod.splits sum.splits\<close>)

text \<open>One that answers, or does nothing for a delivery.\<close>

lemma stage_answers:
  assumes "consumer_quiet cons (\<lambda>s. (docs s, sent s, settled s))"
    and "invoice_stage rt tsl cdc ackn (invoice_service_over clk repo cons prod host) pc s = (pc', s')"
    and "place_ok rt tsl cdc clk repo host (docs s) (sent s) pc"
    and "in_hand pc' = []"
  shows "in_hand pc = [] \<and> settled s' = settled s \<or>
    (\<exists>dlv a. in_hand pc = [dlv] \<and> pc' = Waiting \<and>
       entitled rt tsl cdc clk repo host (docs s) (sent s) (dlv, a) \<and>
       docs s' = docs s \<and> sent s' = sent s \<and> (settled s' = settled s \<or> settled s' = settled s @ [a]))"
proof (cases pc)
  case Starting
  obtain r where r: "Consume cons s = (r, s')"
    using Starting assms(2) by (auto split: prod.splits sum.splits)
  from consumer_quiet.consume_rest[OF assms(1) r] Starting show ?thesis by simp
next
  case (Received dlv)
  with assms(2,4) generate_no_panic show ?thesis
    by (fastforce split: sum.splits prod.splits outcome.splits)
next
  case (Acking dlv)
  obtain r where r: "Ack ackn (DeliveryTag dlv) False s = (r, s')"
    using Acking assms(2) by (cases "Ack ackn (DeliveryTag dlv) False s") simp
  have "settled s' = settled s \<or> settled s' = settled s @ [Acked (DeliveryTag dlv) False]"
    using acks.ack_done acks.ack_failed r by (cases r) blast+
  with Acking assms(2,3) ack_frame[OF r] show ?thesis
    by (intro disjI2 exI[of _ dlv] exI[of _ "Acked (DeliveryTag dlv) False"]) auto
next
  case (Nacking dlv q)
  with assms(2) have n: "s' = nack ackn dlv False q s" "pc' = Waiting" by simp_all
  from nack_effect[OF n(1)] n(2) Nacking assms(3) show ?thesis
    by (intro disjI2 exI[of _ dlv] exI[of _ "Nacked (DeliveryTag dlv) False q"]) auto
qed (use assms(2,4) in \<open>auto split: prod.splits sum.splits if_splits\<close>)

lemma stage_keeps_answers:
  assumes "consumer_quiet cons (\<lambda>s. (docs s, sent s, settled s))"
    and st: "invoice_stage rt tsl cdc ackn (invoice_service_over clk repo cons prod host) pc s = (pc', s')"
    and ok: "answers_ok rt tsl cdc clk repo host taken pc (docs s) (sent s) xs"
    and xs: "settled s = base @ xs"
  shows "\<exists>xs'. settled s' = base @ xs' \<and>
    answers_ok rt tsl cdc clk repo host taken pc' (docs s') (sent s') xs'"
proof -
  have place: "place_ok rt tsl cdc clk repo host (docs s) (sent s) pc"
    using ok by (simp add: answers_ok_def)
  from stage_effect[OF assms(1) st] have eff: "terms_kept (docs s) (docs s')"
    "set (sent s) \<subseteq> set (sent s')" by simp_all
  show ?thesis
  proof (cases "in_hand pc' = []")
    case False
    from stage_place[OF st place this] xs answers_ok_moved[OF ok eff, of pc'] show ?thesis by auto
  next
    case True
    then have free: "place_ok rt tsl cdc clk repo host (docs s') (sent s') pc'" by (cases pc') auto
    from stage_answers[OF assms(1) st place True] show ?thesis
    proof (elim disjE exE conjE)
      assume "in_hand pc = []" "settled s' = settled s"
      with answers_ok_moved[OF ok eff _ free] True xs show ?thesis by auto
    next
      fix dlv a
      assume a: "in_hand pc = [dlv]" "pc' = Waiting"
        "entitled rt tsl cdc clk repo host (docs s) (sent s) (dlv, a)"
        "docs s' = docs s" "sent s' = sent s" "settled s' = settled s"
      with answers_ok_answered[OF ok a(1,3), of xs] xs show ?thesis by auto
    next
      fix dlv a
      assume a: "in_hand pc = [dlv]" "pc' = Waiting"
        "entitled rt tsl cdc clk repo host (docs s) (sent s) (dlv, a)"
        "docs s' = docs s" "sent s' = sent s" "settled s' = settled s @ [a]"
      with answers_ok_answered[OF ok a(1,3), of "xs @ [a]"] xs show ?thesis by auto
    qed
  qed
qed

text \<open>Payments answer no delivery; reissues neither.\<close>

lemma payment_keeps_answers:
  assumes "sys_step rt tsl (pay_service chance) (ts, s) (ts', s')"
    and ok: "answers_ok rt tsl cdc clk rpo host taken pc (docs s) (sent s) xs"
  shows "settled s' = settled s \<and>
    answers_ok rt tsl cdc clk rpo host taken pc (docs s') (sent s') xs"
proof -
  from assms(1) obtain req p p' where
    st: "thread_step rt tsl (pay_service chance) req p s = (p', s')" by (rule sys_stepE)
  note eff = thread_step_effect[OF st]
  then have kept: "terms_kept (docs s) (docs s')"
    using terms_kept_refl terms_kept_status by (metis (full_types))
  moreover have sub: "set (sent s) \<subseteq> set (sent s')" using eff by auto
  moreover have "place_ok rt tsl cdc clk rpo host (docs s') (sent s') pc"
    using ok by (auto simp: answers_ok_def intro: place_ok_kept[OF _ kept sub])
  ultimately show ?thesis using eff answers_ok_moved[OF ok kept sub] by simp
qed

end

section \<open>Whatever the program serves\<close>

lemma consumer_run_answers:
  assumes pay: "app_ports repo rrepo prd ackn clk rt docs rcpts sent settled"
    and gst: "app_ports repo rrepo gprd ackn clk rt docs rcpts sent settled"
    and con: "consumer_quiet cons (\<lambda>s. (docs s, sent s, settled s))"
    and run: "consumer_run rt tsl cdc ackn (payment_service_over chance clk repo rrepo prd)
      (reissue_service_over repo host) (invoice_service_over clk repo cons gprd host)
      (ts, Starting, s) taken (ts', pc, s')"
  shows "\<exists>xs. settled s' = settled s @ xs \<and>
    answers_ok rt tsl cdc clk repo host taken pc (docs s') (sent s') xs"
  using run
proof (induction taken "(ts', pc, s')" arbitrary: ts' pc s' rule: consumer_run.induct)
  case begun
  then show ?case by (intro exI[of _ "[]"]) (auto intro!: answers_ok_begun)
next
  case (stepped taken ts1 pc1 s1 ts2 pc2 s2)
  from stepped(2) obtain xs where xs: "settled s1 = settled s @ xs"
    and ok: "answers_ok rt tsl cdc clk repo host taken pc1 (docs s1) (sent s1) xs" by blast
  have none: "taken_by p p = []" for p by (cases p) (simp_all add: taken_by_def)
  from stepped(3) show ?case
  proof cases
    case arrival
    with xs ok none show ?thesis by auto
  next
    case payment
    with app_ports.payment_keeps_answers[OF pay payment(2) ok] xs none show ?thesis by auto
  next
    case (delivered dlv)
    with answers_ok_delivered[of rt tsl cdc clk repo host taken "docs s1" "sent s1" xs dlv] xs ok
    show ?thesis by (auto simp: taken_by_def)
  next
    case closed
    then have "answers_ok rt tsl cdc clk repo host taken Ended (docs s1) (sent s1) xs"
      using ok by (auto intro: answers_ok_moved simp: terms_kept_refl)
    with closed xs show ?thesis by (auto simp: taken_by_def)
  next
    case handled
    from app_ports.stage_keeps_answers[OF gst con handled(3) ok xs] handled(2) show ?thesis
      by (cases pc1) (auto simp: taken_by_def)
  next
    case reissued
    with app_ports.reissue_quiet[OF pay reissued(3)] xs ok none show ?thesis by auto
  qed
qed

end
