(* ===== verification/Composition.thy ===== *)
theory Composition
  imports Program Answers
begin

text \<open>
  The services over the real components: the MongoDB repositories, the RabbitMQ producers and the
  clock client, all on one running program, keep the contracts the services are proved against.
  What is proved for every implementation of the ports holds of the program as it is wired.
\<close>

section \<open>Ports of the world become ports of the program\<close>

lemma on_world_D: "on_world f p = (r, p') \<Longrightarrow> f (PG_world p) = (r, PG_world p')"
  by (auto simp: on_world_def split: prod.splits)

lemma on_payment_D:
  "on_payment f p = (r, p') \<Longrightarrow>
     f ((PG_conn p, PG_payment p), PG_world p) = (r, (PG_conn p', PG_payment p'), PG_world p')"
  by (auto simp: on_payment_def split: prod.splits)

lemma on_guest_D:
  "on_guest f p = (r, p') \<Longrightarrow>
     f ((PG_conn p, PG_guest p), PG_world p) = (r, (PG_conn p', PG_guest p'), PG_world p')"
  by (auto simp: on_guest_def split: prod.splits)

lemma lift_invoice_repo:
  assumes "invoice_repo_port repo docs rest"
  shows "invoice_repo_port (program_invoice_repo repo) (\<lambda>p. docs (PG_world p))
    (\<lambda>p. f (rest (PG_world p)))"
  by unfold_locales
    (use assms in \<open>auto simp: program_invoice_repo_def dest!: on_world_D
  dest: invoice_repo_port.find_quiet invoice_repo_port.find_found
    invoice_repo_port.find_missing invoice_repo_port.find_booking_quiet
    invoice_repo_port.find_booking_found invoice_repo_port.find_booking_missing
    invoice_repo_port.update_rest invoice_repo_port.update_done
    invoice_repo_port.update_failed invoice_repo_port.update_missing
    invoice_repo_port.add_rest invoice_repo_port.add_done
    invoice_repo_port.add_failed invoice_repo_port.add_duplicate invoice_repo_port.add_no_app\<close>)

lemma lift_receipt_repo:
  assumes "receipt_repo_port repo rcpts rest"
  shows "receipt_repo_port (program_receipt_repo repo) (\<lambda>p. rcpts (PG_world p))
    (\<lambda>p. f (rest (PG_world p)))"
  by unfold_locales
    (use assms in \<open>auto simp: program_receipt_repo_def dest!: on_world_D
      dest: receipt_repo_port.get_quiet receipt_repo_port.get_found receipt_repo_port.radd_rest
        receipt_repo_port.radd_done receipt_repo_port.radd_failed\<close>)

lemma lift_clock:
  assumes "clock_quiet clk rest"
  shows "clock_quiet (program_clock clk) (\<lambda>p. f (rest (PG_world p)))"
  by unfold_locales
    (use assms in \<open>auto simp: program_clock_def dest!: on_world_D dest: clock_quiet.now_rest\<close>)

definition program_acknowledger :: "'w acknowledger \<Rightarrow> 'w program acknowledger" where
  "program_acknowledger ackn = \<lparr>
     Ack = (\<lambda>tag m. on_world (Ack ackn tag m)),
     Nack = (\<lambda>tag m q. on_world (Nack ackn tag m q))\<rparr>"

definition program_runtime :: "'w runtime \<Rightarrow> 'w program runtime" where
  "program_runtime rt = \<lparr>
     RandInt = on_world (RandInt rt),
     UuidNewRandom = on_world (UuidNewRandom rt),
     UuidNew = on_world (UuidNew rt),
     RandRead = on_world (RandRead rt),
     TimestampNow = on_world (TimestampNow rt),
     NewObjectID = on_world (NewObjectID rt)\<rparr>"

lemma lift_acknowledger:
  assumes "acknowledger_port ackn settled rest"
  shows "acknowledger_port (program_acknowledger ackn) (\<lambda>p. settled (PG_world p))
    (\<lambda>p. f (rest (PG_world p)))"
  by unfold_locales
    (use assms in \<open>auto simp: program_acknowledger_def dest!: on_world_D
      dest: acknowledger_port.ack_rest acknowledger_port.ack_done acknowledger_port.ack_failed
        acknowledger_port.ack_plain acknowledger_port.nack_rest acknowledger_port.nack_done
        acknowledger_port.nack_failed\<close>)

lemma lift_runtime:
  assumes "runtime_port rt rest"
  shows "runtime_port (program_runtime rt) (\<lambda>p. f (rest (PG_world p)))"
  by unfold_locales
    (use assms in \<open>auto simp: program_runtime_def dest!: on_world_D
      dest: runtime_port.rand_rest runtime_port.rand_range runtime_port.uuid_rest
        runtime_port.uuid_shape runtime_port.uuid_new_rest runtime_port.read_rest
        runtime_port.timestamp_rest runtime_port.object_id_rest\<close>)

section \<open>The producers\<close>

lemma payment_producer_port:
  assumes "amqp_client lib events rest decode"
  shows "producer_port (program_payment_producer lib)
    (\<lambda>p. messages decode (events (PG_world p))) (\<lambda>p. f (rest (PG_world p)))"
  by unfold_locales
    (use assms in \<open>auto simp: program_payment_producer_def dest!: on_payment_D
      dest: amqp_client.producer_promises\<close>)

lemma guest_producer_port:
  assumes "amqp_client lib events rest decode"
  shows "producer_port (program_guest_producer lib)
    (\<lambda>p. messages decode (events (PG_world p))) (\<lambda>p. f (rest (PG_world p)))"
  by unfold_locales
    (use assms in \<open>auto simp: program_guest_producer_def dest!: on_guest_D
      dest: amqp_client.producer_promises\<close>)

text \<open>The consumer sends nothing when it starts, and leaves the rest of the world.\<close>

lemma on_consumer_D:
  "on_consumer f p = (r, p') \<Longrightarrow>
     f ((PG_conn p, PG_consumer p), PG_world p) = (r, (PG_conn p', PG_consumer p'), PG_world p')"
  by (auto simp: on_consumer_def split: prod.splits)

lemma program_consumer_quiet:
  assumes "amqp_client lib events rest decode"
  shows "consumer_quiet (program_consumer lib)
    (\<lambda>p. f (messages decode (events (PG_world p)), rest (PG_world p)))"
proof
  fix r p p'
  assume "Consume (program_consumer lib) p = (r, p')"
  then have "Consume (rabbit_mq_consumer lib) ((PG_conn p, PG_consumer p), PG_world p) =
      (r, (PG_conn p', PG_consumer p'), PG_world p')"
    by (auto simp: program_consumer_def rabbit_mq_consumer_def dest: on_consumer_D)
  from amqp_client.consume_same[OF assms this]
  show "f (messages decode (events (PG_world p')), rest (PG_world p')) =
      f (messages decode (events (PG_world p)), rest (PG_world p))" by simp
qed

section \<open>The wired program\<close>

text \<open>
  What is asked of the world: the two collections, the client of the broker, the answers to
  deliveries, the clock simulator and the random sources each keep to their own part of it.
\<close>

locale wired_world =
  wi: invoice_collection icoll docs "\<lambda>w. (rcpts w, events w, settled w)" stored +
  wr: receipt_collection rcoll rcpts "\<lambda>w. (docs w, events w, settled w)" rstored +
  wa: amqp_client lib events "\<lambda>w. (docs w, rcpts w, settled w)" decode +
  wk: acknowledger_port ackn settled "\<lambda>w. (docs w, rcpts w, events w)" +
  wc: clock_library grpc "\<lambda>w. (docs w, rcpts w, events w, settled w)" +
  wt: runtime_port rt "\<lambda>w. (docs w, rcpts w, events w, settled w)"
  for icoll :: "('w, doc_Invoice) mongo_collection"
    and rcoll :: "('w, doc_Receipt) mongo_collection"
    and lib :: "'w amqp_lib"
    and ackn :: "'w acknowledger"
    and grpc :: "'w grpc_lib"
    and rt :: "'w runtime"
    and docs :: "'w \<Rightarrow> doc_Invoice list"
    and rcpts :: "'w \<Rightarrow> doc_Receipt list"
    and events :: "'w \<Rightarrow> amqp_event list"
    and settled :: "'w \<Rightarrow> settlement list"
    and stored :: "doc_Invoice \<Rightarrow> doc_Invoice \<Rightarrow> bool"
    and rstored :: "doc_Receipt \<Rightarrow> doc_Receipt \<Rightarrow> bool"
    and decode :: "publishing \<Rightarrow> proto_message option"
begin


lemma program_ports:
  assumes "producer_port prd (\<lambda>p. messages decode (events (PG_world p)))
    (\<lambda>p. (docs (PG_world p), rcpts (PG_world p), settled (PG_world p)))"
  shows "app_ports (program_invoice_repo (mongo_invoice_repo icoll))
    (program_receipt_repo (mongo_receipt_repo rcoll)) prd
    (program_acknowledger ackn) (program_clock (grpc_clock grpc tsl e)) (program_runtime rt)
    (\<lambda>p. docs (PG_world p)) (\<lambda>p. rcpts (PG_world p))
    (\<lambda>p. messages decode (events (PG_world p))) (\<lambda>p. settled (PG_world p))"
  unfolding app_ports_def
proof (intro conjI)
  show "invoice_repo_port (program_invoice_repo (mongo_invoice_repo icoll))
      (\<lambda>p. docs (PG_world p)) (\<lambda>p. (rcpts (PG_world p), messages decode (events (PG_world p)),
        settled (PG_world p)))"
    using lift_invoice_repo[OF wi.mongo_invoices.invoice_repo_port_axioms,
        where f = "\<lambda>(a, b, c). (a, messages decode b, c)"] by simp
  show "receipt_repo_port (program_receipt_repo (mongo_receipt_repo rcoll))
      (\<lambda>p. rcpts (PG_world p)) (\<lambda>p. (docs (PG_world p), messages decode (events (PG_world p)),
        settled (PG_world p)))"
    using lift_receipt_repo[OF wr.mongo_receipts.receipt_repo_port_axioms,
        where f = "\<lambda>(a, b, c). (a, messages decode b, c)"] by simp
  show "producer_port prd (\<lambda>p. messages decode (events (PG_world p)))
      (\<lambda>p. (docs (PG_world p), rcpts (PG_world p), settled (PG_world p)))"
    by (rule assms)
  show "acknowledger_port (program_acknowledger ackn) (\<lambda>p. settled (PG_world p))
      (\<lambda>p. (docs (PG_world p), rcpts (PG_world p), messages decode (events (PG_world p))))"
    using lift_acknowledger[OF wk.acknowledger_port_axioms,
        where f = "\<lambda>(a, b, c). (a, b, messages decode c)"] by simp
  show "clock_quiet (program_clock (grpc_clock grpc tsl e))
      (\<lambda>p. (docs (PG_world p), rcpts (PG_world p), messages decode (events (PG_world p)),
        settled (PG_world p)))"
    using lift_clock[OF wc.simulator.clock_quiet_axioms,
        where f = "\<lambda>(a, b, c, d). (a, b, messages decode c, d)"] by simp
  show "runtime_port (program_runtime rt)
      (\<lambda>p. (docs (PG_world p), rcpts (PG_world p), messages decode (events (PG_world p)),
        settled (PG_world p)))"
    using lift_runtime[OF wt.runtime_port_axioms,
        where f = "\<lambda>(a, b, c, d). (a, b, messages decode c, d)"] by simp
qed

end

sublocale wired_world \<subseteq> payments: app_ports
  "program_invoice_repo (mongo_invoice_repo icoll)"
  "program_receipt_repo (mongo_receipt_repo rcoll)" "program_payment_producer lib"
  "program_acknowledger ackn" "program_clock (grpc_clock grpc tsl e)" "program_runtime rt"
  "\<lambda>p. docs (PG_world p)" "\<lambda>p. rcpts (PG_world p)"
  "\<lambda>p. messages decode (events (PG_world p))" "\<lambda>p. settled (PG_world p)" for tsl e
  using program_ports[OF payment_producer_port[OF wa.amqp_client_axioms,
      where f = "\<lambda>r. r"]] by simp

sublocale wired_world \<subseteq> guests: app_ports
  "program_invoice_repo (mongo_invoice_repo icoll)"
  "program_receipt_repo (mongo_receipt_repo rcoll)" "program_guest_producer lib"
  "program_acknowledger ackn" "program_clock (grpc_clock grpc tsl e)" "program_runtime rt"
  "\<lambda>p. docs (PG_world p)" "\<lambda>p. rcpts (PG_world p)"
  "\<lambda>p. messages decode (events (PG_world p))" "\<lambda>p. settled (PG_world p)" for tsl e
  using program_ports[OF guest_producer_port[OF wa.amqp_client_axioms,
      where f = "\<lambda>r. r"]] by simp

context wired_world
begin

lemma wired_steps_keep:
  assumes "program_steps (program_runtime rt) tsl cdc (program_acknowledger ackn)
      (payment_service_over chance (program_clock (grpc_clock grpc tsl' e))
        (program_invoice_repo (mongo_invoice_repo icoll))
        (program_receipt_repo (mongo_receipt_repo rcoll)) (program_payment_producer lib))
      (reissue_service_over (program_invoice_repo (mongo_invoice_repo icoll)) host)
      (invoice_service_over (program_clock (grpc_clock grpc tsl' e))
        (program_invoice_repo (mongo_invoice_repo icoll)) (program_consumer lib)
        (program_guest_producer lib) host)
      (ts, pc, p) (ts', pc', p')"
    and "program_ok ts pc (docs (PG_world p)) (rcpts (PG_world p))
      (messages decode (events (PG_world p)))"
  shows "program_ok ts' pc' (docs (PG_world p')) (rcpts (PG_world p'))
      (messages decode (events (PG_world p')))"
proof -
  have "consumer_quiet (program_consumer lib) (\<lambda>p. (docs (PG_world p), rcpts (PG_world p),
      messages decode (events (PG_world p))))"
    using program_consumer_quiet[OF wa.amqp_client_axioms, where f = "\<lambda>(m, a, b, c). (a, b, m)"]
    by simp
  from program_steps_keep[OF payments.app_ports_axioms guests.app_ports_axioms this assms(1)]
    assms(2) show ?thesis by simp
qed

lemma wired_run_answers:
  assumes "consumer_run (program_runtime rt) tsl cdc (program_acknowledger ackn)
      (payment_service_over chance (program_clock (grpc_clock grpc tsl' e))
        (program_invoice_repo (mongo_invoice_repo icoll))
        (program_receipt_repo (mongo_receipt_repo rcoll)) (program_payment_producer lib))
      (reissue_service_over (program_invoice_repo (mongo_invoice_repo icoll)) host)
      (invoice_service_over (program_clock (grpc_clock grpc tsl' e))
        (program_invoice_repo (mongo_invoice_repo icoll)) (program_consumer lib)
        (program_guest_producer lib) host)
      (ts, Starting, p) taken (ts', pc, p')"
  shows "\<exists>xs. settled (PG_world p') = settled (PG_world p) @ xs \<and>
    answers_ok (program_runtime rt) tsl cdc (program_clock (grpc_clock grpc tsl' e))
      (program_invoice_repo (mongo_invoice_repo icoll)) host taken pc (docs (PG_world p'))
      (messages decode (events (PG_world p'))) xs"
proof -
  have "consumer_quiet (program_consumer lib) (\<lambda>p. (docs (PG_world p),
      messages decode (events (PG_world p)), settled (PG_world p)))"
    using program_consumer_quiet[OF wa.amqp_client_axioms, where f = "\<lambda>(m, a, b, c). (a, m, c)"]
    by simp
  from consumer_run_answers[OF payments.app_ports_axioms guests.app_ports_axioms this assms]
  show ?thesis .
qed

end

section \<open>The services of a started program\<close>

lemma app_Init_services:
  assumes "app_Init libs cfg cm = Inr svcs"
  shows "SS_PaymentMaking svcs = payment_service_over (sint (Card_FailChance (Cfg_Services cfg)))
      (program_clock (grpc_clock (LB_grpc libs) (LB_timestamps libs) (CM_clock cm)))
      (program_invoice_repo (CM_invoiceRepo cm)) (program_receipt_repo (CM_receiptRepo cm))
      (program_payment_producer (LB_amqp libs))"
    and "SS_PaymentReissue svcs = reissue_service_over (program_invoice_repo (CM_invoiceRepo cm))
      (Card_Host (Cfg_Services cfg))"
    and "SS_Invoice svcs = invoice_service_over
      (program_clock (grpc_clock (LB_grpc libs) (LB_timestamps libs) (CM_clock cm)))
      (program_invoice_repo (CM_invoiceRepo cm)) (program_consumer (LB_amqp libs))
      (program_guest_producer (LB_amqp libs)) (Card_Host (Cfg_Services cfg))"
  using assms
  by (auto simp: app_Init_def Let_def NewPaymentMakingServer_def NewPaymentReissueService_def
      NewInvoiceService_def payment_service_over_def reissue_service_over_def
      invoice_service_over_def split: option.splits sum.splits if_splits)

lemma infra_Init_repos:
  assumes "infra_Init libs cfg s = (Inr cm, s')"
  shows "CM_invoiceRepo cm = mongo_invoice_repo (LB_invoices libs)"
    and "CM_receiptRepo cm = mongo_receipt_repo (LB_receipts libs)"
  using assms
  by (auto simp: infra_Init_def NewInvoiceRepo_def NewReceiptRepo_def
      split: option.splits sum.splits prod.splits)

end
