(* ===== verification/RefWired.thy ===== *)
theory RefWired
  imports Composition
begin

text \<open>
  An executable world for the whole program: the reference stores, clock and random sources beside
  the reference broker. The laws asked of the world hold of it, so the program as it is wired can
  be started and run on concrete inputs.
\<close>

section \<open>A world of two parts\<close>

type_synonym wired = "world \<times> ref_broker"

definition on_fst :: "('a \<Rightarrow> 'r \<times> 'a) \<Rightarrow> 'a \<times> 'b \<Rightarrow> 'r \<times> 'a \<times> 'b" where
  "on_fst f w = (case f (fst w) of (r, a) \<Rightarrow> (r, (a, snd w)))"

definition on_snd :: "('b \<Rightarrow> 'r \<times> 'b) \<Rightarrow> 'a \<times> 'b \<Rightarrow> 'r \<times> 'a \<times> 'b" where
  "on_snd f w = (case f (snd w) of (r, b) \<Rightarrow> (r, (fst w, b)))"

lemma on_fst_D: "on_fst f w = (r, w') \<Longrightarrow> f (fst w) = (r, fst w') \<and> snd w' = snd w"
  by (auto simp: on_fst_def split: prod.splits)

lemma on_snd_D: "on_snd f w = (r, w') \<Longrightarrow> f (snd w) = (r, snd w') \<and> fst w' = fst w"
  by (auto simp: on_snd_def split: prod.splits)

definition fst_collection :: "('a, 'd) mongo_collection \<Rightarrow> ('a \<times> 'b, 'd) mongo_collection" where
  "fst_collection coll = \<lparr>
     InsertOne = (\<lambda>d. on_fst (InsertOne coll d)),
     FindOne = (\<lambda>P. on_fst (FindOne coll P)),
     UpdateOne = (\<lambda>P f. on_fst (UpdateOne coll P f))\<rparr>"

lemma fst_documents:
  assumes "mongo_documents coll docs rest stored"
  shows "mongo_documents (fst_collection coll) (\<lambda>w. docs (fst w))
    (\<lambda>w. f (rest (fst w)) (snd w)) stored"
  by unfold_locales
    (use assms in \<open>auto simp: fst_collection_def dest!: on_fst_D
      dest: mongo_documents.find_frame mongo_documents.find_hit mongo_documents.find_none
        mongo_documents.find_err mongo_documents.insert_frame mongo_documents.insert_ok
        mongo_documents.insert_err mongo_documents.insert_dup mongo_documents.insert_plain
        mongo_documents.update_frame mongo_documents.update_none mongo_documents.update_hit
        mongo_documents.update_err mongo_documents.update_plain\<close>)

definition snd_amqp :: "'b amqp_lib \<Rightarrow> ('a \<times> 'b) amqp_lib" where
  "snd_amqp lib = \<lparr>
     Dial = (\<lambda>uri. on_snd (Dial lib uri)),
     ConnIsClosed = (\<lambda>h. on_snd (ConnIsClosed lib h)),
     ConnChannel = (\<lambda>h. on_snd (ConnChannel lib h)),
     ConnClose = (\<lambda>h. on_snd (ConnClose lib h)),
     ChanIsClosed = (\<lambda>h. on_snd (ChanIsClosed lib h)),
     ChanClose = (\<lambda>h. on_snd (ChanClose lib h)),
     ExchangeDeclare = (\<lambda>h n k cfg. on_snd (ExchangeDeclare lib h n k cfg)),
     QueueDeclare = (\<lambda>h cfg. on_snd (QueueDeclare lib h cfg)),
     QueueBind = (\<lambda>h q k ex nw. on_snd (QueueBind lib h q k ex nw)),
     PublishWithContext = (\<lambda>h ex k m i pub. on_snd (PublishWithContext lib h ex k m i pub)),
     ConsumeWithContext = (\<lambda>h q cfg. on_snd (ConsumeWithContext lib h q cfg)),
     SleepFor = (\<lambda>t w. (fst w, SleepFor lib t (snd w))),
     WallClock = on_snd (WallClock lib),
     Marshal = Marshal lib,
     TraceHeaders = (\<lambda>w. TraceHeaders lib (snd w))\<rparr>"

lemma snd_client:
  assumes "amqp_client lib events brest decode"
  shows "amqp_client (snd_amqp lib) (\<lambda>w. events (snd w)) (\<lambda>w. g (fst w)) decode"
  by unfold_locales
    (use assms in \<open>auto simp: snd_amqp_def amqp_client.sleep_logged dest!: on_snd_D
      dest: amqp_client.dial_logged amqp_client.dial_error amqp_client.conn_closed_quiet
        amqp_client.chan_closed_quiet amqp_client.channel_logged amqp_client.channel_error
        amqp_client.clock_quiet amqp_client.publish_rest amqp_client.publish_accepted
        amqp_client.publish_refused amqp_client.publish_error amqp_client.consume_quiet amqp_client.marshal_error
        amqp_client.carrier_keys amqp_client.decode_marshal\<close>)

definition fst_acknowledger :: "'a acknowledger \<Rightarrow> ('a \<times> 'b) acknowledger" where
  "fst_acknowledger ackn = \<lparr>
     Ack = (\<lambda>tag m. on_fst (Ack ackn tag m)),
     Nack = (\<lambda>tag m q. on_fst (Nack ackn tag m q))\<rparr>"

lemma fst_acknowledgements:
  assumes "acknowledger_port ackn settled rest"
  shows "acknowledger_port (fst_acknowledger ackn) (\<lambda>w. settled (fst w))
    (\<lambda>w. f (rest (fst w)) (snd w))"
  by unfold_locales
    (use assms in \<open>auto simp: fst_acknowledger_def dest!: on_fst_D
      dest: acknowledger_port.ack_rest acknowledger_port.ack_done acknowledger_port.ack_failed
        acknowledger_port.ack_plain acknowledger_port.nack_rest acknowledger_port.nack_done
        acknowledger_port.nack_failed\<close>)

definition fst_grpc :: "'a grpc_lib \<Rightarrow> ('a \<times> 'b) grpc_lib" where
  "fst_grpc lib = \<lparr>
     GrpcNewClient = (\<lambda>t. on_fst (GrpcNewClient lib t)),
     GrpcInvokeNow = (\<lambda>h. on_fst (GrpcInvokeNow lib h)),
     GrpcClose = (\<lambda>h. on_fst (GrpcClose lib h))\<rparr>"

lemma fst_clock:
  assumes "clock_library lib rest"
  shows "clock_library (fst_grpc lib) (\<lambda>w. f (rest (fst w)) (snd w))"
  by unfold_locales
    (use assms in \<open>auto simp: fst_grpc_def dest!: on_fst_D dest: clock_library.invoke_quiet\<close>)

definition fst_runtime :: "'a runtime \<Rightarrow> ('a \<times> 'b) runtime" where
  "fst_runtime rt = \<lparr>
     RandInt = on_fst (RandInt rt),
     UuidNewRandom = on_fst (UuidNewRandom rt),
     UuidNew = on_fst (UuidNew rt),
     RandRead = on_fst (RandRead rt),
     TimestampNow = on_fst (TimestampNow rt),
     NewObjectID = on_fst (NewObjectID rt)\<rparr>"

lemma fst_random:
  assumes "runtime_port rt rest"
  shows "runtime_port (fst_runtime rt) (\<lambda>w. f (rest (fst w)) (snd w))"
  by unfold_locales
    (use assms in \<open>auto simp: fst_runtime_def dest!: on_fst_D
      dest: runtime_port.rand_rest runtime_port.rand_range runtime_port.uuid_rest
        runtime_port.uuid_shape runtime_port.uuid_new_rest runtime_port.read_rest
        runtime_port.timestamp_rest runtime_port.object_id_rest\<close>)

section \<open>The reference world of the program\<close>

abbreviation wired_docs :: "wired \<Rightarrow> doc_Invoice list" where
  "wired_docs w \<equiv> world_invoices (fst w)"

abbreviation wired_rcpts :: "wired \<Rightarrow> doc_Receipt list" where
  "wired_rcpts w \<equiv> world_receipts (fst w)"

abbreviation wired_settled :: "wired \<Rightarrow> settlement list" where
  "wired_settled w \<equiv> world_settled (fst w)"

abbreviation wired_events :: "wired \<Rightarrow> amqp_event list" where
  "wired_events w \<equiv> rb_events (snd w)"

interpretation ref_wired: wired_world "fst_collection ref_invoices" "fst_collection ref_receipts"
  "snd_amqp (ref_amqp book)" "fst_acknowledger ref_acknowledger" "fst_grpc ref_grpc"
  "fst_runtime ref_runtime" wired_docs wired_rcpts wired_events wired_settled plain_stored
  "\<lambda>d d'. d' = d" "ref_decode book" for book
  unfolding wired_world_def
proof (intro conjI)
  show "invoice_collection (fst_collection ref_invoices) wired_docs
      (\<lambda>w. (wired_rcpts w, wired_events w, wired_settled w)) plain_stored"
    using fst_documents[OF ref_inv.mongo_documents_axioms,
        where f = "\<lambda>(a, b, c) k. (a, rb_events k, c)"]
      ref_inv.invoice_collection_axioms
    by (simp add: invoice_collection_def)
  show "receipt_collection (fst_collection ref_receipts) wired_rcpts
      (\<lambda>w. (wired_docs w, wired_events w, wired_settled w)) (\<lambda>d d'. d' = d)"
    using fst_documents[OF ref_rec.mongo_documents_axioms,
        where f = "\<lambda>(a, b, c) k. (a, rb_events k, c)"]
      ref_rec.receipt_collection_axioms
    by (simp add: receipt_collection_def)
  show "amqp_client (snd_amqp (ref_amqp book)) wired_events
      (\<lambda>w. (wired_docs w, wired_rcpts w, wired_settled w)) (ref_decode book)"
    using snd_client[OF ref_amqp_client[of book],
        where g = "\<lambda>v. (world_invoices v, world_receipts v, world_settled v)"] by simp
  show "acknowledger_port (fst_acknowledger ref_acknowledger) wired_settled
      (\<lambda>w. (wired_docs w, wired_rcpts w, wired_events w))"
    using fst_acknowledgements[OF ref.acks.acknowledger_port_axioms,
        where f = "\<lambda>(a, b, c) k. (a, b, rb_events k)"] by simp
  show "clock_library (fst_grpc ref_grpc)
      (\<lambda>w. (wired_docs w, wired_rcpts w, wired_events w, wired_settled w))"
    using fst_clock[OF ref_clock_lib.clock_library_axioms, where f =
        "\<lambda>v k. (world_invoices v, world_receipts v, rb_events k, world_settled v)"] by simp
  show "runtime_port (fst_runtime ref_runtime)
      (\<lambda>w. (wired_docs w, wired_rcpts w, wired_events w, wired_settled w))"
    using fst_random[OF ref.rts.runtime_port_axioms,
        where f = "\<lambda>(a, b, c, d) k. (a, b, rb_events k, d)"] by simp
qed

lemma ref_wired_world:
  "wired_world (fst_collection ref_invoices) (fst_collection ref_receipts)
     (snd_amqp (ref_amqp book)) (fst_acknowledger ref_acknowledger) (fst_grpc ref_grpc)
     (fst_runtime ref_runtime) wired_docs wired_rcpts wired_events wired_settled plain_stored
     (\<lambda>d d'. d' = d) (ref_decode book)"
  by (rule ref_wired.wired_world_axioms)


section \<open>The libraries of the program\<close>

text \<open>Telemetry and the HTTP server of the reference world do nothing, and fail as they are told.\<close>

definition told_otel :: "go_err option \<Rightarrow> 's otel_lib" where
  "told_otel e = \<lparr>
     OT_Resource = (\<lambda>name s. (Inr 0, s)),
     OT_TraceExporter = (\<lambda>opts s. (Inr 1, s)),
     OT_MetricExporter = (\<lambda>opts s. (Inr 2, s)),
     OT_TracerProvider = (\<lambda>ex res s. (3, s)),
     OT_MeterProvider = (\<lambda>ex res s. (4, s)),
     OT_Globals = (\<lambda>t m s. s),
     OT_Instrument = (\<lambda>name s. (Inr 5, s)),
     OT_TracerShutdown = (\<lambda>t h s. (e, s)),
     OT_MeterShutdown = (\<lambda>t h s. (None, s))\<rparr>"

definition told_http :: "go_err option \<Rightarrow> 's http_lib" where
  "told_http e = \<lparr>HL_ListenAndServe = (\<lambda>srv s. (e, s)),
     HL_Shutdown = (\<lambda>srv s. (e, s)), HL_is_server_closed = (\<lambda>e. False)\<rparr>"

definition ref_libs :: "proto_message list \<Rightarrow> wired libraries" where
  "ref_libs book = \<lparr>
     LB_amqp = snd_amqp (ref_amqp book),
     LB_mongo = told_driver None,
     LB_invoices = fst_collection ref_invoices,
     LB_receipts = fst_collection ref_receipts,
     LB_grpc = fst_grpc ref_grpc,
     LB_otel = told_otel (Some (lost ''otel'')),
     LB_http = told_http (Some (lost ''shutdown'')),
     LB_timestamps = ref_timestamps\<rparr>"

lemma ref_libs_wired:
  "wired_world (LB_invoices (ref_libs book)) (LB_receipts (ref_libs book)) (LB_amqp (ref_libs book))
     (fst_acknowledger ref_acknowledger) (LB_grpc (ref_libs book)) (fst_runtime ref_runtime)
     wired_docs wired_rcpts wired_events wired_settled plain_stored (\<lambda>d d'. d' = d) (ref_decode book)"
  using ref_wired_world[of book] by (simp add: ref_libs_def)

end
