(* ===== verification/RefProgram.thy ===== *)
theory RefProgram
  imports RefWired InfraClaims InvoiceClaims
begin

text \<open>
  A start of the program on the reference world, with its configuration: what each part of the
  start answers, and the running program that comes out of it.
\<close>

section \<open>A program to run\<close>

definition sample_exchange :: "string \<Rightarrow> ExchangeConfig" where
  "sample_exchange name = \<lparr>Exchange_Name = name, Exchange_Kind = ''topic'', Exchange_Durable = True,
     Exchange_AutoDelete = False, Exchange_Internal = False, Exchange_NoWait = False\<rparr>"

definition sample_configs :: Configs where
  "sample_configs = \<lparr>
     Cfg_App = \<lparr>App_ServiceName = ''payments'', App_Version = ''1'', App_LogLevel = 0,
       App_Server = \<lparr>Server_Host = ''0.0.0.0'', Server_Port = 8080,
         Server_ReadHeaderTimeoutInSeconds = 5, Server_ReadTimeoutInSeconds = 10,
         Server_WriteTimeoutInSeconds = 15, Server_IdleTimeoutInSeconds = 60\<rparr>\<rparr>,
     Cfg_Services = \<lparr>Clock_GrpcHost = ''clock'', Clock_GrpcPort = 9090, Card_Host = ''https://pay'',
       Card_FailChance = 10\<rparr>,
     Cfg_Mongo = sample_mongo,
     Cfg_RabbitMq = sample_rabbit,
     Cfg_Publishers = \<lparr>PaymentExchange = sample_exchange ''payment.exchange'',
       PaymentPublish = \<lparr>Publish_Mandatory = False, Publish_Immediate = False\<rparr>,
       GuestCommunicationExchange = sample_exchange ''guest.exchange'',
       GuestCommunicationPublish = \<lparr>Publish_Mandatory = False, Publish_Immediate = False\<rparr>\<rparr>,
     Cfg_Consumers = \<lparr>InvoiceQueue = sample_queue, InvoiceBinding = sample_binding,
       InvoiceConsume = \<lparr>Consume_Consumer = [], Consume_AutoAck = False, Consume_Exclusive = False,
         Consume_NoLocal = False, Consume_NoWait = False\<rparr>\<rparr>,
     Cfg_Telemetry = sample_telemetry\<rparr>"


definition sample_handle :: telemetry_handle where
  "sample_handle = \<lparr>TH_trace = 3, TH_meter = 4, TH_timeout = seconds 15\<rparr>"

definition sample_sender :: "nat \<Rightarrow> string \<Rightarrow> rabbit_producer" where
  "sample_sender ch name = \<lparr>RP_channel = Some ch, RP_exchangeName = name,
     RP_exchangeKind = ''topic'',
     RP_publishConfig = \<lparr>Publish_Mandatory = False, Publish_Immediate = False\<rparr>\<rparr>"

definition sample_reader :: rabbit_consumer where
  "sample_reader = \<lparr>CN_channel = Some 3, CN_queue = Some ''invoices'',
     CN_consumeConfig = InvoiceConsume (Cfg_Consumers sample_configs)\<rparr>"

definition sample_components :: "wired components" where
  "sample_components = \<lparr>
     CM_telemetry = sample_handle,
     CM_mongo = sample_db,
     CM_invoiceRepo = mongo_invoice_repo (fst_collection ref_invoices),
     CM_receiptRepo = mongo_receipt_repo (fst_collection ref_receipts),
     CM_rabbitMQ = sample_conn,
     CM_paymentProducer = sample_sender 1 ''payment.exchange'',
     CM_guestCommProducer = sample_sender 2 ''guest.exchange'',
     CM_invoiceConsumer = sample_reader,
     CM_clock = \<lparr>CK_conn = 0\<rparr>\<rparr>"

text \<open>The broker after \<open>evs\<close>, and the world the program starts on and the one it starts into.\<close>

definition broker_after :: "amqp_event list \<Rightarrow> ref_broker" where
  "broker_after evs = \<lparr>rb_events = evs, rb_faults = [], rb_cut = False\<rparr>"

definition sample_world :: world where
  "sample_world = empty_world\<lparr>world_draws := [50, 60]\<rparr>"

definition sample_start :: wired where
  "sample_start = (sample_world, broker_after [])"

definition sample_ready :: wired where
  "sample_ready = (sample_world, broker_after [Dialled (rabbit_uri sample_rabbit),
     ChannelAsked 0, ChannelAsked 0, ChannelAsked 0])"

section \<open>The parts of the start\<close>

lemma told_telemetry:
  "telemetry_Init (told_otel e) cfg app s = (Inr \<lparr>TH_trace = 3, TH_meter = 4,
     TH_timeout = seconds (OTLP_ShutdownTimeoutInSeconds cfg)\<rparr>, s)"
  by (simp add: telemetry_Init_def told_otel_def newTraceProvider_def newMeterProvider_def
      initMetrics_def)

lemma told_mongo: "NewMongoDb (told_driver None) sample_mongo s = (Inr sample_db, s)"
  by (simp add: NewMongoDb_def sample_mongo_checked)
    (simp add: told_driver_def sample_mongo_def sample_db_def)

lemmas broker_run_defs = snd_amqp_def ref_amqp_def on_snd_def rb_ask_def broker_after_def
  rb_fault_def rb_next_def rb_log_def sample_conn_def openChannel_def openConnection_def
  ensure_channel_def

lemma ref_connection:
  "NewRabbitMqConnection (snd_amqp (ref_amqp book)) sample_rabbit (v, broker_after []) =
     (Inr sample_conn, (v, broker_after [Dialled (rabbit_uri sample_rabbit)]))"
proof -
  have "Validate (rabbit_config_checks sample_rabbit) = None" by code_simp
  then show ?thesis
    by (simp add: NewRabbitMqConnection_def reconnectLocked_def rabbitDialAttempts_def
        eval_nat_numeral broker_run_defs)
qed

lemma ref_sender:
  "make_producer (snd_amqp (ref_amqp book)) made declared
     \<lparr>Publish_Mandatory = False, Publish_Immediate = False\<rparr> (sample_exchange name) sample_conn
     (v, broker_after evs) = (Inr (sample_conn, sample_sender (length evs) name),
       (v, broker_after (evs @ [ChannelAsked 0])))"
  by (simp add: make_producer_def NewRabbitmqProducer_def NewRabbitMqChannel_def validated
      validator_simps DeclareExchange_impl_def sample_exchange_def sample_sender_def
      broker_run_defs)

lemma ref_reader:
  "make_consumer (snd_amqp (ref_amqp book)) (Cfg_Consumers sample_configs) sample_conn
     (v, broker_after [e1, e2, e3]) = (Inr (sample_conn, sample_reader),
       (v, broker_after [e1, e2, e3, ChannelAsked 0]))"
  by (simp add: make_consumer_def NewRabbitmqConsumer_def NewRabbitMqChannel_def validated
      validator_simps DeclareQueue_impl_def BindQueue_impl_def sample_reader_def
      sample_configs_def sample_queue_def sample_binding_def broker_run_defs)

lemma ref_clock_made:
  "NewClock (fst_grpc ref_grpc) (Cfg_Services sample_configs) (sample_world, b) =
     (Inr \<lparr>CK_conn = 0\<rparr>, (sample_world, b))"
proof -
  have "Validate (clock_checks (Cfg_Services sample_configs)) = None" by code_simp
  then show ?thesis
    by (simp add: NewClock_def fst_grpc_def on_fst_def ref_grpc_def down_def sample_world_def
        empty_world_def)
qed

lemma ref_repos:
  "NewInvoiceRepo (Some c) = Inr (mongo_invoice_repo c)"
  "NewReceiptRepo (Some d) = Inr (mongo_receipt_repo d)"
  by (simp_all add: NewInvoiceRepo_def NewReceiptRepo_def validated validator_simps)

section \<open>The started program\<close>

lemma sample_started:
  "infra_Init (ref_libs book) sample_configs sample_start = (Inr sample_components, sample_ready)"
proof -
  have cfg: "Cfg_Mongo sample_configs = sample_mongo" "Cfg_RabbitMq sample_configs = sample_rabbit"
    "PaymentPublish (Cfg_Publishers sample_configs) =
       \<lparr>Publish_Mandatory = False, Publish_Immediate = False\<rparr>"
    "PaymentExchange (Cfg_Publishers sample_configs) = sample_exchange ''payment.exchange''"
    "GuestCommunicationPublish (Cfg_Publishers sample_configs) =
       \<lparr>Publish_Mandatory = False, Publish_Immediate = False\<rparr>"
    "GuestCommunicationExchange (Cfg_Publishers sample_configs) = sample_exchange ''guest.exchange''"
    "OTLP_ShutdownTimeoutInSeconds (Cfg_Telemetry sample_configs) = 15"
    by (simp_all add: sample_configs_def sample_telemetry_def)
  show ?thesis
    by (simp add: infra_Init_def ref_libs_def sample_start_def sample_ready_def told_telemetry
        told_mongo cfg ref_connection ref_sender ref_reader ref_clock_made ref_repos
        sample_components_def sample_handle_def eval_nat_numeral)
qed

definition sample_services :: "proto_message list \<Rightarrow> wired program services" where
  "sample_services book = \<lparr>
     SS_PaymentMaking = payment_service_over 10
       (program_clock (grpc_clock (fst_grpc ref_grpc) ref_timestamps \<lparr>CK_conn = 0\<rparr>))
       (program_invoice_repo (mongo_invoice_repo (fst_collection ref_invoices)))
       (program_receipt_repo (mongo_receipt_repo (fst_collection ref_receipts)))
       (program_payment_producer (snd_amqp (ref_amqp book))),
     SS_PaymentReissue = reissue_service_over
       (program_invoice_repo (mongo_invoice_repo (fst_collection ref_invoices))) ''https://pay'',
     SS_Invoice = invoice_service_over
       (program_clock (grpc_clock (fst_grpc ref_grpc) ref_timestamps \<lparr>CK_conn = 0\<rparr>))
       (program_invoice_repo (mongo_invoice_repo (fst_collection ref_invoices)))
       (program_consumer (snd_amqp (ref_amqp book))) (program_guest_producer (snd_amqp (ref_amqp book)))
       ''https://pay''\<rparr>"

lemma sample_serving:
  "app_Init (ref_libs book) sample_configs sample_components = Inr (sample_services book)"
proof -
  have "sint (Card_FailChance (Cfg_Services sample_configs)) = 10"
    "\<not> is_blank (Card_Host (Cfg_Services sample_configs))"
    "Card_Host (Cfg_Services sample_configs) = ''https://pay''"
    by code_simp+
  then show ?thesis
    by (simp add: app_Init_def Let_def NewPaymentMakingServer_def NewPaymentReissueService_def
        NewInvoiceService_def validated validator_simps ref_libs_def sample_components_def
        sample_services_def payment_service_over_def reissue_service_over_def
        invoice_service_over_def)
qed


definition sample_program :: "wired program" where
  "sample_program = program_started sample_components sample_ready"

section \<open>The run of the sample request\<close>

text \<open>The book of the broker is the payment request of the invoice the sample request becomes.\<close>

definition sample_invoice_made :: doc_Invoice where
  "sample_invoice_made = projr (NewInvoiceFromProtoMessage ref_timestamps
     (Some sample_request) ''INV-20260115-0f8fad'' (world_now empty_world))"

definition sample_book :: "proto_message list" where
  "sample_book = [fst (request_message ref_timestamps ''https://pay'' sample_invoice_made)]"

abbreviation sample_stages :: "nat \<Rightarrow> invoice_pc \<times> wired program" where
  "sample_stages k \<equiv> invoice_stages (program_runtime (fst_runtime ref_runtime)) ref_timestamps
     ref_codec (program_acknowledger (fst_acknowledger ref_acknowledger))
     (SS_Invoice (sample_services sample_book)) k (Received sample_delivery, sample_program)"

end
