(* ===== verification/ProgramClaims.thy ===== *)
theory ProgramClaims
  imports RefProgram InterleavingClaims "HOL-Library.Sublist"
begin

text \<open>
  The properties of the program as a whole: what its start leaves ready, what holds while it runs,
  and how it ends, with runs of the program on the reference world.
\<close>


section \<open>Starting\<close>








lemma app_Init_made:
  assumes "0 \<le> sint (Card_FailChance (Cfg_Services cfg))" and "\<not> is_blank (Card_Host (Cfg_Services cfg))"
  shows "\<exists>svcs. app_Init libs cfg cm = Inr svcs"
  using assms
  by (simp add: app_Init_def Let_def NewPaymentMakingServer_def NewPaymentReissueService_def
      NewInvoiceService_def validated validator_simps)

text \<open>The services of a started program are made exactly when the configured chance of failing is
  not negative and the payment host is not blank; they share one invoice repository and one host,
  confirmations go out through the payment producer and payment requests through the guest's, and
  a refusal is a validation error.\<close>

theorem services_made_iff:
  "case app_Init libs cfg cm of
     Inr svcs \<Rightarrow> 0 \<le> sint (Card_FailChance (Cfg_Services cfg)) \<and>
       \<not> is_blank (Card_Host (Cfg_Services cfg)) \<and>
       PM_invoiceRepo (SS_PaymentMaking svcs) = program_invoice_repo (CM_invoiceRepo cm) \<and>
       PR_invoiceRepo (SS_PaymentReissue svcs) = PM_invoiceRepo (SS_PaymentMaking svcs) \<and>
       IS_invoiceRepo (SS_Invoice svcs) = PM_invoiceRepo (SS_PaymentMaking svcs) \<and>
       PR_paymentHost (SS_PaymentReissue svcs) = IS_paymentHost (SS_Invoice svcs) \<and>
       PM_paymentProducer (SS_PaymentMaking svcs) = program_payment_producer (LB_amqp libs) \<and>
       IS_paymentProducer (SS_Invoice svcs) = program_guest_producer (LB_amqp libs)
   | Inl e \<Rightarrow> refused e \<and> (sint (Card_FailChance (Cfg_Services cfg)) < 0 \<or>
       is_blank (Card_Host (Cfg_Services cfg)))"
proof (cases "app_Init libs cfg cm")
  case (Inl e)
  then have "refused e"
    by (auto simp: app_Init_def Let_def NewPaymentMakingServer_def NewPaymentReissueService_def
        NewInvoiceService_def validator_simps refused_def error_simps
        split: option.splits sum.splits if_splits dest!: Validate_refused)
  moreover have "sint (Card_FailChance (Cfg_Services cfg)) < 0 \<or>
      is_blank (Card_Host (Cfg_Services cfg))"
    using Inl app_Init_made by (metis not_less sum.simps(4))
  ultimately show ?thesis using Inl by simp
next
  case (Inr svcs)
  then have "\<not> is_blank (Card_Host (Cfg_Services cfg))"
    by (auto simp: app_Init_def Let_def NewPaymentReissueService_def validator_simps
        split: option.splits sum.splits if_splits)
  moreover from Inr have "0 \<le> sint (Card_FailChance (Cfg_Services cfg))"
    by (auto simp: app_Init_def Let_def NewPaymentMakingServer_def
        split: option.splits sum.splits if_splits)
  ultimately show ?thesis using app_Init_services[OF Inr] Inr
    by (simp add: payment_service_over_def reissue_service_over_def invoice_service_over_def)
qed

section \<open>Running\<close>

text \<open>The consumer of a running program, when nothing interrupts it, does what processing a
  delivery does: four stages from a received delivery end where the call ends, waiting for the
  next delivery, or crashed where the call panics.\<close>

theorem consumer_alone_processes:
  assumes "processInvoiceDelivery rt tsl cdc ackn svc dlv s = (r, s')"
  shows "invoice_stages rt tsl cdc ackn svc 4 (Received dlv, s) =
    (if is_panic r then Crashed else Waiting, s')"
  by (rule invoice_stages_process[OF assms])

theorem consumer_alone_processes_witness:
  "fst (invoice_stages ref_runtime ref_timestamps ref_codec ref_acknowledger ref_invoice_service 4
     (Received sample_delivery, empty_world)) = Waiting"
  by (subst consumer_alone_processes[OF sample_processed]) simp

text \<open>C1: the program as it is wired, on the MongoDB repositories, the RabbitMQ producers and the
  clock client, keeps its promises however payments, their goroutines, deliveries and reissues
  interleave: the consumer never crashes, paid numbers stay paid, receipts are for paid invoices,
  confirmations have their receipts, and every payment request that was sent announces a stored,
  well-formed invoice.\<close>

theorem wired_program_keeps_its_promises:
  assumes "wired_world (LB_invoices libs) (LB_receipts libs) (LB_amqp libs) ackn (LB_grpc libs) rt
      docs rcpts events settled stored rstored decode"
    and "infra_Init libs cfg s = (Inr cm, w)" and "app_Init libs cfg cm = Inr svcs"
    and "program_steps (program_runtime rt) (LB_timestamps libs) cdc (program_acknowledger ackn)
      (SS_PaymentMaking svcs) (SS_PaymentReissue svcs) (SS_Invoice svcs)
      ([], Starting, program_started cm w) (ts, pc, p)"
    and "receipts_backed (docs w) (rcpts w)"
    and "confirmations_backed (rcpts w) (messages decode (events w))"
    and "requests_backed (docs w, messages decode (events w), [])"
    and "list_all wf_invoice (docs w)"
  shows "pc \<noteq> Crashed \<and> receipts_backed (docs (PG_world p)) (rcpts (PG_world p)) \<and>
    confirmations_backed (rcpts (PG_world p)) (messages decode (events (PG_world p))) \<and>
    requests_backed (docs (PG_world p), messages decode (events (PG_world p)), []) \<and>
    list_all wf_invoice (docs (PG_world p))"
proof -
  have "program_ok [] Starting (docs (PG_world (program_started cm w)))
      (rcpts (PG_world (program_started cm w)))
      (messages decode (events (PG_world (program_started cm w))))"
    using assms(5-8) by (simp add: program_started_def program_ok_def sys_ok_def list_all_iff)
  from wired_world.wired_steps_keep[OF assms(1)
      assms(4)[unfolded app_Init_services[OF assms(3)] infra_Init_repos[OF assms(2)]] this]
  show ?thesis by (auto simp: program_ok_def sys_ok_def list_all_iff)
qed


lemma sample_consumes:
  "invoice_stage (program_runtime (fst_runtime ref_runtime)) ref_timestamps ref_codec
     (program_acknowledger (fst_acknowledger ref_acknowledger))
     (SS_Invoice (sample_services sample_book)) Starting sample_program = (Waiting, sample_program)"
  by (simp add: sample_services_def program_consumer_def on_consumer_def consume_call_def
      Consume_impl_def sample_program_def program_started_def sample_components_def
      sample_reader_def sample_ready_def snd_amqp_def on_snd_def ref_amqp_def)

lemma sample_run:
  "(case sample_stages 4 of (pc, p) \<Rightarrow>
     pc = Waiting \<and> length (wired_docs (PG_world p)) = 1 \<and>
     map fst (messages (ref_decode sample_book) (wired_events (PG_world p))) = sample_book)"
  by code_simp

theorem wired_program_keeps_its_promises_witness:
  "\<exists>(p :: wired program) d. wired_docs (PG_world p) = [d] \<and> wf_invoice d \<and>
     map fst (messages (ref_decode sample_book) (wired_events (PG_world p))) = sample_book \<and>
     requests_backed ([d], messages (ref_decode sample_book) (wired_events (PG_world p)), [])"
proof -
  let ?rt = "program_runtime (fst_runtime ref_runtime)"
  let ?ackn = "program_acknowledger (fst_acknowledger ref_acknowledger)"
  let ?svcs = "sample_services sample_book"
  let ?reach = "program_steps ?rt ref_timestamps ref_codec ?ackn (SS_PaymentMaking ?svcs)
    (SS_PaymentReissue ?svcs) (SS_Invoice ?svcs)"
  obtain p where p: "sample_stages 4 = (Waiting, p)"
    using sample_run by (cases "sample_stages 4") auto
  have "?reach ([], Starting, sample_program) ([], Waiting, sample_program)"
    by (intro r_into_rtranclp program_step.handled[OF _ sample_consumes]) simp
  also have "?reach ([], Waiting, sample_program) ([], Received sample_delivery, sample_program)"
    by (rule r_into_rtranclp, rule program_step.delivered)
  also have "?reach ([], Received sample_delivery, sample_program) ([], Waiting, p)"
    using invoice_stages_reachable[of ?rt ref_timestamps ref_codec ?ackn "SS_PaymentMaking ?svcs"
        "SS_PaymentReissue ?svcs" "SS_Invoice ?svcs" "[]" "(Received sample_delivery, sample_program)" 4]
    unfolding p .
  finally have reach: "program_steps ?rt (LB_timestamps (ref_libs sample_book)) ref_codec ?ackn
      (SS_PaymentMaking ?svcs) (SS_PaymentReissue ?svcs) (SS_Invoice ?svcs)
      ([], Starting, program_started sample_components sample_ready) ([], Waiting, p)"
    by (simp add: ref_libs_def sample_program_def)
  have w: "wired_docs sample_ready = []" "wired_rcpts sample_ready = []"
    "messages (ref_decode sample_book) (wired_events sample_ready) = []"
    by (simp_all add: sample_ready_def sample_world_def empty_world_def broker_after_def
        messages_def)
  have ini: "receipts_backed (wired_docs sample_ready) (wired_rcpts sample_ready)"
    "confirmations_backed (wired_rcpts sample_ready)
       (messages (ref_decode sample_book) (wired_events sample_ready))"
    "requests_backed (wired_docs sample_ready,
       messages (ref_decode sample_book) (wired_events sample_ready), [])"
    "list_all wf_invoice (wired_docs sample_ready)"
    by (simp_all add: w receipts_backed_def confirmations_backed_def requests_backed_def)
  note fin = wired_program_keeps_its_promises[OF ref_libs_wired sample_started sample_serving reach ini]
  from sample_run p obtain d where "wired_docs (PG_world p) = [d]"
    by (auto simp: length_Suc_conv)
  with fin sample_run p show ?thesis by (intro exI[of _ p] exI[of _ d]) simp
qed

text \<open>C2: the broker loses no request of the program's own accord: however the program interleaves what
  it serves, every answer it has given is for one of the deliveries it took, at most one for each and
  in their order. A delivery was acknowledged only with its invoice stored and its payment request
  sent, and rejected for good only because it says nothing valid, or its invoice could not be dated
  or numbered, exists already or cannot be announced.\<close>

theorem answers_are_entitled:
  assumes "wired_world (LB_invoices libs) (LB_receipts libs) (LB_amqp libs) ackn (LB_grpc libs) rt
      docs rcpts events settled stored rstored decode"
    and "infra_Init libs cfg s = (Inr cm, w)" and "app_Init libs cfg cm = Inr svcs"
    and "consumer_run (program_runtime rt) (LB_timestamps libs) cdc (program_acknowledger ackn)
      (SS_PaymentMaking svcs) (SS_PaymentReissue svcs) (SS_Invoice svcs)
      ([], Starting, program_started cm w) taken (ts, pc, p)"
  shows "\<exists>book. settled (PG_world p) = settled w @ map snd book \<and>
    subseq (map fst book @ in_hand pc) taken \<and>
    list_all (entitled (program_runtime rt) (LB_timestamps libs) cdc (IS_clock (SS_Invoice svcs))
      (IS_invoiceRepo (SS_Invoice svcs)) (IS_paymentHost (SS_Invoice svcs))
      (docs (PG_world p)) (messages decode (events (PG_world p)))) book"
  using wired_world.wired_run_answers[OF assms(1)
      assms(4)[unfolded app_Init_services[OF assms(3)] infra_Init_repos[OF assms(2)]]]
  by (fastforce simp: answers_ok_def app_Init_services[OF assms(3)] infra_Init_repos[OF assms(2)]
      program_started_def)

lemma sample_settled:
  "wired_settled (PG_world (snd (sample_stages 4))) = [Acked (DeliveryTag sample_delivery) False]"
  by code_simp

theorem answers_are_entitled_witness:
  "\<exists>p :: wired program. wired_settled (PG_world p) = [Acked (DeliveryTag sample_delivery) False] \<and>
    carried_out ref_timestamps ref_codec ''https://pay'' (wired_docs (PG_world p))
      (messages (ref_decode sample_book) (wired_events (PG_world p))) sample_delivery"
proof -
  let ?rt = "program_runtime (fst_runtime ref_runtime)"
  let ?ackn = "program_acknowledger (fst_acknowledger ref_acknowledger)"
  let ?svcs = "sample_services sample_book"
  let ?run = "consumer_run ?rt ref_timestamps ref_codec ?ackn (SS_PaymentMaking ?svcs)
    (SS_PaymentReissue ?svcs) (SS_Invoice ?svcs) ([], Starting, sample_program)"
  obtain p where p: "sample_stages 4 = (Waiting, p)"
    using sample_run by (cases "sample_stages 4") auto
  have "?run ([] @ taken_by Starting Waiting) ([], Waiting, sample_program)"
    by (rule consumer_run.stepped[OF consumer_run.begun program_step.handled[OF _ sample_consumes]])
      simp
  from consumer_run.stepped[OF this program_step.delivered[of _ _ _ _ _ _ _ _ _ sample_delivery]]
  have "?run [sample_delivery] ([], Received sample_delivery, sample_program)"
    by (simp add: taken_by_def)
  from stages_consumer_run[OF this, of 4] p
  have run: "consumer_run ?rt (LB_timestamps (ref_libs sample_book)) ref_codec ?ackn
      (SS_PaymentMaking ?svcs) (SS_PaymentReissue ?svcs) (SS_Invoice ?svcs)
      ([], Starting, program_started sample_components sample_ready) [sample_delivery]
      ([], Waiting, p)"
    by (simp add: ref_libs_def sample_program_def)
  have w: "wired_settled sample_ready = []" by (simp add: sample_ready_def sample_world_def empty_world_def)
  have s: "wired_settled (PG_world p) = [Acked (DeliveryTag sample_delivery) False]"
    using sample_settled p by simp
  from answers_are_entitled[OF ref_libs_wired sample_started sample_serving run] s w
  obtain dlv where "subseq [dlv] [sample_delivery]"
    "carried_out ref_timestamps ref_codec ''https://pay'' (wired_docs (PG_world p))
      (messages (ref_decode sample_book) (wired_events (PG_world p))) dlv"
    by (auto simp: Cons_eq_map_conv sample_services_def ref_libs_def)
  with s show ?thesis by (intro exI[of _ p]) (simp split: if_splits)
qed



section \<open>Ending\<close>




lemma shutdown_closed:
  assumes "shutdown libs cm svr p = (r, p')"
  shows "RC_closed (PG_conn p')" and "PG_payment p' = PG_payment p"
  using assms
  by (auto simp: shutdown_def Let_def dest: CloseConnection_closed
      split: prod.splits outcome.splits)




text \<open>An operation on the world leaves the RabbitMQ objects of the program.\<close>

lemma on_world_keeps:
  "on_world f p = (r, p') \<Longrightarrow>
     PG_conn p' = PG_conn p \<and> PG_payment p' = PG_payment p \<and> f (PG_world p) = (r, PG_world p')"
  by (auto simp: on_world_def split: prod.splits)

lemma save_receipt_keeps:
  assumes "runtime_port rt frame" and "receipt_repo_port rrepo rcpts frame"
    and "saveReceipt (program_runtime rt) tsl
      (payment_service_over chance clk repo (program_receipt_repo rrepo) prd) resp p = (r, p')"
  shows "PG_conn p' = PG_conn p \<and> PG_payment p' = PG_payment p \<and>
    frame (PG_world p') = frame (PG_world p)"
proof -
  obtain k p1 where k: "NewObjectID (program_runtime rt) p = (k, p1)" by fastforce
  note k1 = on_world_keeps[OF k[unfolded program_runtime_def runtime.simps]]
  show ?thesis
  proof (cases "NewReceiptFromProtMessage tsl k (Some resp)")
    case (Inl e)
    with k assms(3) show ?thesis by (simp add: saveReceipt_def)
  next
    case (Inr d)
    obtain a p2 where a: "AddReceipt (program_receipt_repo rrepo) d p1 = (a, p2)" by fastforce
    note a1 = on_world_keeps[OF a[unfolded program_receipt_repo_def receipt_repo.simps]]
    have "p' = p2" using k Inr a assms(3) by (auto simp: saveReceipt_def split: sum.splits if_splits)
    with k1 a1 runtime_port.object_id_rest[OF assms(1)] receipt_repo_port.radd_rest[OF assms(2)]
    show ?thesis by metis
  qed
qed

lemma closed_publish:
  assumes "RC_closed (PG_conn p)"
    and "channel_gone lib (RP_channel (PG_payment p)) (PG_world p) (PG_world p)"
  shows "\<exists>e. Publish (program_payment_producer lib) m k p = (Inl e, p)"
  using closed_ensure[OF assms]
  by (simp add: program_payment_producer_def on_payment_def Publish_impl_def)

lemma closed_send:
  assumes "RC_closed (PG_conn q)"
    and "\<And>v. gone v \<Longrightarrow> channel_gone lib (RP_channel (PG_payment q)) v v" and "gone (PG_world q)"
    and "runtime_port rt (\<lambda>v. (gone v, events v))"
    and "invoice_repo_port repo docs (\<lambda>v. (gone v, events v))"
    and "sendConfirmationMessage (program_runtime rt) tsl (payment_service_over chance clk
      (program_invoice_repo repo) rrepo (program_payment_producer lib)) now resp q = (r, q')"
  shows "(case r of Returned u \<Rightarrow> False | _ \<Rightarrow> True) \<and> events (PG_world q') = events (PG_world q)"
proof -
  obtain f q1 where f: "FindByInvoiceNumber (program_invoice_repo repo)
      (PayWithCardResponse_GetInvoiceNumber (Some resp)) q = (f, q1)" by fastforce
  note f1 = on_world_keeps[OF f[unfolded program_invoice_repo_def invoice_repo.simps]]
  obtain i q2 where i: "UuidNew (program_runtime rt) q1 = (i, q2)" by fastforce
  note i1 = on_world_keeps[OF i[unfolded program_runtime_def runtime.simps]]
  have e1: "gone (PG_world q1) \<and> events (PG_world q1) = events (PG_world q)"
    using invoice_repo_port.find_quiet[OF assms(5)] f1 assms(3) by fastforce
  then have e2: "gone (PG_world q2) \<and> events (PG_world q2) = events (PG_world q)"
    using runtime_port.uuid_new_rest[OF assms(4)] i1 by fastforce
  have "\<exists>e. Publish (program_payment_producer lib) m k q2 = (Inl e, q2)" for m k
    using closed_publish[of q2 lib] assms(1,2) e2 f1 i1 by simp
  then obtain e where "Publish (program_payment_producer lib) m k q2 = (Inl (e m k), q2)" for m k
    by metis
  with assms(6) f i e1 e2 show ?thesis
    by (auto simp: sendConfirmationMessage_def Let_def split: sum.splits option.splits if_splits)
qed

text \<open>C15: shutting down closes the connection of the broker before it waits for the requests still
  being served, and waits for no goroutine: a payment whose work is left to do when RabbitMQ is
  closed, and the channel of its producer with it, may still store its receipt but never sends
  its confirmation.\<close>

theorem shutdown_loses_confirmations:
  fixes libs :: "'w libraries"
  assumes "shutdown libs cm svr p0 = (x, p)"
    and "\<And>v. gone v \<Longrightarrow> channel_gone (LB_amqp libs) (RP_channel (PG_payment p0)) v v"
    and "gone (PG_world p)"
    and "runtime_port rt (\<lambda>v. (gone v, events v))"
    and "invoice_repo_port repo docs (\<lambda>v. (gone v, events v))"
    and "receipt_repo_port rrepo rcpts (\<lambda>v. (gone v, events v))"
    and "post_payment_work (program_runtime rt) tsl (payment_service_over chance clk
      (program_invoice_repo repo) (program_receipt_repo rrepo)
      (program_payment_producer (LB_amqp libs))) job p = (r, p')"
  shows "(case r of Returned u \<Rightarrow> False | _ \<Rightarrow> True) \<and> events (PG_world p') = events (PG_world p)"
proof -
  note closed = shutdown_closed[OF assms(1)]
  obtain a p1 where a: "saveReceipt (program_runtime rt) tsl (payment_service_over chance clk
      (program_invoice_repo repo) (program_receipt_repo rrepo)
      (program_payment_producer (LB_amqp libs))) (snd job) p = (a, p1)" by fastforce
  note kept = save_receipt_keeps[OF assms(4,6) a]
  show ?thesis
  proof (cases a)
    case (Inl e)
    with a assms(7) kept show ?thesis by (auto simp: post_payment_work_def)
  next
    case (Inr d)
    with a assms(7) have "sendConfirmationMessage (program_runtime rt) tsl (payment_service_over
        chance clk (program_invoice_repo repo) (program_receipt_repo rrepo)
        (program_payment_producer (LB_amqp libs))) (fst job) (snd job) p1 = (r, p')"
      by (simp add: post_payment_work_def)
    from closed_send[of p1, OF _ _ _ assms(4,5) this] closed kept assms(2,3) show ?thesis by simp
  qed
qed

lemma sample_shutdown_cut:
  assumes "shutdown (ref_libs book) sample_components svr sample_program = (r, p)"
  shows "rb_cut (snd (PG_world p))"
  using assms
  by (auto simp: shutdown_def Let_def ref_libs_def sample_program_def sample_components_def
      program_started_def ShutdownTelemetry_def told_otel_def CloseConnection_def sample_conn_def
      snd_amqp_def ref_amqp_def on_snd_def CloseChannel_impl_def sample_sender_def
      sample_reader_def sample_ready_def broker_after_def ServerShutdown_def told_http_def
      Clock_Close_def fst_grpc_def on_fst_def ref_grpc_def
      split: prod.splits outcome.splits option.splits if_splits)

abbreviation wired_cut :: "wired \<Rightarrow> bool \<times> amqp_event list" where
  "wired_cut v \<equiv> (rb_cut (snd v), wired_events v)"

interpretation cut_invoices: invoice_collection "fst_collection ref_invoices" wired_docs wired_cut
  plain_stored
  using fst_documents[OF ref_inv.mongo_documents_axioms, where f = "\<lambda>_ k. (rb_cut k, rb_events k)"]
    ref_inv.invoice_collection_axioms
  by (simp add: invoice_collection_def)

interpretation cut_receipts: receipt_collection "fst_collection ref_receipts" wired_rcpts wired_cut
  "\<lambda>d d'. d' = d"
  using fst_documents[OF ref_rec.mongo_documents_axioms, where f = "\<lambda>_ k. (rb_cut k, rb_events k)"]
    ref_rec.receipt_collection_axioms
  by (simp add: receipt_collection_def)

theorem shutdown_loses_confirmations_witness:
  "\<exists>(p :: wired program) r p'. post_payment_work (program_runtime (fst_runtime ref_runtime))
      ref_timestamps (SS_PaymentMaking (sample_services []))
      (world_now pay_world, sample_reply) p = (r, p') \<and>
    (case r of Returned u \<Rightarrow> False | _ \<Rightarrow> True)"
proof -
  obtain x p where sd: "shutdown (ref_libs []) sample_components (undefined :: unit server)
      sample_program = (x, p)" by fastforce
  have gone: "channel_gone (LB_amqp (ref_libs [])) (RP_channel (PG_payment sample_program)) v v"
    if "rb_cut (snd v)" for v
    using that by (simp add: channel_gone_def ref_libs_def snd_amqp_def ref_amqp_def on_snd_def
        sample_program_def program_started_def sample_components_def sample_sender_def)
  have rt: "runtime_port (fst_runtime ref_runtime) wired_cut"
    using fst_random[OF ref.rts.runtime_port_axioms, where f = "\<lambda>_ k. (rb_cut k, rb_events k)"]
    by simp
  have svc: "SS_PaymentMaking (sample_services []) = payment_service_over 10
      (program_clock (grpc_clock (fst_grpc ref_grpc) ref_timestamps \<lparr>CK_conn = 0\<rparr>))
      (program_invoice_repo (mongo_invoice_repo (fst_collection ref_invoices)))
      (program_receipt_repo (mongo_receipt_repo (fst_collection ref_receipts)))
      (program_payment_producer (LB_amqp (ref_libs [])))"
    by (simp add: sample_services_def ref_libs_def)
  obtain r p' where work: "post_payment_work (program_runtime (fst_runtime ref_runtime))
      ref_timestamps (SS_PaymentMaking (sample_services []))
      (world_now pay_world, sample_reply) p = (r, p')" by fastforce
  from shutdown_loses_confirmations[OF sd gone sample_shutdown_cut[OF sd] rt
      cut_invoices.mongo_invoices.invoice_repo_port_axioms
      cut_receipts.mongo_receipts.receipt_repo_port_axioms work[unfolded svc]] work
  show ?thesis by blast
qed

end
