(* ===== verification/Environment.thy ===== *)
theory Environment
  imports Config GoErrors
begin

text \<open>
  internal/config/config.go and rabbitmq_config.go: reading the configuration from the environment.
  A field of a configuration struct carries a tag with the name of its variable; the \<open>env\<close> library
  reads the variable as the field's type. The tags are translated here, struct by struct; the
  library is a parameter, with what its documentation promises in a locale.
\<close>

section \<open>Tags and the library\<close>

record env_tag =
  Tag_key :: string
  Tag_required :: bool
  Tag_default :: "string option"

text \<open>
  Reading one variable as a string, an \<open>int\<close>, a \<open>uint64\<close> or a \<open>bool\<close>, and the one error the
  library makes of the errors of all the fields.
\<close>

record env_lib =
  EnvString :: "env_tag \<Rightarrow> go_err + string"
  EnvInt :: "env_tag \<Rightarrow> go_err + 64 word"
  EnvUint64 :: "env_tag \<Rightarrow> go_err + 64 word"
  EnvBool :: "env_tag \<Rightarrow> go_err + bool"
  AggregateError :: "go_err list \<Rightarrow> go_err"

text \<open>The tags \<open>env:"K,required"\<close>, \<open>env:"K"\<close>, \<open>env:"K" envDefault:"d"\<close> and both at once.\<close>

definition required_var :: "string \<Rightarrow> env_tag" where
  "required_var k = \<lparr>Tag_key = k, Tag_required = True, Tag_default = None\<rparr>"

definition optional_var :: "string \<Rightarrow> env_tag" where
  "optional_var k = \<lparr>Tag_key = k, Tag_required = False, Tag_default = None\<rparr>"

definition default_var :: "string \<Rightarrow> string \<Rightarrow> env_tag" where
  "default_var k d = \<lparr>Tag_key = k, Tag_required = False, Tag_default = Some d\<rparr>"

definition required_default_var :: "string \<Rightarrow> string \<Rightarrow> env_tag" where
  "required_default_var k d = \<lparr>Tag_key = k, Tag_required = True, Tag_default = Some d\<rparr>"

named_theorems env_tag_defs

lemmas [env_tag_defs] =
  required_var_def optional_var_def default_var_def required_default_var_def

text \<open>A struct is read field by field; the errors of its fields are collected in their order.\<close>

type_synonym 'a parsed = "go_err list + 'a"

fun field_errors :: "go_err + 'a \<Rightarrow> go_err list" where
  "field_errors (Inl e) = [e]"
| "field_errors (Inr _) = []"

fun struct_errors :: "'a parsed \<Rightarrow> go_err list" where
  "struct_errors (Inl es) = es"
| "struct_errors (Inr _) = []"

definition parsed_unless :: "go_err list \<Rightarrow> 'a \<Rightarrow> 'a parsed" where
  "parsed_unless es v = (if es = [] then Inr v else Inl es)"

lemma parsed_unless_simps [simp]:
  "parsed_unless [] v = Inr v"
  "struct_errors (parsed_unless es v) = es"
  by (simp_all add: parsed_unless_def)

section \<open>rabbitmq_config.go\<close>

text \<open>The variables of these structs carry the prefix of the field that holds the struct.\<close>

definition parse_ExchangeConfig :: "env_lib \<Rightarrow> string \<Rightarrow> ExchangeConfig parsed" where
  "parse_ExchangeConfig lib pre =
    (let name = EnvString lib (required_var (pre @ ''NAME''));
         kind = EnvString lib (required_var (pre @ ''KIND''));
         durable = EnvBool lib (default_var (pre @ ''DURABLE'') ''true'');
         autoDelete = EnvBool lib (default_var (pre @ ''AUTO_DELETE'') ''false'');
         internal = EnvBool lib (default_var (pre @ ''INTERNAL'') ''false'');
         noWait = EnvBool lib (default_var (pre @ ''NO_WAIT'') ''false'')
     in parsed_unless
          (field_errors name @ field_errors kind @ field_errors durable @ field_errors autoDelete @
            field_errors internal @ field_errors noWait)
          \<lparr>Exchange_Name = projr name, Exchange_Kind = projr kind, Exchange_Durable = projr durable,
           Exchange_AutoDelete = projr autoDelete, Exchange_Internal = projr internal,
           Exchange_NoWait = projr noWait\<rparr>)"

definition parse_QueueConfig :: "env_lib \<Rightarrow> string \<Rightarrow> QueueConfig parsed" where
  "parse_QueueConfig lib pre =
    (let name = EnvString lib (required_var (pre @ ''NAME''));
         durable = EnvBool lib (default_var (pre @ ''DURABLE'') ''true'');
         autoDelete = EnvBool lib (default_var (pre @ ''AUTO_DELETE'') ''false'');
         exclusive = EnvBool lib (default_var (pre @ ''EXCLUSIVE'') ''false'');
         noWait = EnvBool lib (default_var (pre @ ''NO_WAIT'') ''false'')
     in parsed_unless
          (field_errors name @ field_errors durable @ field_errors autoDelete @
            field_errors exclusive @ field_errors noWait)
          \<lparr>Queue_Name = projr name, Queue_Durable = projr durable,
           Queue_AutoDelete = projr autoDelete, Queue_Exclusive = projr exclusive,
           Queue_NoWait = projr noWait\<rparr>)"

definition parse_BindingConfig :: "env_lib \<Rightarrow> string \<Rightarrow> BindingConfig parsed" where
  "parse_BindingConfig lib pre =
    (let exchangeName = EnvString lib (optional_var (pre @ ''EXCHANGE_NAME''));
         routingKey = EnvString lib (optional_var (pre @ ''ROUTING_KEY''));
         noWait = EnvBool lib (default_var (pre @ ''NO_WAIT'') ''false'')
     in parsed_unless (field_errors exchangeName @ field_errors routingKey @ field_errors noWait)
          \<lparr>Binding_ExchangeName = projr exchangeName, Binding_RoutingKey = projr routingKey,
           Binding_NoWait = projr noWait\<rparr>)"

definition parse_PublishConfig :: "env_lib \<Rightarrow> string \<Rightarrow> PublishConfig parsed" where
  "parse_PublishConfig lib pre =
    (let mandatory = EnvBool lib (default_var (pre @ ''MANDATORY'') ''false'');
         immediate = EnvBool lib (default_var (pre @ ''IMMEDIATE'') ''false'')
     in parsed_unless (field_errors mandatory @ field_errors immediate)
          \<lparr>Publish_Mandatory = projr mandatory, Publish_Immediate = projr immediate\<rparr>)"

definition parse_ConsumeConfig :: "env_lib \<Rightarrow> string \<Rightarrow> ConsumeConfig parsed" where
  "parse_ConsumeConfig lib pre =
    (let consumer = EnvString lib (optional_var (pre @ ''CONSUMER''));
         autoAck = EnvBool lib (default_var (pre @ ''AUTO_ACK'') ''false'');
         exclusive = EnvBool lib (default_var (pre @ ''EXCLUSIVE'') ''false'');
         noLocal = EnvBool lib (default_var (pre @ ''NO_LOCAL'') ''false'');
         noWait = EnvBool lib (default_var (pre @ ''NO_WAIT'') ''false'')
     in parsed_unless
          (field_errors consumer @ field_errors autoAck @ field_errors exclusive @
            field_errors noLocal @ field_errors noWait)
          \<lparr>Consume_Consumer = projr consumer, Consume_AutoAck = projr autoAck,
           Consume_Exclusive = projr exclusive, Consume_NoLocal = projr noLocal,
           Consume_NoWait = projr noWait\<rparr>)"

section \<open>config.go\<close>

definition parse_ServerConfig :: "env_lib \<Rightarrow> ServerConfig parsed" where
  "parse_ServerConfig lib =
    (let host = EnvString lib (required_var ''SERVICE_HOST'');
         port = EnvInt lib (required_var ''SERVICE_PORT'');
         readHeader = EnvInt lib
           (required_default_var ''READ_HEADER_TIMEOUT_IN_SECONDS'' ''5'');
         read = EnvInt lib (required_default_var ''READ_TIMEOUT_IN_SECONDS'' ''10'');
         write = EnvInt lib (required_default_var ''WRITE_TIMEOUT_IN_SECONDS'' ''15'');
         idle = EnvInt lib (required_default_var ''IDLE_TIMEOUT_IN_SECONDS'' ''60'')
     in parsed_unless
          (field_errors host @ field_errors port @ field_errors readHeader @ field_errors read @
            field_errors write @ field_errors idle)
          \<lparr>Server_Host = projr host, Server_Port = projr port,
           Server_ReadHeaderTimeoutInSeconds = projr readHeader,
           Server_ReadTimeoutInSeconds = projr read, Server_WriteTimeoutInSeconds = projr write,
           Server_IdleTimeoutInSeconds = projr idle\<rparr>)"

definition parse_AppConfig :: "env_lib \<Rightarrow> AppConfig parsed" where
  "parse_AppConfig lib =
    (let serviceName = EnvString lib
           (default_var ''SERVICE_NAME'' ''kenshu-elarisProject-paymentSimulator'');
         version = EnvString lib (optional_var ''VERSION'');
         level = EnvInt lib (required_default_var ''LOG_LEVEL'' ''0'');
         server = parse_ServerConfig lib
     in parsed_unless
          (field_errors serviceName @ field_errors version @ field_errors level @
            struct_errors server)
          \<lparr>App_ServiceName = projr serviceName, App_Version = projr version,
           App_LogLevel = projr level, App_Server = projr server\<rparr>)"

definition parse_Services :: "env_lib \<Rightarrow> ServicesConfig parsed" where
  "parse_Services lib =
    (let grpcHost = EnvString lib (required_var ''CLOCK_EMU_GRPC_URL'');
         grpcPort = EnvInt lib (required_var ''CLOCK_EMU_GRPC_PORT'');
         host = EnvString lib (required_var ''PAYMENT_MAKING_CARD_HOST'');
         failChance = EnvInt lib (required_var ''FAIL_CHANCE'')
     in parsed_unless
          (field_errors grpcHost @ field_errors grpcPort @ field_errors host @
            field_errors failChance)
          \<lparr>Clock_GrpcHost = projr grpcHost, Clock_GrpcPort = projr grpcPort,
           Card_Host = projr host, Card_FailChance = projr failChance\<rparr>)"

definition parse_MongoConfig :: "env_lib \<Rightarrow> MongoConfig parsed" where
  "parse_MongoConfig lib =
    (let username = EnvString lib (required_var ''MONGO_INITDB_ROOT_USERNAME'');
         password = EnvString lib (required_var ''MONGO_INITDB_ROOT_PASSWORD'');
         host = EnvString lib (required_var ''MONGO_HOST'');
         database = EnvString lib (required_var ''MONGO_DATABASE'');
         replicaSet = EnvString lib (default_var ''MONGO_REPLICA_SET'' '''');
         connection = EnvInt lib (default_var ''MONGO_CONNECTION_TIMEOUT_IN_SECONDS'' ''10'');
         selection = EnvInt lib
           (default_var ''MONGO_SERVER_SELECTION_TIMEOUT_IN_SECONDS'' ''10'');
         ping = EnvInt lib (default_var ''MONGO_PING_TIMEOUT_IN_SECONDS'' ''5'');
         startup = EnvInt lib (default_var ''MONGO_STARTUP_TIMEOUT_IN_SECONDS'' ''10'');
         idle = EnvInt lib (default_var ''MONGO_MAX_CONN_IDLE_TIME_IN_SECONDS'' ''60'');
         maxPool = EnvUint64 lib (default_var ''MONGO_MAX_POOL_SIZE'' ''100'');
         minPool = EnvUint64 lib (default_var ''MONGO_MIN_POOL_SIZE'' ''0'');
         retry = EnvBool lib (default_var ''MONGO_RETRY_WRITES'' ''true'');
         invoices = EnvString lib (default_var ''INVOICE_COLLECTION'' ''Invoice'');
         receipts = EnvString lib (default_var ''RECEIPT_COLLECTION'' ''Receipt'')
     in parsed_unless
          (field_errors username @ field_errors password @ field_errors host @
            field_errors database @ field_errors replicaSet @ field_errors connection @
            field_errors selection @ field_errors ping @ field_errors startup @
            field_errors idle @ field_errors maxPool @ field_errors minPool @
            field_errors retry @ field_errors invoices @ field_errors receipts)
          \<lparr>Mongo_Username = projr username, Mongo_Password = projr password,
           Mongo_Host = projr host, Mongo_Database = projr database,
           Mongo_ReplicaSet = projr replicaSet,
           Mongo_ConnectionTimeoutInSeconds = projr connection,
           Mongo_ServerSelectionTimeoutInSeconds = projr selection,
           Mongo_PingTimeoutInSeconds = projr ping, Mongo_StartupTimeoutInSeconds = projr startup,
           Mongo_MaxConnIdleTimeInSeconds = projr idle, Mongo_MaxPoolSize = projr maxPool,
           Mongo_MinPoolSize = projr minPool, Mongo_RetryWrites = projr retry,
           Mongo_InvoiceCollection = projr invoices, Mongo_ReceiptCollection = projr receipts\<rparr>)"

definition parse_RabbitMqConfig ::
  "env_lib \<Rightarrow> (RabbitMqConfig \<times> PublishersConfig \<times> ConsumersConfig) parsed" where
  "parse_RabbitMqConfig lib =
    (let username = EnvString lib (required_var ''RABBITMQ_USERNAME'');
         password = EnvString lib (required_var ''RABBITMQ_PASSWORD'');
         host = EnvString lib (required_var ''RABBITMQ_HOST'');
         port = EnvInt lib (required_var ''RABBITMQ_PORT'');
         paymentExchange = parse_ExchangeConfig lib ''PAYMENT_EXCHANGE_'';
         paymentPublish = parse_PublishConfig lib ''PAYMENT_PUBLISH_'';
         guestExchange = parse_ExchangeConfig lib ''GUEST_COMMUNICATION_EXCHANGE_'';
         guestPublish = parse_PublishConfig lib ''GUEST_COMMUNICATION_PUBLISH_'';
         queue = parse_QueueConfig lib ''INVOICE_QUEUE_'';
         binding = parse_BindingConfig lib ''INVOICE_BINDING_'';
         consume = parse_ConsumeConfig lib ''INVOICE_CONSUME_''
     in parsed_unless
          (field_errors username @ field_errors password @ field_errors host @
            field_errors port @ struct_errors paymentExchange @ struct_errors paymentPublish @
            struct_errors guestExchange @ struct_errors guestPublish @ struct_errors queue @
            struct_errors binding @ struct_errors consume)
          (\<lparr>Rabbit_Username = projr username, Rabbit_Password = projr password,
            Rabbit_Host = projr host, Rabbit_Port = projr port\<rparr>,
           \<lparr>PaymentExchange = projr paymentExchange, PaymentPublish = projr paymentPublish,
            GuestCommunicationExchange = projr guestExchange,
            GuestCommunicationPublish = projr guestPublish\<rparr>,
           \<lparr>InvoiceQueue = projr queue, InvoiceBinding = projr binding,
            InvoiceConsume = projr consume\<rparr>))"

definition parse_TelemetryConfig :: "env_lib \<Rightarrow> TelemetryConfig parsed" where
  "parse_TelemetryConfig lib =
    (let endpoint = EnvString lib (required_var ''OTEL_EXPORTER_OTLP_ENDPOINT'');
         grpcPort = EnvInt lib (required_var ''OTEL_EXPORTER_OTLP_GRPC_PORT'');
         healthPort = EnvInt lib (required_var ''OTEL_EXPORTER_OTLP_HEALTH_PORT'');
         insecure = EnvBool lib (required_var ''OTEL_EXPORTER_OTLP_INSECURE'');
         timeout = EnvInt lib (default_var ''OTEL_SHUTDOWN_TIMEOUT_IN_SECONDS'' ''15'')
     in parsed_unless
          (field_errors endpoint @ field_errors grpcPort @ field_errors healthPort @
            field_errors insecure @ field_errors timeout)
          \<lparr>OTLP_Endpoint = projr endpoint, OTLP_GrpcPort = projr grpcPort,
           OTLP_HealthPort = projr healthPort, OTLP_Insecure = projr insecure,
           OTLP_ShutdownTimeoutInSeconds = projr timeout\<rparr>)"

definition parse_Configs :: "env_lib \<Rightarrow> Configs parsed" where
  "parse_Configs lib =
    (let app = parse_AppConfig lib; services = parse_Services lib;
         mongo = parse_MongoConfig lib; rabbit = parse_RabbitMqConfig lib;
         telemetry = parse_TelemetryConfig lib
     in parsed_unless
          (struct_errors app @ struct_errors services @ struct_errors mongo @
            struct_errors rabbit @ struct_errors telemetry)
          \<lparr>Cfg_App = projr app, Cfg_Services = projr services, Cfg_Mongo = projr mongo,
           Cfg_RabbitMq = fst (projr rabbit), Cfg_Publishers = fst (snd (projr rabbit)),
           Cfg_Consumers = snd (snd (projr rabbit)), Cfg_Telemetry = projr telemetry\<rparr>)"

definition LoadConfigs :: "env_lib \<Rightarrow> go_err + Configs" where
  "LoadConfigs lib =
    (case parse_Configs lib of
       Inl errs \<Rightarrow> Inl (AggregateError lib errs)
     | Inr cfg \<Rightarrow> Inr cfg)"

lemmas parse_defs = parse_ExchangeConfig_def parse_QueueConfig_def parse_BindingConfig_def
  parse_PublishConfig_def parse_ConsumeConfig_def parse_ServerConfig_def parse_AppConfig_def
  parse_Services_def parse_MongoConfig_def parse_RabbitMqConfig_def parse_TelemetryConfig_def
  parse_Configs_def

section \<open>What the library promises\<close>

text \<open>
  A variable that is set to a text is read from it; one that is not set is read from the default,
  is an error when it is required and has no default, and otherwise leaves the zero value. Decimal
  numerals below $2^{31}$ and the words \<open>true\<close> and \<open>false\<close> are read as what they say.
\<close>

definition env_text :: "(string \<Rightarrow> string option) \<Rightarrow> env_tag \<Rightarrow> string option" where
  "env_text vars t = (case vars (Tag_key t) of Some v \<Rightarrow> Some v | None \<Rightarrow> Tag_default t)"

locale env_library =
  fixes lib :: env_lib
    and vars :: "string \<Rightarrow> string option"
  assumes string_text: "env_text vars t = Some v \<Longrightarrow> v \<noteq> [] \<Longrightarrow> EnvString lib t = Inr v"
    and string_empty: "vars (Tag_key t) = None \<Longrightarrow> Tag_default t = Some [] \<Longrightarrow> EnvString lib t = Inr []"
    and string_none: "env_text vars t = None \<Longrightarrow> \<not> Tag_required t \<Longrightarrow> EnvString lib t = Inr []"
    and string_missing: "env_text vars t = None \<Longrightarrow> Tag_required t \<Longrightarrow> isl (EnvString lib t)"
    and int_text: "env_text vars t = Some (itoa n) \<Longrightarrow> n < 2 ^ 31 \<Longrightarrow> EnvInt lib t = Inr (word_of_nat n)"
    and int_missing: "env_text vars t = None \<Longrightarrow> Tag_required t \<Longrightarrow> isl (EnvInt lib t)"
    and uint64_text: "env_text vars t = Some (itoa n) \<Longrightarrow> n < 2 ^ 31 \<Longrightarrow>
      EnvUint64 lib t = Inr (word_of_nat n)"
    and bool_true: "env_text vars t = Some ''true'' \<Longrightarrow> EnvBool lib t = Inr True"
    and bool_false: "env_text vars t = Some ''false'' \<Longrightarrow> EnvBool lib t = Inr False"
    and bool_missing: "env_text vars t = None \<Longrightarrow> Tag_required t \<Longrightarrow> isl (EnvBool lib t)"

section \<open>An environment held in a map\<close>

text \<open>A numeral is a text that its own value prints as.\<close>

definition env_number :: "string \<Rightarrow> go_err + 64 word" where
  "env_number v =
    (if itoa (atoi v) = v \<and> atoi v < 2 ^ 31 then Inr (word_of_nat (atoi v))
     else Inl (LibErr OtherLib (''parse error on field of type int: '' @ v)))"

definition env_boolean :: "string \<Rightarrow> go_err + bool" where
  "env_boolean v =
    (if v = ''true'' then Inr True else if v = ''false'' then Inr False
     else Inl (LibErr OtherLib (''parse error on field of type bool: '' @ v)))"

definition env_field ::
  "(string \<Rightarrow> string option) \<Rightarrow> (string \<Rightarrow> go_err + 'a) \<Rightarrow> 'a \<Rightarrow> env_tag \<Rightarrow> go_err + 'a" where
  "env_field vars parse zero t =
    (case env_text vars t of
       Some v \<Rightarrow> if v = [] then Inr zero else parse v
     | None \<Rightarrow>
         if Tag_required t
         then Inl (LibErr OtherLib (''required environment variable is not set: '' @ Tag_key t))
         else Inr zero)"

definition map_env :: "(string \<Rightarrow> string option) \<Rightarrow> env_lib" where
  "map_env vars = \<lparr>
     EnvString = env_field vars Inr [],
     EnvInt = env_field vars env_number 0,
     EnvUint64 = env_field vars env_number 0,
     EnvBool = env_field vars env_boolean False,
     AggregateError = (\<lambda>es. LibErr OtherLib (''env: '' @ concat (map error_text es)))\<rparr>"

lemma itoa_not_empty [simp]: "itoa n \<noteq> []"
  by (subst itoa.simps) simp

interpretation map_env: env_library "map_env vars" vars for vars
  by unfold_locales
    (auto simp: map_env_def env_field_def env_number_def env_boolean_def env_text_def)

end
