(* ===== verification/ConfigClaims.thy ===== *)
theory ConfigClaims
  imports Environment Program
begin

text \<open>
  The properties of the configuration: what the environment the README gives for a start makes of
  it, and what happens when a variable is missing.
\<close>

section \<open>The README's minimum\<close>

text \<open>
  The variables of the README's section on the minimum environment, with their texts; \<open>h\<close> fills
  the places it leaves to the reader.
\<close>

definition readme_minimum :: "(string \<Rightarrow> string) \<Rightarrow> (string \<times> string) list" where
  "readme_minimum h =
    [(''SERVICE_HOST'', ''0.0.0.0''),
     (''SERVICE_PORT'', ''8080''),
     (''CLOCK_EMU_GRPC_URL'', h ''clock host''),
     (''CLOCK_EMU_GRPC_PORT'', ''50051''),
     (''PAYMENT_MAKING_CARD_HOST'', ''http://payment-simulator:8080''),
     (''FAIL_CHANCE'', ''10''),
     (''MONGO_INITDB_ROOT_USERNAME'', h ''mongo user''),
     (''MONGO_INITDB_ROOT_PASSWORD'', h ''mongo password''),
     (''MONGO_HOST'', h ''mongo host''),
     (''MONGO_DATABASE'', ''cottages''),
     (''RABBITMQ_USERNAME'', h ''rabbit user''),
     (''RABBITMQ_PASSWORD'', h ''rabbit password''),
     (''RABBITMQ_HOST'', h ''rabbit host''),
     (''RABBITMQ_PORT'', ''5672''),
     (''INVOICE_QUEUE_NAME'', ''q.invoice.worker''),
     (''INVOICE_BINDING_EXCHANGE_NAME'', ''ex.invoice.generate''),
     (''INVOICE_BINDING_ROUTING_KEY'', ''booking.create-invoice''),
     (''PAYMENT_EXCHANGE_NAME'', ''ex.payment''),
     (''PAYMENT_EXCHANGE_KIND'', ''topic''),
     (''GUEST_COMMUNICATION_EXCHANGE_NAME'', ''ex.communication''),
     (''GUEST_COMMUNICATION_EXCHANGE_KIND'', ''direct''),
     (''OTEL_EXPORTER_OTLP_ENDPOINT'', h ''otel host''),
     (''OTEL_EXPORTER_OTLP_GRPC_PORT'', ''4317''),
     (''OTEL_EXPORTER_OTLP_HEALTH_PORT'', ''13133''),
     (''OTEL_EXPORTER_OTLP_INSECURE'', ''true'')]"

definition default_exchange :: "string \<Rightarrow> string \<Rightarrow> ExchangeConfig" where
  "default_exchange name kind = \<lparr>Exchange_Name = name, Exchange_Kind = kind,
     Exchange_Durable = True, Exchange_AutoDelete = False, Exchange_Internal = False,
     Exchange_NoWait = False\<rparr>"

definition default_publish :: PublishConfig where
  "default_publish = \<lparr>Publish_Mandatory = False, Publish_Immediate = False\<rparr>"

definition minimum_configs :: "(string \<Rightarrow> string) \<Rightarrow> Configs" where
  "minimum_configs h = \<lparr>
     Cfg_App = \<lparr>App_ServiceName = ''kenshu-elarisProject-paymentSimulator'', App_Version = [],
       App_LogLevel = 0, App_Server = \<lparr>Server_Host = ''0.0.0.0'', Server_Port = 8080,
         Server_ReadHeaderTimeoutInSeconds = 5, Server_ReadTimeoutInSeconds = 10,
         Server_WriteTimeoutInSeconds = 15, Server_IdleTimeoutInSeconds = 60\<rparr>\<rparr>,
     Cfg_Services = \<lparr>Clock_GrpcHost = h ''clock host'', Clock_GrpcPort = 50051,
       Card_Host = ''http://payment-simulator:8080'', Card_FailChance = 10\<rparr>,
     Cfg_Mongo = \<lparr>Mongo_Username = h ''mongo user'', Mongo_Password = h ''mongo password'',
       Mongo_Host = h ''mongo host'', Mongo_Database = ''cottages'', Mongo_ReplicaSet = [],
       Mongo_ConnectionTimeoutInSeconds = 10, Mongo_ServerSelectionTimeoutInSeconds = 10,
       Mongo_PingTimeoutInSeconds = 5, Mongo_StartupTimeoutInSeconds = 10,
       Mongo_MaxConnIdleTimeInSeconds = 60, Mongo_MaxPoolSize = 100, Mongo_MinPoolSize = 0,
       Mongo_RetryWrites = True, Mongo_InvoiceCollection = ''Invoice'',
       Mongo_ReceiptCollection = ''Receipt''\<rparr>,
     Cfg_RabbitMq = \<lparr>Rabbit_Username = h ''rabbit user'', Rabbit_Password = h ''rabbit password'',
       Rabbit_Host = h ''rabbit host'', Rabbit_Port = 5672\<rparr>,
     Cfg_Publishers = \<lparr>PaymentExchange = default_exchange ''ex.payment'' ''topic'',
       PaymentPublish = default_publish,
       GuestCommunicationExchange = default_exchange ''ex.communication'' ''direct'',
       GuestCommunicationPublish = default_publish\<rparr>,
     Cfg_Consumers = \<lparr>
       InvoiceQueue = \<lparr>Queue_Name = ''q.invoice.worker'', Queue_Durable = True,
         Queue_AutoDelete = False, Queue_Exclusive = False, Queue_NoWait = False\<rparr>,
       InvoiceBinding = \<lparr>Binding_ExchangeName = ''ex.invoice.generate'',
         Binding_RoutingKey = ''booking.create-invoice'', Binding_NoWait = False\<rparr>,
       InvoiceConsume = \<lparr>Consume_Consumer = [], Consume_AutoAck = False,
         Consume_Exclusive = False, Consume_NoLocal = False, Consume_NoWait = False\<rparr>\<rparr>,
     Cfg_Telemetry = \<lparr>OTLP_Endpoint = h ''otel host'', OTLP_GrpcPort = 4317,
       OTLP_HealthPort = 13133, OTLP_Insecure = True, OTLP_ShutdownTimeoutInSeconds = 15\<rparr>\<rparr>"

lemma numerals:
  "itoa 0 = ''0''" "itoa 5 = ''5''" "itoa 10 = ''10''" "itoa 15 = ''15''"
  "itoa 60 = ''60''" "itoa 100 = ''100''" "itoa 8080 = ''8080''" "itoa 50051 = ''50051''"
  "itoa 5672 = ''5672''" "itoa 4317 = ''4317''" "itoa 13133 = ''13133''"
  by (simp_all add: itoa.simps digit_char_def char_of_def bit_simps)

lemma minimum_texts:
  "\<not> is_blank ''0.0.0.0''" "\<not> is_blank ''cottages''"
  "\<not> is_blank ''http://payment-simulator:8080''"
  by code_simp+

context env_library
begin

text \<open>What a field reads, by whether its variable is set.\<close>

lemma read_string:
  "vars k = Some v \<Longrightarrow> v \<noteq> [] \<Longrightarrow> EnvString lib (required_var k) = Inr v"
  "vars k = Some v \<Longrightarrow> v \<noteq> [] \<Longrightarrow> EnvString lib (optional_var k) = Inr v"
  "vars k = None \<Longrightarrow> EnvString lib (optional_var k) = Inr []"
  "vars k = None \<Longrightarrow> EnvString lib (default_var k d) = Inr d"
  using string_text[of "required_var k"] string_text[of "optional_var k"]
    string_none[of "optional_var k"] string_text[of "default_var k d"]
    string_empty[of "default_var k d"]
  by (cases "d = []"; simp add: env_tag_defs env_text_def)+

lemma read_int:
  "vars k = Some (itoa n) \<Longrightarrow> n < 2 ^ 31 \<Longrightarrow> EnvInt lib (required_var k) = Inr (word_of_nat n)"
  "vars k = None \<Longrightarrow> n < 2 ^ 31 \<Longrightarrow> EnvInt lib (default_var k (itoa n)) = Inr (word_of_nat n)"
  "vars k = None \<Longrightarrow> n < 2 ^ 31 \<Longrightarrow>
     EnvInt lib (required_default_var k (itoa n)) = Inr (word_of_nat n)"
  "vars k = None \<Longrightarrow> n < 2 ^ 31 \<Longrightarrow> EnvUint64 lib (default_var k (itoa n)) = Inr (word_of_nat n)"
  using int_text[of "required_var k" n] int_text[of "default_var k (itoa n)" n]
    int_text[of "required_default_var k (itoa n)" n] uint64_text[of "default_var k (itoa n)" n]
  by (simp_all add: env_tag_defs env_text_def)

lemma read_bool:
  "vars k = Some ''true'' \<Longrightarrow> EnvBool lib (required_var k) = Inr True"
  "vars k = None \<Longrightarrow> EnvBool lib (default_var k ''true'') = Inr True"
  "vars k = None \<Longrightarrow> EnvBool lib (default_var k ''false'') = Inr False"
  using bool_true[of "required_var k"] bool_true[of "default_var k ''true''"]
    bool_false[of "default_var k ''false''"]
  by (simp_all add: env_tag_defs env_text_def)


text \<open>What the structs become on the README's minimum.\<close>

lemmas read_numbers =
  read_int(1)[where n = 10, unfolded numerals] read_int(1)[where n = 8080, unfolded numerals]
  read_int(1)[where n = 50051, unfolded numerals] read_int(1)[where n = 5672, unfolded numerals]
  read_int(1)[where n = 4317, unfolded numerals] read_int(1)[where n = 13133, unfolded numerals]
  read_int(2)[where n = 5, unfolded numerals] read_int(2)[where n = 10, unfolded numerals]
  read_int(2)[where n = 15, unfolded numerals] read_int(2)[where n = 60, unfolded numerals]
  read_int(3)[where n = 0, unfolded numerals] read_int(3)[where n = 5, unfolded numerals]
  read_int(3)[where n = 10, unfolded numerals] read_int(3)[where n = 15, unfolded numerals]
  read_int(3)[where n = 60, unfolded numerals]
  read_int(4)[where n = 0, unfolded numerals] read_int(4)[where n = 100, unfolded numerals]

lemmas reads = read_string read_bool read_numbers Let_def

lemma minimum_structs:
  assumes v: "vars = map_of (readme_minimum h)" and h: "\<And>k. h k \<noteq> []"
  shows "parse_ServerConfig lib = Inr (App_Server (Cfg_App (minimum_configs h)))"
    and "parse_Services lib = Inr (Cfg_Services (minimum_configs h))"
    and "parse_MongoConfig lib = Inr (Cfg_Mongo (minimum_configs h))"
    and "parse_TelemetryConfig lib = Inr (Cfg_Telemetry (minimum_configs h))"
    and "parse_ExchangeConfig lib ''PAYMENT_EXCHANGE_'' =
      Inr (default_exchange ''ex.payment'' ''topic'')"
    and "parse_ExchangeConfig lib ''GUEST_COMMUNICATION_EXCHANGE_'' =
      Inr (default_exchange ''ex.communication'' ''direct'')"
    and "parse_PublishConfig lib ''PAYMENT_PUBLISH_'' = Inr default_publish"
    and "parse_PublishConfig lib ''GUEST_COMMUNICATION_PUBLISH_'' = Inr default_publish"
    and "parse_QueueConfig lib ''INVOICE_QUEUE_'' =
      Inr (InvoiceQueue (Cfg_Consumers (minimum_configs h)))"
    and "parse_BindingConfig lib ''INVOICE_BINDING_'' =
      Inr (InvoiceBinding (Cfg_Consumers (minimum_configs h)))"
    and "parse_ConsumeConfig lib ''INVOICE_CONSUME_'' =
      Inr (InvoiceConsume (Cfg_Consumers (minimum_configs h)))"
  by (simp_all add: parse_defs reads minimum_configs_def default_exchange_def
      default_publish_def v h readme_minimum_def)

lemma minimum_loaded:
  assumes "vars = map_of (readme_minimum h)" and "\<And>k. h k \<noteq> []"
  shows "LoadConfigs lib = Inr (minimum_configs h)"
proof -
  note structs = minimum_structs[OF assms]
  have "parse_AppConfig lib = Inr (Cfg_App (minimum_configs h))"
    using structs(1)
    by (simp add: parse_AppConfig_def reads minimum_configs_def assms readme_minimum_def)
  moreover have "parse_RabbitMqConfig lib = Inr (Cfg_RabbitMq (minimum_configs h),
      Cfg_Publishers (minimum_configs h), Cfg_Consumers (minimum_configs h))"
    using structs(5-11)
    by (simp add: parse_RabbitMqConfig_def reads minimum_configs_def assms readme_minimum_def)
  ultimately show ?thesis
    using structs(2-4) by (simp add: LoadConfigs_def parse_Configs_def)
qed


lemma string_required:
  "vars k = None \<Longrightarrow> isl (EnvString lib (required_var k))"
  "vars k = None \<Longrightarrow> isl (EnvInt lib (required_var k))"
  "vars k = None \<Longrightarrow> isl (EnvBool lib (required_var k))"
  using string_missing[of "required_var k"] int_missing[of "required_var k"]
    bool_missing[of "required_var k"]
  by (simp_all add: env_tag_defs env_text_def)

end

text \<open>C29: the environment the README gives as the minimum for a start is enough, whatever non-blank
  texts fill its places: every variable it leaves out has its default, so loading succeeds with the
  configuration written out here, and that passes every check the constructors make of it, so the
  services and the server are made from it.\<close>

theorem minimum_environment_starts:
  assumes "env_library lib vars" and "vars = map_of (readme_minimum h)"
    and "\<And>k. \<not> is_blank (h k)"
  shows "LoadConfigs lib = Inr (minimum_configs h) \<and>
    Validate (mongo_checks (Cfg_Mongo (minimum_configs h))) = None \<and>
    Validate (rabbit_config_checks (Cfg_RabbitMq (minimum_configs h))) = None \<and>
    Validate (clock_checks (Cfg_Services (minimum_configs h))) = None \<and>
    (\<exists>svcs svr. app_Init libs (minimum_configs h) cm = Inr svcs \<and>
      transport_Init (minimum_configs h) svcs = Inr svr)"
proof (intro conjI)
  have "is_blank []" by code_simp
  then have "h k \<noteq> []" for k using assms(3)[of k] by metis
  then show "LoadConfigs lib = Inr (minimum_configs h)"
    by (rule env_library.minimum_loaded[OF assms(1,2)])
  show "Validate (mongo_checks (Cfg_Mongo (minimum_configs h))) = None"
    "Validate (rabbit_config_checks (Cfg_RabbitMq (minimum_configs h))) = None"
    "Validate (clock_checks (Cfg_Services (minimum_configs h))) = None"
    using assms(3)
    by (simp_all add: mongo_checks_def rabbit_config_checks_def clock_checks_def validator_simps
        minimum_configs_def minimum_texts)
  show "\<exists>svcs svr. app_Init libs (minimum_configs h) cm = Inr svcs \<and>
      transport_Init (minimum_configs h) svcs = Inr svr"
    by (simp add: app_Init_def transport_Init_def NewPaymentMakingServer_def
        NewPaymentReissueService_def NewInvoiceService_def NewHttpServer_def http_server_checks_def
        Let_def validated validator_simps minimum_configs_def minimum_texts)
qed

theorem minimum_environment_starts_witness:
  "LoadConfigs (map_env (map_of (readme_minimum (\<lambda>k. ''x'')))) =
     Inr (minimum_configs (\<lambda>k. ''x''))"
proof -
  have "\<not> is_blank ''x''" by code_simp
  from minimum_environment_starts[OF map_env.env_library_axioms refl this] show ?thesis by blast
qed

text \<open>The variables that must be set: those whose tag says so and gives no default.\<close>

definition required_variables :: "string list" where
  "required_variables =
    [''SERVICE_HOST'', ''SERVICE_PORT'', ''CLOCK_EMU_GRPC_URL'', ''CLOCK_EMU_GRPC_PORT'',
     ''PAYMENT_MAKING_CARD_HOST'', ''FAIL_CHANCE'', ''MONGO_INITDB_ROOT_USERNAME'',
     ''MONGO_INITDB_ROOT_PASSWORD'', ''MONGO_HOST'', ''MONGO_DATABASE'', ''RABBITMQ_USERNAME'',
     ''RABBITMQ_PASSWORD'', ''RABBITMQ_HOST'', ''RABBITMQ_PORT'', ''PAYMENT_EXCHANGE_NAME'',
     ''PAYMENT_EXCHANGE_KIND'', ''GUEST_COMMUNICATION_EXCHANGE_NAME'',
     ''GUEST_COMMUNICATION_EXCHANGE_KIND'', ''INVOICE_QUEUE_NAME'', ''OTEL_EXPORTER_OTLP_ENDPOINT'',
     ''OTEL_EXPORTER_OTLP_GRPC_PORT'', ''OTEL_EXPORTER_OTLP_HEALTH_PORT'',
     ''OTEL_EXPORTER_OTLP_INSECURE'']"

lemma field_errors_Nil: "field_errors r = [] \<longleftrightarrow> \<not> isl r"
  by (cases r) simp_all

lemma isl_parsed_unless: "isl (parsed_unless es v) \<longleftrightarrow> es \<noteq> []"
  by (simp add: parsed_unless_def)

lemma LoadConfigs_fails: "isl (LoadConfigs lib) \<longleftrightarrow> isl (parse_Configs lib)"
  by (simp add: LoadConfigs_def split: sum.splits)

text \<open>A program one of whose required variables is not set ends before it does anything, with the
  error of loading its configuration.\<close>

theorem missing_variable_stops_start:
  assumes "env_library lib vars" and "k \<in> set required_variables" and "vars k = None"
  shows "\<exists>e. LoadConfigs lib = Inl e \<and>
    run libs (LoadConfigs lib) served s = (Failed (WrapErr ''load configs: '' e), s)"
proof -
  note missing = env_library.string_required[OF assms(1,3)]
  have "isl (LoadConfigs lib)"
    using assms(2) missing
    by (auto simp: required_variables_def LoadConfigs_fails parse_defs Let_def isl_parsed_unless
        field_errors_Nil)
  then show ?thesis by (cases "LoadConfigs lib") (simp_all add: run_def)
qed

theorem missing_variable_stops_start_witness:
  "isl (LoadConfigs (map_env (\<lambda>k. None)))"
  using missing_variable_stops_start[OF map_env.env_library_axioms, of "''SERVICE_HOST''"]
  by (fastforce simp: required_variables_def)

end
