(* ===== verification/RemoteGateway.thy ===== *)
theory RemoteGateway
  imports Gateway
begin

text \<open>
  The other way to register the gateway, in internal/transport/grpc/payment: the handlers forward
  requests to services in another process, over a gRPC connection. The generated clients are the
  \<open>paymentMakingServiceClient\<close> and the \<open>paymentReissueServiceClient\<close> of the \<open>_grpc.pb.go\<close> files.
  The program registers its own services directly; the lemmas here say when the two agree.
\<close>

section \<open>The clients\<close>

text \<open>
  \<open>grpc.ClientConnInterface\<close>: invoking a method by its full name, for the messages of the two
  services. The result is the decoded reply, or the status of the call.
\<close>

record 's grpc_channel =
  CC_InvokePayWithCard ::
    "string \<Rightarrow> pb_PayWithCardRequest \<Rightarrow> 's \<Rightarrow> (rpc_error + pb_PayWithCardResponse) \<times> 's"
  CC_InvokeReissue ::
    "string \<Rightarrow> pb_ReissuePaymentRequest \<Rightarrow> 's \<Rightarrow> (rpc_error + pb_PaymentRequest) \<times> 's"

definition client_PayWithCard ::
  "'s grpc_channel \<Rightarrow> pb_PayWithCardRequest \<Rightarrow> 's \<Rightarrow>
     (rpc_error + pb_PayWithCardResponse) \<times> 's" where
  "client_PayWithCard cc req s =
    (case CC_InvokePayWithCard cc PayWithCard_method req s of
       (Inl err, s1) \<Rightarrow> (Inl err, s1)
     | (Inr out, s1) \<Rightarrow> (Inr out, s1))"

definition client_Reissue ::
  "'s grpc_channel \<Rightarrow> pb_ReissuePaymentRequest \<Rightarrow> 's \<Rightarrow> (rpc_error + pb_PaymentRequest) \<times> 's" where
  "client_Reissue cc req s =
    (case CC_InvokeReissue cc Reissue_method req s of
       (Inl err, s1) \<Rightarrow> (Inl err, s1)
     | (Inr out, s1) \<Rightarrow> (Inr out, s1))"

section \<open>The handlers that forward\<close>

text \<open>
  \<open>AnnotateContext\<close> prepares the context of an outgoing call, where \<open>AnnotateIncomingContext\<close>
  prepares the one of a call in this process. What is left of the body after the decoding is
  discarded, which no later step can tell.
\<close>

record remote_gateway_lib = gateway_lib +
  GW_AnnotateContext :: "string \<Rightarrow> http_request \<Rightarrow> go_err option"

definition request_PayWithCard ::
  "remote_gateway_lib \<Rightarrow>
     (pb_PayWithCardRequest \<Rightarrow> 's \<Rightarrow> (rpc_error + pb_PayWithCardResponse) \<times> 's) \<Rightarrow>
     http_request \<Rightarrow> 's \<Rightarrow> (rpc_error + pb_PayWithCardResponse) \<times> 's" where
  "request_PayWithCard gw client req s =
    (let decoded = GW_DecodeCard gw req in
     case decoded of
       BadBody err \<Rightarrow> (Inl (Status InvalidArgument (error_text err)), s)
     | _ \<Rightarrow>
      (let card = (case decoded of Decoded c \<Rightarrow> c | _ \<Rightarrow> None) in
       case HR_PathParams req ''invoice_number'' of
         None \<Rightarrow> (Inl (Status InvalidArgument ''missing parameter invoice_number''), s)
       | Some val \<Rightarrow>
        (case GW_String gw val of
           Inl err \<Rightarrow> (Inl (Status InvalidArgument
               (''type mismatch, parameter: invoice_number, error: '' @ error_text err)), s)
         | Inr invoiceNumber \<Rightarrow> client \<lparr>
             PayWithCardRequest_Card = card,
             PayWithCardRequest_InvoiceNumber = invoiceNumber\<rparr> s)))"

definition RegisterPayWithCardHandlerClient ::
  "remote_gateway_lib \<Rightarrow>
     (pb_PayWithCardRequest \<Rightarrow> 's \<Rightarrow> (rpc_error + pb_PayWithCardResponse) \<times> 's) \<Rightarrow>
     http_request \<Rightarrow> 's \<Rightarrow> (rpc_error + pb_PayWithCardResponse) \<times> 's" where
  "RegisterPayWithCardHandlerClient gw client req s =
    (case GW_AnnotateContext gw PayWithCard_method req of
       Some err \<Rightarrow> (Inl (RawErr err), s)
     | None \<Rightarrow> request_PayWithCard gw client req s)"

definition RegisterPayWithCardHandler ::
  "remote_gateway_lib \<Rightarrow> 's grpc_channel \<Rightarrow>
     http_request \<Rightarrow> 's \<Rightarrow> (rpc_error + pb_PayWithCardResponse) \<times> 's" where
  "RegisterPayWithCardHandler gw conn =
     RegisterPayWithCardHandlerClient gw (client_PayWithCard conn)"

text \<open>
  Registering from an endpoint: the connection is made first and its error ends the registration;
  the handler comes with the connection that is to be closed when the context is done.
\<close>

definition RegisterPayWithCardHandlerFromEndpoint ::
  "remote_gateway_lib \<Rightarrow> (string \<Rightarrow> ('s, 'c) call) \<Rightarrow> ('c \<Rightarrow> 's grpc_channel) \<Rightarrow> string \<Rightarrow>
     ('s, 'c \<times> (http_request \<Rightarrow> 's \<Rightarrow> (rpc_error + pb_PayWithCardResponse) \<times> 's)) call" where
  "RegisterPayWithCardHandlerFromEndpoint gw new_client channel endpoint s =
    (case new_client endpoint s of
       (Inl err, s1) \<Rightarrow> (Inl err, s1)
     | (Inr conn, s1) \<Rightarrow> (Inr (conn, RegisterPayWithCardHandler gw (channel conn)), s1))"

definition request_Reissue ::
  "remote_gateway_lib \<Rightarrow>
     (pb_ReissuePaymentRequest \<Rightarrow> 's \<Rightarrow> (rpc_error + pb_PaymentRequest) \<times> 's) \<Rightarrow>
     http_request \<Rightarrow> 's \<Rightarrow> (rpc_error + pb_PaymentRequest) \<times> 's" where
  "request_Reissue gw client req s =
    (case GW_DecodeReissue gw req of
       BadBody err \<Rightarrow> (Inl (Status InvalidArgument (error_text err)), s)
     | EndOfBody \<Rightarrow> client empty_reissue s
     | Decoded protoReq \<Rightarrow> client protoReq s)"

definition RegisterReissueHandlerClient ::
  "remote_gateway_lib \<Rightarrow>
     (pb_ReissuePaymentRequest \<Rightarrow> 's \<Rightarrow> (rpc_error + pb_PaymentRequest) \<times> 's) \<Rightarrow>
     http_request \<Rightarrow> 's \<Rightarrow> (rpc_error + pb_PaymentRequest) \<times> 's" where
  "RegisterReissueHandlerClient gw client req s =
    (case GW_AnnotateContext gw Reissue_method req of
       Some err \<Rightarrow> (Inl (RawErr err), s)
     | None \<Rightarrow> request_Reissue gw client req s)"

definition RegisterReissueHandler ::
  "remote_gateway_lib \<Rightarrow> 's grpc_channel \<Rightarrow>
     http_request \<Rightarrow> 's \<Rightarrow> (rpc_error + pb_PaymentRequest) \<times> 's" where
  "RegisterReissueHandler gw conn = RegisterReissueHandlerClient gw (client_Reissue conn)"

definition RegisterReissueHandlerFromEndpoint ::
  "remote_gateway_lib \<Rightarrow> (string \<Rightarrow> ('s, 'c) call) \<Rightarrow> ('c \<Rightarrow> 's grpc_channel) \<Rightarrow> string \<Rightarrow>
     ('s, 'c \<times> (http_request \<Rightarrow> 's \<Rightarrow> (rpc_error + pb_PaymentRequest) \<times> 's)) call" where
  "RegisterReissueHandlerFromEndpoint gw new_client channel endpoint s =
    (case new_client endpoint s of
       (Inl err, s1) \<Rightarrow> (Inl err, s1)
     | (Inr conn, s1) \<Rightarrow> (Inr (conn, RegisterReissueHandler gw (channel conn)), s1))"

section \<open>When the two ways agree\<close>

text \<open>What of an answer in this process another process can be told; the job stays behind.\<close>

fun told_answer :: "pay_result \<times> pay_job option \<times> 's \<Rightarrow> ((rpc_error + pb_PayWithCardResponse) \<times> 's) option"
  where
  "told_answer (Returned resp, job, s) = Some (Inr resp, s)"
| "told_answer (Failed err, job, s) = Some (Inl err, s)"
| "told_answer (Panicked m, job, s) = None"

text \<open>
  A connection to a process that serves both services, and a runtime that prepares the two kinds
  of contexts alike.
\<close>

locale remote_services =
  fixes gw :: remote_gateway_lib
    and cc :: "'s grpc_channel"
    and pay :: "pb_PayWithCardRequest option \<Rightarrow> 's \<Rightarrow> pay_result \<times> pay_job option \<times> 's"
    and reissue :: "pb_ReissuePaymentRequest option \<Rightarrow> 's \<Rightarrow> (rpc_error + pb_PaymentRequest) \<times> 's"
  assumes annotated: "GW_AnnotateContext gw m req = GW_Annotate gw m req"
    and pay_served: "told_answer (pay (Some q) s) = Some r \<Longrightarrow>
      CC_InvokePayWithCard cc PayWithCard_method q s = r"
    and reissue_served: "CC_InvokeReissue cc Reissue_method q2 s = reissue (Some q2) s"
begin

lemma pay_agrees:
  assumes "told_answer (handle_PayWithCard (gateway_lib.truncate gw) pay req s) = Some r"
  shows "RegisterPayWithCardHandler gw cc req s = r"
proof -
  have client: "client_PayWithCard cc q s = r" if "told_answer (pay (Some q) s) = Some r" for q
    using pay_served[OF that] by (simp add: client_PayWithCard_def split: prod.splits sum.splits)
  show ?thesis
    using assms client annotated
    by (auto simp: RegisterPayWithCardHandler_def RegisterPayWithCardHandlerClient_def
        request_PayWithCard_def handle_PayWithCard_def local_request_PayWithCard_def Let_def
        gateway_lib.defs split: option.splits decoded.splits sum.splits)
qed

lemma reissue_agrees:
  "RegisterReissueHandler gw cc req s = handle_Reissue (gateway_lib.truncate gw) reissue req s"
proof -
  have client: "client_Reissue cc q s = reissue (Some q) s" for q s
    using reissue_served by (simp add: client_Reissue_def split: prod.splits sum.splits)
  show ?thesis
    using client annotated
    by (simp add: RegisterReissueHandler_def RegisterReissueHandlerClient_def request_Reissue_def
        handle_Reissue_def local_request_Reissue_def gateway_lib.defs
        split: option.splits decoded.splits)
qed

end

text \<open>A process that serves the services of this model, with its runtime.\<close>

definition loopback ::
  "(pb_PayWithCardRequest option \<Rightarrow> 's \<Rightarrow> pay_result \<times> pay_job option \<times> 's) \<Rightarrow>
     (pb_ReissuePaymentRequest option \<Rightarrow> 's \<Rightarrow> (rpc_error + pb_PaymentRequest) \<times> 's) \<Rightarrow>
     's grpc_channel" where
  "loopback pay reissue = \<lparr>
     CC_InvokePayWithCard = (\<lambda>m q s. case told_answer (pay (Some q) s) of
         Some r \<Rightarrow> r
       | None \<Rightarrow> (Inl (Status Internal ''transport is closing''), s)),
     CC_InvokeReissue = (\<lambda>m q s. reissue (Some q) s)\<rparr>"

definition remote_runtime :: "gateway_lib \<Rightarrow> remote_gateway_lib" where
  "remote_runtime gw = gateway_lib.extend gw \<lparr>GW_AnnotateContext = GW_Annotate gw\<rparr>"

interpretation served: remote_services "remote_runtime gw"
  "loopback (PayWithCard rt pays) (Reissue tsl reis)" "PayWithCard rt pays"
  "Reissue tsl reis" for gw rt pays tsl reis
  by unfold_locales
    (simp_all add: remote_runtime_def loopback_def gateway_lib.defs split: option.splits)

end
