(* ===== verification/IntegrationHelpers.thy ===== *)
theory IntegrationHelpers
  imports RabbitMq "HOL-Library.Multiset"
begin

text \<open>
  integration_test/helpers: what the integration tests are made of. They start the containers, the
  clock and the program, seed the database, bind the queues they listen on and read what the
  program sends. Docker, the drivers, the network and Ginkgo are parameters. A test that calls
  \<open>Fatalf\<close> or \<open>Skip\<close> ends there, after the deferred calls of the functions it is in; a closure
  handed to \<open>DeferCleanup\<close> is a value of \<open>cleanup\<close>. Contexts are left out, as everywhere.
\<close>

section \<open>Tests and the libraries they use\<close>

datatype test_stop = Fatal string | Skipped string

type_synonym ('s, 'a) test_call = "'s \<Rightarrow> (test_stop + 'a) \<times> 's"

type_synonym 'v bson_doc = "string \<Rightarrow> 'v option"

datatype cleanup =
    CloseRabbit nat nat
  | StopClock nat nat
  | TerminateContainer nat

text \<open>The case of a \<open>select\<close> between a channel of deliveries and \<open>time.After\<close> that is taken.\<close>

datatype received = Received delivery | DeliveriesClosed | TimedOut

text \<open>An address of a listener: of TCP with its port, or of another type with the type's name.\<close>

datatype net_addr = TCPAddr "64 word" | OtherAddr string

text \<open>
  Handles are numbers. An operation of Docker may also panic. \<open>T_UrlParse\<close> gives the host and the
  raw query of a URL, \<open>T_HttpPost\<close> the handle and the status of a response.
\<close>

record ('s, 'v) test_lib =
  T_Amqp :: "'s amqp_lib"
  T_AmqpDial :: "string \<Rightarrow> ('s, nat) call"
  T_Consume :: "nat \<Rightarrow> string \<Rightarrow> ConsumeConfig \<Rightarrow> ('s, nat) call"
  T_Select :: "nat \<Rightarrow> int \<Rightarrow> 's \<Rightarrow> received \<times> 's"
  T_DeferCleanup :: "cleanup \<Rightarrow> 's \<Rightarrow> 's"
  T_HttpPost :: "string \<Rightarrow> string \<Rightarrow> 8 word list \<Rightarrow> ('s, nat \<times> int) call"
  T_ReadAll :: "nat \<Rightarrow> ('s, 8 word list) call"
  T_BodyClose :: "nat \<Rightarrow> 's \<Rightarrow> 's"
  T_Listen :: "string \<Rightarrow> string \<Rightarrow> ('s, nat) call"
  T_Addr :: "nat \<Rightarrow> 's \<Rightarrow> net_addr \<times> 's"
  T_ListenerClose :: "nat \<Rightarrow> 's \<Rightarrow> 's"
  T_GrpcNewServer :: "'s \<Rightarrow> nat \<times> 's"
  T_RegisterClock :: "nat \<Rightarrow> 's \<Rightarrow> 's"
  T_GoServe :: "nat \<Rightarrow> nat \<Rightarrow> 's \<Rightarrow> 's"
  T_GracefulStop :: "nat \<Rightarrow> 's \<Rightarrow> 's"
  T_MongoConnect :: "string \<Rightarrow> ('s, nat) call"
  T_MongoDisconnect :: "nat \<Rightarrow> 's \<Rightarrow> 's"
  T_ReadFile :: "string \<Rightarrow> ('s, 8 word list) call"
  T_UnmarshalExtJSON :: "8 word list \<Rightarrow> go_err + 'v bson_doc list"
  T_DeleteMany :: "nat \<times> string \<times> string \<Rightarrow> 's \<Rightarrow> go_err option \<times> 's"
  T_InsertMany :: "nat \<times> string \<times> string \<Rightarrow> 'v bson_doc list \<Rightarrow> 's \<Rightarrow> go_err option \<times> 's"
  T_MongoRun :: "string \<Rightarrow> string \<Rightarrow> string \<Rightarrow> 's \<Rightarrow> (go_err, nat) outcome \<times> 's"
  T_ConnectionString :: "nat \<Rightarrow> 's \<Rightarrow> (go_err, string) outcome \<times> 's"
  T_UrlParse :: "string \<Rightarrow> go_err + string \<times> string"
  T_RabbitRun :: "string \<Rightarrow> string \<Rightarrow> string \<Rightarrow> 's \<Rightarrow> (go_err, nat) outcome \<times> 's"
  T_ContainerHost :: "nat \<Rightarrow> 's \<Rightarrow> (go_err, string) outcome \<times> 's"
  T_MappedPort :: "nat \<Rightarrow> string \<Rightarrow> 's \<Rightarrow> (go_err, 64 word) outcome \<times> 's"
  T_Terminate :: "nat \<Rightarrow> 's \<Rightarrow> 's"
  T_Environ :: "'s \<Rightarrow> string list \<times> 's"
  T_GoRun :: "string list \<Rightarrow> string list \<Rightarrow> 's \<Rightarrow> nat \<times> 's"
  T_CancelRun :: "nat \<Rightarrow> 's \<Rightarrow> 's"

text \<open>What the closures do.\<close>

fun run_cleanup :: "('s, 'v) test_lib \<Rightarrow> cleanup \<Rightarrow> 's \<Rightarrow> 's" where
  "run_cleanup lib (CloseRabbit ch conn) s =
     snd (ConnClose (T_Amqp lib) conn (snd (ChanClose (T_Amqp lib) ch s)))"
| "run_cleanup lib (StopClock server ln) s = T_ListenerClose lib ln (T_GracefulStop lib server s)"
| "run_cleanup lib (TerminateContainer c) s = T_Terminate lib c s"

text \<open>Bytes as text, and \<open>%d\<close> of an \<open>int\<close>.\<close>

definition bytes_text :: "8 word list \<Rightarrow> string" where
  "bytes_text bs = map (\<lambda>b. char_of (unat b)) bs"

definition int_text :: "64 word \<Rightarrow> string" where
  "int_text n = itoa_int (sint n)"

text \<open>
  \<open>time.Duration.String\<close>: hours, minutes and seconds from the first that is not zero, the seconds
  with their fraction; below a second the unit that leaves an integral part.
\<close>

definition fraction_text :: "nat \<Rightarrow> nat \<Rightarrow> string" where
  "fraction_text prec v =
    (let ds = rev (dropWhile (\<lambda>c. c = CHR ''0'') (rev (zero_pad prec (v mod 10 ^ prec)))) in
     if ds = [] then [] else CHR ''.'' # ds)"

definition duration_text :: "int \<Rightarrow> string" where
  "duration_text d =
    (let u = nat \<bar>d\<bar>; sec = u div 10 ^ 9; mins = sec div 60; hours = mins div 60;
         t = (if u = 0 then ''0s''
              else if u < 10 ^ 3 then itoa u @ ''ns''
              else if u < 10 ^ 6 then itoa (u div 10 ^ 3) @ fraction_text 3 u @ [CHR 0xC2, CHR 0xB5, CHR ''s'']
              else if u < 10 ^ 9 then itoa (u div 10 ^ 6) @ fraction_text 6 u @ ''ms''
              else (if hours > 0 then itoa hours @ ''h'' else []) @
                (if mins > 0 then itoa (mins mod 60) @ ''m'' else []) @
                itoa (sec mod 60) @ fraction_text 9 u @ ''s'')
     in if d < 0 then CHR ''-'' # t else t)"

section \<open>dto_generator.go\<close>

text \<open>\<open>time.Date\<close> of a day and an hour, in UTC.\<close>

definition utc_date :: "int \<Rightarrow> int \<Rightarrow> int \<Rightarrow> int \<Rightarrow> go_time" where
  "utc_date y m d h = days_from_civil (y, m, d) * nanos_per_day + h * (3600 * 1000000000)"

definition ValidCreateInvoiceRequest :: "timestamp_lib \<Rightarrow> pb_CreateInvoicePaymentRequest" where
  "ValidCreateInvoiceRequest tsl = \<lparr>
     CreateInvoicePaymentRequest_IdempotencyKey = ''idem-main-it-1'',
     CreateInvoicePaymentRequest_BookingId = ''booking-123'',
     CreateInvoicePaymentRequest_PayerId = ''payer-123'',
     CreateInvoicePaymentRequest_IssuedAt = Some (TimestampNew tsl (utc_date 2026 3 9 12)),
     CreateInvoicePaymentRequest_DueAt = Some (TimestampNew tsl (utc_date 2026 3 10 12)),
     CreateInvoicePaymentRequest_Payer = Some \<lparr>
       Payer_Name = ''John Doe'', Payer_Email = ''john@example.com'',
       Payer_DocumentNumber = ''11122233344'', Payer_BillingAddress = ''Main St''\<rparr>,
     CreateInvoicePaymentRequest_Booking = Some \<lparr>
       BookingSnapshot_CottageName = ''Cabin'', BookingSnapshot_Nights = 2,
       BookingSnapshot_NumberOfGuests = 3,
       BookingSnapshot_ValuePerNight = Some \<lparr>Money_Amount = 10000, Money_Currency = ''USD''\<rparr>\<rparr>,
     CreateInvoicePaymentRequest_Total = Some \<lparr>Money_Amount = 20000, Money_Currency = ''USD''\<rparr>,
     CreateInvoicePaymentRequest_TaxTotal = Some \<lparr>Money_Amount = 1000, Money_Currency = ''USD''\<rparr>,
     CreateInvoicePaymentRequest_DiscountTotal = Some \<lparr>Money_Amount = 0, Money_Currency = ''USD''\<rparr>\<rparr>"

lemma fixture_request_valid:
  assumes "timestamps_ok tsl"
  shows "valid_create_request tsl (Some (ValidCreateInvoiceRequest tsl))"
proof -
  have "timestamp_range (utc_date 2026 3 9 12)" "timestamp_range (utc_date 2026 3 10 12)"
    by (simp_all add: timestamp_range_def utc_date_def days_from_civil_def nanos_per_day_def)
  with assms have "AsTime tsl (Some (TimestampNew tsl (utc_date 2026 3 9 12))) = utc_date 2026 3 9 12"
    "AsTime tsl (Some (TimestampNew tsl (utc_date 2026 3 10 12))) = utc_date 2026 3 10 12"
    by (simp_all add: timestamps_ok_def)
  moreover have "utc_date 2026 3 9 12 < utc_date 2026 3 10 12" by code_simp
  moreover have "\<not> is_blank ''idem-main-it-1''" "\<not> is_blank ''booking-123''" "\<not> is_blank ''payer-123''"
    "\<not> is_blank ''John Doe''" "\<not> is_blank ''john@example.com''" "\<not> is_blank ''11122233344''"
    "\<not> is_blank ''Main St''" "\<not> is_blank ''Cabin''" "\<not> is_blank ''USD''"
    by code_simp+
  ultimately show ?thesis
    by (simp add: valid_create_request_def ValidCreateInvoiceRequest_def valid_payer_def
        valid_booking_def valid_money_def nilsafe)
qed

section \<open>rabbitmq_helper.go\<close>

definition MustDeclareExchange ::
  "('s, 'v) test_lib \<Rightarrow> nat \<Rightarrow> string \<Rightarrow> ('s, unit) test_call" where
  "MustDeclareExchange lib ch name s =
    (case ExchangeDeclare (T_Amqp lib) ch name ''direct''
            \<lparr>Exchange_Name = name, Exchange_Kind = ''direct'', Exchange_Durable = True,
             Exchange_AutoDelete = False, Exchange_Internal = False, Exchange_NoWait = False\<rparr> s of
       (Some err, s1) \<Rightarrow>
         (Inl (Fatal (''declare exchange '' @ go_quote name @ '': '' @ error_text err)), s1)
     | (None, s1) \<Rightarrow> (Inr (), s1))"

definition MustDeclareAndBindQueue ::
  "('s, 'v) test_lib \<Rightarrow> nat \<Rightarrow> string \<Rightarrow> string \<Rightarrow> string \<Rightarrow> ('s, unit) test_call" where
  "MustDeclareAndBindQueue lib ch queueName exchangeName routingKey s =
    (case QueueDeclare (T_Amqp lib) ch
            \<lparr>Queue_Name = queueName, Queue_Durable = False, Queue_AutoDelete = True,
             Queue_Exclusive = False, Queue_NoWait = False\<rparr> s of
       (Inl err, s1) \<Rightarrow>
         (Inl (Fatal (''declare queue '' @ go_quote queueName @ '': '' @ error_text err)), s1)
     | (Inr _, s1) \<Rightarrow>
      (case QueueBind (T_Amqp lib) ch queueName routingKey exchangeName False s1 of
         (Some err, s2) \<Rightarrow>
           (Inl (Fatal (''bind queue '' @ go_quote queueName @ '' to exchange '' @
              go_quote exchangeName @ '' with routing key '' @ go_quote routingKey @ '': '' @
              error_text err)), s2)
       | (None, s2) \<Rightarrow> (Inr (), s2)))"

definition openAMQPChannel ::
  "('s, 'v) test_lib \<Rightarrow> string \<Rightarrow> 64 word \<Rightarrow> ('s, nat \<times> nat) test_call" where
  "openAMQPChannel lib host port s =
    (case T_AmqpDial lib (''amqp://test_user:test_pass@'' @ host @ '':'' @ int_text port @ ''/'') s of
       (Inl err, s1) \<Rightarrow> (Inl (Fatal (''open amqp connection: '' @ error_text err)), s1)
     | (Inr conn, s1) \<Rightarrow>
      (case ConnChannel (T_Amqp lib) conn s1 of
         (Inl err, s2) \<Rightarrow>
           (Inl (Fatal (''open amqp channel: '' @ error_text err)),
            snd (ConnClose (T_Amqp lib) conn s2))
       | (Inr ch, s2) \<Rightarrow> (Inr (conn, ch), s2)))"

definition SetupRabbitmqChannel ::
  "('s, 'v) test_lib \<Rightarrow> string \<Rightarrow> 64 word \<Rightarrow> ('s, nat) test_call" where
  "SetupRabbitmqChannel lib rabbitHost rabbitPort s =
    (case openAMQPChannel lib rabbitHost rabbitPort s of
       (Inl stop, s1) \<Rightarrow> (Inl stop, s1)
     | (Inr (amqpConn, amqpCh), s1) \<Rightarrow>
         (Inr amqpCh, T_DeferCleanup lib (CloseRabbit amqpCh amqpConn) s1))"

text \<open>\<open>Consume(queue, "", true, false, false, false, nil)\<close>.\<close>

definition test_consume :: ConsumeConfig where
  "test_consume = \<lparr>Consume_Consumer = [], Consume_AutoAck = True, Consume_Exclusive = False,
     Consume_NoLocal = False, Consume_NoWait = False\<rparr>"

definition SetupRabbitmqExchangesAndQueues ::
  "('s, 'v) test_lib \<Rightarrow> nat \<Rightarrow> ('s, nat \<times> nat) test_call" where
  "SetupRabbitmqExchangesAndQueues lib ch s =
    (let (t1, s1) = WallClock (T_Amqp lib) s;
         paymentRequestQueue = ''it.payment.request.'' @ itoa_int t1;
         (t2, s2) = WallClock (T_Amqp lib) s1;
         confirmationQueue = ''it.payment.confirmation.'' @ itoa_int t2 in
     case MustDeclareExchange lib ch ''payment.events'' s2 of
       (Inl stop, s3) \<Rightarrow> (Inl stop, s3)
     | (Inr _, s3) \<Rightarrow>
    (case MustDeclareAndBindQueue lib ch paymentRequestQueue ''payment.events'' ''guest.payer-123'' s3 of
       (Inl stop, s4) \<Rightarrow> (Inl stop, s4)
     | (Inr _, s4) \<Rightarrow>
    (case MustDeclareAndBindQueue lib ch confirmationQueue ''payment.events''
            ''booking.booking-123.confirmation'' s4 of
       (Inl stop, s5) \<Rightarrow> (Inl stop, s5)
     | (Inr _, s5) \<Rightarrow>
    (case T_Consume lib ch paymentRequestQueue test_consume s5 of
       (Inl err, s6) \<Rightarrow> (Inl (Fatal (''consume payment request queue: '' @ error_text err)), s6)
     | (Inr paymentRequestDeliveries, s6) \<Rightarrow>
    (case T_Consume lib ch confirmationQueue test_consume s6 of
       (Inl err, s7) \<Rightarrow> (Inl (Fatal (''consume confirmation queue: '' @ error_text err)), s7)
     | (Inr confirmationDeliveries, s7) \<Rightarrow>
         (Inr (paymentRequestDeliveries, confirmationDeliveries), s7))))))"

definition WaitForDelivery ::
  "('s, 'v) test_lib \<Rightarrow> nat \<Rightarrow> int \<Rightarrow> ('s, delivery) test_call" where
  "WaitForDelivery lib deliveries timeout s =
    (case T_Select lib deliveries timeout s of
       (Received d, s1) \<Rightarrow> (Inr d, s1)
     | (DeliveriesClosed, s1) \<Rightarrow> (Inl (Fatal ''deliveries channel closed''), s1)
     | (TimedOut, s1) \<Rightarrow>
         (Inl (Fatal (''timed out waiting for delivery after '' @ duration_text timeout)), s1))"

section \<open>mongo_seed_helper.go\<close>

definition seedCollectionFromFixture ::
  "('s, 'v) test_lib \<Rightarrow> nat \<times> string \<times> string \<Rightarrow> string \<Rightarrow> ('s, unit) test_call" where
  "seedCollectionFromFixture lib collection fixturePath s =
    (case T_ReadFile lib fixturePath s of
       (Inl err, s1) \<Rightarrow>
         (Inl (Fatal (''read fixture '' @ go_quote fixturePath @ '': '' @ error_text err)), s1)
     | (Inr content, s1) \<Rightarrow>
    (case T_UnmarshalExtJSON lib content of
       Inl err \<Rightarrow>
         (Inl (Fatal (''unmarshal fixture '' @ go_quote fixturePath @ '': '' @ error_text err)), s1)
     | Inr rawDocs \<Rightarrow>
    (let docs = map (\<lambda>doc. doc(''_invalid'' := None)) rawDocs;
         name = go_quote (snd (snd collection)) in
     case T_DeleteMany lib collection s1 of
       (Some err, s2) \<Rightarrow>
         (Inl (Fatal (''clear collection '' @ name @ '' before seeding: '' @ error_text err)), s2)
     | (None, s2) \<Rightarrow>
         if docs = [] then (Inr (), s2)
         else
          (case T_InsertMany lib collection docs s2 of
             (Some err, s3) \<Rightarrow>
               (Inl (Fatal (''insert fixture docs into '' @ name @ '': '' @ error_text err)), s3)
           | (None, s3) \<Rightarrow> (Inr (), s3)))))"

definition SeedMongoFromFixtures ::
  "('s, 'v) test_lib \<Rightarrow> string \<Rightarrow> string \<Rightarrow> string \<Rightarrow> string \<Rightarrow> ('s, unit) test_call" where
  "SeedMongoFromFixtures lib mongoHost database invoicesFixturePath receiptsFixturePath s =
    (case T_MongoConnect lib (''mongodb://test_user:test_pass@'' @ mongoHost) s of
       (Inl err, s1) \<Rightarrow> (Inl (Fatal (''connect mongo for fixture seed: '' @ error_text err)), s1)
     | (Inr client, s1) \<Rightarrow>
        (let (r, s2) =
           (case seedCollectionFromFixture lib (client, database, ''invoices'') invoicesFixturePath s1 of
              (Inl stop, s2) \<Rightarrow> (Inl stop, s2)
            | (Inr _, s2) \<Rightarrow>
                seedCollectionFromFixture lib (client, database, ''receipts'') receiptsFixturePath s2)
         in (r, T_MongoDisconnect lib client s2)))"

section \<open>clock_helper.go\<close>

definition fakeClockServer_Now :: "'s runtime \<Rightarrow> 's \<Rightarrow> (rpc_error + pb_TimeEvent) \<times> 's" where
  "fakeClockServer_Now rt s =
    (let (now, s1) = TimestampNow rt s in (Inr \<lparr>TimeEvent_Time = Some now\<rparr>, s1))"

definition startFakeClockServer ::
  "('s, 'v) test_lib \<Rightarrow> ('s, string \<times> 64 word \<times> cleanup) test_call" where
  "startFakeClockServer lib s =
    (case T_Listen lib ''tcp'' ''127.0.0.1:0'' s of
       (Inl err, s1) \<Rightarrow> (Inl (Fatal (''listen fake clock: '' @ error_text err)), s1)
     | (Inr ln, s1) \<Rightarrow>
      (case T_Addr lib ln s1 of
         (OtherAddr ty, s2) \<Rightarrow> (Inl (Fatal (''unexpected addr type: '' @ ty)), s2)
       | (TCPAddr port, s2) \<Rightarrow>
          (let (grpcServer, s3) = T_GrpcNewServer lib s2 in
           (Inr (''127.0.0.1'', port, StopClock grpcServer ln),
            T_GoServe lib grpcServer ln (T_RegisterClock lib grpcServer s3)))))"

definition StartClockEmulator :: "('s, 'v) test_lib \<Rightarrow> ('s, string \<times> 64 word) test_call" where
  "StartClockEmulator lib s =
    (case startFakeClockServer lib s of
       (Inl stop, s1) \<Rightarrow> (Inl stop, s1)
     | (Inr (clockHost, clockPort, stopClock), s1) \<Rightarrow>
         (Inr (clockHost, clockPort), T_DeferCleanup lib stopClock s1))"

section \<open>http_helper.go\<close>

definition PostJSON ::
  "('s, 'v) test_lib \<Rightarrow> string \<Rightarrow> 8 word list \<Rightarrow> int list \<Rightarrow> ('s, 8 word list) test_call" where
  "PostJSON lib endpoint body expectedStatus s =
    (let wantStatus = (case expectedStatus of [] \<Rightarrow> 200 | st # _ \<Rightarrow> st) in
     case T_HttpPost lib endpoint ''application/json'' body s of
       (Inl err, s1) \<Rightarrow> (Inl (Fatal (''post '' @ endpoint @ '': '' @ error_text err)), s1)
     | (Inr (resp, status), s1) \<Rightarrow>
      (case T_ReadAll lib resp s1 of
         (Inl err, s2) \<Rightarrow>
           (Inl (Fatal (''read '' @ endpoint @ '' response: '' @ error_text err)),
            T_BodyClose lib resp s2)
       | (Inr respBody, s2) \<Rightarrow>
           if status \<noteq> wantStatus
           then (Inl (Fatal (''unexpected status from '' @ endpoint @ '': got='' @ itoa_int status @
                  '' want='' @ itoa_int wantStatus @ '' body='' @ bytes_text respBody)),
                 T_BodyClose lib resp s2)
           else (Inr respBody, T_BodyClose lib resp s2)))"

definition FreeTCPPort :: "('s, 'v) test_lib \<Rightarrow> ('s, 64 word) test_call" where
  "FreeTCPPort lib s =
    (case T_Listen lib ''tcp'' ''127.0.0.1:0'' s of
       (Inl err, s1) \<Rightarrow> (Inl (Fatal (''reserve tcp port: '' @ error_text err)), s1)
     | (Inr ln, s1) \<Rightarrow>
      (case T_Addr lib ln s1 of
         (OtherAddr ty, s2) \<Rightarrow>
           (Inl (Fatal (''unexpected addr type: '' @ ty)), T_ListenerClose lib ln s2)
       | (TCPAddr port, s2) \<Rightarrow> (Inr port, T_ListenerClose lib ln s2)))"

section \<open>start_containers_helper.go\<close>

text \<open>
  The deferred \<open>recover\<close> turns a panic into an error and leaves the other results as they were set
  when it came.
\<close>

definition startMongoContainer ::
  "('s, 'v) test_lib \<Rightarrow> 's \<Rightarrow> (nat option \<times> string \<times> go_err option) \<times> 's" where
  "startMongoContainer lib s =
    (let recovered = (\<lambda>m. Some (PlainErr (''failed to start mongo container: '' @ m))) in
     case T_MongoRun lib ''mongo:latest'' ''test_user'' ''test_pass'' s of
       (Panicked m, s1) \<Rightarrow> ((None, [], recovered m), s1)
     | (Failed err, s1) \<Rightarrow> ((None, [], Some err), s1)
     | (Returned container, s1) \<Rightarrow>
      (case T_ConnectionString lib container s1 of
         (Panicked m, s2) \<Rightarrow> ((Some container, [], recovered m), s2)
       | (Failed err, s2) \<Rightarrow> ((None, [], Some err), s2)
       | (Returned uri, s2) \<Rightarrow>
        (case T_UrlParse lib uri of
           Inl err \<Rightarrow> ((None, [], Some err), s2)
         | Inr (uriHost, rawQuery) \<Rightarrow>
             ((Some container,
               (if rawQuery \<noteq> [] then uriHost @ ''/?'' @ rawQuery else uriHost), None), s2))))"

definition startRabbitContainer ::
  "('s, 'v) test_lib \<Rightarrow> 's \<Rightarrow> (nat option \<times> string \<times> 64 word \<times> go_err option) \<times> 's" where
  "startRabbitContainer lib s =
    (let recovered = (\<lambda>m. Some (PlainErr (''failed to start rabbitmq container: '' @ m))) in
     case T_RabbitRun lib ''rabbitmq:3.13'' ''test_user'' ''test_pass'' s of
       (Panicked m, s1) \<Rightarrow> ((None, [], 0, recovered m), s1)
     | (Failed err, s1) \<Rightarrow> ((None, [], 0, Some err), s1)
     | (Returned container, s1) \<Rightarrow>
      (case T_ContainerHost lib container s1 of
         (Panicked m, s2) \<Rightarrow> ((Some container, [], 0, recovered m), s2)
       | (Failed err, s2) \<Rightarrow> ((None, [], 0, Some err), s2)
       | (Returned host, s2) \<Rightarrow>
        (case T_MappedPort lib container ''5672/tcp'' s2 of
           (Panicked m, s3) \<Rightarrow> ((Some container, host, 0, recovered m), s3)
         | (Failed err, s3) \<Rightarrow> ((None, [], 0, Some err), s3)
         | (Returned mappedPort, s3) \<Rightarrow> ((Some container, host, mappedPort, None), s3))))"

text \<open>A container that started without an error is there; its cleanup is deferred next.\<close>

definition StartContainers :: "('s, 'v) test_lib \<Rightarrow> ('s, string \<times> string \<times> 64 word) test_call" where
  "StartContainers lib s =
    (case startMongoContainer lib s of
       ((_, _, Some err), s1) \<Rightarrow>
         (Inl (Skipped (''skipping integration test: failed to start mongo container: '' @
            error_text err)), s1)
     | ((mongoC, mongoHost, None), s1) \<Rightarrow>
      (let s2 = T_DeferCleanup lib (TerminateContainer (the mongoC)) s1 in
       case startRabbitContainer lib s2 of
         ((_, _, _, Some err), s3) \<Rightarrow>
           (Inl (Skipped (''skipping integration test: failed to start rabbitmq container: '' @
              error_text err)), s3)
       | ((rabbitC, rabbitHost, rabbitPort, None), s3) \<Rightarrow>
           (Inr (mongoHost, rabbitHost, rabbitPort),
            T_DeferCleanup lib (TerminateContainer (the rabbitC)) s3)))"

lemma started_containers_are_there:
  "startMongoContainer lib s = ((c, h, None), s') \<Longrightarrow> c \<noteq> None"
  "startRabbitContainer lib s = ((c, h, p, None), s') \<Longrightarrow> c \<noteq> None"
  by (auto simp: startMongoContainer_def startRabbitContainer_def Let_def
      split: outcome.splits prod.splits sum.splits if_splits)

section \<open>application_starter.go\<close>

definition application_env ::
  "64 word \<Rightarrow> string \<Rightarrow> 64 word \<Rightarrow> string \<Rightarrow> string \<Rightarrow> 64 word \<Rightarrow> (string \<times> string) list" where
  "application_env appPort clockHost clockPort mongoHost rabbitHost rabbitPort =
    [(''SERVICE_NAME'', ''payment-simulator''),
     (''VERSION'', ''test''),
     (''SERVICE_HOST'', ''127.0.0.1''),
     (''SERVICE_PORT'', int_text appPort),
     (''READ_HEADER_TIMEOUT_IN_SECONDS'', ''1''),
     (''READ_TIMEOUT_IN_SECONDS'', ''2''),
     (''WRITE_TIMEOUT_IN_SECONDS'', ''2''),
     (''IDLE_TIMEOUT_IN_SECONDS'', ''3''),
     (''CLOCK_EMU_GRPC_URL'', clockHost),
     (''CLOCK_EMU_GRPC_PORT'', int_text clockPort),
     (''MONGO_INITDB_ROOT_USERNAME'', ''test_user''),
     (''MONGO_INITDB_ROOT_PASSWORD'', ''test_pass''),
     (''MONGO_HOST'', mongoHost),
     (''MONGO_DATABASE'', ''test_db''),
     (''RABBITMQ_USERNAME'', ''test_user''),
     (''RABBITMQ_PASSWORD'', ''test_pass''),
     (''RABBITMQ_HOST'', rabbitHost),
     (''RABBITMQ_PORT'', int_text rabbitPort),
     (''PAYMENT_EXCHANGE_NAME'', ''payment.events''),
     (''PAYMENT_EXCHANGE_KIND'', ''direct''),
     (''PAYMENT_PUBLISH_MANDATORY'', ''false''),
     (''PAYMENT_PUBLISH_IMMEDIATE'', ''false''),
     (''INVOICE_QUEUE_NAME'', ''invoice.requests''),
     (''INVOICE_QUEUE_DURABLE'', ''false''),
     (''INVOICE_QUEUE_AUTO_DELETE'', ''true''),
     (''INVOICE_BINDING_EXCHANGE_NAME'', ''payment.events''),
     (''INVOICE_BINDING_ROUTING_KEY'', ''invoice.request''),
     (''INVOICE_CONSUME_CONSUMER'', ''invoice-main-integration''),
     (''INVOICE_CONSUME_AUTO_ACK'', ''false''),
     (''PAYMENT_MAKING_CARD_HOST'', ''http://127.0.0.1''),
     (''FAIL_CHANCE'', ''0''),
     (''OTEL_EXPORTER_OTLP_ENDPOINT'', ''127.0.0.1''),
     (''OTEL_EXPORTER_OTLP_GRPC_PORT'', ''4317''),
     (''OTEL_EXPORTER_OTLP_HEALTH_PORT'', ''13133''),
     (''OTEL_EXPORTER_OTLP_INSECURE'', ''true''),
     (''LOG_LEVEL'', ''0'')]"

text \<open>\<open>SplitN(entry, "=", 2)\<close>, when it gives two parts.\<close>

definition split_entry :: "string \<Rightarrow> (string \<times> string) option" where
  "split_entry entry =
    (case dropWhile (\<lambda>c. c \<noteq> CHR ''='') entry of
       [] \<Rightarrow> None
     | _ # value \<Rightarrow> Some (takeWhile (\<lambda>c. c \<noteq> CHR ''='') entry, value))"

definition entry_of :: "string \<times> string \<Rightarrow> string" where
  "entry_of kv = fst kv @ ''='' @ snd kv"

text \<open>The loop over the base environment, with \<open>result\<close> and \<open>seen\<close>.\<close>

fun env_loop ::
  "(string \<times> string) list \<Rightarrow> string list \<Rightarrow> string list \<Rightarrow> string list \<Rightarrow>
     string list \<times> string list" where
  "env_loop overrides [] result seen = (result, seen)"
| "env_loop overrides (entry # entries) result seen =
    (case split_entry entry of
       None \<Rightarrow> env_loop overrides entries (result @ [entry]) seen
     | Some (key, _) \<Rightarrow>
        (case map_of overrides key of
           Some value \<Rightarrow>
             env_loop overrides entries (result @ [entry_of (key, value)]) (key # seen)
         | None \<Rightarrow> env_loop overrides entries (result @ [entry]) (key # seen)))"

text \<open>The map of overrides is ranged over in the order \<open>visit\<close> gives it.\<close>

definition envWithOverrides ::
  "((string \<times> string) list \<Rightarrow> (string \<times> string) list) \<Rightarrow> string list \<Rightarrow>
     (string \<times> string) list \<Rightarrow> string list" where
  "envWithOverrides visit baseEnv overrides =
    (let (result, seen) = env_loop overrides baseEnv [] [] in
     result @ map entry_of (filter (\<lambda>kv. fst kv \<notin> set seen) (visit overrides)))"

definition ApplicationStart ::
  "('s, 'v) test_lib \<Rightarrow> ((string \<times> string) list \<Rightarrow> (string \<times> string) list) \<Rightarrow>
     64 word \<Rightarrow> string \<Rightarrow> 64 word \<Rightarrow> string \<Rightarrow> string \<Rightarrow> 64 word \<Rightarrow> 's \<Rightarrow> nat \<times> 's" where
  "ApplicationStart lib visit appPort clockHost clockPort mongoHost rabbitHost rabbitPort s =
    (let env = application_env appPort clockHost clockPort mongoHost rabbitHost rabbitPort;
         (environ, s1) = T_Environ lib s in
     T_GoRun lib [''run'', ''../internal''] (envWithOverrides visit environ env) s1)"

text \<open>What the goroutine sends when the command has ended, and the function that ends it.\<close>

definition run_result :: "bool \<Rightarrow> go_err option \<Rightarrow> go_err option" where
  "run_result cancelled err = (if cancelled then None else err)"

definition stop_application :: "('s, 'v) test_lib \<Rightarrow> nat \<Rightarrow> 's \<Rightarrow> 's" where
  "stop_application lib cmd s = T_CancelRun lib cmd s"

section \<open>What a process reads from its environment\<close>

text \<open>Of entries for one variable the last one counts.\<close>

definition process_env :: "string list \<Rightarrow> string \<Rightarrow> string option" where
  "process_env entries = map_of (rev (List.map_filter split_entry entries))"

lemma process_env_simps [simp]:
  "process_env [] = Map.empty"
  "process_env (xs @ ys) = process_env xs ++ process_env ys"
  by (simp_all add: process_env_def map_filter_def)

lemma process_env_single:
  "process_env [e] = (case split_entry e of None \<Rightarrow> Map.empty | Some (k, v) \<Rightarrow> [k \<mapsto> v])"
  by (auto simp: process_env_def map_filter_def split: option.splits)

lemma split_entry_of: "CHR ''='' \<notin> set k \<Longrightarrow> split_entry (entry_of (k, v)) = Some (k, v)"
  by (induction k) (auto simp: split_entry_def entry_of_def split: list.splits)

lemma split_entry_key: "split_entry e = Some (k, v) \<Longrightarrow> CHR ''='' \<notin> set k"
  by (auto simp: split_entry_def split: list.splits dest: set_takeWhileD)

text \<open>The map a base environment becomes when those of its variables that are overridden change.\<close>

definition changed :: "(string \<Rightarrow> string option) \<Rightarrow> (string \<Rightarrow> string option) \<Rightarrow> string \<Rightarrow> string option" where
  "changed over base k =
    (case base k of None \<Rightarrow> None
     | Some v \<Rightarrow> (case over k of None \<Rightarrow> Some v | Some w \<Rightarrow> Some w))"

lemma changed_add: "changed over (a ++ b) = changed over a ++ changed over b"
  by (auto simp: changed_def fun_eq_iff map_add_def split: option.splits)

lemma changed_single:
  "changed over [k \<mapsto> v] = [k \<mapsto> (case over k of None \<Rightarrow> v | Some w \<Rightarrow> w)]"
  by (auto simp: changed_def fun_eq_iff split: option.splits)

text \<open>The entry that the loop writes for one it reads.\<close>

definition loop_entry :: "(string \<times> string) list \<Rightarrow> string \<Rightarrow> string" where
  "loop_entry overrides entry =
    (case split_entry entry of
       None \<Rightarrow> entry
     | Some (key, _) \<Rightarrow>
        (case map_of overrides key of Some value \<Rightarrow> entry_of (key, value) | None \<Rightarrow> entry))"

lemma env_loop_result: "fst (env_loop ov es result seen) = result @ map (loop_entry ov) es"
  by (induction ov es result seen rule: env_loop.induct)
    (auto simp: loop_entry_def split: option.splits)

lemma env_loop_seen:
  "set (snd (env_loop ov es result seen)) = set seen \<union> dom (process_env es)"
proof (induction ov es result seen rule: env_loop.induct)
  case (2 ov e es result seen)
  have "dom (process_env (e # es)) = dom (process_env [e]) \<union> dom (process_env es)"
    using process_env_simps(2)[of "[e]" es] by auto
  with 2 show ?case by (auto simp: process_env_single split: option.splits)
qed simp

lemma loop_entries_read: "process_env (map (loop_entry ov) es) = changed (map_of ov) (process_env es)"
proof (induction es)
  case Nil
  then show ?case by (simp add: changed_def fun_eq_iff)
next
  case (Cons e es)
  have "process_env [loop_entry ov e] = changed (map_of ov) (process_env [e])"
    using split_entry_of split_entry_key[of e]
    by (auto simp: loop_entry_def process_env_single changed_single changed_def fun_eq_iff
        split: option.splits prod.splits)
  with Cons process_env_simps(2)[of "[e]" es]
    process_env_simps(2)[of "[loop_entry ov e]" "map (loop_entry ov) es"]
  show ?case by (simp add: changed_add)
qed

lemma entries_read:
  "(\<And>k v. (k, v) \<in> set kvs \<Longrightarrow> CHR ''='' \<notin> set k) \<Longrightarrow>
     process_env (map entry_of kvs) = map_of (rev kvs)"
proof (induction kvs)
  case (Cons kv kvs)
  obtain k v where kv: "kv = (k, v)" by (cases kv)
  with Cons.prems have "CHR ''='' \<notin> set k" by auto
  then have "process_env [entry_of kv] = [k \<mapsto> v]" by (simp add: kv process_env_single split_entry_of)
  moreover have "process_env (map entry_of kvs) = map_of (rev kvs)" using Cons by auto
  ultimately show ?case
    using process_env_simps(2)[of "[entry_of kv]" "map entry_of kvs"] by (simp add: kv map_of_append)
qed simp

lemma map_of_filter_key:
  "map_of (filter (\<lambda>kv. P (fst kv)) kvs) k = (if P k then map_of kvs k else None)"
  by (induction kvs) auto

lemma map_of_same_entries:
  assumes "distinct (map fst xs)" and "mset ys = mset xs"
  shows "map_of ys = map_of xs"
proof -
  have "mset (map fst ys) = mset (map fst xs)" using assms(2) by simp
  then have "distinct (map fst ys)" using assms(1) by (metis mset_eq_imp_distinct_iff)
  with assms map_of_inject_set[of ys xs] mset_eq_setD[OF assms(2)] show ?thesis by blast
qed

text \<open>
  A process started with the environment the helper makes reads the overrides, and the base
  environment where it is not overridden, in whatever order the overrides are visited.
\<close>

lemma env_with_overrides_reads:
  assumes "distinct (map fst overrides)" and "mset (visit overrides) = mset overrides"
    and "\<And>k v. (k, v) \<in> set overrides \<Longrightarrow> CHR ''='' \<notin> set k"
  shows "process_env (envWithOverrides visit baseEnv overrides) =
    process_env baseEnv ++ map_of overrides"
proof -
  let ?new = "filter (\<lambda>kv. fst kv \<notin> dom (process_env baseEnv)) (visit overrides)"
  have s: "set (visit overrides) = set overrides" using assms(2) by (rule mset_eq_setD)
  have d: "distinct (map fst ?new)"
    using assms(1) mset_eq_imp_distinct_iff[of "map fst (visit overrides)" "map fst overrides"] assms(2)
    by (simp add: distinct_map_filter)
  have new: "map_of (rev ?new) k =
      (if process_env baseEnv k = None then map_of overrides k else None)" for k
  proof -
    have "map_of (rev ?new) = map_of ?new" by (rule map_of_same_entries[OF d]) simp
    moreover have "map_of ?new k =
        (if k \<notin> dom (process_env baseEnv) then map_of (visit overrides) k else None)"
      by (rule map_of_filter_key)
    ultimately show ?thesis unfolding map_of_same_entries[OF assms(1,2)] domIff by simp
  qed
  have "process_env (map entry_of ?new) = map_of (rev ?new)"
    using assms(3) s by (intro entries_read) auto
  moreover have "envWithOverrides visit baseEnv overrides =
      map (loop_entry overrides) baseEnv @ map entry_of ?new"
    using env_loop_result[of overrides baseEnv "[]" "[]"] env_loop_seen[of overrides baseEnv "[]" "[]"]
    by (simp add: envWithOverrides_def case_prod_beta)
  ultimately have read: "process_env (envWithOverrides visit baseEnv overrides) =
      changed (map_of overrides) (process_env baseEnv) ++ map_of (rev ?new)"
    by (simp only: process_env_simps loop_entries_read)
  show ?thesis
  proof
    fix k
    show "process_env (envWithOverrides visit baseEnv overrides) k =
        (process_env baseEnv ++ map_of overrides) k"
      unfolding read map_add_def new
      by (cases "process_env baseEnv k"; cases "map_of overrides k") (simp_all add: changed_def)
  qed
qed

end
