(* ===== verification/Scenario.thy ===== *)
theory Scenario
  imports InvoiceClaims PaymentClaims IntegrationHelpers
begin

text \<open>
  The program's default scenario from one end to the other: a request for an invoice, its payment
  request, the payment by card, the receipt and the confirmation. The invoice service and the
  payment service meet only in the stored invoice and in the number the guest pays for.
\<close>

context app_ports
begin

lemma process_rcpts:
  assumes "processInvoiceDelivery rt tsl cdc ackn (invoice_service_over clk repo cons prod host) dlv s =
    (r, s')"
  shows "rcpts s' = rcpts s"
  using assms
proof (cases rule: process_cases)
  case (undecodable err)
  then show ?thesis using nack_effect(2)[OF undecodable(3)] by simp
next
  case (crashed req m)
  then show ?thesis using generate_no_panic by blast
next
  case (ungenerated req err s1)
  then show ?thesis using generate_quiet[OF ungenerated(2)] nack_effect(2)[OF ungenerated(4)] by simp
next
  case (unsaved req d s1 err s2)
  then show ?thesis
    using generate_quiet[OF unsaved(2)] save_effect(1)[OF unsaved(3)] nack_effect(2)[OF unsaved(5)]
    by simp
next
  case (unpublished req d s1 i s2 err s3)
  then show ?thesis
    using generate_quiet[OF unpublished(2)] save_effect(1)[OF unpublished(3)]
      publish_effect(2)[OF unpublished(4)] nack_effect(2)[OF unpublished(6)] by simp
next
  case (acknowledged req d s1 i s2 u s3 a)
  then show ?thesis
    using generate_quiet[OF acknowledged(2)] save_effect(1)[OF acknowledged(3)]
      publish_effect(2)[OF acknowledged(4)] ack_frame[OF acknowledged(5)] by simp
qed

text \<open>The work of a payment that went through, with what it stores and sends.\<close>

lemma work_done:
  assumes "post_payment_work rt tsl (pay_service chance) (now, resp) s = (Returned (), s')"
  obtains i k d where "receipt_inserted (receipt_of tsl i (Some resp)) (rcpts s) (rcpts s')"
    "d \<in> set (docs s)" "Invoice_InvoiceNumber d = PayWithCardResponse_InvoiceNumber resp"
    "sent s' = sent s @ [confirmation_for tsl k now resp d]"
proof -
  have new: "rcpts s' \<noteq> rcpts s" "sent s' \<noteq> sent s" using post_work_refines(4)[OF assms] by simp_all
  from post_work_refines(3)[OF assms] new
  have "\<exists>i k d. receipt_inserted (receipt_of tsl i (Some resp)) (rcpts s) (rcpts s') \<and> d \<in> set (docs s) \<and>
      Invoice_InvoiceNumber d = PayWithCardResponse_InvoiceNumber resp \<and>
      sent s' = sent s @ [confirmation_for tsl k now resp d]"
    by (elim post_stepE) (simp, simp, blast)
  with that show ?thesis by blast
qed

end

text \<open>The one invoice with the number is the last, and it is the one that is paid.\<close>

lemma status_set_last:
  assumes "status_set n st (ds @ [x]) ds'" and "\<And>d. d \<in> set ds \<Longrightarrow> Invoice_InvoiceNumber d \<noteq> n"
  obtains y where "same_record (x\<lparr>Invoice_Status := st\<rparr>) y" "ds' = ds @ [y]"
proof -
  from assms(1) obtain i d' where i: "i < length (ds @ [x])"
    "Invoice_InvoiceNumber ((ds @ [x]) ! i) = n"
    "same_record (((ds @ [x]) ! i)\<lparr>Invoice_Status := st\<rparr>) d'" "ds' = (ds @ [x])[i := d']"
    by (auto simp: status_set_def)
  have "i = length ds"
  proof (rule ccontr)
    assume "i \<noteq> length ds"
    with i(1) have l: "i < length ds" by simp
    then have "(ds @ [x]) ! i \<in> set ds" by (simp add: nth_append)
    with assms(2) i(2) show False by blast
  qed
  with i that[of d'] show ?thesis by simp
qed

text \<open>What the invoice made of a request says, with the whole of the rest left to the database.\<close>

lemma stored_invoice_fields:
  assumes "same_record (invoice_of tsl (Some req) n now) x"
    and "same_record (x\<lparr>Invoice_Status := st\<rparr>) d"
  shows "Invoice_InvoiceNumber x = n" "Invoice_InvoiceNumber d = n" "Invoice_Status d = st"
    "Invoice_BookingId d = CreateInvoicePaymentRequest_BookingId req"
    "Invoice_PayerId d = CreateInvoicePaymentRequest_PayerId req"
    "Invoice_IdempotencyId d = CreateInvoicePaymentRequest_IdempotencyKey req"
    "Invoice_Total d = Invoice_Total (invoice_of tsl (Some req) n now)"
  using same_record_fields[OF assms(1)] same_record_fields[OF assms(2)]
  by (simp_all add: invoice_of_def)

text \<open>What the scenario of one request leaves behind, with the invoice and the replies it is made of.\<close>

lemma scenario_outcome:
  assumes "app_ports repo rrepo gprd ackn clk rt docs rcpts sent settled"
    and "app_ports repo rrepo prd ackn clk rt docs rcpts sent settled"
    and "unmarshalRequest cdc dlv = Inr req"
    and "processInvoiceDelivery rt tsl cdc ackn (invoice_service_over clk repo cons gprd host) dlv s =
      (Returned (), s1)"
    and "sent s1 = sent s @ [(PaymentRequestMsg p, k)]"
    and "\<forall>d\<in>set (docs s). Invoice_InvoiceNumber d \<noteq> PaymentRequest_InvoiceNumber p"
    and "PayWithCardRequest_InvoiceNumber payment = PaymentRequest_InvoiceNumber p"
    and "PayWithCard rt (payment_service_over chance clk repo rrepo prd) (Some payment) s1 =
      (Returned resp, Some job, s2)"
    and "post_payment_work rt tsl (payment_service_over chance clk repo rrepo prd) job s2 =
      (Returned (), s3)"
  obtains d rc c now n at where
    "p = buildPaymentRequest tsl (invoice_of tsl (Some req) n now) host" "friendly_id ''INV'' now n"
    "k = ''guest.'' @ CreateInvoicePaymentRequest_PayerId req"
    "friendly_id ''RCPT'' at (PayWithCardResponse_ReceiptNumber resp)"
    "docs s3 = docs s @ [d]"
    "rcpts s3 = rcpts s @ [rc]"
    "sent s3 = sent s @
      [(PaymentRequestMsg p, ''guest.'' @ CreateInvoicePaymentRequest_PayerId req),
       (PaymentConfirmationMsg c,
        ''booking.'' @ CreateInvoicePaymentRequest_BookingId req @ ''.confirmation'')]"
    "settled s3 = settled s @ [Acked (DeliveryTag dlv) False]"
    "Invoice_InvoiceNumber d = PaymentRequest_InvoiceNumber p"
    "Invoice_Status d = ''paid''"
    "Invoice_BookingId d = CreateInvoicePaymentRequest_BookingId req"
    "Invoice_PayerId d = CreateInvoicePaymentRequest_PayerId req"
    "PaymentRequest_Total p = Some \<lparr>Money_Amount = doc_Amount (Invoice_Total d),
      Money_Currency = doc_Currency (Invoice_Total d)\<rparr>"
    "Receipt_InvoiceNumber rc = PaymentRequest_InvoiceNumber p"
    "Receipt_ReceiptNumber rc = PayWithCardResponse_ReceiptNumber resp"
    "PaymentConfirmation_InvoiceNumber c = PaymentRequest_InvoiceNumber p"
    "PaymentConfirmation_ReceiptNumber c = PayWithCardResponse_ReceiptNumber resp"
    "PaymentConfirmation_BookingId c = CreateInvoicePaymentRequest_BookingId req"
    "PaymentConfirmation_PayerId c = CreateInvoicePaymentRequest_PayerId req"
proof -
  obtain v now n where inv: "v = invoice_of tsl (Some req) n now" "inserted v (docs s) (docs s1)"
    "sent s1 = sent s @ [request_message tsl host v]"
    "settled s1 = settled s @ [Acked (DeliveryTag dlv) False]" "friendly_id ''INV'' now n"
    using app_ports.acknowledged_delivery[OF assms(1,4)] assms(3) by (metis sum.inject(2))
  then obtain x where x: "same_record v x" "docs s1 = docs s @ [x]" by (auto simp: inserted_def)
  have p: "p = buildPaymentRequest tsl v host" "k = guest_key v"
    using inv(3) assms(5) by (simp_all add: request_message_def)
  have pn: "PaymentRequest_InvoiceNumber p = n"
    by (simp add: p(1) inv(1) buildPaymentRequest_def invoice_of_def)
  have pay: "PayWithCardRequest_GetInvoiceNumber (Some payment) = n"
    using assms(7) pn by (simp add: PayWithCardRequest_GetInvoiceNumber_def)
  note quiet = app_ports.pay_effect(1-3)[OF assms(2,8)]
  obtain at where at: "reply_to (Some payment) PaymentStatus_PAYMENT_STATUS_SUCCEEDED at resp"
    "job = (at, resp)" "status_set n InvoiceStatusPaid (docs s1) (docs s2)"
    using app_ports.pay_replied[OF assms(2,8)] pay by (metis option.distinct(1) option.inject)
  have new: "Invoice_InvoiceNumber d \<noteq> n" if "d \<in> set (docs s)" for d using assms(6) that
    by (simp add: pn)
  obtain y where y: "same_record (x\<lparr>Invoice_Status := InvoiceStatusPaid\<rparr>) y" "docs s2 = docs s @ [y]"
    using status_set_last[OF at(3)[unfolded x(2)] new] by blast
  note f = stored_invoice_fields[OF x(1)[unfolded inv(1)] y(1)]
  note w = assms(9)[unfolded at(2)]
  obtain i k' d where d: "receipt_inserted (receipt_of tsl i (Some resp)) (rcpts s2) (rcpts s3)"
    "d \<in> set (docs s2)" "Invoice_InvoiceNumber d = PayWithCardResponse_InvoiceNumber resp"
    "sent s3 = sent s2 @ [confirmation_for tsl k' at resp d]"
    using app_ports.work_done[OF assms(2) w] by blast
  have rn: "PayWithCardResponse_InvoiceNumber resp = n" using at(1) pay by (simp add: reply_to_def)
  with d(2,3) y(2) new have dy: "d = y" by auto
  obtain rc where rc: "same_receipt (receipt_of tsl i (Some resp)) rc" "rcpts s3 = rcpts s2 @ [rc]"
    using d(1) by (auto simp: receipt_inserted_def)
  then have rcn: "Receipt_InvoiceNumber rc = n"
    "Receipt_ReceiptNumber rc = PayWithCardResponse_ReceiptNumber resp"
    using rn by (auto simp: same_receipt_def receipt_of_def PayWithCardResponse_GetReceiptNumber_def
        PayWithCardResponse_GetInvoiceNumber_def)
  let ?c = "\<lparr>PaymentConfirmation_Id = k', PaymentConfirmation_BookingId = Invoice_BookingId y,
      PaymentConfirmation_PayerId = Invoice_PayerId y,
      PaymentConfirmation_InvoiceNumber = Invoice_InvoiceNumber y,
      PaymentConfirmation_ReceiptNumber = PayWithCardResponse_ReceiptNumber resp,
      PaymentConfirmation_ConfirmedAt = Some (TimestampNew tsl at)\<rparr>"
  show thesis
  proof (rule that[of n now at y rc ?c])
    show "p = buildPaymentRequest tsl (invoice_of tsl (Some req) n now) host"
      using p(1) inv(1) by simp
    show "friendly_id ''RCPT'' at (PayWithCardResponse_ReceiptNumber resp)"
      using at(1) by (simp add: reply_to_def)
    show "docs s3 = docs s @ [y]" "settled s3 = settled s @ [Acked (DeliveryTag dlv) False]"
      using app_ports.post_work_refines(1,2)[OF assms(2) w] y(2) quiet(3) inv(4) by simp_all
    show "rcpts s3 = rcpts s @ [rc]"
      using rc(2) quiet(1) app_ports.process_rcpts[OF assms(1,4)] by simp
    show "PaymentRequest_Total p = Some \<lparr>Money_Amount = doc_Amount (Invoice_Total y),
        Money_Currency = doc_Currency (Invoice_Total y)\<rparr>"
      unfolding f(7) by (simp add: p(1) inv(1) buildPaymentRequest_def)
    show k: "k = ''guest.'' @ CreateInvoicePaymentRequest_PayerId req"
      by (simp add: p(2) inv(1) guest_key_def invoice_of_def)
    show "sent s3 = sent s @
        [(PaymentRequestMsg p, ''guest.'' @ CreateInvoicePaymentRequest_PayerId req),
         (PaymentConfirmationMsg ?c,
          ''booking.'' @ CreateInvoicePaymentRequest_BookingId req @ ''.confirmation'')]"
      using f assms(5) quiet(2) d(4) k by (simp add: dy confirmation_for_def confirmation_key_def)
  qed (use f inv(5) rcn pn in \<open>simp_all add: InvoiceStatusPaid_def\<close>)
qed

text \<open>C7: a request for an invoice is consumed without an error, the guest pays the number of the
  payment request that was sent for it, and the work of the payment succeeds. Then the store has one
  invoice more, of this request and paid, and one receipt, which carries the number the guest was
  told; the guest was sent the payment request and the booking its confirmation, with that receipt
  number; and the delivery was answered once, by an acknowledgement.\<close>

theorem request_to_confirmation:
  assumes "app_ports repo rrepo gprd ackn clk rt docs rcpts sent settled"
    and "app_ports repo rrepo prd ackn clk rt docs rcpts sent settled"
    and "unmarshalRequest cdc dlv = Inr req"
    and "processInvoiceDelivery rt tsl cdc ackn (invoice_service_over clk repo cons gprd host) dlv s =
      (Returned (), s1)"
    and "sent s1 = sent s @ [(PaymentRequestMsg p, k)]"
    and "\<forall>d\<in>set (docs s). Invoice_InvoiceNumber d \<noteq> PaymentRequest_InvoiceNumber p"
    and "PayWithCardRequest_InvoiceNumber payment = PaymentRequest_InvoiceNumber p"
    and "PayWithCard rt (payment_service_over chance clk repo rrepo prd) (Some payment) s1 =
      (Returned resp, Some job, s2)"
    and "post_payment_work rt tsl (payment_service_over chance clk repo rrepo prd) job s2 =
      (Returned (), s3)"
  shows "\<exists>d rc c. docs s3 = docs s @ [d] \<and> rcpts s3 = rcpts s @ [rc] \<and>
    sent s3 = sent s @
      [(PaymentRequestMsg p, ''guest.'' @ CreateInvoicePaymentRequest_PayerId req),
       (PaymentConfirmationMsg c,
        ''booking.'' @ CreateInvoicePaymentRequest_BookingId req @ ''.confirmation'')] \<and>
    settled s3 = settled s @ [Acked (DeliveryTag dlv) False] \<and>
    Invoice_InvoiceNumber d = PaymentRequest_InvoiceNumber p \<and> Invoice_Status d = ''paid'' \<and>
    Invoice_BookingId d = CreateInvoicePaymentRequest_BookingId req \<and>
    Invoice_PayerId d = CreateInvoicePaymentRequest_PayerId req \<and>
    PaymentRequest_Total p = Some \<lparr>Money_Amount = doc_Amount (Invoice_Total d),
      Money_Currency = doc_Currency (Invoice_Total d)\<rparr> \<and>
    Receipt_InvoiceNumber rc = PaymentRequest_InvoiceNumber p \<and>
    Receipt_ReceiptNumber rc = PayWithCardResponse_ReceiptNumber resp \<and>
    PaymentConfirmation_InvoiceNumber c = PaymentRequest_InvoiceNumber p \<and>
    PaymentConfirmation_ReceiptNumber c = PayWithCardResponse_ReceiptNumber resp \<and>
    PaymentConfirmation_BookingId c = CreateInvoicePaymentRequest_BookingId req \<and>
    PaymentConfirmation_PayerId c = CreateInvoicePaymentRequest_PayerId req"
  by (rule scenario_outcome[OF assms]) (intro exI conjI; assumption)

text \<open>
  The scenario of the request the integration tests send, in a world whose next draw fails no
  payment.
\<close>

definition guest_codec :: codec where
  "guest_codec = \<lparr>
     ProtoUnmarshal = (\<lambda>b. if b = [1] then Inr (ValidCreateInvoiceRequest ref_timestamps)
       else Inl (lost ''proto'')),
     JsonUnmarshal = (\<lambda>b. Inl (lost ''json''))\<rparr>"

definition guest_world :: world where
  "guest_world = empty_world\<lparr>world_draws := [50]\<rparr>"

definition guest_pay :: pb_PayWithCardRequest where
  "guest_pay = \<lparr>PayWithCardRequest_Card = Some (card_of ''VISA'' ''4111111111111111''),
     PayWithCardRequest_InvoiceNumber = ''INV-20260115-0f8fad''\<rparr>"

definition guest_reply :: pb_PayWithCardResponse where
  "guest_reply = sample_reply\<lparr>PayWithCardResponse_ReceiptNumber := ''RCPT-20260115-8fad5b'',
     PayWithCardResponse_InvoiceNumber := ''INV-20260115-0f8fad''\<rparr>"

abbreviation guest_asked :: "(go_err, unit) outcome \<times> world" where
  "guest_asked \<equiv> processInvoiceDelivery ref_runtime ref_timestamps guest_codec ref_acknowledger
     ref_invoice_service sample_delivery guest_world"

abbreviation guest_charged :: "pay_result \<times> pay_job option \<times> world" where
  "guest_charged \<equiv> PayWithCard ref_runtime ref_pay_service (Some guest_pay) (snd guest_asked)"

abbreviation guest_confirmed :: "(go_err, unit) outcome \<times> world" where
  "guest_confirmed \<equiv> post_payment_work ref_runtime ref_timestamps ref_pay_service
     (world_now guest_world, guest_reply) (snd (snd guest_charged))"

abbreviation guest_request :: pb_PaymentRequest where
  "guest_request \<equiv> (case world_sent (snd guest_asked) of (PaymentRequestMsg p, k) # ms \<Rightarrow> p)"

lemma guest_runs:
  "guest_asked = (Returned (), snd guest_asked)"
  "\<exists>k. world_sent (snd guest_asked) = [(PaymentRequestMsg guest_request, k)]"
  "PaymentRequest_InvoiceNumber guest_request = ''INV-20260115-0f8fad''"
  "guest_charged = (Returned guest_reply, Some (world_now guest_world, guest_reply), snd (snd guest_charged))"
  "guest_confirmed = (Returned (), snd guest_confirmed)"
proof -
  have "fst guest_asked = Returned ()" by code_simp
  then show "guest_asked = (Returned (), snd guest_asked)" by (metis prod.collapse)
  have "(case world_sent (snd guest_asked) of (PaymentRequestMsg p, k) # ms \<Rightarrow>
      ms = [] \<and> PaymentRequest_InvoiceNumber p = ''INV-20260115-0f8fad'' | _ \<Rightarrow> False)" by code_simp
  then show "\<exists>k. world_sent (snd guest_asked) = [(PaymentRequestMsg guest_request, k)]"
    "PaymentRequest_InvoiceNumber guest_request = ''INV-20260115-0f8fad''"
    by (auto split: list.splits prod.splits proto_message.splits)
  have "(case guest_charged of (r, job, s') \<Rightarrow> r = Returned guest_reply \<and>
      job = Some (world_now guest_world, guest_reply))" by code_simp
  from run_of[OF this] show "guest_charged =
      (Returned guest_reply, Some (world_now guest_world, guest_reply), snd (snd guest_charged))"
    by (metis triple_collapse)
  have "fst guest_confirmed = Returned ()" by code_simp
  then show "guest_confirmed = (Returned (), snd guest_confirmed)" by (metis prod.collapse)
qed

lemma guest_facts:
  "unmarshalRequest guest_codec sample_delivery = Inr (ValidCreateInvoiceRequest ref_timestamps)"
  "\<exists>k. world_sent (snd guest_asked) = world_sent guest_world @ [(PaymentRequestMsg guest_request, k)]"
  "\<forall>d\<in>set (world_invoices guest_world). Invoice_InvoiceNumber d \<noteq>
     PaymentRequest_InvoiceNumber guest_request"
  "PayWithCardRequest_InvoiceNumber guest_pay = PaymentRequest_InvoiceNumber guest_request"
proof -
  show "unmarshalRequest guest_codec sample_delivery = Inr (ValidCreateInvoiceRequest ref_timestamps)"
    by code_simp
  have sent: "world_sent guest_world = []" by (simp add: guest_world_def empty_world_def)
  show "\<exists>k. world_sent (snd guest_asked) =
      world_sent guest_world @ [(PaymentRequestMsg guest_request, k)]"
    using guest_runs(2) unfolding sent by simp
  show "\<forall>d\<in>set (world_invoices guest_world). Invoice_InvoiceNumber d \<noteq>
      PaymentRequest_InvoiceNumber guest_request" by (simp add: guest_world_def empty_world_def)
  show "PayWithCardRequest_InvoiceNumber guest_pay = PaymentRequest_InvoiceNumber guest_request"
    unfolding guest_runs(3) by (simp add: guest_pay_def)
qed

theorem request_to_confirmation_witness:
  "map Invoice_Status (world_invoices (snd guest_confirmed)) = [''paid''] \<and>
   map snd (world_sent (snd guest_confirmed)) = [''guest.payer-123'', ''booking.booking-123.confirmation''] \<and>
   map Receipt_ReceiptNumber (world_receipts (snd guest_confirmed)) = [''RCPT-20260115-8fad5b'']"
proof -
  obtain k where k: "world_sent (snd guest_asked) =
      world_sent guest_world @ [(PaymentRequestMsg guest_request, k)]"
    using guest_facts(2) by blast
  show ?thesis
    using request_to_confirmation[OF ref_app_ports ref_app_ports guest_facts(1) guest_runs(1) k
        guest_facts(3,4) guest_runs(4,5)]
    by (auto simp: guest_world_def empty_world_def ValidCreateInvoiceRequest_def guest_reply_def
        sample_reply_def)
qed

end
