(* ===== verification/TestRig.thy ===== *)
theory TestRig
  imports IntegrationHelpers ClockClient
begin

text \<open>
  What the helpers of the integration tests achieve: the bindings they listen through, the
  collections they seed, the answers they accept and the time their clock tells. The libraries'
  part is stated in two locales, and \<open>lab_lib\<close> is an executable library that keeps them.
\<close>

section \<open>Steps that returned\<close>

lemma test_bindE:
  assumes "(case m of (Inl e, s1) \<Rightarrow> (Inl (f e s1), g e s1) | (Inr x, s1) \<Rightarrow> k x s1) = (Inr y, s')"
  obtains x s1 where "m = (Inr x, s1)" "k x s1 = (Inr y, s')"
  using assms by (auto split: sum.splits prod.splits)

section \<open>Queues and bindings\<close>

text \<open>
  The bindings the broker has, each of a queue, an exchange and a routing key, and the channels of
  deliveries with the queues they consume.
\<close>

locale topology =
  fixes lib :: "('s, 'v) test_lib"
    and bindings :: "'s \<Rightarrow> (string \<times> string \<times> string) list"
    and consuming :: "'s \<Rightarrow> (nat \<times> string) list"
  assumes clock_keeps: "WallClock (T_Amqp lib) s = (t, s') \<Longrightarrow>
      bindings s' = bindings s \<and> consuming s' = consuming s"
    and exchange_keeps: "ExchangeDeclare (T_Amqp lib) ch name kind cfg s = (r, s') \<Longrightarrow>
      bindings s' = bindings s \<and> consuming s' = consuming s"
    and declare_keeps: "QueueDeclare (T_Amqp lib) ch qcfg s = (d, s') \<Longrightarrow>
      bindings s' = bindings s \<and> consuming s' = consuming s"
    and bind_done: "QueueBind (T_Amqp lib) ch q key ex nw s = (None, s') \<Longrightarrow>
      bindings s' = bindings s @ [(q, ex, key)] \<and> consuming s' = consuming s"
    and consume_done: "T_Consume lib ch q ccfg s = (Inr h, s') \<Longrightarrow>
      bindings s' = bindings s \<and> consuming s' = consuming s @ [(h, q)]"
begin

lemma declare_and_bind_done:
  "MustDeclareAndBindQueue lib ch q ex key s = (Inr u, s') \<Longrightarrow>
     bindings s' = bindings s @ [(q, ex, key)] \<and> consuming s' = consuming s"
  by (auto simp: MustDeclareAndBindQueue_def split: sum.splits option.splits prod.splits
      dest!: declare_keeps bind_done)

lemma must_exchange_keeps:
  "MustDeclareExchange lib ch name s = (r, s') \<Longrightarrow>
     bindings s' = bindings s \<and> consuming s' = consuming s"
  by (auto simp: MustDeclareExchange_def split: option.splits prod.splits dest!: exchange_keeps)

lemma setup_listens:
  assumes "SetupRabbitmqExchangesAndQueues lib ch s = (Inr (reqs, confs), s')"
  obtains q1 q2 where
    "bindings s' = bindings s @ [(q1, ''payment.events'', ''guest.payer-123''),
       (q2, ''payment.events'', ''booking.booking-123.confirmation'')]"
    "consuming s' = consuming s @ [(reqs, q1), (confs, q2)]"
proof -
  obtain t1 s1 where t1: "WallClock (T_Amqp lib) s = (t1, s1)" by fastforce
  obtain t2 s2 where t2: "WallClock (T_Amqp lib) s1 = (t2, s2)" by fastforce
  let ?q1 = "''it.payment.request.'' @ itoa_int t1"
  let ?q2 = "''it.payment.confirmation.'' @ itoa_int t2"
  obtain s3 s4 s5 s6 u3 u4 u5 where
    s3: "MustDeclareExchange lib ch ''payment.events'' s2 = (Inr u3, s3)" and
    s4: "MustDeclareAndBindQueue lib ch ?q1 ''payment.events'' ''guest.payer-123'' s3 = (Inr u4, s4)" and
    s5: "MustDeclareAndBindQueue lib ch ?q2 ''payment.events''
      ''booking.booking-123.confirmation'' s4 = (Inr u5, s5)" and
    s6: "T_Consume lib ch ?q1 test_consume s5 = (Inr reqs, s6)" and
    s7: "T_Consume lib ch ?q2 test_consume s6 = (Inr confs, s')"
    using assms unfolding SetupRabbitmqExchangesAndQueues_def t1 t2 Let_def prod.case
    by (elim test_bindE) (simp only: prod.inject sum.inject)
  note steps = clock_keeps[OF t1] clock_keeps[OF t2] must_exchange_keeps[OF s3]
    declare_and_bind_done[OF s4] declare_and_bind_done[OF s5] consume_done[OF s6] consume_done[OF s7]
  from steps show thesis by (intro that[of ?q1 ?q2]) simp_all
qed

end

text \<open>A direct exchange gives a message to the queues bound to it with exactly the message's key.\<close>

definition hears ::
  "(string \<times> string \<times> string) list \<Rightarrow> (nat \<times> string) list \<Rightarrow> string \<Rightarrow> string \<Rightarrow> nat \<Rightarrow> bool" where
  "hears bs cs ex key h \<longleftrightarrow> list_ex (\<lambda>(h', q). h' = h \<and> (q, ex, key) \<in> set bs) cs"

section \<open>Seeded collections\<close>

locale fixture_store =
  fixes lib :: "('s, 'v) test_lib"
    and stored :: "'s \<Rightarrow> string \<times> string \<Rightarrow> 'v bson_doc list"
  assumes connect_keeps: "T_MongoConnect lib uri s = (rc, s') \<Longrightarrow> stored s' = stored s"
    and disconnect_keeps: "stored (T_MongoDisconnect lib c s) = stored s"
    and read_keeps: "T_ReadFile lib path s = (rd, s') \<Longrightarrow> stored s' = stored s"
    and delete_done: "T_DeleteMany lib (c, db, name) s = (None, s') \<Longrightarrow>
      stored s' = (stored s)((db, name) := [])"
    and insert_done: "T_InsertMany lib (c, db, name) ds s = (None, s') \<Longrightarrow>
      stored s' = (stored s)((db, name) := stored s (db, name) @ ds)"
begin

text \<open>Reading a fixture succeeded and gave these documents.\<close>

definition fixture :: "string \<Rightarrow> 'v bson_doc list \<Rightarrow> bool" where
  "fixture path raw \<longleftrightarrow> (\<exists>s d s'. T_ReadFile lib path s = (Inr d, s') \<and>
     T_UnmarshalExtJSON lib d = Inr raw)"

lemma collection_seeded:
  assumes "seedCollectionFromFixture lib (c, db, name) path s = (Inr u, s')"
  obtains raw where "fixture path raw"
    "stored s' = (stored s)((db, name) := map (\<lambda>d. d(''_invalid'' := None)) raw)"
proof -
  obtain d s1 where r: "T_ReadFile lib path s = (Inr d, s1)"
    using assms by (auto simp: seedCollectionFromFixture_def split: sum.splits prod.splits)
  then obtain raw where u: "T_UnmarshalExtJSON lib d = Inr raw"
    using assms by (auto simp: seedCollectionFromFixture_def split: sum.splits)
  then obtain s2 where del: "T_DeleteMany lib (c, db, name) s1 = (None, s2)"
    using assms r
    by (auto simp: seedCollectionFromFixture_def Let_def split: option.splits prod.splits)
  let ?ds = "map (\<lambda>d. d(''_invalid'' := None)) raw"
  have "stored s' = (stored s)((db, name) := ?ds)"
  proof (cases "raw = []")
    case True
    with assms r u del read_keeps[OF r] delete_done[OF del] show ?thesis
      by (simp add: seedCollectionFromFixture_def Let_def)
  next
    case False
    then have "T_InsertMany lib (c, db, name) ?ds s2 = (None, s')"
      using assms r u del
      by (auto simp: seedCollectionFromFixture_def Let_def split: option.splits prod.splits)
    from insert_done[OF this] read_keeps[OF r] delete_done[OF del] show ?thesis by simp
  qed
  moreover have "fixture path raw" using r u by (auto simp: fixture_def)
  ultimately show thesis using that by blast
qed

text \<open>
  A seeding that returns left the two collections with the documents of their fixtures, without the
  field that marks an invalid one, and nothing else changed.
\<close>

lemma seeded_with_fixtures:
  assumes "SeedMongoFromFixtures lib host db ipath rpath s = (Inr u, s')"
  obtains invs recs where "fixture ipath invs" "fixture rpath recs"
    "stored s' = (stored s)
       ((db, ''invoices'') := map (\<lambda>d. d(''_invalid'' := None)) invs,
        (db, ''receipts'') := map (\<lambda>d. d(''_invalid'' := None)) recs)"
proof -
  obtain client s1 s2 s3 where
    c: "T_MongoConnect lib (''mongodb://test_user:test_pass@'' @ host) s = (Inr client, s1)" and
    i: "seedCollectionFromFixture lib (client, db, ''invoices'') ipath s1 = (Inr (), s2)" and
    r: "seedCollectionFromFixture lib (client, db, ''receipts'') rpath s2 = (Inr (), s3)" and
    d: "s' = T_MongoDisconnect lib client s3"
    using assms by (auto simp: SeedMongoFromFixtures_def split: sum.splits prod.splits)
  obtain invs where invs: "fixture ipath invs"
    "stored s2 = (stored s1)((db, ''invoices'') := map (\<lambda>d. d(''_invalid'' := None)) invs)"
    using collection_seeded[OF i] .
  obtain recs where recs: "fixture rpath recs"
    "stored s3 = (stored s2)((db, ''receipts'') := map (\<lambda>d. d(''_invalid'' := None)) recs)"
    using collection_seeded[OF r] .
  from invs recs connect_keeps[OF c] show thesis
    by (intro that[of invs recs]) (simp_all add: d disconnect_keeps)
qed

end

section \<open>Answers and time\<close>

text \<open>A post that returns had the status that was asked for, and its body was closed.\<close>

lemma PostJSON_returns:
  assumes "PostJSON lib endpoint body expected s = (Inr answer, s')"
  obtains resp s1 s2 where
    "T_HttpPost lib endpoint ''application/json'' body s =
      (Inr (resp, if expected = [] then 200 else hd expected), s1)"
    "T_ReadAll lib resp s1 = (Inr answer, s2)" "s' = T_BodyClose lib resp s2"
  using assms
  by (auto simp: PostJSON_def Let_def split: sum.splits prod.splits if_splits list.splits)

text \<open>A port is handed out only when it was bound, and the listener is closed again.\<close>

lemma FreeTCPPort_returns:
  assumes "FreeTCPPort lib s = (Inr p, s')"
  obtains ln s1 s2 where "T_Listen lib ''tcp'' ''127.0.0.1:0'' s = (Inr ln, s1)"
    "T_Addr lib ln s1 = (TCPAddr p, s2)" "s' = T_ListenerClose lib ln s2"
  using assms by (auto simp: FreeTCPPort_def split: sum.splits prod.splits net_addr.splits)

text \<open>
  The services' clock, asked of the fake server, reads the instant of the server's own clock: its
  answer is the one the generated client decodes.
\<close>

lemma clock_reads_fake_server:
  assumes "timestamps_ok tsl" and "timestamp_range t"
    and "TimestampNow rt s = (TimestampNew tsl t, s')"
    and "\<And>h. GrpcInvokeNow lib h s =
      (case fakeClockServer_Now rt s of
         (Inr ev, s1) \<Rightarrow> (Inr ev, s1) | (Inl e, s1) \<Rightarrow> (Inl (LibErr OtherLib ''rpc error''), s1))"
  shows "Clock_Now lib tsl ck s = (Inr t, s')"
  using assms
  by (simp add: Clock_Now_def clockServiceClient_Now_def fakeClockServer_Now_def timestamps_ok_def)

section \<open>A library in memory\<close>

record lab =
  lab_bindings :: "(string \<times> string \<times> string) list"
  lab_consuming :: "(nat \<times> string) list"
  lab_stored :: "string \<times> string \<Rightarrow> string bson_doc list"
  lab_environ :: "string list"
  lab_runs :: "(string list \<times> string list) list"
  lab_cleanups :: "cleanup list"

definition empty_lab :: lab where
  "empty_lab = \<lparr>lab_bindings = [], lab_consuming = [], lab_stored = (\<lambda>_. []),
     lab_environ = [''HOME=/root'', ''PATH=/bin''], lab_runs = [], lab_cleanups = []\<rparr>"

definition lab_amqp :: "lab amqp_lib" where
  "lab_amqp = \<lparr>
     Dial = (\<lambda>uri s. (Inr 0, s)),
     ConnIsClosed = (\<lambda>h s. (False, s)),
     ConnChannel = (\<lambda>h s. (Inr 0, s)),
     ConnClose = (\<lambda>h s. (None, s)),
     ChanIsClosed = (\<lambda>h s. (False, s)),
     ChanClose = (\<lambda>h s. (None, s)),
     ExchangeDeclare = (\<lambda>h n k cfg s. (None, s)),
     QueueDeclare = (\<lambda>h cfg s. (Inr (Queue_Name cfg), s)),
     QueueBind = (\<lambda>h q key ex nw s.
       (None, s\<lparr>lab_bindings := lab_bindings s @ [(q, ex, key)]\<rparr>)),
     PublishWithContext = (\<lambda>h ex key mand imm pub s. (None, s)),
     ConsumeWithContext = (\<lambda>h q cfg s. (Inr [], s)),
     SleepFor = (\<lambda>d s. s),
     WallClock = (\<lambda>s. (1773057600 * 1000000000 + int (length (lab_bindings s)), s)),
     Marshal = (\<lambda>m. Inr []),
     TraceHeaders = (\<lambda>s. None)\<rparr>"

text \<open>Its fixtures: one document, which is marked as invalid.\<close>

definition lab_lib :: "(lab, string) test_lib" where
  "lab_lib = \<lparr>
     T_Amqp = lab_amqp,
     T_AmqpDial = (\<lambda>uri s. (Inr 0, s)),
     T_Consume = (\<lambda>ch q cfg s. let h = length (lab_consuming s) in
       (Inr h, s\<lparr>lab_consuming := lab_consuming s @ [(h, q)]\<rparr>)),
     T_Select = (\<lambda>h d s. (TimedOut, s)),
     T_DeferCleanup = (\<lambda>c s. s\<lparr>lab_cleanups := c # lab_cleanups s\<rparr>),
     T_HttpPost = (\<lambda>url ct body s. (Inr (0, 200), s)),
     T_ReadAll = (\<lambda>h s. (Inr [], s)),
     T_BodyClose = (\<lambda>h s. s),
     T_Listen = (\<lambda>net addr s. (Inr 0, s)),
     T_Addr = (\<lambda>ln s. (TCPAddr 40001, s)),
     T_ListenerClose = (\<lambda>ln s. s),
     T_GrpcNewServer = (\<lambda>s. (0, s)),
     T_RegisterClock = (\<lambda>srv s. s),
     T_GoServe = (\<lambda>srv ln s. s),
     T_GracefulStop = (\<lambda>srv s. s),
     T_MongoConnect = (\<lambda>uri s. (Inr 0, s)),
     T_MongoDisconnect = (\<lambda>c s. s),
     T_ReadFile = (\<lambda>path s. (Inr [], s)),
     T_UnmarshalExtJSON = (\<lambda>d. Inr [[''_id'' \<mapsto> ''1'', ''_invalid'' \<mapsto> ''x'']]),
     T_DeleteMany = (\<lambda>coll s.
       (None, s\<lparr>lab_stored := (lab_stored s)(snd coll := [])\<rparr>)),
     T_InsertMany = (\<lambda>coll ds s.
       (None, s\<lparr>lab_stored := (lab_stored s)(snd coll := lab_stored s (snd coll) @ ds)\<rparr>)),
     T_MongoRun = (\<lambda>img u p s. (Returned 0, s)),
     T_ConnectionString = (\<lambda>c s. (Returned ''mongodb://localhost:27017/'', s)),
     T_UrlParse = (\<lambda>url. Inr (''localhost:27017'', [])),
     T_RabbitRun = (\<lambda>img u p s. (Returned 1, s)),
     T_ContainerHost = (\<lambda>c s. (Returned ''localhost'', s)),
     T_MappedPort = (\<lambda>c p s. (Returned 5672, s)),
     T_Terminate = (\<lambda>c s. s),
     T_Environ = (\<lambda>s. (lab_environ s, s)),
     T_GoRun = (\<lambda>args env s. (length (lab_runs s), s\<lparr>lab_runs := lab_runs s @ [(args, env)]\<rparr>)),
     T_CancelRun = (\<lambda>cmd s. s)\<rparr>"

interpretation lab: topology lab_lib lab_bindings lab_consuming
  by unfold_locales (auto simp: lab_lib_def lab_amqp_def Let_def)

interpretation lab_db: fixture_store lab_lib lab_stored
  by unfold_locales (auto simp: lab_lib_def)

text \<open>Seeding it leaves both collections with the document, without the mark.\<close>

lemma lab_seeded:
  "(case SeedMongoFromFixtures lab_lib ''h'' ''test_db'' ''i'' ''r'' empty_lab of
      (Inr _, s) \<Rightarrow> lab_stored s (''test_db'', ''invoices'') = [[''_id'' \<mapsto> ''1'']] \<and>
        lab_stored s (''test_db'', ''receipts'') = [[''_id'' \<mapsto> ''1'']]
    | _ \<Rightarrow> False)"
  by (simp add: SeedMongoFromFixtures_def seedCollectionFromFixture_def lab_lib_def empty_lab_def
      Let_def)

end
