(* ===== verification/IntegrationStart.thy ===== *)
theory IntegrationStart
  imports TestRig ConfigClaims
begin

text \<open>
  What the program makes of the environment the integration tests start it with.
\<close>

section \<open>The environment the helper starts the program with\<close>

text \<open>The variables of the program that the helper leaves to the base environment and to the defaults.\<close>

definition left_to_defaults :: "string list" where
  "left_to_defaults =
    [''PAYMENT_EXCHANGE_DURABLE'', ''PAYMENT_EXCHANGE_AUTO_DELETE'', ''PAYMENT_EXCHANGE_INTERNAL'',
     ''PAYMENT_EXCHANGE_NO_WAIT'', ''GUEST_COMMUNICATION_EXCHANGE_DURABLE'',
     ''GUEST_COMMUNICATION_EXCHANGE_AUTO_DELETE'', ''GUEST_COMMUNICATION_EXCHANGE_INTERNAL'',
     ''GUEST_COMMUNICATION_EXCHANGE_NO_WAIT'', ''GUEST_COMMUNICATION_PUBLISH_MANDATORY'',
     ''GUEST_COMMUNICATION_PUBLISH_IMMEDIATE'', ''INVOICE_QUEUE_EXCLUSIVE'', ''INVOICE_QUEUE_NO_WAIT'',
     ''INVOICE_BINDING_NO_WAIT'', ''INVOICE_CONSUME_EXCLUSIVE'', ''INVOICE_CONSUME_NO_LOCAL'',
     ''INVOICE_CONSUME_NO_WAIT'', ''MONGO_REPLICA_SET'', ''MONGO_CONNECTION_TIMEOUT_IN_SECONDS'',
     ''MONGO_SERVER_SELECTION_TIMEOUT_IN_SECONDS'', ''MONGO_PING_TIMEOUT_IN_SECONDS'',
     ''MONGO_STARTUP_TIMEOUT_IN_SECONDS'', ''MONGO_MAX_CONN_IDLE_TIME_IN_SECONDS'',
     ''MONGO_MAX_POOL_SIZE'', ''MONGO_MIN_POOL_SIZE'', ''MONGO_RETRY_WRITES'', ''INVOICE_COLLECTION'',
     ''RECEIPT_COLLECTION'', ''OTEL_SHUTDOWN_TIMEOUT_IN_SECONDS'']"

text \<open>The configuration of the program, for a guest exchange \<open>gn\<close> of the kind \<open>gk\<close>.\<close>

definition integration_configs ::
  "64 word \<Rightarrow> string \<Rightarrow> 64 word \<Rightarrow> string \<Rightarrow> string \<Rightarrow> 64 word \<Rightarrow> string \<Rightarrow> string \<Rightarrow> Configs" where
  "integration_configs appPort clockHost clockPort mongoHost rabbitHost rabbitPort gn gk = \<lparr>
     Cfg_App = \<lparr>App_ServiceName = ''payment-simulator'', App_Version = ''test'',
       App_LogLevel = 0, App_Server = \<lparr>Server_Host = ''127.0.0.1'', Server_Port = appPort,
         Server_ReadHeaderTimeoutInSeconds = 1, Server_ReadTimeoutInSeconds = 2,
         Server_WriteTimeoutInSeconds = 2, Server_IdleTimeoutInSeconds = 3\<rparr>\<rparr>,
     Cfg_Services = \<lparr>Clock_GrpcHost = clockHost, Clock_GrpcPort = clockPort,
       Card_Host = ''http://127.0.0.1'', Card_FailChance = 0\<rparr>,
     Cfg_Mongo = \<lparr>Mongo_Username = ''test_user'', Mongo_Password = ''test_pass'',
       Mongo_Host = mongoHost, Mongo_Database = ''test_db'', Mongo_ReplicaSet = [],
       Mongo_ConnectionTimeoutInSeconds = 10, Mongo_ServerSelectionTimeoutInSeconds = 10,
       Mongo_PingTimeoutInSeconds = 5, Mongo_StartupTimeoutInSeconds = 10,
       Mongo_MaxConnIdleTimeInSeconds = 60, Mongo_MaxPoolSize = 100, Mongo_MinPoolSize = 0,
       Mongo_RetryWrites = True, Mongo_InvoiceCollection = ''Invoice'',
       Mongo_ReceiptCollection = ''Receipt''\<rparr>,
     Cfg_RabbitMq = \<lparr>Rabbit_Username = ''test_user'', Rabbit_Password = ''test_pass'',
       Rabbit_Host = rabbitHost, Rabbit_Port = rabbitPort\<rparr>,
     Cfg_Publishers = \<lparr>PaymentExchange = default_exchange ''payment.events'' ''direct'',
       PaymentPublish = default_publish, GuestCommunicationExchange = default_exchange gn gk,
       GuestCommunicationPublish = default_publish\<rparr>,
     Cfg_Consumers = \<lparr>
       InvoiceQueue = \<lparr>Queue_Name = ''invoice.requests'', Queue_Durable = False,
         Queue_AutoDelete = True, Queue_Exclusive = False, Queue_NoWait = False\<rparr>,
       InvoiceBinding = \<lparr>Binding_ExchangeName = ''payment.events'',
         Binding_RoutingKey = ''invoice.request'', Binding_NoWait = False\<rparr>,
       InvoiceConsume = \<lparr>Consume_Consumer = ''invoice-main-integration'', Consume_AutoAck = False,
         Consume_Exclusive = False, Consume_NoLocal = False, Consume_NoWait = False\<rparr>\<rparr>,
     Cfg_Telemetry = \<lparr>OTLP_Endpoint = ''127.0.0.1'', OTLP_GrpcPort = 4317,
       OTLP_HealthPort = 13133, OTLP_Insecure = True, OTLP_ShutdownTimeoutInSeconds = 15\<rparr>\<rparr>"

text \<open>A port as the system hands one out.\<close>

definition real_port :: "64 word \<Rightarrow> bool" where
  "real_port p \<longleftrightarrow> 0 < sint p \<and> sint p < 65536"

lemma real_port_text:
  assumes "real_port p"
  shows "int_text p = itoa (nat (sint p))" "nat (sint p) < 2 ^ 31"
    "word_of_nat (nat (sint p)) = p"
  using assms by (auto simp: real_port_def int_text_def itoa_int_def nat_less_iff)

text \<open>The variables the helper sets.\<close>

definition helper_variables :: "string list" where
  "helper_variables =
    [''SERVICE_NAME'', ''VERSION'', ''SERVICE_HOST'',
     ''SERVICE_PORT'', ''READ_HEADER_TIMEOUT_IN_SECONDS'', ''READ_TIMEOUT_IN_SECONDS'',
     ''WRITE_TIMEOUT_IN_SECONDS'', ''IDLE_TIMEOUT_IN_SECONDS'', ''CLOCK_EMU_GRPC_URL'',
     ''CLOCK_EMU_GRPC_PORT'', ''MONGO_INITDB_ROOT_USERNAME'', ''MONGO_INITDB_ROOT_PASSWORD'',
     ''MONGO_HOST'', ''MONGO_DATABASE'', ''RABBITMQ_USERNAME'',
     ''RABBITMQ_PASSWORD'', ''RABBITMQ_HOST'', ''RABBITMQ_PORT'',
     ''PAYMENT_EXCHANGE_NAME'', ''PAYMENT_EXCHANGE_KIND'', ''PAYMENT_PUBLISH_MANDATORY'',
     ''PAYMENT_PUBLISH_IMMEDIATE'', ''INVOICE_QUEUE_NAME'', ''INVOICE_QUEUE_DURABLE'',
     ''INVOICE_QUEUE_AUTO_DELETE'', ''INVOICE_BINDING_EXCHANGE_NAME'', ''INVOICE_BINDING_ROUTING_KEY'',
     ''INVOICE_CONSUME_CONSUMER'', ''INVOICE_CONSUME_AUTO_ACK'', ''PAYMENT_MAKING_CARD_HOST'',
     ''FAIL_CHANCE'', ''OTEL_EXPORTER_OTLP_ENDPOINT'', ''OTEL_EXPORTER_OTLP_GRPC_PORT'',
     ''OTEL_EXPORTER_OTLP_HEALTH_PORT'', ''OTEL_EXPORTER_OTLP_INSECURE'', ''LOG_LEVEL'']"

lemma helper_variables: "map fst (application_env ap ch cp mh rh rp) = helper_variables"
  by (simp add: application_env_def helper_variables_def)

lemma helper_variables_distinct: "distinct helper_variables"
  by code_simp

lemma helper_variables_plain: "list_all (\<lambda>k. CHR ''='' \<notin> set k) helper_variables"
  by code_simp

lemma helper_leaves:
  "list_all (\<lambda>k. k \<notin> set helper_variables) left_to_defaults"
  "''GUEST_COMMUNICATION_EXCHANGE_NAME'' \<notin> set helper_variables"
  "''GUEST_COMMUNICATION_EXCHANGE_KIND'' \<notin> set helper_variables"
  by code_simp+

lemma application_env_keys:
  "distinct (map fst (application_env ap ch cp mh rh rp))"
  "(k, v) \<in> set (application_env ap ch cp mh rh rp) \<Longrightarrow> CHR ''='' \<notin> set k"
  using helper_variables_distinct helper_variables_plain helper_variables[of ap ch cp mh rh rp]
  by (auto simp: list_all_iff) (metis fst_conv image_eqI list.set_map)

lemma small_numerals: "itoa 1 = ''1''" "itoa 2 = ''2''" "itoa 3 = ''3''"
  by (simp_all add: itoa.simps digit_char_def char_of_def bit_simps)

context env_library
begin

text \<open>What a field reads when its variable is set although it has a default.\<close>

lemma read_set:
  "vars k = Some v \<Longrightarrow> v \<noteq> [] \<Longrightarrow> EnvString lib (default_var k d) = Inr v"
  "vars k = Some (itoa n) \<Longrightarrow> n < 2 ^ 31 \<Longrightarrow> EnvInt lib (required_default_var k d) = Inr (word_of_nat n)"
  "vars k = Some ''true'' \<Longrightarrow> EnvBool lib (default_var k d) = Inr True"
  "vars k = Some ''false'' \<Longrightarrow> EnvBool lib (default_var k d) = Inr False"
  "vars k = Some (int_text p) \<Longrightarrow> real_port p \<Longrightarrow> EnvInt lib (required_var k) = Inr p"
  using string_text[of "default_var k d"] int_text[of "required_default_var k d" n]
    bool_true[of "default_var k d"] bool_false[of "default_var k d"]
    int_text[of "required_var k" "nat (sint p)"] real_port_text[of p]
  by (simp_all add: env_tag_defs env_text_def)

lemmas read_set_numbers =
  read_set(2)[where n = 0, unfolded numerals] read_set(2)[where n = 1, unfolded small_numerals]
  read_set(2)[where n = 2, unfolded small_numerals] read_set(2)[where n = 3, unfolded small_numerals]
  read_int(1)[where n = 0, unfolded numerals]

text \<open>The two kinds of variables, one equation for each.\<close>

lemma integration_vars:
  assumes "vars = base ++ map_of (application_env ap ch cp mh rh rp)"
    and "\<forall>k\<in>set left_to_defaults. base k = None"
  shows "list_all (\<lambda>(k, v). vars k = Some v) (application_env ap ch cp mh rh rp)"
    and "list_all (\<lambda>k. vars k = None) left_to_defaults"
    and "vars ''GUEST_COMMUNICATION_EXCHANGE_NAME'' = base ''GUEST_COMMUNICATION_EXCHANGE_NAME''"
    and "vars ''GUEST_COMMUNICATION_EXCHANGE_KIND'' = base ''GUEST_COMMUNICATION_EXCHANGE_KIND''"
proof -
  let ?env = "application_env ap ch cp mh rh rp"
  have given: "vars k = (case map_of ?env k of Some v \<Rightarrow> Some v | None \<Rightarrow> base k)" for k
    by (simp add: assms(1) map_add_def)
  show "list_all (\<lambda>(k, v). vars k = Some v) ?env"
    using application_env_keys(1) by (auto simp: list_all_iff given)
  have none: "map_of ?env k = None" if "k \<notin> set helper_variables" for k
    using that helper_variables[of ap ch cp mh rh rp] by (metis list.set_map map_of_eq_None_iff)
  show "list_all (\<lambda>k. vars k = None) left_to_defaults"
    using assms(2) helper_leaves(1) by (simp add: list_all_iff given none)
  show "vars ''GUEST_COMMUNICATION_EXCHANGE_NAME'' = base ''GUEST_COMMUNICATION_EXCHANGE_NAME''"
    "vars ''GUEST_COMMUNICATION_EXCHANGE_KIND'' = base ''GUEST_COMMUNICATION_EXCHANGE_KIND''"
    using none[OF helper_leaves(2)] none[OF helper_leaves(3)] by (simp_all add: given)
qed

lemma integration_structs:
  assumes v: "vars = base ++ map_of (application_env ap ch cp mh rh rp)"
    and left: "\<forall>k\<in>set left_to_defaults. base k = None"
    and hosts: "ch \<noteq> []" "mh \<noteq> []" "rh \<noteq> []"
    and ports: "real_port ap" "real_port cp" "real_port rp"
    and cfg: "cfg = integration_configs ap ch cp mh rh rp gn gk"
  shows "parse_AppConfig lib = Inr (Cfg_App cfg)"
    and "parse_Services lib = Inr (Cfg_Services cfg)"
    and "parse_MongoConfig lib = Inr (Cfg_Mongo cfg)"
    and "parse_TelemetryConfig lib = Inr (Cfg_Telemetry cfg)"
    and "parse_ExchangeConfig lib ''PAYMENT_EXCHANGE_'' =
      Inr (default_exchange ''payment.events'' ''direct'')"
    and "parse_PublishConfig lib ''PAYMENT_PUBLISH_'' = Inr default_publish"
    and "parse_PublishConfig lib ''GUEST_COMMUNICATION_PUBLISH_'' = Inr default_publish"
    and "parse_QueueConfig lib ''INVOICE_QUEUE_'' = Inr (InvoiceQueue (Cfg_Consumers cfg))"
    and "parse_BindingConfig lib ''INVOICE_BINDING_'' = Inr (InvoiceBinding (Cfg_Consumers cfg))"
    and "parse_ConsumeConfig lib ''INVOICE_CONSUME_'' = Inr (InvoiceConsume (Cfg_Consumers cfg))"
    and "base ''GUEST_COMMUNICATION_EXCHANGE_NAME'' = Some gn \<Longrightarrow>
      base ''GUEST_COMMUNICATION_EXCHANGE_KIND'' = Some gk \<Longrightarrow> gn \<noteq> [] \<Longrightarrow> gk \<noteq> [] \<Longrightarrow>
      parse_ExchangeConfig lib ''GUEST_COMMUNICATION_EXCHANGE_'' = Inr (default_exchange gn gk)"
proof -
  note set = integration_vars(1)[OF v left, unfolded application_env_def, simplified]
  note unset = integration_vars(2)[OF v left, unfolded left_to_defaults_def, simplified]
  note guest = integration_vars(3,4)[OF v left]
  note facts = reads read_set read_set_numbers set unset hosts ports cfg
  show "parse_AppConfig lib = Inr (Cfg_App cfg)"
    by (simp add: parse_AppConfig_def parse_ServerConfig_def facts integration_configs_def)
  show "parse_Services lib = Inr (Cfg_Services cfg)"
    by (simp add: parse_Services_def facts integration_configs_def)
  show "parse_MongoConfig lib = Inr (Cfg_Mongo cfg)"
    by (simp add: parse_MongoConfig_def facts integration_configs_def)
  show "parse_TelemetryConfig lib = Inr (Cfg_Telemetry cfg)"
    by (simp add: parse_TelemetryConfig_def facts integration_configs_def)
  show "parse_ExchangeConfig lib ''PAYMENT_EXCHANGE_'' =
      Inr (default_exchange ''payment.events'' ''direct'')"
    by (simp add: parse_ExchangeConfig_def facts default_exchange_def)
  show "parse_PublishConfig lib ''PAYMENT_PUBLISH_'' = Inr default_publish"
    "parse_PublishConfig lib ''GUEST_COMMUNICATION_PUBLISH_'' = Inr default_publish"
    by (simp_all add: parse_PublishConfig_def facts default_publish_def)
  show "parse_QueueConfig lib ''INVOICE_QUEUE_'' = Inr (InvoiceQueue (Cfg_Consumers cfg))"
    by (simp add: parse_QueueConfig_def facts integration_configs_def)
  show "parse_BindingConfig lib ''INVOICE_BINDING_'' = Inr (InvoiceBinding (Cfg_Consumers cfg))"
    by (simp add: parse_BindingConfig_def facts integration_configs_def)
  show "parse_ConsumeConfig lib ''INVOICE_CONSUME_'' = Inr (InvoiceConsume (Cfg_Consumers cfg))"
    by (simp add: parse_ConsumeConfig_def facts integration_configs_def)
  show "parse_ExchangeConfig lib ''GUEST_COMMUNICATION_EXCHANGE_'' = Inr (default_exchange gn gk)"
    if "base ''GUEST_COMMUNICATION_EXCHANGE_NAME'' = Some gn"
      "base ''GUEST_COMMUNICATION_EXCHANGE_KIND'' = Some gk" "gn \<noteq> []" "gk \<noteq> []"
    using that by (simp add: parse_ExchangeConfig_def facts guest default_exchange_def)
qed

lemma integration_loaded:
  assumes "vars = base ++ map_of (application_env ap ch cp mh rh rp)"
    and "\<forall>k\<in>set left_to_defaults. base k = None"
    and "ch \<noteq> []" "mh \<noteq> []" "rh \<noteq> []" and "real_port ap" "real_port cp" "real_port rp"
    and guest: "base ''GUEST_COMMUNICATION_EXCHANGE_NAME'' = Some gn" "gn \<noteq> []"
      "base ''GUEST_COMMUNICATION_EXCHANGE_KIND'' = Some gk" "gk \<noteq> []"
  shows "LoadConfigs lib = Inr (integration_configs ap ch cp mh rh rp gn gk)"
proof -
  let ?cfg = "integration_configs ap ch cp mh rh rp gn gk"
  have cfg: "?cfg = ?cfg" ..
  note structs = integration_structs[OF assms(1-8) cfg]
  note set = integration_vars(1)[OF assms(1,2), unfolded application_env_def, simplified]
  have "parse_RabbitMqConfig lib =
      Inr (Cfg_RabbitMq ?cfg, Cfg_Publishers ?cfg, Cfg_Consumers ?cfg)"
    using structs(5-10) structs(11)[OF guest(1,3,2,4)] assms(5)
    by (simp add: parse_RabbitMqConfig_def reads read_set set assms(8) integration_configs_def)
  with structs(1-4) show ?thesis by (simp add: LoadConfigs_def parse_Configs_def)
qed

end

lemma integration_texts:
  "\<not> is_blank ''127.0.0.1''" "\<not> is_blank ''http://127.0.0.1''" "\<not> is_blank ''test_user''"
  "\<not> is_blank ''test_pass''" "\<not> is_blank ''test_db''" "\<not> is_blank ''payment-simulator''"
  by code_simp+

text \<open>The configuration passes every check the constructors make of it.\<close>

definition starts_with :: "'w libraries \<Rightarrow> Configs \<Rightarrow> bool" where
  "starts_with libs cfg \<longleftrightarrow> Validate (mongo_checks (Cfg_Mongo cfg)) = None \<and>
     Validate (rabbit_config_checks (Cfg_RabbitMq cfg)) = None \<and>
     Validate (clock_checks (Cfg_Services cfg)) = None \<and>
     (\<forall>cm. \<exists>svcs svr. app_Init libs cfg cm = Inr svcs \<and> transport_Init cfg svcs = Inr svr)"

lemma integration_starts:
  assumes "\<not> is_blank ch" "\<not> is_blank mh" "\<not> is_blank rh"
    and "real_port ap" "real_port cp" "real_port rp"
  shows "starts_with libs (integration_configs ap ch cp mh rh rp gn gk)"
  unfolding starts_with_def
proof (intro conjI allI)
  let ?cfg = "integration_configs ap ch cp mh rh rp gn gk"
  show "Validate (mongo_checks (Cfg_Mongo ?cfg)) = None"
    "Validate (rabbit_config_checks (Cfg_RabbitMq ?cfg)) = None"
    "Validate (clock_checks (Cfg_Services ?cfg)) = None"
    using assms
    by (simp_all add: mongo_checks_def rabbit_config_checks_def clock_checks_def validator_simps
        integration_configs_def integration_texts real_port_def)
  show "\<exists>svcs svr. app_Init libs ?cfg cm = Inr svcs \<and> transport_Init ?cfg svcs = Inr svr" for cm
    using assms
    by (simp add: app_Init_def transport_Init_def NewPaymentMakingServer_def
        NewPaymentReissueService_def NewInvoiceService_def NewHttpServer_def http_server_checks_def
        Let_def validated validator_simps integration_configs_def integration_texts real_port_def)
qed

text \<open>C40: the program the integration tests start reads the helper's variables whatever the base
  environment says of them and in whatever order the helper's map is visited. Where the base
  environment does not name the guest communication exchange and its kind, which the helper leaves
  out, the program exits with status 1 and the error of loading its configuration before it has done
  anything, so the tests never find it ready. Where it does, the configuration loads and passes every check.\<close>

theorem integration_start_needs_guest_exchange:
  assumes "T_Environ rig s = (base, s1)" and "\<And>kvs. mset (visit kvs) = mset kvs"
    and "\<forall>k\<in>set left_to_defaults. process_env base k = None"
    and "\<not> is_blank ch" "\<not> is_blank mh" "\<not> is_blank rh"
    and "real_port ap" "real_port cp" "real_port rp"
  shows "\<exists>env. ApplicationStart rig visit ap ch cp mh rh rp s = T_GoRun rig [''run'', ''../internal''] env s1 \<and>
    (\<forall>lib libs served w. env_library lib (process_env env) \<longrightarrow>
      (case (process_env base ''GUEST_COMMUNICATION_EXCHANGE_NAME'',
          process_env base ''GUEST_COMMUNICATION_EXCHANGE_KIND'') of
         (Some gn, Some gk) \<Rightarrow> gn \<noteq> [] \<and> gk \<noteq> [] \<longrightarrow>
           (let cfg = integration_configs ap ch cp mh rh rp gn gk
            in LoadConfigs lib = Inr cfg \<and> starts_with libs cfg)
       | _ \<Rightarrow> \<exists>e. LoadConfigs lib = Inl e \<and>
           run libs (LoadConfigs lib) served w = (Failed (WrapErr ''load configs: '' e), w) \<and>
           main_exit libs (LoadConfigs lib) served w = (1, w)))"
proof (intro exI conjI allI impI)
  let ?ov = "application_env ap ch cp mh rh rp"
  let ?env = "envWithOverrides visit base ?ov"
  show "ApplicationStart rig visit ap ch cp mh rh rp s = T_GoRun rig [''run'', ''../internal''] ?env s1"
    by (simp add: ApplicationStart_def assms(1))
  fix lib libs served w
  assume lib: "env_library lib (process_env ?env)"
  have vars: "process_env ?env = process_env base ++ map_of ?ov"
    using application_env_keys assms(2) by (intro env_with_overrides_reads) auto
  note left = env_library.integration_vars(3,4)[OF lib vars assms(3)]
  have fails: "\<exists>e. LoadConfigs lib = Inl e \<and>
      run libs (LoadConfigs lib) served w = (Failed (WrapErr ''load configs: '' e), w) \<and>
      main_exit libs (LoadConfigs lib) served w = (1, w)"
    if unset: "process_env base k = None" "k \<in> set required_variables"
      "process_env ?env k = process_env base k" for k
  proof -
    obtain e where "LoadConfigs lib = Inl e"
      using missing_variable_stops_start[OF lib unset(2), of libs served w] unset(1,3) by auto
    then show ?thesis by (simp add: run_def main_exit_def)
  qed
  have guest: "''GUEST_COMMUNICATION_EXCHANGE_NAME'' \<in> set required_variables"
    "''GUEST_COMMUNICATION_EXCHANGE_KIND'' \<in> set required_variables"
    by (simp_all add: required_variables_def)
  have "is_blank []" by code_simp
  then have hosts: "ch \<noteq> []" "mh \<noteq> []" "rh \<noteq> []" using assms(4-6) by metis+
  note loads = env_library.integration_loaded[OF lib vars assms(3) hosts assms(7-9)]
  note starts = integration_starts[OF assms(4-9)]
  show "case (process_env base ''GUEST_COMMUNICATION_EXCHANGE_NAME'',
          process_env base ''GUEST_COMMUNICATION_EXCHANGE_KIND'') of
         (Some gn, Some gk) \<Rightarrow> gn \<noteq> [] \<and> gk \<noteq> [] \<longrightarrow>
           (let cfg = integration_configs ap ch cp mh rh rp gn gk
            in LoadConfigs lib = Inr cfg \<and> starts_with libs cfg)
       | _ \<Rightarrow> \<exists>e. LoadConfigs lib = Inl e \<and>
           run libs (LoadConfigs lib) served w = (Failed (WrapErr ''load configs: '' e), w) \<and>
           main_exit libs (LoadConfigs lib) served w = (1, w)"
  proof (cases "process_env base ''GUEST_COMMUNICATION_EXCHANGE_NAME''")
    case None
    from fails[OF None guest(1) left(1)] None show ?thesis by simp
  next
    case n: (Some gn)
    show ?thesis
    proof (cases "process_env base ''GUEST_COMMUNICATION_EXCHANGE_KIND''")
      case None
      from fails[OF None guest(2) left(2)] None n show ?thesis by simp
    next
      case (Some gk)
      with n loads[OF n _ Some] starts[of libs gn gk] show ?thesis by (simp add: Let_def)
    qed
  qed
qed

theorem integration_start_needs_guest_exchange_witness:
  "\<exists>env s. ApplicationStart lab_lib rev 40001 ''127.0.0.1'' 40002 ''db'' ''mq'' 5672 empty_lab =
      T_GoRun lab_lib [''run'', ''../internal''] env s \<and>
    isl (LoadConfigs (map_env (process_env env)))"
proof -
  have e: "T_Environ lab_lib empty_lab = ([''HOME=/root'', ''PATH=/bin''], empty_lab)"
    by (simp add: lab_lib_def empty_lab_def)
  have base: "process_env [''HOME=/root'', ''PATH=/bin''] =
      [''HOME'' \<mapsto> ''/root'', ''PATH'' \<mapsto> ''/bin'']"
    by (simp add: process_env_def map_filter_def split_entry_def fun_eq_iff)
  have left: "\<forall>k\<in>set left_to_defaults. process_env [''HOME=/root'', ''PATH=/bin''] k = None"
    by (simp add: base left_to_defaults_def)
  have b: "\<not> is_blank ''127.0.0.1''" "\<not> is_blank ''db''" "\<not> is_blank ''mq''" by code_simp+
  have p: "real_port 40001" "real_port 40002" "real_port 5672" by (simp_all add: real_port_def)
  from integration_start_needs_guest_exchange[OF e _ left b p, of rev] base
  obtain env where "ApplicationStart lab_lib rev 40001 ''127.0.0.1'' 40002 ''db'' ''mq'' 5672 empty_lab =
      T_GoRun lab_lib [''run'', ''../internal''] env empty_lab"
    "\<exists>e. LoadConfigs (map_env (process_env env)) = Inl e"
    using map_env.env_library_axioms by fastforce
  then show ?thesis by (intro exI[of _ env] exI[of _ empty_lab]) auto
qed

end
