(* ===== verification/IntegrationClaims.thy ===== *)
theory IntegrationClaims
  imports TestRig Scenario
begin




end
