(* ===== verification/PaidClaims.thy ===== *)
theory PaidClaims
  imports PaymentReissue PaymentClaims
begin

text \<open>
  What follows a payment: the scenario of reissue_already_paid_test.go, over every implementation
  of the ports.
\<close>

text \<open>Setting a status changes no field that a reissue looks an invoice up by.\<close>

lemma status_set_lookup:
  assumes "status_set n st ds ds'" and "\<forall>d\<in>set ds. invoice_for rq d \<longleftrightarrow> Invoice_InvoiceNumber d = n"
  shows "\<forall>d\<in>set ds'. invoice_for rq d \<longleftrightarrow> Invoice_InvoiceNumber d = n"
    and "\<exists>d\<in>set ds'. Invoice_InvoiceNumber d = n"
proof -
  from assms(1) obtain i d' where i: "i < length ds" "Invoice_InvoiceNumber (ds ! i) = n"
    "same_record ((ds ! i)\<lparr>Invoice_Status := st\<rparr>) d'" "ds' = ds[i := d']"
    by (auto simp: status_set_def)
  note f = same_record_fields[OF i(3)]
  have d': "invoice_for rq d' \<longleftrightarrow> invoice_for rq (ds ! i)" "Invoice_InvoiceNumber d' = n"
    using f i(2) by (simp_all add: invoice_for_def)
  have "invoice_for rq (ds ! i)" using assms(2) i(1,2) by simp
  with d' assms(2) set_update_subset_insert[of ds i d'] i(4)
  show "\<forall>d\<in>set ds'. invoice_for rq d \<longleftrightarrow> Invoice_InvoiceNumber d = n" by auto
  have "d' \<in> set ds'" using i(1,4) by (simp add: set_update_memI)
  with d'(2) show "\<exists>d\<in>set ds'. Invoice_InvoiceNumber d = n" by blast
qed

text \<open>The answers a paid invoice can get: that it is paid, or that the clock or the database failed.\<close>

definition refused :: "rpc_error \<Rightarrow> bool" where
  "refused e \<longleftrightarrow>
     (case e of
        Status c m \<Rightarrow> c = FailedPrecondition \<and> m = ''invoice is already paid'' \<or> c = Internal
      | RawErr _ \<Rightarrow> False)"

lemma map_error_refused: "\<not> is_a TDbInvoiceNotFound e \<Longrightarrow> refused (mapError e)"
  by (simp add: refused_def mapError_def)

context app_ports
begin

lemma paid_again_refused:
  assumes "PayWithCard rt (pay_service chance) req s = (r, job, s')" and "valid_pay_request req"
    and "all_paid (PayWithCardRequest_GetInvoiceNumber req) (docs s)"
    and "d \<in> set (docs s)" and "Invoice_InvoiceNumber d = PayWithCardRequest_GetInvoiceNumber req"
  shows "\<exists>e. r = Failed e \<and> refused e"
  using assms(1)
proof (cases rule: pay_cases)
  case (clock_error e)
  then show ?thesis by (simp add: refused_def)
next
  case (find_error now s1 e)
  then have "Now clk s = (Inr now, s1)" "FindByInvoiceNumber repo
      (PayWithCardRequest_GetInvoiceNumber req) s1 = (Inl e, s')"
    by (simp_all add: payment_service_over_def)
  with now_quiet assms(4,5) invs.find_missing have "\<not> is_a TDbInvoiceNotFound e" by metis
  with find_error(4) show ?thesis by (simp add: map_error_refused)
next
  case (paid now s1 d)
  then show ?thesis by (simp add: refused_def)
qed (use assms(2,3) drawn_quiet(2-4) in \<open>(metis all_paid_def)+\<close>)

lemma paid_reissue_refused:
  assumes "Reissue tsl (reissue_service_over repo host) rq s = (y, s')"
    and "Validate (reissue_checks rq) = None"
    and "\<forall>d\<in>set (docs s). invoice_for rq d \<longrightarrow> equal_fold (Invoice_Status d) InvoiceStatusPaid"
    and "d \<in> set (docs s)" and "invoice_for rq d"
  shows "\<exists>e. y = Inl e \<and> refused e"
proof -
  obtain f s1 where f: "FindByBookingNumberAndDocumentNumber repo
      (ReissuePaymentRequest_GetBookingNumber rq) (ReissuePaymentRequest_GetDocumentNumber rq) s = (f, s1)"
    by fastforce
  show ?thesis
  proof (cases f)
    case (Inl e)
    have "\<not> is_a TDbInvoiceNotFound e"
      using invs.find_booking_missing[OF f[unfolded Inl]] assms(4,5) by (auto simp: invoice_for_def)
    with assms(1,2) f Inl show ?thesis
      by (auto simp: Reissue_def reissue_service_over_def refused_def split: if_splits)
  next
    case (Inr d)
    then have "d \<in> set (docs s)" "invoice_for rq d"
      using invs.find_booking_found[OF f[unfolded Inr]] by (simp_all add: invoice_for_def)
    with assms(1-3) f Inr show ?thesis
      by (auto simp: Reissue_def reissue_service_over_def refused_def split: if_splits)
  qed
qed

end

text \<open>C9: an invoice is closed by its payment. When its number is stored once and a payment of it
  succeeded, then however the work of that payment ended, another payment of the number and the
  reissue of its payment request by booking and document are both refused: as already paid, or as
  internal when the clock or the database fails. Neither changes the store, and no second receipt
  or confirmation is left to be made.\<close>

theorem paid_invoice_is_closed:
  assumes "app_ports repo rrepo prd ackn clk rt docs rcpts sent settled"
    and "times_stored (PayWithCardRequest_GetInvoiceNumber payment) (docs s) \<le> 1"
    and "PayWithCard rt (payment_service_over chance clk repo rrepo prd) payment s =
      (Returned resp, Some job, s1)"
    and "post_payment_work rt tsl (payment_service_over chance clk repo rrepo prd) job s1 = (x, s2)"
    and "valid_pay_request again" and "PayWithCardRequest_GetInvoiceNumber again =
      PayWithCardRequest_GetInvoiceNumber payment"
    and "PayWithCard rt (payment_service_over chance clk repo rrepo prd) again s2 = (r, job', s3)"
    and "\<forall>d\<in>set (docs s). invoice_for rq d \<longleftrightarrow>
      Invoice_InvoiceNumber d = PayWithCardRequest_GetInvoiceNumber payment"
    and "\<not> is_blank (ReissuePaymentRequest_GetBookingNumber rq)"
    and "\<not> is_blank (ReissuePaymentRequest_GetDocumentNumber rq)"
    and "Reissue tsl (reissue_service_over repo host) rq s2 = (y, s4)"
  shows "(\<exists>e. r = Failed e \<and> refused e) \<and> job' = None \<and> docs s3 = docs s2 \<and>
    (\<exists>e. y = Inl e \<and> refused e) \<and> docs s4 = docs s2"
proof -
  let ?n = "PayWithCardRequest_GetInvoiceNumber payment"
  obtain now where p: "reply_to payment PaymentStatus_PAYMENT_STATUS_SUCCEEDED now resp"
    "status_set ?n InvoiceStatusPaid (docs s) (docs s1)"
    using app_ports.pay_replied[OF assms(1,3)] by blast
  then have "succeeded (Returned resp :: pay_result)" by (simp add: succeeded_def reply_to_def)
  note paid = app_ports.pay_success(2)[OF assms(1,3) this refl assms(2)]
  obtain now' resp' where "job = (now', resp')" by (cases job)
  then have s2: "docs s2 = docs s1" using app_ports.post_work_refines(1)[OF assms(1)] assms(4) by blast
  note lookup = status_set_lookup[OF p(2) assms(8)]
  obtain d where d: "d \<in> set (docs s2)" "Invoice_InvoiceNumber d = ?n" using lookup(2) s2 by auto
  have "\<exists>e. r = Failed e \<and> refused e"
    using app_ports.paid_again_refused[OF assms(1,7,5)] paid d s2 assms(6) by simp
  moreover have "job' = None \<and> docs s3 = docs s2"
    using paid_invoice_refused[OF assms(1,7)] paid s2 assms(6) by simp
  moreover have "\<exists>e. y = Inl e \<and> refused e"
  proof (rule app_ports.paid_reissue_refused[OF assms(1,11) _ _ d(1)])
    show "Validate (reissue_checks rq) = None" using assms(9,10) by (simp add: reissue_checks_pass)
    show "\<forall>d\<in>set (docs s2). invoice_for rq d \<longrightarrow> equal_fold (Invoice_Status d) InvoiceStatusPaid"
      using lookup(1) paid s2 by (simp add: all_paid_def)
    show "invoice_for rq d" using lookup(1) d s2 by simp
  qed
  moreover have "docs s4 = docs s2"
    using assms(11) app_ports.find_booking_all_quiet[OF assms(1)]
    by (auto simp: Reissue_def reissue_service_over_def split: option.splits sum.splits prod.splits if_splits)
  ultimately show ?thesis by blast
qed

abbreviation settled_world :: world where
  "settled_world \<equiv> snd (post_payment_work ref_runtime ref_timestamps ref_pay_service
     (world_now pay_world, sample_reply) (snd (snd (pay_now sample_pay))))"

theorem paid_invoice_is_closed_witness:
  "(\<exists>e. fst (PayWithCard ref_runtime ref_pay_service sample_pay settled_world) = Failed e \<and> refused e) \<and>
   (\<exists>e. fst (Reissue ref_timestamps ref_reissue_service sample_reissue settled_world) = Inl e \<and> refused e)"
proof -
  have once: "times_stored (PayWithCardRequest_GetInvoiceNumber sample_pay) (world_invoices pay_world) \<le> 1"
    and valid: "valid_pay_request sample_pay" by code_simp+
  have rq: "\<forall>d\<in>set (world_invoices pay_world). invoice_for sample_reissue d \<longleftrightarrow>
      Invoice_InvoiceNumber d = PayWithCardRequest_GetInvoiceNumber sample_pay"
    "\<not> is_blank (ReissuePaymentRequest_GetBookingNumber sample_reissue)"
    "\<not> is_blank (ReissuePaymentRequest_GetDocumentNumber sample_reissue)"
    by code_simp+
  have pay: "pay_now sample_pay =
      (Returned sample_reply, Some (world_now pay_world, sample_reply), snd (snd (pay_now sample_pay)))"
    by (rule sample_paid)
  from paid_invoice_is_closed[OF ref_app_ports once pay prod.collapse[symmetric] valid refl
      triple_collapse rq prod.collapse[symmetric]]
  show ?thesis by simp
qed

end
