(* ===== verification/Spec2Isabelle.thy ===== *)
theory Spec2Isabelle
  imports InvoiceClaims PaymentClaims InterleavingClaims PaymentReissue RabbitClaims
    FoundationClaims InfraClaims ProgramClaims ConfigClaims RemoteGateway Scenario
    IntegrationStart IntegrationClaims PaidClaims
begin

text \<open>
  A verification development of the payment simulator (src/internal): a service that turns invoice
  requests from RabbitMQ into stored invoices and payment requests, takes card payments and
  reissue requests over an HTTP gateway, and stores receipts and sends confirmations for them.

  \<^bold>\<open>Parts and theories.\<close> A Go function that may fail is a HOL function to a sum, one that may also
  panic to an \<open>outcome\<close>; its effects are an explicit state. Libraries (the MongoDB driver, the
  amqp091, grpc, OpenTelemetry and protobuf libraries, the random sources) are records of
  operations passed to the definitions.

  \<^item> Foundations: \<open>Prelude\<close> (results, document updates, rule collections), \<open>GoStrings\<close> and
    \<open>GoTime\<close> (the parts of \<open>strings\<close>, \<open>fmt\<close>, \<open>unicode\<close> and \<open>time\<close> the program uses),
    \<open>GoErrors\<close> (domain/errors, \<open>errors.As\<close>, \<open>errors.Join\<close>), \<open>Validation\<close> (app/validation),
    \<open>Dto\<close> (the fields and nil-safe getters of domain/dto), \<open>Document\<close> (domain/document),
    \<open>Config\<close> (the records of config), \<open>Environment\<close> (reading them by the tags of their fields),
    \<open>Logging\<close> (infra/logging), \<open>IdGen\<close> (app/util).
  \<^item> \<open>Ports\<close>: the interfaces of port as records of operations, and what their clients rely on as
    locales; \<open>app_ports\<close> puts them together over one world.
  \<^item> Services: \<open>InvoiceService\<close> (app/invoice_service.go, payment_request_mapper.go),
    \<open>PaymentMaking\<close> (app/payment_making_service.go), \<open>PaymentInterleaving\<close> (its calls and
    goroutines as threads over one store), \<open>PaymentReissue\<close> (app/payment_reissue_service.go).
    They are proved against \<open>app_ports\<close>, for every implementation of the ports.
  \<^item> Providers: \<open>Repository\<close> (infra/db repositories), \<open>RabbitMq\<close> and \<open>Broker\<close> (infra/mq),
    \<open>ClockClient\<close> (infra/clock), \<open>MongoDb\<close> (infra/db/mongo_db.go). Sublocales show that each
    provider keeps the contract of its port when its library keeps its documented promises
    (\<open>mongo_documents\<close>, \<open>amqp_client\<close>, \<open>clock_library\<close>, \<open>mongo_clients\<close>); \<open>gateway_paths\<close> says what
    is relied on of the gateway's path patterns, \<open>env_library\<close> and \<open>slog_handlers\<close> of the
    libraries \<open>env\<close> and \<open>log/slog\<close>.
  \<^item> Outside: \<open>HttpServer\<close> (transport/server.go, transport/http/probe), \<open>Gateway\<close> (the
    registered handlers of transport/grpc/payment), \<open>RemoteGateway\<close> (the generated handlers that
    forward to another process, with their clients), \<open>Telemetry\<close> (infra/telemetry).
  \<^item> The whole: \<open>Program\<close> (main.go and the three init.go: \<open>infra_Init\<close>, \<open>app_Init\<close>,
    \<open>transport_Init\<close>, \<open>run\<close>, \<open>shutdown\<close>), \<open>WholeProgram\<close> (payments, their goroutines, the
    consumer with a program counter of its own and reissues as one step relation), \<open>Answers\<close>
    (its runs with the deliveries they take, and what entitles the consumer to each answer),
    \<open>Composition\<close> (the services over the real providers on one running program; \<open>wired_world\<close>
    is all that is asked of the world).
  \<^item> Reference worlds: \<open>RefWorld\<close>, \<open>Broker\<close> (\<open>ref_amqp\<close>), \<open>ClockClient\<close>, \<open>MongoDb\<close>, \<open>RefWired\<close>
    and \<open>RefProgram\<close> give executable libraries, interpret every locale on the model over them,
    and start and run the program, for the witnesses. \<open>Fakes\<close> has the test doubles of the ports
    and services (the fakes directories).
  \<^item> Integration tests: \<open>IntegrationHelpers\<close> (integration_test/helpers), \<open>TestRig\<close> (what the helpers
    achieve over the interfaces \<open>topology\<close> and \<open>fixture_store\<close> of their libraries).
  \<^item> Properties: \<open>InvoiceClaims\<close>, \<open>PaymentClaims\<close>, \<open>InterleavingClaims\<close>, \<open>PaymentReissue\<close>,
    \<open>RabbitClaims\<close>, \<open>FoundationClaims\<close>, \<open>InfraClaims\<close>, \<open>ProgramClaims\<close>, \<open>ConfigClaims\<close>,
    \<open>Scenario\<close> (one request through both services), \<open>PaidClaims\<close> (what follows a payment),
    \<open>IntegrationStart\<close> and \<open>IntegrationClaims\<close>.

  \<^bold>\<open>State.\<close> Of the world, four parts matter to the services: the stored invoices and receipts,
  the messages that reached the broker with their routing keys, and the answers to deliveries.
  The running program adds the RabbitMQ objects it shares: the connection, two producers and the
  consumer. A mutex of the code makes the operation it guards one step of the model.

  \<^bold>\<open>What is shown.\<close> The program over its real components keeps its promises however its work
  interleaves: the consumer never panics, paid numbers stay paid, receipts are for paid invoices,
  confirmations have their receipts and payment requests their stored, well-formed invoices. Every
  answer the broker gets is one the consumer is entitled to: a request is acknowledged only when
  its invoice is stored and announced, and rejected for good only for a reason that is listed.
  Processing a delivery refines an abstract specification, and acknowledging means done; a request
  that is consumed and paid ends as one paid invoice, one receipt and one confirmation. A call
  of each service is described on every branch, errors included; payments in turn pay an invoice
  at most once, after which it is closed to payments and reissues, and a schedule is given that
  pays one twice. Reconnecting is bounded, the producer keeps its contract, the README's
  environment is enough for a start, starting leaves everything ready, and stopping always completes.
  Flaws the proofs met are stated as properties too: among them the double payment, the panic
  after a charge, the requests that are requeued in every state, the consumer that never resumes
  after its channel closed, the requests an outage of the clock loses, the confirmations lost at
  shutdown, the password in an error text, and the integration tests' environment, with which the
  program does not start. What the tests of the default scenario and of a paid invoice assert is
  proved of the services.

  \<^bold>\<open>Bounds.\<close> No definition needs fuel: every recursion is structural or has a termination proof.
  Reconnecting makes at most five dials, a payment thread at most seven transitions, the consumer
  four stages for a delivery. Machine integers are words of their Go width; a timeout in seconds
  becomes nanoseconds in 64 bits and is exact below 292 years.

  \<^bold>\<open>Not modelled.\<close> The services' calls to the log, the spans and the metrics, which have no effect on
  the program; the generated reflection tables of the messages; of the generated gRPC stubs
  everything but the client calls; parsing a variable, decoding HTTP and the matching of compiled
  path patterns, which are the work of libraries; contexts, whose expiry is an error of the
  operation that runs into it; the unit tests and the scripts of the integration tests, of whose
  helpers Docker, Ginkgo and the network are parameters. What the broker does with a message after an answer, and when a connection is
  lost, is the broker's: the model says which answers it gets.
\<close>

end
